(* ===== verification/Cotsel_Prelude.thy ===== *)
theory Cotsel_Prelude
  imports Main "HOL-Library.AList" "HOL-Library.Char_ord" "HOL-Library.List_Lexorder"
    "HOL-Library.Product_Lexorder"
begin

text \<open>
  Shared vocabulary of the development: the TypeScript values the services exchange (nullish
  optionals, JSON, numbers by their printed text), the string and decimal operations of the
  JavaScript standard library the sources use, insertion-ordered \<open>Map\<close>s, results of fallible
  operations, and the generic laws of event-driven machines.

  Strings are lists of code units up to 255, so \<open>toLowerCase\<close> and \<open>trim\<close> are given on the ASCII
  and Latin-1 white-space characters. A timestamp is the instant, in milliseconds since the
  epoch, that a \<open>toISOString\<close> text denotes: those texts compare as the instants do for the years
  0 to 9999.
\<close>

named_theorems js_simps \<open>evaluation rules of the JavaScript operations\<close>
named_theorems step_defs \<open>the operations of a state component, unfolded together\<close>

type_synonym timestamp = int

section \<open>Fallible operations\<close>

text \<open>A thrown error is \<open>Inl\<close>, a returned value is \<open>Inr\<close>.\<close>

fun rbind :: "'e + 'a \<Rightarrow> ('a \<Rightarrow> 'e + 'b) \<Rightarrow> 'e + 'b" where
  "rbind (Inl e) f = Inl e"
| "rbind (Inr a) f = f a"

definition require_that :: "bool \<Rightarrow> 'e \<Rightarrow> 'e + unit" where
  "require_that b e = (if b then Inr () else Inl e)"

lemma rbind_InrE:
  assumes "rbind r f = Inr y"
  obtains x where "r = Inr x" and "f x = Inr y"
  using assms by (cases r) auto

lemma rbind_Inr_iff: "rbind m f = Inr y \<longleftrightarrow> (\<exists>x. m = Inr x \<and> f x = Inr y)"
  by (cases m) auto

lemma rbind_Inl_iff: "rbind m f = Inl e \<longleftrightarrow> m = Inl e \<or> (\<exists>x. m = Inr x \<and> f x = Inl e)"
  by (cases m) auto

lemma require_that_Inr_iff [simp]: "require_that b e = Inr u \<longleftrightarrow> b"
  by (simp add: require_that_def)

lemma require_that_Inl_iff [simp]: "require_that b e = Inl e' \<longleftrightarrow> \<not> b \<and> e' = e"
  by (auto simp: require_that_def)

section \<open>Nullish values, numbers and JSON\<close>

text \<open>An optional field \<open>x?: T | null\<close> tells an absent value from an explicit \<open>null\<close>.\<close>

datatype 'a nullish = Undefined | Null | Val 'a

fun or_null :: "'a nullish \<Rightarrow> 'a option" where
  "or_null (Val a) = Some a"
| "or_null Undefined = None"
| "or_null Null = None"

text \<open>\<open>a ?? b\<close> and \<open>a !== b\<close> for a stored \<open>T | null\<close> against a submitted \<open>T | null | undefined\<close>.\<close>

definition nullish_else :: "'a nullish \<Rightarrow> 'a option \<Rightarrow> 'a option" where
  "nullish_else x y = (case or_null x of Some a \<Rightarrow> Some a | None \<Rightarrow> y)"

fun same_value :: "'a option \<Rightarrow> 'a nullish \<Rightarrow> bool" where
  "same_value (Some a) (Val b) = (a = b)"
| "same_value None Null = True"
| "same_value _ _ = False"

text \<open>The truthiness of a \<open>string | null\<close>: neither \<open>null\<close> nor empty.\<close>

definition truthy :: "string option \<Rightarrow> bool" where
  "truthy s = (case s of None \<Rightarrow> False | Some t \<Rightarrow> t \<noteq> [])"

text \<open>
  A number is represented by the text \<open>String(value)\<close> prints for it, which is injective on the
  finite doubles (the two zeros apart).
\<close>

datatype jsnum = Finite string | NonFinite string

datatype json =
  JNull
| JBool bool
| JNum jsnum
| JStr string
| JArr "json list"
| JObj "(string \<times> json) list"

text \<open>\<open>row[key]\<close> on an object; \<open>None\<close> is \<open>undefined\<close>.\<close>

fun member_of :: "json \<Rightarrow> string \<Rightarrow> json option" where
  "member_of (JObj fs) k = map_of fs k"
| "member_of _ k = None"

definition str_member :: "json \<Rightarrow> string \<Rightarrow> string option" where
  "str_member v k = (case member_of v k of Some (JStr s) \<Rightarrow> Some s | _ \<Rightarrow> None)"

text \<open>Strict equality of a member with a string, as in \<open>row.scopeVersion === '...'\<close>.\<close>

definition member_is :: "json \<Rightarrow> string \<Rightarrow> string \<Rightarrow> bool" where
  "member_is v k s = (member_of v k = Some (JStr s))"

text \<open>
  \<open>isDeepStrictEqual\<close>: objects are equal when they have the same keys with deeply equal values,
  in any order. Keys of an object are distinct.
\<close>

fun deep_equal :: "json \<Rightarrow> json \<Rightarrow> bool"
  and deep_equal_list :: "json list \<Rightarrow> json list \<Rightarrow> bool"
  and deep_equal_fields :: "(string \<times> json) list \<Rightarrow> (string \<times> json) list \<Rightarrow> bool" where
  "deep_equal JNull w = (w = JNull)"
| "deep_equal (JBool b) w = (w = JBool b)"
| "deep_equal (JNum n) w = (w = JNum n)"
| "deep_equal (JStr s) w = (w = JStr s)"
| "deep_equal (JArr xs) w = (case w of JArr ys \<Rightarrow> deep_equal_list xs ys | _ \<Rightarrow> False)"
| "deep_equal (JObj fs) w =
     (case w of JObj gs \<Rightarrow> length fs = length gs \<and> deep_equal_fields fs gs | _ \<Rightarrow> False)"
| "deep_equal_list [] ys = (ys = [])"
| "deep_equal_list (x # xs) ys =
     (case ys of [] \<Rightarrow> False | y # ys' \<Rightarrow> deep_equal x y \<and> deep_equal_list xs ys')"
| "deep_equal_fields [] gs = True"
| "deep_equal_fields (f # fs) gs =
     ((case map_of gs (fst f) of None \<Rightarrow> False | Some y \<Rightarrow> deep_equal (snd f) y) \<and>
      deep_equal_fields fs gs)"

text \<open>Objects with distinct keys, as a JavaScript object has them.\<close>

fun json_wf :: "json \<Rightarrow> bool"
  and json_wf_list :: "json list \<Rightarrow> bool"
  and json_wf_fields :: "(string \<times> json) list \<Rightarrow> bool" where
  "json_wf (JArr xs) = json_wf_list xs"
| "json_wf (JObj fs) = (distinct (map fst fs) \<and> json_wf_fields fs)"
| "json_wf _ = True"
| "json_wf_list [] = True"
| "json_wf_list (x # xs) = (json_wf x \<and> json_wf_list xs)"
| "json_wf_fields [] = True"
| "json_wf_fields (f # fs) = (json_wf (snd f) \<and> json_wf_fields fs)"

lemma deep_equal_refl_aux:
  "json_wf v \<Longrightarrow> deep_equal v v"
  "json_wf_list xs \<Longrightarrow> deep_equal_list xs xs"
  "json_wf_fields fs \<Longrightarrow> \<forall>f \<in> set fs. map_of gs (fst f) = Some (snd f) \<Longrightarrow> deep_equal_fields fs gs"
  by (induction v and xs and fs arbitrary: and and gs rule: json_wf_json_wf_list_json_wf_fields.induct) auto

lemma deep_equal_refl: "json_wf v \<Longrightarrow> deep_equal v v"
  by (rule deep_equal_refl_aux(1))

end
