(* ===== verification/JS_Text.thy ===== *)
theory JS_Text
  imports Cotsel_Prelude
begin

text \<open>
  The text operations of the JavaScript standard library the sources use: decimal digits and
  \<open>BigInt\<close>, the regular expressions of the validators as recognisers, \<open>toLowerCase\<close>, \<open>trim\<close>,
  \<open>padEnd\<close>, \<open>includes\<close> and \<open>startsWith\<close>.
\<close>

section \<open>Characters\<close>

definition is_digit :: "char \<Rightarrow> bool" where
  "is_digit c = (CHR ''0'' \<le> c \<and> c \<le> CHR ''9'')"

definition digit_val :: "char \<Rightarrow> nat" where
  "digit_val c = of_char c - 48"

definition digit_char :: "nat \<Rightarrow> char" where
  "digit_char d = char_of (48 + d)"

definition is_lower_hex :: "char \<Rightarrow> bool" where
  "is_lower_hex c = (is_digit c \<or> (CHR ''a'' \<le> c \<and> c \<le> CHR ''f''))"

definition is_hex :: "char \<Rightarrow> bool" where
  "is_hex c = (is_lower_hex c \<or> (CHR ''A'' \<le> c \<and> c \<le> CHR ''F''))"

definition lower_char :: "char \<Rightarrow> char" where
  "lower_char c = (if CHR ''A'' \<le> c \<and> c \<le> CHR ''Z'' then char_of ((of_char c :: nat) + 32) else c)"

definition toLowerCase :: "string \<Rightarrow> string" where
  "toLowerCase s = map lower_char s"

text \<open>White space of \<open>trim\<close>: tab to carriage return, space and no-break space.\<close>

definition is_space :: "char \<Rightarrow> bool" where
  "is_space c = ((9 \<le> (of_char c :: nat) \<and> (of_char c :: nat) \<le> 13) \<or> (of_char c :: nat) = 32 \<or>
     (of_char c :: nat) = 160)"

definition trim :: "string \<Rightarrow> string" where
  "trim s = rev (dropWhile is_space (rev (dropWhile is_space s)))"

section \<open>Substrings and padding\<close>

fun startsWith :: "string \<Rightarrow> string \<Rightarrow> bool" where
  "startsWith s [] = True"
| "startsWith [] (p # ps) = False"
| "startsWith (c # s) (p # ps) = (c = p \<and> startsWith s ps)"

fun str_includes :: "string \<Rightarrow> string \<Rightarrow> bool" where
  "str_includes [] p = (p = [])"
| "str_includes (c # s) p = (startsWith (c # s) p \<or> str_includes s p)"

definition padEnd :: "nat \<Rightarrow> char \<Rightarrow> string \<Rightarrow> string" where
  "padEnd n c s = s @ replicate (n - length s) c"

definition padStart :: "nat \<Rightarrow> char \<Rightarrow> string \<Rightarrow> string" where
  "padStart n c s = replicate (n - length s) c @ s"

section \<open>Decimal numerals\<close>

definition all_digits :: "string \<Rightarrow> bool" where
  "all_digits s = list_all is_digit s"

definition bigint :: "string \<Rightarrow> nat" where
  "bigint s = foldl (\<lambda>n c. 10 * n + digit_val c) 0 s"

text \<open>\<open>BigInt(s)\<close> of a digit text, as an integer.\<close>

definition BigInt :: "string \<Rightarrow> int" where
  "BigInt s = foldl (\<lambda>n c. 10 * n + int (digit_val c)) 0 s"

fun show_nat :: "nat \<Rightarrow> string" where
  "show_nat n = (if n < 10 then [digit_char n] else show_nat (n div 10) @ [digit_char (n mod 10)])"

declare show_nat.simps [simp del]

text \<open>The patterns \<open>/^\\d+$/\<close>, \<open>/^(0|[1-9]\\d*)$/\<close>, \<open>/^0x[0-9a-fA-F]{n}$/\<close>, \<open>/^0x[0-9a-f]{n}$/\<close> and \<open>/^[0-9a-f]{n}$/\<close>.\<close>

definition digits_text :: "string \<Rightarrow> bool" where
  "digits_text s = (s \<noteq> [] \<and> all_digits s)"

definition uint_text :: "string \<Rightarrow> bool" where
  "uint_text s = (digits_text s \<and> (s = ''0'' \<or> hd s \<noteq> CHR ''0''))"

definition hex_text :: "nat \<Rightarrow> string \<Rightarrow> bool" where
  "hex_text n s = (take 2 s = ''0x'' \<and> length s = n + 2 \<and> list_all is_hex (drop 2 s))"

definition lower_hex_text :: "nat \<Rightarrow> string \<Rightarrow> bool" where
  "lower_hex_text n s = (take 2 s = ''0x'' \<and> length s = n + 2 \<and> list_all is_lower_hex (drop 2 s))"

definition bare_hex_text :: "nat \<Rightarrow> string \<Rightarrow> bool" where
  "bare_hex_text n s = (length s = n \<and> list_all is_lower_hex s)"

definition hex_val :: "char \<Rightarrow> int" where
  "hex_val c = (if is_digit c then int (digit_val c) else of_char (lower_char c) - 87)"

text \<open>\<open>Number.isSafeInteger\<close>, and the elements of a \<open>Set\<close> in order of insertion.\<close>

definition isSafeInteger :: "int \<Rightarrow> bool" where
  "isSafeInteger n = (- 9007199254740991 \<le> n \<and> n \<le> 9007199254740991)"

definition first_occurrences :: "'a list \<Rightarrow> 'a list" where
  "first_occurrences xs = rev (remdups (rev xs))"

lemma set_first_occurrences [simp]: "set (first_occurrences xs) = set xs"
  by (simp add: first_occurrences_def)

lemma distinct_first_occurrences [simp]: "distinct (first_occurrences xs)"
  by (simp add: first_occurrences_def)

section \<open>Laws\<close>

lemma of_char_digit_iff: "is_digit c \<longleftrightarrow> 48 \<le> (of_char c :: nat) \<and> (of_char c :: nat) \<le> 57"
  by (simp add: is_digit_def less_eq_char_def)

lemma digit_val_lt: "is_digit c \<Longrightarrow> digit_val c < 10"
  unfolding of_char_digit_iff digit_val_def by linarith

lemma of_char_digit_char [simp]: "d < 10 \<Longrightarrow> (of_char (digit_char d) :: nat) = 48 + d"
  by (simp add: digit_char_def)

lemma is_digit_digit_char [simp]: "d < 10 \<Longrightarrow> is_digit (digit_char d)"
  by (simp add: of_char_digit_iff)

lemma digit_val_digit_char [simp]: "d < 10 \<Longrightarrow> digit_val (digit_char d) = d"
  by (simp add: digit_val_def)

lemma digit_char_digit_val [simp]:
  assumes "is_digit c"
  shows "digit_char (digit_val c) = c"
proof -
  have "(of_char c :: nat) \<ge> 48" using assms by (simp add: of_char_digit_iff)
  then have "48 + digit_val c = of_char c" by (simp add: digit_val_def)
  then show ?thesis by (simp add: digit_char_def)
qed

lemma bigint_snoc: "bigint (s @ [c]) = 10 * bigint s + digit_val c"
  by (simp add: bigint_def)

lemma BigInt_bigint: "BigInt s = int (bigint s)"
  by (induction s rule: rev_induct) (simp_all add: BigInt_def bigint_def)

lemma bigint_Nil [simp]: "bigint [] = 0"
  by (simp add: bigint_def)

lemma bigint_append: "bigint (s @ t) = bigint s * 10 ^ length t + bigint t"
proof (induction t rule: rev_induct)
  case Nil
  then show ?case by simp
next
  case (snoc c t)
  have "bigint (s @ t @ [c]) = 10 * bigint (s @ t) + digit_val c"
    using bigint_snoc [of "s @ t" c] by simp
  with snoc show ?case by (simp add: bigint_snoc algebra_simps)
qed

lemma all_digits_append [simp]: "all_digits (s @ t) \<longleftrightarrow> all_digits s \<and> all_digits t"
  by (simp add: all_digits_def)

lemma all_digits_Cons [simp]: "all_digits (c # s) \<longleftrightarrow> is_digit c \<and> all_digits s"
  by (simp add: all_digits_def)

lemma all_digits_Nil [simp]: "all_digits []"
  by (simp add: all_digits_def)

lemma is_digit_zero [simp]: "is_digit (CHR ''0'')" "digit_val (CHR ''0'') = 0"
  by (simp_all add: is_digit_def digit_val_def)

lemma all_digits_zeros [simp]: "all_digits (replicate n (CHR ''0''))"
  by (induction n) simp_all

lemma bigint_zeros [simp]: "bigint (replicate n (CHR ''0'')) = 0"
proof (induction n)
  case 0
  then show ?case by simp
next
  case (Suc n)
  have "replicate (Suc n) (CHR ''0'') = replicate n (CHR ''0'') @ [CHR ''0'']"
    by (simp add: replicate_append_same)
  then show ?case using Suc by (simp add: bigint_snoc del: replicate_Suc)
qed

lemma bigint_bound: "all_digits s \<Longrightarrow> bigint s < 10 ^ length s"
proof (induction s rule: rev_induct)
  case Nil
  then show ?case by simp
next
  case (snoc c s)
  then have "bigint s < 10 ^ length s" "digit_val c < 10"
    by (auto intro: digit_val_lt)
  then show ?case by (simp add: bigint_snoc)
qed

lemma all_digits_show_nat [simp]: "all_digits (show_nat n)"
proof (induction n rule: show_nat.induct)
  case (1 n)
  then show ?case by (subst show_nat.simps) simp
qed

lemma show_nat_ne_Nil [simp]: "show_nat n \<noteq> []"
  by (subst show_nat.simps) simp

lemma bigint_show_nat [simp]: "bigint (show_nat n) = n"
proof (induction n rule: show_nat.induct)
  case (1 n)
  show ?case
  proof (cases "n < 10")
    case True
    then show ?thesis by (subst show_nat.simps) (simp add: bigint_def)
  next
    case False
    with 1 have "bigint (show_nat (n div 10)) = n div 10" by simp
    with False show ?thesis by (subst show_nat.simps) (simp add: bigint_snoc)
  qed
qed

lemma show_nat_inject [simp]: "show_nat m = show_nat n \<longleftrightarrow> m = n"
  by (metis bigint_show_nat)

lemma digits_not_special:
  assumes "all_digits s"
  shows "CHR '':'' \<notin> set s" and "CHR ''.'' \<notin> set s"
  using assms by (auto simp: all_digits_def list_all_iff is_digit_def)

text \<open>Two digit texts of the same length with the same value are equal.\<close>

lemma bigint_inject_same_length:
  "\<lbrakk>all_digits s; all_digits t; length s = length t; bigint s = bigint t\<rbrakk> \<Longrightarrow> s = t"
proof (induction s arbitrary: t rule: rev_induct)
  case Nil
  then show ?case by simp
next
  case (snoc c s)
  then obtain d t' where t: "t = t' @ [d]" by (cases t rule: rev_cases) auto
  have lt: "digit_val c < 10" "digit_val d < 10"
    using snoc.prems t by (auto intro: digit_val_lt)
  have eq: "10 * bigint s + digit_val c = 10 * bigint t' + digit_val d"
    using snoc.prems(4) t by (simp add: bigint_snoc)
  from eq lt have "bigint s = bigint t'" by linarith
  with eq have dv: "digit_val c = digit_val d" by linarith
  have "s = t'" using snoc t \<open>bigint s = bigint t'\<close> by simp
  moreover have "c = d" using dv snoc.prems t by (metis all_digits_append all_digits_Cons digit_char_digit_val)
  ultimately show ?case using t by simp
qed

lemma length_toLowerCase [simp]: "length (toLowerCase s) = length s"
  by (simp add: toLowerCase_def)

lemma toLowerCase_Nil_iff [simp]: "toLowerCase s = [] \<longleftrightarrow> s = []"
  by (simp add: toLowerCase_def)

lemma lower_char_idem [simp]: "lower_char (lower_char c) = lower_char c"
  by (auto simp: lower_char_def less_eq_char_def)

lemma toLowerCase_idem [simp]: "toLowerCase (toLowerCase s) = toLowerCase s"
  by (simp add: toLowerCase_def)

lemma lower_char_lower_hex: "is_lower_hex c \<Longrightarrow> lower_char c = c"
  by (auto simp: lower_char_def is_lower_hex_def is_digit_def less_eq_char_def)

lemma lower_char_hex: "is_hex c \<Longrightarrow> is_lower_hex (lower_char c)"
  by (auto simp: lower_char_def is_lower_hex_def is_hex_def is_digit_def less_eq_char_def)

lemma hex_text_toLowerCase: "hex_text n s \<Longrightarrow> lower_hex_text n (toLowerCase s)"
proof -
  assume h: "hex_text n s"
  then have d: "s = ''0x'' @ drop 2 s" unfolding hex_text_def by (metis append_take_drop_id)
  have "toLowerCase s = ''0x'' @ toLowerCase (drop 2 s)"
    by (subst d) (simp add: toLowerCase_def lower_char_def)
  moreover have "list_all is_lower_hex (toLowerCase (drop 2 s))"
    using h by (auto simp: hex_text_def toLowerCase_def list_all_iff intro: lower_char_hex)
  ultimately show ?thesis using h by (simp add: lower_hex_text_def hex_text_def)
qed

lemma lower_hex_imp_hex: "lower_hex_text n s \<Longrightarrow> hex_text n s"
  by (auto simp: lower_hex_text_def hex_text_def list_all_iff is_hex_def)

lemma toLowerCase_lower_hex_text: "lower_hex_text n s \<Longrightarrow> toLowerCase s = s"
proof -
  assume h: "lower_hex_text n s"
  then have d: "s = ''0x'' @ drop 2 s" unfolding lower_hex_text_def by (metis append_take_drop_id)
  have "map lower_char (drop 2 s) = drop 2 s"
    using h by (auto simp: lower_hex_text_def list_all_iff intro!: map_idI lower_char_lower_hex)
  then show ?thesis by (subst (1 2) d) (simp add: toLowerCase_def lower_char_def)
qed

lemma startsWith_iff: "startsWith s p \<longleftrightarrow> take (length p) s = p"
  by (induction s p rule: startsWith.induct) auto

section \<open>Evaluation of the character classes\<close>

lemma char_interval:
  assumes "hi < 256"
  shows "lo \<le> (of_char c :: nat) \<and> (of_char c :: nat) \<le> hi \<longleftrightarrow> c \<in> set (map char_of [lo..<Suc hi])"
proof
  assume "lo \<le> (of_char c :: nat) \<and> (of_char c :: nat) \<le> hi"
  then have "char_of (of_char c :: nat) \<in> char_of ` {lo..<Suc hi}" by (intro imageI) auto
  then show "c \<in> set (map char_of [lo..<Suc hi])" by (simp del: upt_Suc)
qed (use assms in \<open>auto simp: of_char_of simp del: upt_Suc\<close>)

lemma interval_texts:
  "map char_of [48..<Suc 57] = ''0123456789''" "map char_of [97..<Suc 102] = ''abcdef''" "map char_of [65..<Suc 70] = ''ABCDEF''"
  "map char_of [65..<Suc 90] = ''ABCDEFGHIJKLMNOPQRSTUVWXYZ''"
  by code_simp+

lemma is_digit_code [code]: "is_digit c = (c \<in> set ''0123456789'')"
  using char_interval [of 57 48 c] unfolding interval_texts(1) of_char_digit_iff by simp

lemma is_lower_hex_code [code]: "is_lower_hex c = (c \<in> set ''0123456789abcdef'')"
  using char_interval [of 102 97 c] unfolding interval_texts is_lower_hex_def is_digit_code
  by (simp add: less_eq_char_def)

lemma is_hex_code [code]: "is_hex c = (c \<in> set ''0123456789abcdefABCDEF'')"
  using char_interval [of 70 65 c] unfolding interval_texts is_hex_def is_lower_hex_code
  by (auto simp add: less_eq_char_def)

lemma lower_char_code [code]:
  "lower_char c = (case map_of (zip ''ABCDEFGHIJKLMNOPQRSTUVWXYZ'' ''abcdefghijklmnopqrstuvwxyz'') c of None \<Rightarrow> c | Some d \<Rightarrow> d)"
proof (cases "c \<in> set ''ABCDEFGHIJKLMNOPQRSTUVWXYZ''")
  case True
  have "list_all (\<lambda>c. lower_char c = (case map_of (zip ''ABCDEFGHIJKLMNOPQRSTUVWXYZ'' ''abcdefghijklmnopqrstuvwxyz'') c of
      None \<Rightarrow> c | Some d \<Rightarrow> d)) ''ABCDEFGHIJKLMNOPQRSTUVWXYZ''" by code_simp
  then show ?thesis using True unfolding list_all_iff by (rule bspec)
next
  case False
  then have "\<not> (CHR ''A'' \<le> c \<and> c \<le> CHR ''Z'')"
    using char_interval [of 90 65 c] unfolding interval_texts by (simp add: less_eq_char_def)
  then show ?thesis using False by (auto simp: lower_char_def)
qed

lemma digit_val_code [code]:
  "digit_val c = (case map_of (zip ''0123456789'' [0, 1, 2, 3, 4, 5, 6, 7, 8, 9]) c of None \<Rightarrow> of_char c - 48 | Some d \<Rightarrow> d)"
proof (cases "c \<in> set ''0123456789''")
  case True
  then show ?thesis by (auto simp: digit_val_def)
next
  case False
  then show ?thesis by (simp add: digit_val_def)
qed

lemma is_space_code [code]:
  "is_space c = (c \<in> set [CHR 0x09, CHR 0x0A, CHR 0x0B, CHR 0x0C, CHR 0x0D, CHR '' '', CHR 0xA0])"
proof -
  have "map char_of [9..<Suc 13] = [CHR 0x09, CHR 0x0A, CHR 0x0B, CHR 0x0C, CHR 0x0D]" by code_simp
  moreover have "(of_char c :: nat) = 32 \<longleftrightarrow> c = CHR '' ''" "(of_char c :: nat) = 160 \<longleftrightarrow> c = CHR 0xA0"
    using of_char_eq_iff [of c "CHR '' ''", where 'a = nat] of_char_eq_iff [of c "CHR 0xA0", where 'a = nat] by simp_all
  ultimately show ?thesis using char_interval [of 13 9 c] unfolding is_space_def by (simp del: upt_Suc)
qed

text \<open>Printing through binary integers.\<close>

function show_int :: "int \<Rightarrow> string" where
  "show_int i = (if i < 10 then [digit_char (nat i)] else show_int (i div 10) @ [digit_char (nat (i mod 10))])"
  by pat_completeness auto
termination by (relation "measure nat") auto

declare show_int.simps [simp del]

lemma show_int_nat: "show_int (int n) = show_nat n"
proof (induction n rule: show_nat.induct)
  case (1 n)
  have "int n div 10 = int (n div 10)" "int n mod 10 = int (n mod 10)" by presburger+
  then show ?case using 1 by (subst show_int.simps, subst show_nat.simps) auto
qed

end
