(* ===== verification/Contracts.thy ===== *)
theory Contracts
  imports JS_Text
begin

text \<open>
  The interfaces the components share. \<open>keyed_store\<close> is what a \<open>Map\<close> promises its clients;
  \<open>event_machine\<close> is a component driven by a sequence of operations, each of which either throws and
  leaves the state alone or returns the next state; \<open>machine_invariant\<close> and
  \<open>machine_refinement\<close> lift one-step facts to every run.
\<close>

section \<open>Insertion-ordered maps\<close>

text \<open>
  A JavaScript \<open>Map\<close>: \<open>set\<close> on a known key replaces the value in place, on a new key appends,
  and \<open>values()\<close> lists the values in insertion order.
\<close>

type_synonym ('k, 'v) jsmap = "('k \<times> 'v) list"

definition map_get :: "('k, 'v) jsmap \<Rightarrow> 'k \<Rightarrow> 'v option" where
  "map_get m k = map_of m k"

definition map_set :: "'k \<Rightarrow> 'v \<Rightarrow> ('k, 'v) jsmap \<Rightarrow> ('k, 'v) jsmap" where
  "map_set k v m = AList.update k v m"

definition map_values :: "('k, 'v) jsmap \<Rightarrow> 'v list" where
  "map_values m = map snd m"

definition map_wf :: "('k, 'v) jsmap \<Rightarrow> bool" where
  "map_wf m = distinct (map fst m)"

locale keyed_store =
  fixes get :: "'m \<Rightarrow> 'k \<Rightarrow> 'v option"
    and put :: "'k \<Rightarrow> 'v \<Rightarrow> 'm \<Rightarrow> 'm"
    and vals :: "'m \<Rightarrow> 'v list"
    and wf :: "'m \<Rightarrow> bool"
  assumes get_put: "get (put k v m) = (get m)(k \<mapsto> v)"
    and wf_put: "wf m \<Longrightarrow> wf (put k v m)"
    and vals_get: "wf m \<Longrightarrow> x \<in> set (vals m) \<longleftrightarrow> (\<exists>k. get m k = Some x)"
begin

lemma get_put_same [simp]: "get (put k v m) k = Some v"
  by (simp add: get_put)

lemma get_put_other [simp]: "k' \<noteq> k \<Longrightarrow> get (put k v m) k' = get m k'"
  by (simp add: get_put)

lemma put_preserves_all:
  assumes "\<And>k x. get m k = Some x \<Longrightarrow> P k x" and "P k v" and "get (put k v m) k' = Some x"
  shows "P k' x"
  using assms by (cases "k' = k") (auto simp: get_put)

lemma vals_put_cases:
  assumes "wf m" and "x \<in> set (vals (put k v m))"
  shows "x = v \<or> x \<in> set (vals m)"
  using assms by (auto simp: vals_get wf_put get_put split: if_splits)

end

interpretation js_map: keyed_store map_get map_set map_values map_wf
proof
  fix k :: 'a and v :: 'b and m :: "('a, 'b) jsmap" and x :: 'b
  show "map_get (map_set k v m) = (map_get m)(k \<mapsto> v)"
    by (rule ext) (simp add: map_get_def map_set_def update_conv)
  show "map_wf m \<Longrightarrow> map_wf (map_set k v m)"
    by (simp add: map_wf_def map_set_def distinct_update)
  show "map_wf m \<Longrightarrow> (x \<in> set (map_values m)) = (\<exists>k. map_get m k = Some x)"
    by (force simp: map_wf_def map_values_def map_get_def)
qed

lemma map_get_Nil [simp]: "map_get [] k = None"
  by (simp add: map_get_def)

lemma map_wf_Nil [simp]: "map_wf []"
  by (simp add: map_wf_def)

section \<open>Event-driven machines\<close>

text \<open>
  \<open>step e s\<close> runs one operation. An operation that throws (\<open>Inl\<close>) has not changed the state.
\<close>

locale event_machine =
  fixes step :: "'e \<Rightarrow> 's \<Rightarrow> 'err + 's"
begin

fun run :: "'e list \<Rightarrow> 's \<Rightarrow> 's" where
  "run [] s = s"
| "run (e # es) s = run es (case step e s of Inl _ \<Rightarrow> s | Inr s' \<Rightarrow> s')"

inductive reaches :: "'s \<Rightarrow> 's \<Rightarrow> bool" where
  here: "reaches s s"
| move: "reaches s t \<Longrightarrow> step e t = Inr u \<Longrightarrow> reaches s u"

lemma run_append: "run (es @ fs) s = run fs (run es s)"
  by (induction es arbitrary: s) auto

lemma reaches_trans: "reaches t u \<Longrightarrow> reaches s t \<Longrightarrow> reaches s u"
  by (induction rule: reaches.induct) (auto intro: move)

lemma run_reaches: "reaches s (run es s)"
proof (induction es arbitrary: s)
  case Nil
  then show ?case by (simp add: here)
next
  case (Cons e es)
  show ?case
  proof (cases "step e s")
    case (Inl err)
    then show ?thesis using Cons.IH by simp
  next
    case (Inr s')
    then have "reaches s s'" using here move by blast
    then show ?thesis using Inr Cons.IH [of s'] reaches_trans by simp
  qed
qed

lemma reaches_preserves:
  assumes "reaches s t" and "P s" and "\<And>e t u. P t \<Longrightarrow> step e t = Inr u \<Longrightarrow> P u"
  shows "P t"
  using assms(1,2) by induction (auto intro: assms(3))

lemma run_preserves:
  assumes "P s" and "\<And>e t u. P t \<Longrightarrow> step e t = Inr u \<Longrightarrow> P u"
  shows "P (run es s)"
  using run_reaches assms by (rule reaches_preserves)

end

declare event_machine.run.simps [code]

locale machine_invariant = event_machine step
  for step :: "'e \<Rightarrow> 's \<Rightarrow> 'err + 's" +
  fixes inv :: "'s \<Rightarrow> bool"
  assumes inv_step: "inv s \<Longrightarrow> step e s = Inr s' \<Longrightarrow> inv s'"
begin

lemma inv_run: "inv s \<Longrightarrow> inv (run es s)"
  by (rule run_preserves) (auto intro: inv_step)

end

text \<open>
  A concrete machine refines an abstract one through \<open>abs\<close> when, in states that satisfy the
  concrete invariant, each concrete step is abstractly a step or no change.
\<close>

locale machine_refinement = concrete: machine_invariant cstep inv + abstract: event_machine astep
  for cstep :: "'ce \<Rightarrow> 'c \<Rightarrow> 'cerr + 'c" and inv :: "'c \<Rightarrow> bool"
    and astep :: "'ae \<Rightarrow> 'a \<Rightarrow> 'aerr + 'a" +
  fixes abs :: "'c \<Rightarrow> 'a"
  assumes simulates:
    "inv s \<Longrightarrow> cstep e s = Inr s' \<Longrightarrow> abs s' = abs s \<or> (\<exists>a. astep a (abs s) = Inr (abs s'))"
begin

lemma abs_run: "inv s \<Longrightarrow> abstract.reaches (abs s) (abs (concrete.run es s))"
proof (induction es arbitrary: s)
  case Nil
  then show ?case by (simp add: abstract.here)
next
  case (Cons e es)
  show ?case
  proof (cases "cstep e s")
    case (Inl err)
    then show ?thesis using Cons by simp
  next
    case (Inr s')
    have "abstract.reaches (abs s) (abs s')"
      using simulates [OF Cons.prems Inr] by (auto intro: abstract.here abstract.move)
    moreover have "abstract.reaches (abs s') (abs (concrete.run es s'))"
      using Cons.IH concrete.inv_step [OF Cons.prems Inr] by simp
    ultimately show ?thesis using Inr abstract.reaches_trans by simp
  qed
qed

end

section \<open>Stable sorting and pages\<close>

text \<open>\<open>Array.prototype.sort\<close> is stable; a comparator with its arguments swapped sorts descending.\<close>

definition sort_desc :: "('a \<Rightarrow> 'k::linorder) \<Rightarrow> 'a list \<Rightarrow> 'a list" where
  "sort_desc f xs = rev (sort_key f (rev xs))"

definition slice :: "nat \<Rightarrow> nat \<Rightarrow> 'a list \<Rightarrow> 'a list" where
  "slice lo hi xs = take (hi - lo) (drop lo xs)"

lemma set_sort_desc [simp]: "set (sort_desc f xs) = set xs"
  by (simp add: sort_desc_def)

lemma length_sort_desc [simp]: "length (sort_desc f xs) = length xs"
  by (simp add: sort_desc_def)

lemma sort_desc_sorted: "sorted_wrt (\<lambda>x y. f y \<le> f x) (sort_desc f xs)"
proof -
  have "sorted_wrt (\<lambda>x y. f x \<le> f y) (sort_key f (rev xs))"
    using sorted_sort_key [of f "rev xs"] by (simp add: sorted_wrt_map)
  then show ?thesis by (simp add: sort_desc_def sorted_wrt_rev)
qed

section \<open>Joined keys\<close>

lemma separator_split:
  assumes "a @ c # b = a' @ c # b'" and "c \<notin> set a" and "c \<notin> set a'"
  shows "a = a' \<and> b = b'"
  using assms
proof (induction a arbitrary: a')
  case Nil
  then show ?case by (cases a') auto
next
  case (Cons x a)
  then show ?case by (cases a') auto
qed

end
