(* ===== verification/Finality.thy ===== *)
theory Finality
  imports Contracts
begin

text \<open>
  The shared transaction finality model of \<open>sdk/src/finality.ts\<close>: what independent provider
  observations say about one transaction (\<open>classifyTransactionFinality\<close>) and how a stored
  position may move (\<open>canTransitionTransactionFinality\<close>).

  A JavaScript number that is not a safe integer (a fraction, an infinity or \<open>NaN\<close>) is
  represented by a negative integer: the sources read these fields only through
  \<open>isBlockNumber\<close>, which refuses both.
\<close>

section \<open>Vocabulary\<close>

datatype finality_state =
  FS_submitted | FS_confirmed | FS_safe | FS_finalized | FS_reverted | FS_replaced | FS_unknown | FS_failed

datatype finality_depth = D_none | D_included | D_safe | D_finalized

datatype finality_reason =
  FR_rejected_before_broadcast | FR_contradicts_rejection | FR_awaiting_receipt | FR_ambiguous_broadcast
| FR_insufficient_providers | FR_invalid_observation | FR_wrong_chain | FR_provider_disagreement
| FR_receipt_not_canonical | FR_replacement_not_canonical | FR_included | FR_finality_tag_unsupported
| FR_safe_tag_reached | FR_finalized_tag_reached

datatype finality_tag = Tag int | Tag_null | Tag_unsupported

record receipt =
  rc_blockNumber :: int
  rc_blockHash :: string
  rc_status :: int

record replacement =
  rp_transactionHash :: string
  rp_blockNumber :: int
  rp_blockHash :: string

record observation =
  ob_providerId :: string
  ob_chainId :: int
  ob_latestBlockNumber :: int
  ob_safeBlockNumber :: finality_tag
  ob_finalizedBlockNumber :: finality_tag
  ob_receipt :: "receipt option"
  ob_canonicalBlockHash :: "string option"
  ob_replacement :: "replacement option"

datatype submission = Sub_rejected | Sub_broadcast | Sub_ambiguous

record finality_input =
  fi_expectedChainId :: int
  fi_submission :: submission
  fi_observations :: "observation list"
  fi_minimumProviders :: "int option"

record assessment =
  as_state :: finality_state
  as_depth :: finality_depth
  as_final :: bool
  as_reason :: finality_reason
  as_blockNumber :: "int option"
  as_blockHash :: "string option"
  as_providerIds :: "string list"

section \<open>Validity of an observation\<close>

definition HASH_PATTERN :: "string \<Rightarrow> bool" where
  "HASH_PATTERN s = hex_text 64 s"

fun DEPTH_RANK :: "finality_depth \<Rightarrow> nat" where
  "DEPTH_RANK D_none = 0"
| "DEPTH_RANK D_included = 1"
| "DEPTH_RANK D_safe = 2"
| "DEPTH_RANK D_finalized = 3"

definition isBlockNumber :: "int \<Rightarrow> bool" where
  "isBlockNumber n = (0 \<le> n \<and> n \<le> 2 ^ 53 - 1)"

fun isTagObservation :: "finality_tag \<Rightarrow> bool" where
  "isTagObservation Tag_null = True"
| "isTagObservation Tag_unsupported = True"
| "isTagObservation (Tag n) = isBlockNumber n"

definition isValidObservation :: "observation \<Rightarrow> bool" where
  "isValidObservation ob =
    (if ob_providerId ob = [] \<or> \<not> isBlockNumber (ob_chainId ob) \<or> \<not> isBlockNumber (ob_latestBlockNumber ob) \<or>
        \<not> isTagObservation (ob_safeBlockNumber ob) \<or> \<not> isTagObservation (ob_finalizedBlockNumber ob)
     then False
     else if (case ob_safeBlockNumber ob of Tag s \<Rightarrow> s > ob_latestBlockNumber ob | _ \<Rightarrow> False) then False
     else if (case ob_finalizedBlockNumber ob of Tag f \<Rightarrow> f > ob_latestBlockNumber ob | _ \<Rightarrow> False) then False
     else if (case (ob_safeBlockNumber ob, ob_finalizedBlockNumber ob) of
                (Tag s, Tag f) \<Rightarrow> f > s | _ \<Rightarrow> False) then False
     else if (case ob_canonicalBlockHash ob of Some h \<Rightarrow> \<not> HASH_PATTERN h | None \<Rightarrow> False) then False
     else if (case ob_receipt ob of
                Some r \<Rightarrow> \<not> isBlockNumber (rc_blockNumber r) \<or> rc_blockNumber r > ob_latestBlockNumber ob \<or>
                          \<not> HASH_PATTERN (rc_blockHash r) \<or> (rc_status r \<noteq> 0 \<and> rc_status r \<noteq> 1)
              | None \<Rightarrow> False) then False
     else if (case ob_replacement ob of
                Some p \<Rightarrow> ob_receipt ob \<noteq> None \<or> \<not> HASH_PATTERN (rp_transactionHash p) \<or>
                          \<not> HASH_PATTERN (rp_blockHash p) \<or> \<not> isBlockNumber (rp_blockNumber p) \<or>
                          rp_blockNumber p > ob_latestBlockNumber ob
              | None \<Rightarrow> False) then False
     else True)"

definition depthAt :: "observation \<Rightarrow> int \<Rightarrow> finality_depth" where
  "depthAt ob bn =
    (if (case ob_finalizedBlockNumber ob of Tag f \<Rightarrow> f \<ge> bn | _ \<Rightarrow> False) then D_finalized
     else if (case ob_safeBlockNumber ob of Tag s \<Rightarrow> s \<ge> bn | _ \<Rightarrow> False) then D_safe
     else D_included)"

text \<open>\<open>`${n}`\<close> on an integer.\<close>

definition int_text :: "int \<Rightarrow> string" where
  "int_text n = (if n < 0 then ''-'' @ show_nat (nat (- n)) else show_nat (nat n))"

definition agreementKey :: "observation \<Rightarrow> string" where
  "agreementKey ob =
    (case ob_receipt ob of
       Some r \<Rightarrow> ''receipt:'' @ int_text (rc_blockNumber r) @ '':'' @ toLowerCase (rc_blockHash r) @ '':'' @
                 int_text (rc_status r)
     | None \<Rightarrow>
         (case ob_replacement ob of
            Some p \<Rightarrow> ''replacement:'' @ toLowerCase (rp_transactionHash p) @ '':'' @
                      int_text (rp_blockNumber p) @ '':'' @ toLowerCase (rp_blockHash p)
          | None \<Rightarrow> ''none''))"

section \<open>Classification\<close>

definition assess :: "string list \<Rightarrow> finality_state \<Rightarrow> finality_reason \<Rightarrow> assessment" where
  "assess ids st why = \<lparr>as_state = st, as_depth = D_none, as_final = False, as_reason = why,
     as_blockNumber = None, as_blockHash = None, as_providerIds = ids\<rparr>"

text \<open>The anchor of the assessment: the receipt's or the replacement's block.\<close>

definition anchorOf :: "observation \<Rightarrow> (int \<times> string) option" where
  "anchorOf ob =
    (case ob_receipt ob of
       Some r \<Rightarrow> Some (rc_blockNumber r, rc_blockHash r)
     | None \<Rightarrow> map_option (\<lambda>p. (rp_blockNumber p, rp_blockHash p)) (ob_replacement ob))"

definition weakestDepth :: "observation list \<Rightarrow> int \<Rightarrow> finality_depth" where
  "weakestDepth obs bn =
    (case map (\<lambda>ob. depthAt ob bn) obs of
       [] \<Rightarrow> D_none
     | d # ds \<Rightarrow> foldl (\<lambda>weakest nxt. if DEPTH_RANK nxt < DEPTH_RANK weakest then nxt else weakest) d ds)"

definition depthReason :: "observation list \<Rightarrow> finality_depth \<Rightarrow> finality_reason" where
  "depthReason obs d =
    (if d = D_finalized then FR_finalized_tag_reached
     else if d = D_safe then FR_safe_tag_reached
     else if list_ex (\<lambda>ob. ob_finalizedBlockNumber ob = Tag_unsupported) obs then FR_finality_tag_unsupported
     else FR_included)"

definition successState :: "finality_depth \<Rightarrow> finality_state" where
  "successState d = (if d = D_finalized then FS_finalized else if d = D_safe then FS_safe else FS_confirmed)"

text \<open>The part of the classification after the providers have been found to agree.\<close>

definition classifyAgreed :: "finality_input \<Rightarrow> observation \<Rightarrow> assessment" where
  "classifyAgreed inp first =
    (let ids = map ob_providerId (fi_observations inp) in
     case anchorOf first of
       None \<Rightarrow> (if fi_submission inp = Sub_broadcast then assess ids FS_submitted FR_awaiting_receipt
                else assess ids FS_unknown FR_ambiguous_broadcast)
     | Some (bn, bh) \<Rightarrow>
         if list_ex (\<lambda>ob. map_option toLowerCase (ob_canonicalBlockHash ob) \<noteq> Some (toLowerCase bh))
              (fi_observations inp)
         then assess ids FS_unknown
                (if ob_receipt first \<noteq> None then FR_receipt_not_canonical else FR_replacement_not_canonical)
         else
           (let d = weakestDepth (fi_observations inp) bn;
                located = (\<lambda>st. \<lparr>as_state = st, as_depth = d, as_final = (d = D_finalized),
                   as_reason = depthReason (fi_observations inp) d, as_blockNumber = Some bn,
                   as_blockHash = Some (toLowerCase bh), as_providerIds = ids\<rparr>)
            in if ob_replacement first \<noteq> None then located FS_replaced
               else if map_option rc_status (ob_receipt first) = Some 0 then located FS_reverted
               else located (successState d)))"

definition classifyTransactionFinality :: "finality_input \<Rightarrow> assessment" where
  "classifyTransactionFinality inp =
    (let obs = fi_observations inp; ids = map ob_providerId obs;
         minimum = max 1 (case fi_minimumProviders inp of None \<Rightarrow> 1 | Some n \<Rightarrow> n)
     in if \<not> list_all isValidObservation obs then assess ids FS_unknown FR_invalid_observation
        else if list_ex (\<lambda>ob. ob_chainId ob \<noteq> fi_expectedChainId inp) obs then assess ids FS_unknown FR_wrong_chain
        else if fi_submission inp = Sub_rejected then
          (if list_ex (\<lambda>ob. ob_receipt ob \<noteq> None \<or> ob_replacement ob \<noteq> None) obs
           then assess ids FS_unknown FR_contradicts_rejection
           else (assess ids FS_failed FR_rejected_before_broadcast)\<lparr>as_final := True\<rparr>)
        else if int (length (remdups ids)) < minimum \<or> int (length ids) < minimum then
          (if fi_submission inp = Sub_broadcast then assess ids FS_submitted FR_insufficient_providers
           else assess ids FS_unknown FR_insufficient_providers)
        else if length (remdups (map agreementKey obs)) \<noteq> 1 then assess ids FS_unknown FR_provider_disagreement
        else classifyAgreed inp (hd obs))"

section \<open>Positions and their transitions\<close>

record position =
  p_state :: finality_state
  p_final :: bool

fun SUCCESS_RANK :: "finality_state \<Rightarrow> nat option" where
  "SUCCESS_RANK FS_confirmed = Some 1"
| "SUCCESS_RANK FS_safe = Some 2"
| "SUCCESS_RANK FS_finalized = Some 3"
| "SUCCESS_RANK _ = None"

fun canTransitionTransactionFinality :: "position option \<Rightarrow> position \<Rightarrow> bool" where
  "canTransitionTransactionFinality from to =
    (if p_state to = FS_finalized \<and> \<not> p_final to then False
     else if p_state to = FS_failed \<and> \<not> p_final to then False
     else case from of
       None \<Rightarrow> True
     | Some fr \<Rightarrow>
         if p_state fr = p_state to \<and> p_final fr = p_final to then True
         else if p_final fr then False
         else if p_state to = FS_failed then False
         else (case (SUCCESS_RANK (p_state fr), SUCCESS_RANK (p_state to)) of
                 (Some a, Some b) \<Rightarrow> b > a
               | _ \<Rightarrow> True))"

declare canTransitionTransactionFinality.simps [simp del]

datatype finality_error = Finality_cannot_move "position option" position

definition assertTransactionFinalityTransition :: "position option \<Rightarrow> position \<Rightarrow> finality_error + unit" where
  "assertTransactionFinalityTransition from to =
    (if \<not> canTransitionTransactionFinality from to then Inl (Finality_cannot_move from to) else Inr ())"

definition isFinalizedSuccess :: "position \<Rightarrow> bool" where
  "isFinalizedSuccess p = (p_state p = FS_finalized \<and> p_final p)"

datatype confirmation_stage = FINALIZED | SAFE | INDEXED

fun finalityFromConfirmationStage :: "confirmation_stage \<Rightarrow> position" where
  "finalityFromConfirmationStage FINALIZED = \<lparr>p_state = FS_finalized, p_final = True\<rparr>"
| "finalityFromConfirmationStage SAFE = \<lparr>p_state = FS_safe, p_final = False\<rparr>"
| "finalityFromConfirmationStage INDEXED = \<lparr>p_state = FS_confirmed, p_final = False\<rparr>"

section \<open>Agreement of providers\<close>

lemma int_text_code [code]: "int_text n = (if n < 0 then ''-'' @ show_int (- n) else show_int n)"
  unfolding int_text_def show_int_nat [symmetric] by auto

lemma int_text_inject: "0 \<le> m \<Longrightarrow> 0 \<le> n \<Longrightarrow> int_text m = int_text n \<longleftrightarrow> m = n"
  by (auto simp: int_text_def)

lemma int_text_no_colon: "0 \<le> n \<Longrightarrow> CHR '':'' \<notin> set (int_text n)"
  using digits_not_special(1) [OF all_digits_show_nat] by (simp add: int_text_def)

lemma lower_hex_no_colon:
  assumes "lower_hex_text n s"
  shows "CHR '':'' \<notin> set s"
proof -
  have tl: "CHR '':'' \<notin> set (drop 2 s)"
    using assms by (auto simp: lower_hex_text_def list_all_iff is_lower_hex_def is_digit_def)
  have "set s = set (take 2 s) \<union> set (drop 2 s)" by (metis append_take_drop_id set_append)
  then show ?thesis using assms tl by (simp add: lower_hex_text_def)
qed

lemma hash_no_colon: "HASH_PATTERN h \<Longrightarrow> CHR '':'' \<notin> set (toLowerCase h)"
  unfolding HASH_PATTERN_def by (rule lower_hex_no_colon [OF hex_text_toLowerCase])

lemma valid_receipt:
  assumes "isValidObservation ob" and "ob_receipt ob = Some r"
  shows "0 \<le> rc_blockNumber r" and "HASH_PATTERN (rc_blockHash r)" and "rc_status r = 0 \<or> rc_status r = 1"
    and "ob_replacement ob = None"
  using assms by (auto simp: isValidObservation_def isBlockNumber_def split: if_splits option.splits)

lemma valid_replacement:
  assumes "isValidObservation ob" and "ob_replacement ob = Some p"
  shows "0 \<le> rp_blockNumber p" and "HASH_PATTERN (rp_transactionHash p)" and "HASH_PATTERN (rp_blockHash p)"
    and "ob_receipt ob = None"
  using assms by (auto simp: isValidObservation_def isBlockNumber_def split: if_splits option.splits)

text \<open>What an agreement key says: which kind of evidence, and its block, up to letter case.\<close>

definition evidence :: "observation \<Rightarrow> (int \<times> string) option \<times> int option" where
  "evidence ob =
    (map_option (\<lambda>(bn, bh). (bn, toLowerCase bh)) (anchorOf ob), map_option rc_status (ob_receipt ob))"

lemma receipt_keys_agree:
  assumes "isValidObservation a" "ob_receipt a = Some r" "isValidObservation b" "ob_receipt b = Some q"
    and "agreementKey a = agreementKey b"
  shows "evidence a = evidence b"
proof -
  note va = valid_receipt [OF assms(1,2)] and vb = valid_receipt [OF assms(3,4)]
  have st: "0 \<le> rc_status r" "0 \<le> rc_status q" using va(3) vb(3) by auto
  have "int_text (rc_blockNumber r) @ CHR '':'' # (toLowerCase (rc_blockHash r) @ CHR '':'' # int_text (rc_status r)) =
        int_text (rc_blockNumber q) @ CHR '':'' # (toLowerCase (rc_blockHash q) @ CHR '':'' # int_text (rc_status q))"
    using assms(2,4,5) by (simp add: agreementKey_def)
  from separator_split [OF this int_text_no_colon [OF va(1)] int_text_no_colon [OF vb(1)]]
  have bn: "int_text (rc_blockNumber r) = int_text (rc_blockNumber q)"
    and rest: "toLowerCase (rc_blockHash r) @ CHR '':'' # int_text (rc_status r) =
       toLowerCase (rc_blockHash q) @ CHR '':'' # int_text (rc_status q)" by auto
  from separator_split [OF rest hash_no_colon [OF va(2)] hash_no_colon [OF vb(2)]] bn
  show ?thesis using assms(2,4) va(1) vb(1) st by (simp add: evidence_def anchorOf_def int_text_inject)
qed

lemma replacement_keys_agree:
  assumes "isValidObservation a" "ob_replacement a = Some p" "isValidObservation b" "ob_replacement b = Some q"
    and "agreementKey a = agreementKey b"
  shows "evidence a = evidence b"
proof -
  note va = valid_replacement [OF assms(1,2)] and vb = valid_replacement [OF assms(3,4)]
  have "toLowerCase (rp_transactionHash p) @ CHR '':'' # (int_text (rp_blockNumber p) @ CHR '':'' # toLowerCase (rp_blockHash p)) =
        toLowerCase (rp_transactionHash q) @ CHR '':'' # (int_text (rp_blockNumber q) @ CHR '':'' # toLowerCase (rp_blockHash q))"
    using assms(2,4,5) va(4) vb(4) by (simp add: agreementKey_def)
  from separator_split [OF this hash_no_colon [OF va(2)] hash_no_colon [OF vb(2)]]
  have rest: "int_text (rp_blockNumber p) @ CHR '':'' # toLowerCase (rp_blockHash p) =
     int_text (rp_blockNumber q) @ CHR '':'' # toLowerCase (rp_blockHash q)" by simp
  from separator_split [OF rest int_text_no_colon [OF va(1)] int_text_no_colon [OF vb(1)]]
  show ?thesis using assms(2,4) va(1,4) vb(1,4) by (simp add: evidence_def anchorOf_def int_text_inject)
qed

lemma agreementKey_evidence:
  assumes "isValidObservation a" "isValidObservation b" "agreementKey a = agreementKey b"
  shows "evidence a = evidence b \<and> (ob_receipt a = None \<longleftrightarrow> ob_receipt b = None) \<and>
    (ob_replacement a = None \<longleftrightarrow> ob_replacement b = None)"
proof (cases "ob_receipt a")
  case (Some r)
  then obtain q where q: "ob_receipt b = Some q"
    using assms(3) by (auto simp: agreementKey_def split: option.splits)
  show ?thesis using receipt_keys_agree [OF assms(1) Some assms(2) q assms(3)] Some q
      valid_receipt(4) [OF assms(1) Some] valid_receipt(4) [OF assms(2) q] by simp
next
  case None
  show ?thesis
  proof (cases "ob_replacement a")
    case (Some p)
    then obtain q where q: "ob_replacement b = Some q"
      using assms(3) None by (auto simp: agreementKey_def split: option.splits)
    show ?thesis using replacement_keys_agree [OF assms(1) Some assms(2) q assms(3)] None Some q
        valid_replacement(4) [OF assms(2) q] by simp
  next
    case ra: None
    then show ?thesis using assms(3) None
      by (auto simp: agreementKey_def evidence_def anchorOf_def split: option.splits)
  qed
qed

section \<open>Depth\<close>

lemma DEPTH_RANK_inject: "DEPTH_RANK a = DEPTH_RANK b \<longleftrightarrow> a = b"
  by (cases a; cases b) simp_all

lemma weakest_fold_rank:
  "DEPTH_RANK (foldl (\<lambda>weakest nxt. if DEPTH_RANK nxt < DEPTH_RANK weakest then nxt else weakest) d ds) =
   Min (insert (DEPTH_RANK d) (DEPTH_RANK ` set ds))"
proof (induction ds arbitrary: d)
  case Nil
  then show ?case by simp
next
  case (Cons x ds)
  let ?w = "if DEPTH_RANK x < DEPTH_RANK d then x else d"
  have w: "DEPTH_RANK ?w = min (DEPTH_RANK d) (DEPTH_RANK x)" by (simp add: min_def)
  have "Min (insert (DEPTH_RANK ?w) (DEPTH_RANK ` set ds)) =
     Min (insert (DEPTH_RANK d) (insert (DEPTH_RANK x) (DEPTH_RANK ` set ds)))"
    unfolding w by (cases "ds = []") (simp_all add: min.assoc)
  then show ?case using Cons.IH [of ?w] by simp
qed

lemma weakestDepth_rank:
  "obs \<noteq> [] \<Longrightarrow> DEPTH_RANK (weakestDepth obs bn) = Min ((\<lambda>ob. DEPTH_RANK (depthAt ob bn)) ` set obs)"
  by (cases obs) (simp_all add: weakestDepth_def weakest_fold_rank image_image)

lemma weakestDepth_cong:
  assumes "set obs = set obs'"
  shows "weakestDepth obs bn = weakestDepth obs' bn"
proof (cases "obs = []")
  case True
  then show ?thesis using assms by simp
next
  case False
  then have "obs' \<noteq> []" using assms by auto
  then have "DEPTH_RANK (weakestDepth obs bn) = DEPTH_RANK (weakestDepth obs' bn)"
    using False assms by (simp add: weakestDepth_rank)
  then show ?thesis by (simp add: DEPTH_RANK_inject)
qed

lemma weakestDepth_finalized_iff:
  assumes "obs \<noteq> []"
  shows "weakestDepth obs bn = D_finalized \<longleftrightarrow>
    (\<forall>ob \<in> set obs. \<exists>f. ob_finalizedBlockNumber ob = Tag f \<and> bn \<le> f)"
proof -
  have rank3: "DEPTH_RANK (depthAt ob bn) \<ge> 3 \<longleftrightarrow> (\<exists>f. ob_finalizedBlockNumber ob = Tag f \<and> bn \<le> f)" for ob
    by (auto simp: depthAt_def split: finality_tag.splits)
  have le3: "DEPTH_RANK d \<le> 3" for d by (cases d) simp_all
  have "weakestDepth obs bn = D_finalized \<longleftrightarrow> DEPTH_RANK (weakestDepth obs bn) \<ge> 3"
    using le3 by (cases "weakestDepth obs bn") simp_all
  also have "\<dots> \<longleftrightarrow> (\<forall>ob \<in> set obs. DEPTH_RANK (depthAt ob bn) \<ge> 3)"
    using assms by (simp add: weakestDepth_rank)
  finally show ?thesis by (simp add: rank3)
qed

section \<open>What a classification rests on\<close>

lemma remdups_length_one:
  "length (remdups xs) = 1 \<longleftrightarrow> xs \<noteq> [] \<and> (\<forall>x \<in> set xs. x = hd xs)"
proof
  assume one: "length (remdups xs) = 1"
  then have "card (set xs) = Suc 0" by (simp add: length_remdups_card_conv)
  then obtain y where "set xs = {y}" by (auto simp: card_Suc_eq)
  then show "xs \<noteq> [] \<and> (\<forall>x \<in> set xs. x = hd xs)" by (cases xs) auto
next
  assume "xs \<noteq> [] \<and> (\<forall>x \<in> set xs. x = hd xs)"
  then have "set xs = {hd xs}" using list.set_sel(1) by blast
  then have "card (set xs) = card {hd xs}" by (rule arg_cong)
  then show "length (remdups xs) = 1" by (simp add: length_remdups_card_conv)
qed

lemma assess_fields [simp]:
  "as_state (assess ids st why) = st" "as_depth (assess ids st why) = D_none"
  "as_final (assess ids st why) = False" "as_reason (assess ids st why) = why"
  "as_blockNumber (assess ids st why) = None" "as_blockHash (assess ids st why) = None"
  by (simp_all add: assess_def)

text \<open>The guards every position above submission has passed.\<close>

definition requiredProviders :: "finality_input \<Rightarrow> int" where
  "requiredProviders inp = max 1 (case fi_minimumProviders inp of None \<Rightarrow> 1 | Some n \<Rightarrow> n)"

definition agreedInput :: "finality_input \<Rightarrow> bool" where
  "agreedInput inp =
    (list_all isValidObservation (fi_observations inp) \<and>
     list_all (\<lambda>ob. ob_chainId ob = fi_expectedChainId inp) (fi_observations inp) \<and>
     fi_submission inp \<noteq> Sub_rejected \<and>
     requiredProviders inp \<le> int (card (ob_providerId ` set (fi_observations inp))) \<and>
     fi_observations inp \<noteq> [] \<and>
     list_all (\<lambda>ob. agreementKey ob = agreementKey (hd (fi_observations inp))) (fi_observations inp))"

lemma agreedInput_iff:
  "agreedInput inp \<longleftrightarrow>
    list_all isValidObservation (fi_observations inp) \<and>
    \<not> list_ex (\<lambda>ob. ob_chainId ob \<noteq> fi_expectedChainId inp) (fi_observations inp) \<and>
    fi_submission inp \<noteq> Sub_rejected \<and>
    \<not> (int (length (remdups (map ob_providerId (fi_observations inp)))) < requiredProviders inp \<or>
       int (length (map ob_providerId (fi_observations inp))) < requiredProviders inp) \<and>
    length (remdups (map agreementKey (fi_observations inp))) = 1"
proof -
  let ?obs = "fi_observations inp"
  have card: "int (length (remdups (map ob_providerId ?obs))) = int (card (ob_providerId ` set ?obs))"
    by (simp only: length_remdups_card_conv set_map)
  have len: "requiredProviders inp \<le> int (card (ob_providerId ` set ?obs)) \<Longrightarrow>
      requiredProviders inp \<le> int (length (map ob_providerId ?obs))"
    using card_length [of "map ob_providerId ?obs"] by simp
  have keys: "length (remdups (map agreementKey ?obs)) = 1 \<longleftrightarrow>
      ?obs \<noteq> [] \<and> list_all (\<lambda>ob. agreementKey ob = agreementKey (hd ?obs)) ?obs"
    unfolding remdups_length_one by (cases ?obs) (auto simp: list_all_iff)
  show ?thesis unfolding agreedInput_def card keys using len by (auto simp: list_all_iff list_ex_iff)
qed

lemma few_providers:
  "(int (length (remdups (map f obs))) < n \<or> int (length (map f obs)) < n) =
   (int (length (remdups (map f obs))) < n)"
  using length_remdups_leq [of "map f obs"] by linarith

lemma classify_agreed:
  assumes "agreedInput inp"
  shows "classifyTransactionFinality inp = classifyAgreed inp (hd (fi_observations inp))"
  using assms unfolding agreedInput_iff requiredProviders_def classifyTransactionFinality_def Let_def
  by (simp del: One_nat_def)

lemma classify_not_agreed:
  assumes "\<not> agreedInput inp"
  shows "as_depth (classifyTransactionFinality inp) = D_none \<and>
    (as_state (classifyTransactionFinality inp) \<in> {FS_submitted, FS_unknown} \<and>
      \<not> as_final (classifyTransactionFinality inp) \<or>
     as_state (classifyTransactionFinality inp) = FS_failed \<and> fi_submission inp = Sub_rejected \<and>
      list_all (\<lambda>ob. ob_receipt ob = None \<and> ob_replacement ob = None) (fi_observations inp))"
proof -
  let ?obs = "fi_observations inp"
  let ?valid = "list_all isValidObservation ?obs"
  let ?chain = "list_ex (\<lambda>ob. ob_chainId ob \<noteq> fi_expectedChainId inp) ?obs"
  let ?few = "int (length (remdups (map ob_providerId ?obs))) < requiredProviders inp \<or>
     int (length (map ob_providerId ?obs)) < requiredProviders inp"
  let ?one = "length (remdups (map agreementKey ?obs)) = 1"
  let ?seen = "list_ex (\<lambda>ob. ob_receipt ob \<noteq> None \<or> ob_replacement ob \<noteq> None) ?obs"
  have seen: "\<not> ?seen \<Longrightarrow> list_all (\<lambda>ob. ob_receipt ob = None \<and> ob_replacement ob = None) ?obs"
    by (auto simp: list_ex_iff list_all_iff)
  consider "\<not> ?valid" | "?valid" "?chain" | "?valid" "\<not> ?chain" "fi_submission inp = Sub_rejected"
    | "?valid" "\<not> ?chain" "fi_submission inp \<noteq> Sub_rejected" "?few"
    | "?valid" "\<not> ?chain" "fi_submission inp \<noteq> Sub_rejected" "\<not> ?few" "\<not> ?one"
    using assms unfolding agreedInput_iff by blast
  then show ?thesis
  proof cases
    case 3
    then show ?thesis using seen
      by (cases ?seen) (simp_all add: classifyTransactionFinality_def Let_def)
  next
    case 4
    then show ?thesis
      by (simp add: classifyTransactionFinality_def Let_def requiredProviders_def del: length_map)
  qed (simp_all add: classifyTransactionFinality_def Let_def requiredProviders_def del: One_nat_def)
qed

lemma agreedD:
  assumes "agreedInput inp" and "ob \<in> set (fi_observations inp)"
  shows "isValidObservation ob" and "ob_chainId ob = fi_expectedChainId inp"
    and "agreementKey ob = agreementKey (hd (fi_observations inp))"
proof -
  have "\<forall>ob \<in> set (fi_observations inp). isValidObservation ob"
    using assms(1) unfolding agreedInput_def list_all_iff by (elim conjE) assumption
  then show "isValidObservation ob" using assms(2) by (rule bspec)
  have "\<forall>ob \<in> set (fi_observations inp). ob_chainId ob = fi_expectedChainId inp"
    using assms(1) unfolding agreedInput_def list_all_iff by (elim conjE) assumption
  then show "ob_chainId ob = fi_expectedChainId inp" using assms(2) by (rule bspec)
  have "\<forall>ob \<in> set (fi_observations inp). agreementKey ob = agreementKey (hd (fi_observations inp))"
    using assms(1) unfolding agreedInput_def list_all_iff by (elim conjE) assumption
  then show "agreementKey ob = agreementKey (hd (fi_observations inp))" using assms(2) by (rule bspec)
qed

lemma agreed_guards:
  assumes "agreedInput inp"
  shows "fi_observations inp \<noteq> []" and "fi_submission inp \<noteq> Sub_rejected"
    and "requiredProviders inp \<le> int (card (ob_providerId ` set (fi_observations inp)))"
  by (insert assms [unfolded agreedInput_def], blast)+

lemma agreed_evidence:
  assumes "agreedInput inp" and "ob \<in> set (fi_observations inp)"
  shows "evidence ob = evidence (hd (fi_observations inp))"
    and "ob_replacement ob = None \<longleftrightarrow> ob_replacement (hd (fi_observations inp)) = None"
proof -
  have "hd (fi_observations inp) \<in> set (fi_observations inp)" using assms(2) by (cases "fi_observations inp") auto
  note agreementKey_evidence [OF agreedD(1) [OF assms] agreedD(1) [OF assms(1) this] agreedD(3) [OF assms]]
  then
  show "evidence ob = evidence (hd (fi_observations inp))"
    and "ob_replacement ob = None \<longleftrightarrow> ob_replacement (hd (fi_observations inp)) = None" by auto
qed

lemma classifyAgreed_located:
  assumes "as_depth (classifyAgreed inp first) \<noteq> D_none"
  obtains bn bh where "anchorOf first = Some (bn, bh)"
    and "\<forall>ob \<in> set (fi_observations inp). map_option toLowerCase (ob_canonicalBlockHash ob) = Some (toLowerCase bh)"
    and "classifyAgreed inp first =
      \<lparr>as_state = (if ob_replacement first \<noteq> None then FS_replaced
          else if map_option rc_status (ob_receipt first) = Some 0 then FS_reverted
          else successState (weakestDepth (fi_observations inp) bn)),
       as_depth = weakestDepth (fi_observations inp) bn,
       as_final = (weakestDepth (fi_observations inp) bn = D_finalized),
       as_reason = depthReason (fi_observations inp) (weakestDepth (fi_observations inp) bn),
       as_blockNumber = Some bn, as_blockHash = Some (toLowerCase bh),
       as_providerIds = map ob_providerId (fi_observations inp)\<rparr>"
proof (cases "anchorOf first")
  case None
  then show ?thesis using assms by (simp add: classifyAgreed_def assess_def Let_def split: if_splits)
next
  case (Some a)
  then obtain bn bh where a: "anchorOf first = Some (bn, bh)" by (cases a) auto
  have canon: "\<not> list_ex (\<lambda>ob. map_option toLowerCase (ob_canonicalBlockHash ob) \<noteq> Some (toLowerCase bh))
      (fi_observations inp)"
    using assms a by (auto simp: classifyAgreed_def assess_def Let_def split: if_splits)
  show ?thesis
    by (rule that [OF a]) (use canon a in \<open>auto simp: classifyAgreed_def Let_def list_ex_iff\<close>)
qed

section \<open>Properties of the classification\<close>

lemma located_depth: "obs \<noteq> [] \<Longrightarrow> weakestDepth obs bn \<noteq> D_none"
proof -
  assume "obs \<noteq> []"
  moreover have "DEPTH_RANK (depthAt ob bn) \<ge> 1" for ob by (auto simp: depthAt_def split: finality_tag.splits)
  ultimately have "DEPTH_RANK (weakestDepth obs bn) \<ge> 1" by (simp add: weakestDepth_rank)
  then show ?thesis by (cases "weakestDepth obs bn") simp_all
qed

lemma classifyAgreed_depth_none:
  assumes "as_depth (classifyAgreed inp first) = D_none" and "fi_observations inp \<noteq> []"
  shows "as_state (classifyAgreed inp first) \<in> {FS_submitted, FS_unknown} \<and>
    \<not> as_final (classifyAgreed inp first)"
  using assms located_depth [OF assms(2)]
  by (cases "anchorOf first") (auto simp: classifyAgreed_def Let_def split: if_splits)

lemma classify_finalized_agreed:
  assumes "as_state (classifyTransactionFinality inp) = FS_finalized"
  shows "agreedInput inp" and "as_depth (classifyTransactionFinality inp) \<noteq> D_none"
proof -
  show ag: "agreedInput inp" using classify_not_agreed [of inp] assms by auto
  then have "fi_observations inp \<noteq> []" by (rule agreed_guards)
  then show "as_depth (classifyTransactionFinality inp) \<noteq> D_none"
    using classifyAgreed_depth_none [of inp "hd (fi_observations inp)"] assms classify_agreed [OF ag] by auto
qed

lemma classify_finalized_located:
  assumes "as_state (classifyTransactionFinality inp) = FS_finalized"
  obtains bn bh where "anchorOf (hd (fi_observations inp)) = Some (bn, bh)"
    and "as_blockNumber (classifyTransactionFinality inp) = Some bn"
    and "as_blockHash (classifyTransactionFinality inp) = Some (toLowerCase bh)"
    and "\<forall>ob \<in> set (fi_observations inp). map_option toLowerCase (ob_canonicalBlockHash ob) = Some (toLowerCase bh)"
    and "ob_replacement (hd (fi_observations inp)) = None"
    and "map_option rc_status (ob_receipt (hd (fi_observations inp))) \<noteq> Some 0"
    and "weakestDepth (fi_observations inp) bn = D_finalized"
proof -
  let ?obs = "fi_observations inp" and ?first = "hd (fi_observations inp)"
  note eq = classify_agreed [OF classify_finalized_agreed(1) [OF assms]]
  obtain bn bh where loc: "anchorOf ?first = Some (bn, bh)"
    and canon: "\<forall>ob \<in> set ?obs. map_option toLowerCase (ob_canonicalBlockHash ob) = Some (toLowerCase bh)"
    and full: "classifyAgreed inp ?first =
      \<lparr>as_state = (if ob_replacement ?first \<noteq> None then FS_replaced
          else if map_option rc_status (ob_receipt ?first) = Some 0 then FS_reverted
          else successState (weakestDepth ?obs bn)),
       as_depth = weakestDepth ?obs bn, as_final = (weakestDepth ?obs bn = D_finalized),
       as_reason = depthReason ?obs (weakestDepth ?obs bn),
       as_blockNumber = Some bn, as_blockHash = Some (toLowerCase bh),
       as_providerIds = map ob_providerId ?obs\<rparr>"
    using classifyAgreed_located [OF classify_finalized_agreed(2) [OF assms, unfolded eq]] by blast
  have "ob_replacement ?first = None" "map_option rc_status (ob_receipt ?first) \<noteq> Some 0"
    "weakestDepth ?obs bn = D_finalized"
    using assms unfolding eq full by (auto simp: successState_def split: if_splits)
  with loc canon show ?thesis by (intro that) (simp_all add: eq full)
qed

text \<open>Agreement carries the successful receipt of the first provider to all of them.\<close>

lemma agreed_receipts:
  assumes "agreedInput inp" and "ob \<in> set (fi_observations inp)"
    and "anchorOf (hd (fi_observations inp)) = Some (bn, bh)"
    and "ob_replacement (hd (fi_observations inp)) = None"
    and "map_option rc_status (ob_receipt (hd (fi_observations inp))) \<noteq> Some 0"
  shows "\<exists>r. ob_receipt ob = Some r \<and> rc_status r = 1 \<and> rc_blockNumber r = bn \<and>
    toLowerCase (rc_blockHash r) = toLowerCase bh"
proof -
  from agreed_evidence [OF assms(1,2)] assms(3,4)
  have ev: "evidence ob = (Some (bn, toLowerCase bh), map_option rc_status (ob_receipt (hd (fi_observations inp))))"
    and norep: "ob_replacement ob = None" by (auto simp: evidence_def)
  then obtain r where r: "ob_receipt ob = Some r"
    by (auto simp: evidence_def anchorOf_def split: option.splits)
  from valid_receipt(3) [OF agreedD(1) [OF assms(1,2)] r] ev r assms(5) have "rc_status r = 1"
    by (cases "ob_receipt (hd (fi_observations inp))") (auto simp: evidence_def)
  with ev r show ?thesis by (auto simp: evidence_def anchorOf_def)
qed

text \<open>
  C5. A transaction is reported \<open>finalized\<close> only on unanimous evidence: it was not known to be
  rejected, at least the required number of distinct providers answered, every answer is valid and
  from the expected chain, and every provider holds a successful receipt in the reported block,
  sees that block as its canonical one and has its finalized tag at or past it.
\<close>

theorem finalized_needs_unanimous_evidence:
  assumes "as_state (classifyTransactionFinality inp) = FS_finalized"
  shows "\<exists>bn h. as_blockNumber (classifyTransactionFinality inp) = Some bn \<and>
    as_blockHash (classifyTransactionFinality inp) = Some h \<and>
    fi_submission inp \<noteq> Sub_rejected \<and> fi_observations inp \<noteq> [] \<and>
    max 1 (case fi_minimumProviders inp of None \<Rightarrow> 1 | Some n \<Rightarrow> n)
      \<le> int (card (ob_providerId ` set (fi_observations inp))) \<and>
    (\<forall>ob \<in> set (fi_observations inp).
       isValidObservation ob \<and> ob_chainId ob = fi_expectedChainId inp \<and>
       (\<exists>r. ob_receipt ob = Some r \<and> rc_status r = 1 \<and> rc_blockNumber r = bn \<and> toLowerCase (rc_blockHash r) = h) \<and>
       map_option toLowerCase (ob_canonicalBlockHash ob) = Some h \<and>
       (\<exists>f. ob_finalizedBlockNumber ob = Tag f \<and> bn \<le> f))"
proof -
  note ag = classify_finalized_agreed(1) [OF assms]
  note ne = agreed_guards(1) [OF ag]
  obtain bn bh where loc: "anchorOf (hd (fi_observations inp)) = Some (bn, bh)"
    and res: "as_blockNumber (classifyTransactionFinality inp) = Some bn"
      "as_blockHash (classifyTransactionFinality inp) = Some (toLowerCase bh)"
    and canon: "\<forall>ob \<in> set (fi_observations inp).
      map_option toLowerCase (ob_canonicalBlockHash ob) = Some (toLowerCase bh)"
    and st: "ob_replacement (hd (fi_observations inp)) = None"
      "map_option rc_status (ob_receipt (hd (fi_observations inp))) \<noteq> Some 0"
      "weakestDepth (fi_observations inp) bn = D_finalized"
    by (rule classify_finalized_located [OF assms])
  have tags: "\<forall>ob \<in> set (fi_observations inp). \<exists>f. ob_finalizedBlockNumber ob = Tag f \<and> bn \<le> f"
    using weakestDepth_finalized_iff [OF ne, of bn] st(3) by simp
  have guards: "fi_submission inp \<noteq> Sub_rejected"
    "max 1 (case fi_minimumProviders inp of None \<Rightarrow> 1 | Some n \<Rightarrow> n)
      \<le> int (card (ob_providerId ` set (fi_observations inp)))"
    using agreed_guards(2,3) [OF ag] by (simp_all add: requiredProviders_def)
  show ?thesis
    by (rule exI [of _ bn], rule exI [of _ "toLowerCase bh"])
      (intro conjI ballI res guards ne agreedD(1,2) [OF ag] agreed_receipts [OF ag _ loc st(1,2)]
        canon [rule_format] tags [rule_format])
qed

text \<open>A transaction two providers agree on, with their finalized tags past its block.\<close>

definition sample_hash :: string where
  "sample_hash = ''0x'' @ replicate 64 (CHR ''a'')"

definition sample_observation :: "string \<Rightarrow> observation" where
  "sample_observation i = \<lparr>ob_providerId = i, ob_chainId = 8453, ob_latestBlockNumber = 120,
     ob_safeBlockNumber = Tag 110, ob_finalizedBlockNumber = Tag 100,
     ob_receipt = Some \<lparr>rc_blockNumber = 90, rc_blockHash = sample_hash, rc_status = 1\<rparr>,
     ob_canonicalBlockHash = Some sample_hash, ob_replacement = None\<rparr>"

definition sample_finality :: finality_input where
  "sample_finality = \<lparr>fi_expectedChainId = 8453, fi_submission = Sub_broadcast,
     fi_observations = [sample_observation ''p1'', sample_observation ''p2''], fi_minimumProviders = Some 2\<rparr>"

theorem finalized_needs_unanimous_evidence_witness:
  "as_state (classifyTransactionFinality sample_finality) = FS_finalized \<and>
   max 1 (case fi_minimumProviders sample_finality of None \<Rightarrow> 1 | Some n \<Rightarrow> n)
     \<le> int (card (ob_providerId ` set (fi_observations sample_finality)))"
proof -
  have h: "as_state (classifyTransactionFinality sample_finality) = FS_finalized" by code_simp
  from h finalized_needs_unanimous_evidence [OF h] show ?thesis by blast
qed

lemma classifyAgreed_cong:
  assumes "evidence f = evidence g" "ob_receipt f = None \<longleftrightarrow> ob_receipt g = None"
    "ob_replacement f = None \<longleftrightarrow> ob_replacement g = None" "set obs' = set (fi_observations inp)"
  shows "(classifyAgreed (inp\<lparr>fi_observations := obs'\<rparr>) f)\<lparr>as_providerIds := ids\<rparr> =
    (classifyAgreed inp g)\<lparr>as_providerIds := ids\<rparr>"
proof -
  let ?obs = "fi_observations inp"
  have depth: "weakestDepth obs' bn = weakestDepth ?obs bn" for bn by (rule weakestDepth_cong [OF assms(4)])
  have ex: "list_ex P obs' = list_ex P ?obs" for P using assms(4) by (simp add: list_ex_iff)
  have st: "map_option rc_status (ob_receipt f) = map_option rc_status (ob_receipt g)"
    using assms(1) by (simp add: evidence_def)
  show ?thesis
  proof (cases "anchorOf g")
    case None
    then have "anchorOf f = None" using assms(1) by (simp add: evidence_def)
    with None show ?thesis by (simp add: classifyAgreed_def Let_def assess_def)
  next
    case (Some a)
    then obtain bn bh bh' where g: "anchorOf g = Some (bn, bh)" and f: "anchorOf f = Some (bn, bh')"
      and low: "toLowerCase bh' = toLowerCase bh"
      using assms(1) by (cases a) (auto simp: evidence_def)
    show ?thesis unfolding classifyAgreed_def f g Let_def
      by (simp add: depth ex low st assms(2,3) depthReason_def assess_def del: map_option_eq_Some)
  qed
qed

lemma agreedInput_cong:
  assumes "set obs' = set (fi_observations inp)"
  shows "agreedInput (inp\<lparr>fi_observations := obs'\<rparr>) = agreedInput inp"
proof -
  have dup: "length (remdups (map f obs')) = length (remdups (map f (fi_observations inp)))" for f :: "observation \<Rightarrow> string"
    by (simp add: length_remdups_card_conv assms)
  have all: "list_all P obs' = list_all P (fi_observations inp)" "list_ex P obs' = list_ex P (fi_observations inp)" for P
    using assms by (simp_all add: list_all_iff list_ex_iff)
  show ?thesis unfolding agreedInput_iff few_providers requiredProviders_def by (simp add: dup all)
qed

text \<open>
  C34. The classification is a function of the set of observations: neither the order in which the
  providers are asked nor a repeated answer changes the state, the depth, the reason or the block.
\<close>

theorem classification_ignores_provider_order:
  assumes "set obs' = set (fi_observations inp)"
  shows "(classifyTransactionFinality (inp\<lparr>fi_observations := obs'\<rparr>))\<lparr>as_providerIds := []\<rparr> =
    (classifyTransactionFinality inp)\<lparr>as_providerIds := []\<rparr>"
proof (cases "agreedInput inp")
  case True
  let ?inp' = "inp\<lparr>fi_observations := obs'\<rparr>"
  have True': "agreedInput ?inp'" by (rule iffD2 [OF agreedInput_cong [OF assms] True])
  have "hd xs \<in> set xs" if "xs \<noteq> []" for xs :: "observation list" using that by simp
  note hds = this [OF agreed_guards(1) [OF True]] this [OF agreed_guards(1) [OF True'], simplified]
  have mem: "hd obs' \<in> set (fi_observations inp)" using hds(2) unfolding assms .
  note this = hds(1)
  note agreementKey_evidence [OF agreedD(1) [OF True mem] agreedD(1) [OF True this] agreedD(3) [OF True mem]]
  then have "(classifyAgreed ?inp' (hd obs'))\<lparr>as_providerIds := []\<rparr> =
      (classifyAgreed inp (hd (fi_observations inp)))\<lparr>as_providerIds := []\<rparr>"
    by (intro classifyAgreed_cong assms) blast+
  then show ?thesis using classify_agreed [OF True] classify_agreed [OF True'] by simp
next
  case False
  have all: "list_all P obs' = list_all P (fi_observations inp)" "list_ex P obs' = list_ex P (fi_observations inp)" for P
    using assms by (simp_all add: list_all_iff list_ex_iff)
  have dup: "length (remdups (map f obs')) = length (remdups (map f (fi_observations inp)))" for f :: "observation \<Rightarrow> string"
    by (simp add: length_remdups_card_conv assms)
  let ?obs = "fi_observations inp"
  let ?chain = "list_ex (\<lambda>ob. ob_chainId ob \<noteq> fi_expectedChainId inp) ?obs"
  let ?few = "int (length (remdups (map ob_providerId ?obs))) < max 1 (case fi_minimumProviders inp of None \<Rightarrow> 1 | Some n \<Rightarrow> n)"
  consider "\<not> list_all isValidObservation ?obs" | "list_all isValidObservation ?obs" ?chain
    | "list_all isValidObservation ?obs" "\<not> ?chain" "fi_submission inp = Sub_rejected"
    | "list_all isValidObservation ?obs" "\<not> ?chain" "fi_submission inp \<noteq> Sub_rejected" ?few
    | "list_all isValidObservation ?obs" "\<not> ?chain" "fi_submission inp \<noteq> Sub_rejected" "\<not> ?few"
      "length (remdups (map agreementKey ?obs)) \<noteq> 1"
    using False unfolding agreedInput_iff few_providers requiredProviders_def by blast
  then show ?thesis unfolding classifyTransactionFinality_def Let_def few_providers
    by cases (simp_all add: all dup assess_def del: One_nat_def)
qed

theorem classification_ignores_provider_order_witness:
  "(classifyTransactionFinality (sample_finality\<lparr>fi_observations :=
      [sample_observation ''p2'', sample_observation ''p1'', sample_observation ''p2'']\<rparr>))\<lparr>as_providerIds := []\<rparr> =
   (classifyTransactionFinality sample_finality)\<lparr>as_providerIds := []\<rparr>"
  by (rule classification_ignores_provider_order) (auto simp: sample_finality_def)

section \<open>Histories of a stored position\<close>

text \<open>
  A stored position is moved by the classifications that arrive for it; one the model refuses is
  thrown by \<open>assertTransactionFinalityTransition\<close> and leaves the position alone.
\<close>

definition position_step :: "position \<Rightarrow> position \<Rightarrow> finality_error + position" where
  "position_step to from = rbind (assertTransactionFinalityTransition (Some from) to) (\<lambda>_. Inr to)"

interpretation positions: event_machine position_step .

lemma position_step_Inr [step_defs]:
  "position_step to from = Inr p \<longleftrightarrow> p = to \<and> canTransitionTransactionFinality (Some from) to"
  by (auto simp: position_step_def assertTransactionFinalityTransition_def)

lemma final_step_stays:
  assumes "p_final fr" and "canTransitionTransactionFinality (Some fr) to"
  shows "to = fr"
  using assms by (cases fr; cases to) (auto simp: canTransitionTransactionFinality.simps split: if_splits)

lemma failed_only_from_failed:
  assumes "canTransitionTransactionFinality (Some fr) to" and "p_state to = FS_failed"
  shows "p_state fr = FS_failed"
  using assms by (auto simp: canTransitionTransactionFinality.simps split: if_splits)

lemma success_step_rises:
  assumes "canTransitionTransactionFinality (Some fr) to"
    and "SUCCESS_RANK (p_state fr) = Some a" and "SUCCESS_RANK (p_state to) = Some b"
  shows "a \<le> b"
  using assms by (auto simp: canTransitionTransactionFinality.simps split: if_splits)

lemma success_run_rises:
  assumes "SUCCESS_RANK (p_state p) = Some a" and "list_all (\<lambda>q. SUCCESS_RANK (p_state q) \<noteq> None) es"
  shows "\<exists>b \<ge> a. SUCCESS_RANK (p_state (positions.run es p)) = Some b"
  using assms
proof (induction es arbitrary: p a)
  case Nil
  then show ?case by simp
next
  case (Cons q es)
  then obtain b where b: "SUCCESS_RANK (p_state q) = Some b" by auto
  show ?case
  proof (cases "canTransitionTransactionFinality (Some p) q")
    case True
    then have "position_step q p = Inr q" by (simp add: step_defs)
    moreover have "a \<le> b" using success_step_rises [OF True Cons.prems(1) b] .
    ultimately show ?thesis using Cons.IH [OF b] Cons.prems(2) by (auto intro: order_trans)
  next
    case False
    then obtain e where "position_step q p = Inl e"
      by (auto simp: position_step_def assertTransactionFinalityTransition_def)
    then show ?thesis using Cons by simp
  qed
qed

text \<open>
  C32. Final positions are chain truth: whatever classifications arrive afterwards, in any order,
  a final position is still the stored one.
\<close>

theorem final_position_absorbing:
  assumes "p_final p"
  shows "positions.run es p = p"
proof -
  have "positions.run es p = p \<and> p_final p"
    by (rule positions.run_preserves) (use assms final_step_stays in \<open>auto simp: step_defs\<close>)
  then show ?thesis ..
qed

theorem final_position_absorbing_witness:
  "positions.run [\<lparr>p_state = FS_unknown, p_final = False\<rparr>, \<lparr>p_state = FS_reverted, p_final = True\<rparr>]
     (finalityFromConfirmationStage FINALIZED) = finalityFromConfirmationStage FINALIZED"
  by (rule final_position_absorbing) simp

text \<open>
  C33. Over any sequence of classifications, \<open>failed\<close> (never broadcast) is only ever an initial
  position, and while only successes are classified the depth of a success never falls.
\<close>

theorem position_history_sound:
  "(p_state p \<noteq> FS_failed \<longrightarrow> p_state (positions.run es p) \<noteq> FS_failed) \<and>
   (SUCCESS_RANK (p_state p) = Some a \<longrightarrow> list_all (\<lambda>q. SUCCESS_RANK (p_state q) \<noteq> None) es \<longrightarrow>
      (\<exists>b \<ge> a. SUCCESS_RANK (p_state (positions.run es p)) = Some b))"
proof (intro conjI impI)
  show "p_state (positions.run es p) \<noteq> FS_failed" if "p_state p \<noteq> FS_failed"
    using that positions.run_preserves [where P = "\<lambda>p. p_state p \<noteq> FS_failed"] failed_only_from_failed
    by (auto simp: step_defs)
qed (rule success_run_rises)

theorem position_history_sound_witness:
  "p_state (positions.run [\<lparr>p_state = FS_failed, p_final = True\<rparr>] (finalityFromConfirmationStage INDEXED)) \<noteq> FS_failed \<and>
   (\<exists>b \<ge> 1. SUCCESS_RANK (p_state (positions.run [finalityFromConfirmationStage SAFE]
      (finalityFromConfirmationStage INDEXED))) = Some b)"
proof -
  let ?p = "finalityFromConfirmationStage INDEXED"
  note position_history_sound [of ?p "[\<lparr>p_state = FS_failed, p_final = True\<rparr>]" 1]
    position_history_sound [of ?p "[finalityFromConfirmationStage SAFE]" 1]
  then show ?thesis by simp
qed

text \<open>
  The depth of a success can fall without an intervening \<open>unknown\<close>: a non-final
  \<open>submitted\<close> position is reachable from \<open>safe\<close> and leads back to \<open>confirmed\<close>.
\<close>

lemma depth_falls_through_submitted:
  "positions.run [\<lparr>p_state = FS_submitted, p_final = False\<rparr>, \<lparr>p_state = FS_confirmed, p_final = False\<rparr>]
     \<lparr>p_state = FS_safe, p_final = False\<rparr> = \<lparr>p_state = FS_confirmed, p_final = False\<rparr>"
  by (simp add: position_step_def assertTransactionFinalityTransition_def canTransitionTransactionFinality.simps)

end
