(* ===== verification/Settlement_Machine.thy ===== *)
theory Settlement_Machine
  imports Finality
begin

text \<open>
  The settlement execution state machine of the gateway: the statuses and event types of
  \<open>gateway/src/core/settlementStoreTypes.ts\<close>, the error type of \<open>gateway/src/errors.ts\<close>, the
  finality position each status claims (\<open>settlementFinality.ts\<close>) and the transition check
  \<open>validateExecutionTransition\<close> (\<open>settlementStateMachine.ts\<close>). The lemmas lift the check to
  every sequence of execution events.
\<close>

section \<open>Errors\<close>

datatype gateway_code =
  AUTH_REQUIRED | FORBIDDEN | VALIDATION_ERROR | WALLET_SIGNER_REQUIRED | SIGNER_NOT_AUTHORIZED
| SIGNER_POLICY_RESTRICTED | UPSTREAM_UNAVAILABLE | CONFLICT | NOT_FOUND | INTERNAL_ERROR

text \<open>
  \<open>details\<close> is the optional object of the response; \<open>diagnostics\<close> is for logs only and is left
  out. \<open>PlainError\<close> is a bare \<open>Error\<close>.
\<close>

datatype gateway_error =
  GatewayError (ge_statusCode: nat) (ge_code: gateway_code) (ge_message: string)
    (ge_details: "(string \<times> json) list")
| PlainError string

section \<open>Statuses and events\<close>

datatype exec_status =
  ES_pending | ES_accepted | ES_queued | ES_broadcast_unknown | ES_confirmation_pending | ES_submitted
| ES_confirmed | ES_reverted | ES_replaced | ES_failed | ES_rejected

datatype recon_status = RS_pending | RS_matched | RS_drift | RS_unavailable

datatype callback_status = CS_pending | CS_delivered | CS_failed | CS_dead_letter | CS_disabled

datatype event_type =
  EV_accepted | EV_queued | EV_simulation_completed | EV_broadcast_unknown | EV_confirmation_pending
| EV_submitted | EV_confirmed | EV_reverted | EV_replaced | EV_failed | EV_rejected | EV_reconciled
| EV_drift_detected | EV_chain_evidence_orphaned

fun exec_status_text :: "exec_status \<Rightarrow> string" where
  "exec_status_text ES_pending = ''pending''"
| "exec_status_text ES_accepted = ''accepted''"
| "exec_status_text ES_queued = ''queued''"
| "exec_status_text ES_broadcast_unknown = ''broadcast_unknown''"
| "exec_status_text ES_confirmation_pending = ''confirmation_pending''"
| "exec_status_text ES_submitted = ''submitted''"
| "exec_status_text ES_confirmed = ''confirmed''"
| "exec_status_text ES_reverted = ''reverted''"
| "exec_status_text ES_replaced = ''replaced''"
| "exec_status_text ES_failed = ''failed''"
| "exec_status_text ES_rejected = ''rejected''"

fun recon_status_text :: "recon_status \<Rightarrow> string" where
  "recon_status_text RS_pending = ''pending''"
| "recon_status_text RS_matched = ''matched''"
| "recon_status_text RS_drift = ''drift''"
| "recon_status_text RS_unavailable = ''unavailable''"

fun callback_status_text :: "callback_status \<Rightarrow> string" where
  "callback_status_text CS_pending = ''pending''"
| "callback_status_text CS_delivered = ''delivered''"
| "callback_status_text CS_failed = ''failed''"
| "callback_status_text CS_dead_letter = ''dead_letter''"
| "callback_status_text CS_disabled = ''disabled''"

fun event_type_text :: "event_type \<Rightarrow> string" where
  "event_type_text EV_accepted = ''accepted''"
| "event_type_text EV_queued = ''queued''"
| "event_type_text EV_simulation_completed = ''simulation_completed''"
| "event_type_text EV_broadcast_unknown = ''broadcast_unknown''"
| "event_type_text EV_confirmation_pending = ''confirmation_pending''"
| "event_type_text EV_submitted = ''submitted''"
| "event_type_text EV_confirmed = ''confirmed''"
| "event_type_text EV_reverted = ''reverted''"
| "event_type_text EV_replaced = ''replaced''"
| "event_type_text EV_failed = ''failed''"
| "event_type_text EV_rejected = ''rejected''"
| "event_type_text EV_reconciled = ''reconciled''"
| "event_type_text EV_drift_detected = ''drift_detected''"
| "event_type_text EV_chain_evidence_orphaned = ''chain_evidence_orphaned''"

section \<open>The finality position of a status\<close>

definition UNKNOWN :: position where
  "UNKNOWN = \<lparr>p_state = FS_unknown, p_final = False\<rparr>"

definition NEVER_BROADCAST :: position where
  "NEVER_BROADCAST = \<lparr>p_state = FS_failed, p_final = True\<rparr>"

fun SETTLEMENT_EXECUTION_FINALITY :: "exec_status \<Rightarrow> position option" where
  "SETTLEMENT_EXECUTION_FINALITY ES_pending = None"
| "SETTLEMENT_EXECUTION_FINALITY ES_accepted = None"
| "SETTLEMENT_EXECUTION_FINALITY ES_queued = None"
| "SETTLEMENT_EXECUTION_FINALITY ES_broadcast_unknown = Some UNKNOWN"
| "SETTLEMENT_EXECUTION_FINALITY ES_confirmation_pending = Some UNKNOWN"
| "SETTLEMENT_EXECUTION_FINALITY ES_submitted = Some \<lparr>p_state = FS_submitted, p_final = False\<rparr>"
| "SETTLEMENT_EXECUTION_FINALITY ES_confirmed = Some \<lparr>p_state = FS_finalized, p_final = True\<rparr>"
| "SETTLEMENT_EXECUTION_FINALITY ES_reverted = Some \<lparr>p_state = FS_reverted, p_final = True\<rparr>"
| "SETTLEMENT_EXECUTION_FINALITY ES_replaced = Some \<lparr>p_state = FS_replaced, p_final = False\<rparr>"
| "SETTLEMENT_EXECUTION_FINALITY ES_failed = Some NEVER_BROADCAST"
| "SETTLEMENT_EXECUTION_FINALITY ES_rejected = Some NEVER_BROADCAST"

datatype gasless_status =
  GS_broadcast_pending | GS_broadcast_unknown | GS_confirmation_pending | GS_confirmed | GS_reverted
| GS_replaced | GS_failed

fun GASLESS_OUTCOME_FINALITY :: "gasless_status \<Rightarrow> position" where
  "GASLESS_OUTCOME_FINALITY GS_broadcast_pending = UNKNOWN"
| "GASLESS_OUTCOME_FINALITY GS_broadcast_unknown = UNKNOWN"
| "GASLESS_OUTCOME_FINALITY GS_confirmation_pending = UNKNOWN"
| "GASLESS_OUTCOME_FINALITY GS_confirmed = \<lparr>p_state = FS_finalized, p_final = True\<rparr>"
| "GASLESS_OUTCOME_FINALITY GS_reverted = \<lparr>p_state = FS_reverted, p_final = True\<rparr>"
| "GASLESS_OUTCOME_FINALITY GS_replaced = \<lparr>p_state = FS_replaced, p_final = False\<rparr>"
| "GASLESS_OUTCOME_FINALITY GS_failed = NEVER_BROADCAST"

definition GATEWAY_VERIFIED_EXECUTION_STATUSES :: "exec_status list" where
  "GATEWAY_VERIFIED_EXECUTION_STATUSES = [ES_confirmed, ES_reverted, ES_replaced]"

definition NON_MUTATING_EVENT_TYPES :: "event_type list" where
  "NON_MUTATING_EVENT_TYPES = [EV_reconciled, EV_drift_detected]"

definition isServiceReportableExecution :: "event_type \<Rightarrow> exec_status \<Rightarrow> bool" where
  "isServiceReportableExecution ev st =
    (st \<notin> set GATEWAY_VERIFIED_EXECUTION_STATUSES \<or> ev \<in> set NON_MUTATING_EVENT_TYPES)"

section \<open>The transition check\<close>

fun EXECUTION_TRANSITIONS :: "exec_status \<Rightarrow> exec_status list" where
  "EXECUTION_TRANSITIONS ES_pending =
     [ES_accepted, ES_queued, ES_broadcast_unknown, ES_confirmation_pending, ES_submitted, ES_failed, ES_rejected]"
| "EXECUTION_TRANSITIONS ES_accepted =
     [ES_queued, ES_broadcast_unknown, ES_confirmation_pending, ES_submitted, ES_failed, ES_rejected]"
| "EXECUTION_TRANSITIONS ES_queued =
     [ES_broadcast_unknown, ES_confirmation_pending, ES_submitted, ES_failed, ES_rejected]"
| "EXECUTION_TRANSITIONS ES_broadcast_unknown =
     [ES_confirmation_pending, ES_confirmed, ES_reverted, ES_replaced]"
| "EXECUTION_TRANSITIONS ES_confirmation_pending = [ES_confirmed, ES_reverted, ES_replaced]"
| "EXECUTION_TRANSITIONS ES_submitted =
     [ES_confirmation_pending, ES_confirmed, ES_reverted, ES_replaced]"
| "EXECUTION_TRANSITIONS ES_confirmed = [ES_confirmed]"
| "EXECUTION_TRANSITIONS ES_reverted = [ES_reverted]"
| "EXECUTION_TRANSITIONS ES_replaced = [ES_replaced]"
| "EXECUTION_TRANSITIONS ES_failed = [ES_failed]"
| "EXECUTION_TRANSITIONS ES_rejected = [ES_rejected]"

definition RECONCILIATION_EVENT_TYPES :: "event_type list" where
  "RECONCILIATION_EVENT_TYPES = [EV_reconciled, EV_drift_detected]"

definition NON_MUTATING_EXECUTION_EVENT_TYPES :: "event_type list" where
  "NON_MUTATING_EXECUTION_EVENT_TYPES = [EV_simulation_completed]"

definition transition_details :: "exec_status \<Rightarrow> exec_status \<Rightarrow> event_type \<Rightarrow> (string \<times> json) list" where
  "transition_details current nxt ev =
    [(''currentExecutionStatus'', JStr (exec_status_text current)),
     (''nextExecutionStatus'', JStr (exec_status_text nxt)), (''eventType'', JStr (event_type_text ev))]"

definition validateExecutionTransition ::
  "exec_status \<Rightarrow> exec_status \<Rightarrow> event_type \<Rightarrow> gateway_error + unit" where
  "validateExecutionTransition current nxt ev =
    (if ev = EV_chain_evidence_orphaned then
       if current \<notin> set [ES_confirmed, ES_reverted, ES_confirmation_pending] \<or> nxt \<noteq> ES_confirmation_pending
       then Inl (GatewayError 409 CONFLICT
         ''Chain canonicality loss must retain the original operation for reconciliation'' [])
       else Inr ()
     else if ev \<in> set RECONCILIATION_EVENT_TYPES then
       if current \<noteq> ES_confirmed then
         Inl (GatewayError 409 CONFLICT ''Reconciliation events require a confirmed settlement handoff''
           [(''currentExecutionStatus'', JStr (exec_status_text current)), (''eventType'', JStr (event_type_text ev))])
       else if nxt \<noteq> current then
         Inl (GatewayError 409 CONFLICT ''Reconciliation events cannot mutate settlement execution state''
           (transition_details current nxt ev))
       else Inr ()
     else if ev \<in> set NON_MUTATING_EXECUTION_EVENT_TYPES then
       if nxt \<noteq> current then
         Inl (GatewayError 409 CONFLICT ''Execution telemetry events cannot mutate settlement execution state''
           (transition_details current nxt ev))
       else Inr ()
     else if current = nxt then Inr ()
     else if nxt \<notin> set (EXECUTION_TRANSITIONS current) \<or>
        (case (SETTLEMENT_EXECUTION_FINALITY current, SETTLEMENT_EXECUTION_FINALITY nxt) of
           (Some from, Some to) \<Rightarrow> \<not> canTransitionTransactionFinality (Some from) to | _ \<Rightarrow> False)
     then Inl (GatewayError 409 CONFLICT ''Settlement execution event violates the handoff state machine''
       (transition_details current nxt ev))
     else Inr ())"

section \<open>The machine of execution events\<close>

text \<open>One execution event reports a type and the status it moves the handoff to.\<close>

type_synonym execution_event = "event_type \<times> exec_status"

definition execution_step :: "execution_event \<Rightarrow> exec_status \<Rightarrow> gateway_error + exec_status" where
  "execution_step e current =
    rbind (validateExecutionTransition current (snd e) (fst e)) (\<lambda>_. Inr (snd e))"

interpretation execution: event_machine execution_step .

lemmas transition_sets = RECONCILIATION_EVENT_TYPES_def NON_MUTATING_EXECUTION_EVENT_TYPES_def
  GATEWAY_VERIFIED_EXECUTION_STATUSES_def NON_MUTATING_EVENT_TYPES_def

text \<open>Every edge of the table is legal in the shared finality model, so the table alone decides.\<close>

lemma transitions_legal:
  assumes "nxt \<in> set (EXECUTION_TRANSITIONS current)" and "SETTLEMENT_EXECUTION_FINALITY nxt = Some to"
  shows "canTransitionTransactionFinality (SETTLEMENT_EXECUTION_FINALITY current) to"
  using assms
  by (cases current) (auto simp: canTransitionTransactionFinality.simps UNKNOWN_def NEVER_BROADCAST_def)

lemma execution_step_iff:
  "execution_step e s = Inr s' \<longleftrightarrow> s' = snd e \<and>
    (if fst e = EV_chain_evidence_orphaned
     then s \<in> {ES_confirmed, ES_reverted, ES_confirmation_pending} \<and> s' = ES_confirmation_pending
     else if fst e \<in> {EV_reconciled, EV_drift_detected} then s = ES_confirmed \<and> s' = s
     else if fst e = EV_simulation_completed then s' = s
     else s' = s \<or> s' \<in> set (EXECUTION_TRANSITIONS s))"
proof -
  have legal: "\<not> (case (SETTLEMENT_EXECUTION_FINALITY s, SETTLEMENT_EXECUTION_FINALITY (snd e)) of
      (Some from, Some to) \<Rightarrow> \<not> canTransitionTransactionFinality (Some from) to | _ \<Rightarrow> False)"
    if "snd e \<in> set (EXECUTION_TRANSITIONS s)"
    using transitions_legal [OF that] by (auto split: option.splits)
  show ?thesis using legal
    by (cases "snd e = s"; cases "snd e \<in> set (EXECUTION_TRANSITIONS s)"; cases "fst e")
      (auto simp: execution_step_def validateExecutionTransition_def transition_sets)
qed

text \<open>The steps the machine takes, as an inductive relation.\<close>

inductive moves :: "exec_status \<Rightarrow> event_type \<Rightarrow> exec_status \<Rightarrow> bool" where
  restate: "ev \<notin> {EV_chain_evidence_orphaned, EV_reconciled, EV_drift_detected} \<Longrightarrow> moves s ev s"
| reconcile: "ev \<in> {EV_reconciled, EV_drift_detected} \<Longrightarrow> moves ES_confirmed ev ES_confirmed"
| orphan: "s \<in> {ES_confirmed, ES_reverted, ES_confirmation_pending} \<Longrightarrow>
    moves s EV_chain_evidence_orphaned ES_confirmation_pending"
| advance: "ev \<notin> {EV_chain_evidence_orphaned, EV_reconciled, EV_drift_detected, EV_simulation_completed} \<Longrightarrow>
    s' \<in> set (EXECUTION_TRANSITIONS s) \<Longrightarrow> moves s ev s'"

inductive_cases moves_from_confirmed: "moves ES_confirmed ev s'"
inductive_simps moves_to: "moves s ev s'"

lemma execution_step_moves: "execution_step (ev, s') s = Inr s' \<longleftrightarrow> moves s ev s'"
  unfolding execution_step_iff moves_to by (cases ev) auto

section \<open>Properties\<close>

text \<open>Statuses in which a transaction may have reached the network.\<close>

definition broadcast_exposed :: "exec_status \<Rightarrow> bool" where
  "broadcast_exposed s = (s \<in> {ES_broadcast_unknown, ES_confirmation_pending, ES_submitted, ES_confirmed,
     ES_reverted, ES_replaced})"

lemma exposed_step: "broadcast_exposed s \<Longrightarrow> execution_step e s = Inr s' \<Longrightarrow> broadcast_exposed s'"
  unfolding execution_step_iff broadcast_exposed_def by (cases s) (auto split: if_splits)

interpretation exposed: machine_invariant execution_step broadcast_exposed
  by unfold_locales (rule exposed_step)

lemma absorbing_step:
  assumes "execution_step e s = Inr s'"
    and "s \<in> {ES_failed, ES_rejected, ES_replaced} \<or>
      s \<in> {ES_confirmed, ES_reverted} \<and> fst e \<noteq> EV_chain_evidence_orphaned"
  shows "s' = s"
  using assms unfolding execution_step_iff by (cases s) (auto split: if_splits)

lemma reportable_step:
  assumes "execution_step e s = Inr s'" and "isServiceReportableExecution (fst e) (snd e)"
    and "s \<notin> set GATEWAY_VERIFIED_EXECUTION_STATUSES"
  shows "s' \<notin> set GATEWAY_VERIFIED_EXECUTION_STATUSES"
  using assms unfolding execution_step_iff isServiceReportableExecution_def transition_sets
  by (auto split: if_splits)

text \<open>
  C29. The transition check accepts exactly the intended moves: restating the status, reconciling a
  confirmed handoff, returning an orphaned one to \<open>confirmation_pending\<close>, and the edges of the
  transition table. The extra check against the shared finality model never refuses an edge.
\<close>

theorem transition_check_decides_moves:
  "validateExecutionTransition current nxt ev = Inr () \<longleftrightarrow> moves current ev nxt"
  unfolding execution_step_moves [symmetric] execution_step_def
  by (cases "validateExecutionTransition current nxt ev") auto

text \<open>
  C10. Once a transaction may have reached the network, no sequence of execution events makes the
  handoff \<open>failed\<close> or \<open>rejected\<close> (never broadcast), nor takes it back to a status before the
  broadcast.
\<close>

theorem broadcast_never_becomes_failed:
  assumes "broadcast_exposed s"
  shows "broadcast_exposed (execution.run es s) \<and>
    execution.run es s \<notin> {ES_failed, ES_rejected, ES_pending, ES_accepted, ES_queued}"
  using exposed.inv_run [OF assms, of es] by (auto simp: broadcast_exposed_def)

theorem broadcast_never_becomes_failed_witness:
  "execution.run [(EV_failed, ES_failed), (EV_confirmed, ES_confirmed)] ES_submitted
     \<notin> {ES_failed, ES_rejected, ES_pending, ES_accepted, ES_queued}"
  by (rule conjunct2 [OF broadcast_never_becomes_failed]) (simp add: broadcast_exposed_def)

text \<open>
  C31. \<open>failed\<close>, \<open>rejected\<close> and \<open>replaced\<close> are terminal under every sequence of events;
  \<open>confirmed\<close> and \<open>reverted\<close> are left only by a loss of chain canonicality.
\<close>

theorem terminal_statuses_absorbing:
  assumes "s \<in> {ES_failed, ES_rejected, ES_replaced} \<or>
    s \<in> {ES_confirmed, ES_reverted} \<and> EV_chain_evidence_orphaned \<notin> fst ` set es"
  shows "execution.run es s = s"
  using assms
proof (induction es)
  case Nil
  then show ?case by simp
next
  case (Cons e es)
  then have "s' = s" if "execution_step e s = Inr s'" for s' using absorbing_step [OF that] by auto
  then show ?case using Cons by (auto split: sum.splits)
qed

theorem terminal_statuses_absorbing_witness:
  "execution.run [(EV_reverted, ES_reverted), (EV_drift_detected, ES_confirmed)] ES_confirmed = ES_confirmed \<and>
   execution.run [(EV_chain_evidence_orphaned, ES_confirmation_pending)] ES_failed = ES_failed"
  using terminal_statuses_absorbing [of ES_confirmed "[(EV_reverted, ES_reverted), (EV_drift_detected, ES_confirmed)]"]
    terminal_statuses_absorbing [of ES_failed "[(EV_chain_evidence_orphaned, ES_confirmation_pending)]"] by simp

text \<open>
  C30. Events a service caller may report never bring a handoff to \<open>confirmed\<close>, \<open>reverted\<close> or
  \<open>replaced\<close>: those chain outcomes come only from the gateway's verified paths.
\<close>

theorem service_reports_never_settle:
  assumes "list_all (\<lambda>e. isServiceReportableExecution (fst e) (snd e)) es"
    and "s \<notin> {ES_confirmed, ES_reverted, ES_replaced}"
  shows "execution.run es s \<notin> {ES_confirmed, ES_reverted, ES_replaced}"
proof -
  have "execution.run es s \<notin> set GATEWAY_VERIFIED_EXECUTION_STATUSES"
    if "list_all (\<lambda>e. isServiceReportableExecution (fst e) (snd e)) es"
      "s \<notin> set GATEWAY_VERIFIED_EXECUTION_STATUSES" for s
    using that by (induction es arbitrary: s) (auto simp: reportable_step split: sum.splits)
  then show ?thesis using assms by (simp add: transition_sets)
qed

theorem service_reports_never_settle_witness:
  "execution.run [(EV_submitted, ES_submitted), (EV_reconciled, ES_confirmed)] ES_accepted
     \<notin> {ES_confirmed, ES_reverted, ES_replaced}"
  by (rule service_reports_never_settle) (simp_all add: isServiceReportableExecution_def transition_sets)

end
