(* ===== verification/Settlement_Amount.thy ===== *)
theory Settlement_Amount
  imports Settlement_Machine
begin

text \<open>
  Settlement amounts (\<open>gateway/src/core/settlementAmount.ts\<close>): validation of a decimal text into
  its fixed-scale canonical form, conversion to the JSON number of the v1 contract, and the
  comparison of monetary intents. The lemmas show that no value is ever rounded.

  \<open>settlementAmountToNumber\<close> is given on canonical amounts only, which is where the sources
  call it: \<open>String(Number(s))\<close> of a decimal of at most 15 significant digits, no exponent and at
  least one millionth or zero is the text without the trailing zeros of its fraction.
\<close>

record amount_spec =
  sp_scale :: nat
  sp_maxIntegerDigits :: nat

definition DISPLAY_AMOUNT_SPEC :: amount_spec where
  "DISPLAY_AMOUNT_SPEC = \<lparr>sp_scale = 2, sp_maxIntegerDigits = 13\<rparr>"

definition ASSET_AMOUNT_SPEC :: amount_spec where
  "ASSET_AMOUNT_SPEC = \<lparr>sp_scale = 6, sp_maxIntegerDigits = 9\<rparr>"

text \<open>The groups of \<open>/^(0|[1-9]\\d*)(?:\\.(\\d+))?$/\<close>.\<close>

definition DECIMAL_PATTERN :: "string \<Rightarrow> (string \<times> string option) option" where
  "DECIMAL_PATTERN s =
    (let ip = takeWhile is_digit s; rest = dropWhile is_digit s in
     if \<not> uint_text ip then None
     else case rest of
       [] \<Rightarrow> Some (ip, None)
     | c # fp \<Rightarrow> if c = CHR ''.'' \<and> digits_text fp then Some (ip, Some fp) else None)"

definition reject :: "string \<Rightarrow> string \<Rightarrow> amount_spec \<Rightarrow> gateway_error" where
  "reject field why spec = GatewayError 400 VALIDATION_ERROR
     (field @ '' must be a non-negative decimal with at most '' @ show_nat (sp_maxIntegerDigits spec) @
      '' integer digits and '' @ show_nat (sp_scale spec) @ '' fractional digits'')
     [(''field'', JStr field), (''reason'', JStr why)]"

text \<open>A value of type \<open>unknown\<close>: \<open>None\<close> is \<open>undefined\<close>.\<close>

definition decimalText :: "json option \<Rightarrow> string \<Rightarrow> amount_spec \<Rightarrow> gateway_error + string" where
  "decimalText v field spec =
    (case v of
       Some (JStr s) \<Rightarrow> Inr s
     | Some (JNum (Finite s)) \<Rightarrow> Inr s
     | Some (JNum (NonFinite s)) \<Rightarrow> Inl (reject field ''not_finite'' spec)
     | _ \<Rightarrow> Inl (reject field ''invalid_type'' spec))"

text \<open>\<open>match[2] ?? ''\<close>.\<close>

definition fraction_part :: "string option \<Rightarrow> string" where
  "fraction_part f = (case f of None \<Rightarrow> [] | Some t \<Rightarrow> t)"

definition parseSettlementAmount :: "json option \<Rightarrow> string \<Rightarrow> amount_spec \<Rightarrow> gateway_error + string" where
  "parseSettlementAmount v field spec =
    rbind (decimalText v field spec) (\<lambda>txt.
      case DECIMAL_PATTERN txt of
        None \<Rightarrow> Inl (reject field ''not_canonical_decimal'' spec)
      | Some (integerPart, fraction) \<Rightarrow>
          let fractionPart = fraction_part fraction in
          if length fractionPart > sp_scale spec then Inl (reject field ''scale_exceeded'' spec)
          else if length integerPart > sp_maxIntegerDigits spec then Inl (reject field ''magnitude_exceeded'' spec)
          else Inr (integerPart @ ''.'' @ padEnd (sp_scale spec) (CHR ''0'') fractionPart))"

definition parseOptionalSettlementAmount ::
  "json option \<Rightarrow> string \<Rightarrow> amount_spec \<Rightarrow> gateway_error + string option" where
  "parseOptionalSettlementAmount v field spec =
    (if v = None \<or> v = Some JNull then Inr None
     else rbind (parseSettlementAmount v field spec) (\<lambda>a. Inr (Some a)))"

text \<open>\<open>lexemes\<close> is the map of raw number texts of the request, \<open>None\<close> when unavailable.\<close>

definition jsonSettlementAmountInput ::
  "json option \<Rightarrow> (string, string) jsmap option \<Rightarrow> string \<Rightarrow> amount_spec \<Rightarrow> gateway_error + json option" where
  "jsonSettlementAmountInput v lexemes field spec =
    (case v of
       Some (JNum _) \<Rightarrow>
         (case Option.bind lexemes (\<lambda>m. map_get m field) of
            None \<Rightarrow> Inl (reject field ''raw_number_unavailable'' spec)
          | Some lexeme \<Rightarrow> Inr (Some (JStr lexeme)))
     | _ \<Rightarrow> Inr v)"

definition settlementAmountToNumber :: "string \<Rightarrow> jsnum" where
  "settlementAmountToNumber canonical =
    (let ip = takeWhile is_digit canonical; fp = drop (Suc (length ip)) canonical;
         short = rev (dropWhile (\<lambda>c. c = CHR ''0'') (rev fp))
     in Finite (if short = [] then ip else ip @ ''.'' @ short))"

definition storedSettlementAmountToNumber :: "string \<Rightarrow> string \<Rightarrow> amount_spec \<Rightarrow> gateway_error + jsnum" where
  "storedSettlementAmountToNumber v field spec =
    (case parseSettlementAmount (Some (JStr v)) field spec of
       Inr c \<Rightarrow> Inr (settlementAmountToNumber c)
     | Inl _ \<Rightarrow> Inl (GatewayError 500 INTERNAL_ERROR ''Stored settlement amount is invalid''
                       [(''field'', JStr field)]))"

record monetary_intent =
  mi_displayCurrency :: string
  mi_displayAmount :: string
  mi_assetSymbol :: "string option"
  mi_assetAmount :: "string option"

definition intent_mismatches :: "monetary_intent \<Rightarrow> monetary_intent \<Rightarrow> string list" where
  "intent_mismatches existing incoming = map fst (filter snd
    [(''displayCurrency'', mi_displayCurrency existing \<noteq> mi_displayCurrency incoming),
     (''displayAmount'', mi_displayAmount existing \<noteq> mi_displayAmount incoming),
     (''assetSymbol'', mi_assetSymbol existing \<noteq> mi_assetSymbol incoming),
     (''assetAmount'', mi_assetAmount existing \<noteq> mi_assetAmount incoming)])"

definition assertSameMonetaryIntent :: "monetary_intent \<Rightarrow> monetary_intent \<Rightarrow> gateway_error + unit" where
  "assertSameMonetaryIntent existing incoming =
    (let mismatched = intent_mismatches existing incoming in
     if length mismatched > 0 then
       Inl (GatewayError 409 CONFLICT ''Settlement handoff already exists with a different monetary intent''
         [(''reason'', JStr ''handoff_monetary_intent_mismatch''), (''fields'', JArr (map JStr mismatched))])
     else Inr ())"

section \<open>Decimal texts\<close>

lemma digits_span:
  assumes "all_digits ip" and "\<not> is_digit c"
  shows "takeWhile is_digit (ip @ c # r) = ip" "dropWhile is_digit (ip @ c # r) = c # r"
    "takeWhile is_digit ip = ip" "dropWhile is_digit ip = []"
  using assms by (auto simp: all_digits_def list_all_iff takeWhile_append dropWhile_append)

lemma not_digit_dot [simp]: "\<not> is_digit (CHR ''.'')"
  by (simp add: is_digit_def)

lemma uint_text_digits: "uint_text s \<Longrightarrow> all_digits s \<and> s \<noteq> []"
  by (simp add: uint_text_def digits_text_def)

lemma DECIMAL_PATTERN_iff:
  "DECIMAL_PATTERN s = Some (ip, f) \<longleftrightarrow> uint_text ip \<and>
    (case f of None \<Rightarrow> s = ip | Some fp \<Rightarrow> digits_text fp \<and> s = ip @ ''.'' @ fp)" (is "?l = ?r")
proof
  assume ?l
  have "takeWhile is_digit s @ dropWhile is_digit s = s" by simp
  with \<open>?l\<close> show ?r
    by (cases "dropWhile is_digit s")
      (auto simp: DECIMAL_PATTERN_def Let_def simp del: dropWhile_eq_Nil_conv takeWhile_eq_all_conv split: if_splits)
next
  assume r: ?r
  then have d: "all_digits ip" by (simp add: uint_text_digits)
  show ?l using r digits_span [OF d not_digit_dot] unfolding DECIMAL_PATTERN_def Let_def
    by (cases f) (simp_all del: dropWhile_eq_Nil_conv takeWhile_eq_all_conv)
qed

lemma digit_char_zero: "digit_char 0 = CHR ''0''"
  using digit_char_digit_val [OF is_digit_zero(1)] by simp

lemma uint_text_show_nat: "uint_text s \<Longrightarrow> show_nat (bigint s) = s"
proof (induction s rule: rev_induct)
  case Nil
  then show ?case by (simp add: uint_text_def digits_text_def)
next
  case (snoc c s)
  have d: "is_digit c" "all_digits s" using snoc.prems by (auto simp: uint_text_def digits_text_def)
  then have lt: "digit_val c < 10" by (simp add: digit_val_lt)
  show ?case
  proof (cases "s = []")
    case True
    then show ?thesis using d lt by (subst show_nat.simps) (simp add: bigint_def)
  next
    case False
    then have u: "uint_text s" and nz: "hd s \<noteq> CHR ''0''"
      using snoc.prems by (auto simp: uint_text_def digits_text_def)
    have "bigint s \<noteq> 0"
    proof
      assume "bigint s = 0"
      then have "s = show_nat 0" using snoc.IH [OF u] by simp
      then show False using nz by (simp add: show_nat.simps digit_char_zero)
    qed
    then show ?thesis using snoc.IH [OF u] d lt by (subst show_nat.simps) (simp add: bigint_snoc)
  qed
qed

section \<open>Canonical amounts\<close>

text \<open>The value of a decimal text in units of \<open>10 ^ - scale\<close>.\<close>

definition amount_units :: "nat \<Rightarrow> string \<Rightarrow> nat" where
  "amount_units scale s =
    (case DECIMAL_PATTERN s of
       None \<Rightarrow> 0
     | Some (ip, f) \<Rightarrow>
         let fp = fraction_part f in
         bigint ip * 10 ^ scale + bigint fp * 10 ^ (scale - length fp))"

definition canonical_amount :: "amount_spec \<Rightarrow> string \<Rightarrow> bool" where
  "canonical_amount spec s = (\<exists>ip fp. s = ip @ ''.'' @ fp \<and> uint_text ip \<and> all_digits fp \<and>
     length fp = sp_scale spec \<and> length ip \<le> sp_maxIntegerDigits spec)"

lemma padEnd_digits:
  assumes "all_digits f" and "length f \<le> n"
  shows "all_digits (padEnd n (CHR ''0'') f)" and "length (padEnd n (CHR ''0'') f) = n"
    and "bigint (padEnd n (CHR ''0'') f) = bigint f * 10 ^ (n - length f)"
  using assms by (simp_all add: padEnd_def bigint_append)

lemma canonical_units:
  assumes "uint_text ip" and "digits_text fp" and "length fp = n"
  shows "amount_units n (ip @ ''.'' @ fp) = bigint (ip @ fp)"
proof -
  have "DECIMAL_PATTERN (ip @ ''.'' @ fp) = Some (ip, Some fp)"
    using assms by (simp add: DECIMAL_PATTERN_iff)
  then show ?thesis using assms(3) by (simp add: amount_units_def fraction_part_def bigint_append)
qed

lemma parse_amount_iff:
  "parseSettlementAmount v field spec = Inr c \<longleftrightarrow>
    (\<exists>t ip f. decimalText v field spec = Inr t \<and> DECIMAL_PATTERN t = Some (ip, f) \<and>
       length (fraction_part f) \<le> sp_scale spec \<and> length ip \<le> sp_maxIntegerDigits spec \<and>
       c = ip @ ''.'' @ padEnd (sp_scale spec) (CHR ''0'') (fraction_part f))"
proof (cases "decimalText v field spec")
  case (Inl e)
  then show ?thesis by (simp add: parseSettlementAmount_def)
next
  case (Inr t)
  then show ?thesis
    by (cases "DECIMAL_PATTERN t") (auto simp: parseSettlementAmount_def Let_def split: if_splits)
qed

lemma parse_amount_canonical:
  assumes "parseSettlementAmount v field spec = Inr c"
  shows "canonical_amount spec c"
proof -
  from assms obtain t ip f where p: "DECIMAL_PATTERN t = Some (ip, f)"
    "length (fraction_part f) \<le> sp_scale spec" "length ip \<le> sp_maxIntegerDigits spec"
    "c = ip @ ''.'' @ padEnd (sp_scale spec) (CHR ''0'') (fraction_part f)"
    unfolding parse_amount_iff by blast
  then have "uint_text ip" "all_digits (fraction_part f)"
    by (auto simp: DECIMAL_PATTERN_iff digits_text_def fraction_part_def split: option.splits)
  then show ?thesis unfolding canonical_amount_def using p padEnd_digits(1,2) by blast
qed

lemma parse_canonical:
  assumes "canonical_amount spec c" and "0 < sp_scale spec"
  shows "parseSettlementAmount (Some (JStr c)) field spec = Inr c"
proof -
  from assms(1) obtain ip fp where c: "c = ip @ ''.'' @ fp" "uint_text ip" "all_digits fp"
    "length fp = sp_scale spec" "length ip \<le> sp_maxIntegerDigits spec" unfolding canonical_amount_def by blast
  then have "DECIMAL_PATTERN c = Some (ip, Some fp)"
    using assms(2) by (auto simp: DECIMAL_PATTERN_iff digits_text_def)
  then show ?thesis using c by (simp add: parse_amount_iff decimalText_def padEnd_def fraction_part_def)
qed

text \<open>Shortening the fraction and padding it again gives the same text.\<close>

lemma pad_shortened:
  assumes "all_digits fp"
  shows "padEnd (length fp) (CHR ''0'') (rev (dropWhile (\<lambda>c. c = CHR ''0'') (rev fp))) = fp"
    and "all_digits (rev (dropWhile (\<lambda>c. c = CHR ''0'') (rev fp)))"
proof -
  let ?tw = "takeWhile (\<lambda>c. c = CHR ''0'') (rev fp)" and ?dw = "dropWhile (\<lambda>c. c = CHR ''0'') (rev fp)"
  have zeros: "?tw = replicate (length ?tw) (CHR ''0'')"
    by (rule replicate_length_same [symmetric]) (auto dest: set_takeWhileD)
  have "rev fp = ?tw @ ?dw" by simp
  then have split: "fp = rev ?dw @ rev ?tw" by (metis rev_append rev_rev_ident)
  have "rev ?tw = replicate (length ?tw) (CHR ''0'')" by (metis zeros rev_replicate)
  moreover have "length fp - length ?dw = length ?tw" using arg_cong [OF split, of length] by simp
  ultimately show "padEnd (length fp) (CHR ''0'') (rev ?dw) = fp"
    using split by (simp add: padEnd_def)
  show "all_digits (rev ?dw)" using assms split by (metis all_digits_append)
qed

lemma canonical_inject:
  assumes "canonical_amount spec a" and "canonical_amount spec b" and "0 < sp_scale spec"
    and "amount_units (sp_scale spec) a = amount_units (sp_scale spec) b"
  shows "a = b"
proof -
  from assms(1) obtain ip fp where a: "a = ip @ ''.'' @ fp" "uint_text ip" "all_digits fp"
    "length fp = sp_scale spec" unfolding canonical_amount_def by blast
  from assms(2) obtain jp gp where b: "b = jp @ ''.'' @ gp" "uint_text jp" "all_digits gp"
    "length gp = sp_scale spec" unfolding canonical_amount_def by blast
  have ne: "digits_text fp" "digits_text gp" using a b assms(3) by (auto simp: digits_text_def)
  have eq: "bigint ip * 10 ^ sp_scale spec + bigint fp = bigint jp * 10 ^ sp_scale spec + bigint gp"
    using assms(4) canonical_units [OF a(2) ne(1) a(4)] canonical_units [OF b(2) ne(2) b(4)] a b
    by (simp add: bigint_append)
  have lt: "bigint fp < 10 ^ sp_scale spec" "bigint gp < 10 ^ sp_scale spec"
    using bigint_bound [OF a(3)] bigint_bound [OF b(3)] a(4) b(4) by simp_all
  have fg: "bigint fp = bigint gp" using arg_cong [OF eq, of "\<lambda>n. n mod 10 ^ sp_scale spec"] lt by simp
  have "bigint ip = bigint jp" using eq fg by simp
  then have "ip = jp" using uint_text_show_nat a(2) b(2) by metis
  moreover have "fp = gp" using fg a b by (intro bigint_inject_same_length) auto
  ultimately show ?thesis using a b by simp
qed

text \<open>The published number of a canonical amount validates to the amount.\<close>

lemma parse_published_number:
  assumes "canonical_amount spec c"
  shows "parseSettlementAmount (Some (JNum (settlementAmountToNumber c))) field spec = Inr c"
proof -
  from assms obtain ip fp where c: "c = ip @ ''.'' @ fp" "uint_text ip"
    "all_digits fp" "length fp = sp_scale spec" "length ip \<le> sp_maxIntegerDigits spec"
    unfolding canonical_amount_def by blast
  let ?short = "rev (dropWhile (\<lambda>c. c = CHR ''0'') (rev fp))"
  have ip: "takeWhile is_digit c = ip"
    using digits_span(1) [OF _ not_digit_dot] uint_text_digits [OF c(2)] by (simp add: c(1))
  have num: "settlementAmountToNumber c = Finite (if ?short = [] then ip else ip @ ''.'' @ ?short)"
    unfolding settlementAmountToNumber_def Let_def ip by (simp add: c(1))
  have len: "length ?short \<le> sp_scale spec" using c(4) length_dropWhile_le [of _ "rev fp"] by simp
  have pat: "DECIMAL_PATTERN (if ?short = [] then ip else ip @ ''.'' @ ?short) =
     Some (ip, if ?short = [] then None else Some ?short)"
    using c(2) pad_shortened(2) [OF c(3)] unfolding DECIMAL_PATTERN_iff digits_text_def by simp
  have "fraction_part (if ?short = [] then None else Some ?short) = ?short" by (simp add: fraction_part_def)
  then show ?thesis
    unfolding parse_amount_iff num using pat len c pad_shortened(1) [OF c(3)] by (auto simp: decimalText_def)
qed

section \<open>Properties\<close>

text \<open>
  C26. Validation never rounds: an accepted amount is canonical, has exactly the value of the
  submitted text, is a fixed point of validation, and has at most as many digits as the
  specification allows, which for both specifications is 15.
\<close>

theorem parsed_amount_exact:
  assumes "parseSettlementAmount v field spec = Inr c" and "spec \<in> {DISPLAY_AMOUNT_SPEC, ASSET_AMOUNT_SPEC}"
  shows "\<exists>t. decimalText v field spec = Inr t \<and> amount_units (sp_scale spec) c = amount_units (sp_scale spec) t \<and>
    parseSettlementAmount (Some (JStr c)) field' spec = Inr c \<and> length (filter is_digit c) \<le> 15"
proof -
  from assms(1) obtain t ip f where p: "decimalText v field spec = Inr t" "DECIMAL_PATTERN t = Some (ip, f)"
    "length (fraction_part f) \<le> sp_scale spec" "length ip \<le> sp_maxIntegerDigits spec"
    "c = ip @ ''.'' @ padEnd (sp_scale spec) (CHR ''0'') (fraction_part f)"
    unfolding parse_amount_iff by blast
  have pos: "0 < sp_scale spec" and fit: "sp_maxIntegerDigits spec + sp_scale spec = 15"
    using assms(2) by (auto simp: DISPLAY_AMOUNT_SPEC_def ASSET_AMOUNT_SPEC_def)
  have d: "uint_text ip" "all_digits (fraction_part f)" using p(2)
    by (auto simp: DECIMAL_PATTERN_iff digits_text_def fraction_part_def split: option.splits)
  note pad = padEnd_digits [OF d(2) p(3)]
  have "digits_text (padEnd (sp_scale spec) (CHR ''0'') (fraction_part f))"
    using pad(1,2) pos by (auto simp: digits_text_def)
  from canonical_units [OF d(1) this pad(2)]
  have "amount_units (sp_scale spec) c = amount_units (sp_scale spec) t"
    using p(2,5) pad by (simp add: amount_units_def bigint_append Let_def)
  moreover have "parseSettlementAmount (Some (JStr c)) field' spec = Inr c"
    by (rule parse_canonical [OF parse_amount_canonical [OF assms(1)] pos])
  moreover have "length (filter is_digit c) \<le> length ip + sp_scale spec"
    unfolding p(5) using pad(2) add_mono [OF length_filter_le [of is_digit ip]
      length_filter_le [of is_digit "padEnd (sp_scale spec) (CHR ''0'') (fraction_part f)"]] by simp
  then have "length (filter is_digit c) \<le> 15" using p(4) fit by linarith
  ultimately show ?thesis using p(1) by blast
qed

theorem parsed_amount_exact_witness:
  "\<exists>t. decimalText (Some (JStr ''1000.5'')) ''displayAmount'' DISPLAY_AMOUNT_SPEC = Inr t \<and>
    amount_units 2 ''1000.50'' = amount_units 2 t \<and>
    parseSettlementAmount (Some (JStr ''1000.50'')) ''displayAmount'' DISPLAY_AMOUNT_SPEC = Inr ''1000.50'' \<and>
    length (filter is_digit ''1000.50'') \<le> 15"
proof -
  have "parseSettlementAmount (Some (JStr ''1000.5'')) ''displayAmount'' DISPLAY_AMOUNT_SPEC = Inr ''1000.50''"
    by code_simp
  from parsed_amount_exact [OF this, of "''displayAmount''"] show ?thesis
    by (simp add: DISPLAY_AMOUNT_SPEC_def)
qed



text \<open>
  C28. Comparing canonical texts compares amounts: a replay is accepted exactly when its currencies
  are the same and its amounts have the same value, however the caller wrote them.
\<close>

theorem same_intent_iff_same_value:
  assumes "parseSettlementAmount v ''displayAmount'' DISPLAY_AMOUNT_SPEC = Inr (mi_displayAmount a)"
    and "parseSettlementAmount w ''displayAmount'' DISPLAY_AMOUNT_SPEC = Inr (mi_displayAmount b)"
    and "parseOptionalSettlementAmount v' ''assetAmount'' ASSET_AMOUNT_SPEC = Inr (mi_assetAmount a)"
    and "parseOptionalSettlementAmount w' ''assetAmount'' ASSET_AMOUNT_SPEC = Inr (mi_assetAmount b)"
  shows "assertSameMonetaryIntent a b = Inr () \<longleftrightarrow>
    mi_displayCurrency a = mi_displayCurrency b \<and> mi_assetSymbol a = mi_assetSymbol b \<and>
    amount_units 2 (mi_displayAmount a) = amount_units 2 (mi_displayAmount b) \<and>
    map_option (amount_units 6) (mi_assetAmount a) = map_option (amount_units 6) (mi_assetAmount b)"
proof -
  have d: "amount_units 2 (mi_displayAmount a) = amount_units 2 (mi_displayAmount b) \<longleftrightarrow>
      mi_displayAmount a = mi_displayAmount b"
    using canonical_inject [OF assms(1,2) [THEN parse_amount_canonical]] by (auto simp: DISPLAY_AMOUNT_SPEC_def)
  have opt: "\<exists>u. parseSettlementAmount u ''assetAmount'' ASSET_AMOUNT_SPEC = Inr y"
    if "parseOptionalSettlementAmount x ''assetAmount'' ASSET_AMOUNT_SPEC = Inr (Some y)" for x y
    using that by (auto simp: parseOptionalSettlementAmount_def rbind_Inr_iff split: if_splits)
  have e: "map_option (amount_units 6) (mi_assetAmount a) = map_option (amount_units 6) (mi_assetAmount b) \<longleftrightarrow>
      mi_assetAmount a = mi_assetAmount b"
    using opt [of v'] opt [of w'] assms(3,4) parse_amount_canonical canonical_inject [of ASSET_AMOUNT_SPEC]
    by (cases "mi_assetAmount a"; cases "mi_assetAmount b") (fastforce simp: ASSET_AMOUNT_SPEC_def)+
  show ?thesis unfolding d e by (auto simp: assertSameMonetaryIntent_def intent_mismatches_def Let_def split: if_splits)
qed

theorem same_intent_iff_same_value_witness:
  "assertSameMonetaryIntent
     \<lparr>mi_displayCurrency = ''USD'', mi_displayAmount = ''10.50'', mi_assetSymbol = Some ''USDC'', mi_assetAmount = Some ''10.500000''\<rparr>
     \<lparr>mi_displayCurrency = ''USD'', mi_displayAmount = ''10.50'', mi_assetSymbol = Some ''USDC'', mi_assetAmount = Some ''10.500000''\<rparr>
   = Inr ()"
proof -
  have p: "parseSettlementAmount (Some (JStr ''10.5'')) ''displayAmount'' DISPLAY_AMOUNT_SPEC = Inr ''10.50''"
    "parseSettlementAmount (Some (JNum (Finite ''10.5''))) ''displayAmount'' DISPLAY_AMOUNT_SPEC = Inr ''10.50''"
    "parseOptionalSettlementAmount (Some (JStr ''10.50'')) ''assetAmount'' ASSET_AMOUNT_SPEC = Inr (Some ''10.500000'')"
    by code_simp+
  show ?thesis
    by (subst same_intent_iff_same_value [where v = "Some (JStr ''10.5'')" and w = "Some (JNum (Finite ''10.5''))"
        and v' = "Some (JStr ''10.50'')" and w' = "Some (JStr ''10.50'')"]) (simp_all add: p)
qed

end
