(* ===== verification/Settlement_Store.thy ===== *)
theory Settlement_Store
  imports Settlement_Amount
begin

text \<open>
  The settlement store (\<open>gateway/src/core/settlementStoreTypes.ts\<close>,
  \<open>inMemorySettlementStore.ts\<close>): handoffs, their execution events and the deliveries of the
  callbacks, with every operation of the \<open>SettlementStore\<close> interface. The results of
  \<open>randomUUID()\<close> and \<open>new Date()\<close> are arguments of the operations that draw them, in the order
  they are drawn. \<open>structuredClone\<close> of an immutable value is the value.

  The lemmas give the store's invariant, the idempotency of its writes, the lease protocol of the
  deliveries, and the refinement of the execution state machine by every handoff.
\<close>

section \<open>Records\<close>

record handoff =
  ho_executionBinding :: "json nullish"
  ho_handoffId :: string
  ho_platformId :: string
  ho_platformHandoffId :: string
  ho_tradeId :: string
  ho_phase :: string
  ho_settlementChannel :: string
  ho_displayCurrency :: string
  ho_displayAmount :: jsnum
  ho_assetSymbol :: "string option"
  ho_assetAmount :: "jsnum option"
  ho_ricardianHash :: "string option"
  ho_externalReference :: "string option"
  ho_metadata :: "(string \<times> json) list"
  ho_executionStatus :: exec_status
  ho_reconciliationStatus :: recon_status
  ho_callbackStatus :: callback_status
  ho_providerStatus :: "string option"
  ho_txHash :: "string option"
  ho_latestEventId :: "string option"
  ho_latestEventType :: "event_type option"
  ho_latestEventDetail :: "string option"
  ho_latestEventAt :: "timestamp option"
  ho_callbackDeliveredAt :: "timestamp option"
  ho_requestId :: string
  ho_sourceApiKeyId :: "string option"
  ho_createdAt :: timestamp
  ho_updatedAt :: timestamp

record event_record =
  ev_eventId :: string
  ev_handoffId :: string
  ev_eventType :: event_type
  ev_executionStatus :: exec_status
  ev_reconciliationStatus :: recon_status
  ev_providerStatus :: "string option"
  ev_txHash :: "string option"
  ev_detail :: "string option"
  ev_metadata :: "(string \<times> json) list"
  ev_observedAt :: timestamp
  ev_requestId :: string
  ev_sourceApiKeyId :: "string option"
  ev_createdAt :: timestamp

datatype delivery_status = DS_pending | DS_delivering | DS_delivered | DS_failed | DS_dead_letter | DS_disabled

record delivery =
  cd_deliveryId :: string
  cd_handoffId :: string
  cd_eventId :: string
  cd_targetUrl :: string
  cd_requestBody :: json
  cd_status :: delivery_status
  cd_attemptCount :: nat
  cd_nextAttemptAt :: timestamp
  cd_lastAttemptedAt :: "timestamp option"
  cd_deliveredAt :: "timestamp option"
  cd_responseStatus :: "int option"
  cd_lastError :: "string option"
  cd_leaseOwner :: "string option"
  cd_leaseExpiresAt :: "timestamp option"
  cd_requestId :: string
  cd_createdAt :: timestamp
  cd_updatedAt :: timestamp

text \<open>An amount input is a string or a number; optional inputs may be absent or \<open>null\<close>.\<close>

record handoff_input =
  in_executionBinding :: "json nullish"
  in_platformId :: string
  in_platformHandoffId :: string
  in_tradeId :: string
  in_phase :: string
  in_settlementChannel :: string
  in_displayCurrency :: string
  in_displayAmount :: json
  in_assetSymbol :: "string nullish"
  in_assetAmount :: "json nullish"
  in_ricardianHash :: "string nullish"
  in_externalReference :: "string nullish"
  in_metadata :: "(string \<times> json) list option"
  in_requestId :: string
  in_sourceApiKeyId :: "string nullish"

record event_input =
  ei_handoffId :: string
  ei_eventType :: event_type
  ei_executionStatus :: exec_status
  ei_reconciliationStatus :: recon_status
  ei_providerStatus :: "string nullish"
  ei_txHash :: "string nullish"
  ei_detail :: "string nullish"
  ei_metadata :: "(string \<times> json) list option"
  ei_observedAt :: timestamp
  ei_requestId :: string
  ei_sourceApiKeyId :: "string nullish"
  ei_dedupeKey :: string

text \<open>\<open>cp_disabled\<close> tells the status \<open>'disabled'\<close> from \<open>'pending'\<close>; building the body may throw.\<close>

record callback_plan =
  cp_targetUrl :: string
  cp_requestId :: string
  cp_disabled :: bool
  cp_nextAttemptAt :: timestamp
  cp_buildRequestBody :: "handoff \<Rightarrow> event_record \<Rightarrow> gateway_error + json"

record projection =
  pj_handoffId :: string
  pj_platformId :: string
  pj_platformHandoffId :: string
  pj_phase :: string
  pj_settlementChannel :: string
  pj_displayCurrency :: string
  pj_displayAmount :: jsnum
  pj_executionStatus :: exec_status
  pj_reconciliationStatus :: recon_status
  pj_callbackStatus :: callback_status
  pj_providerStatus :: "string option"
  pj_txHash :: "string option"
  pj_externalReference :: "string option"
  pj_latestEventType :: "event_type option"
  pj_latestEventDetail :: "string option"
  pj_latestEventAt :: "timestamp option"
  pj_callbackDeliveredAt :: "timestamp option"
  pj_createdAt :: timestamp
  pj_updatedAt :: timestamp

record list_input =
  li_tradeId :: "string option"
  li_reconciliationStatus :: "recon_status option"
  li_executionStatus :: "exec_status option"
  li_limit :: nat
  li_offset :: nat

record list_result =
  lr_items :: "handoff list"
  lr_total :: nat
  lr_sourceFreshAt :: "timestamp option"

record store =
  st_handoffs :: "(string, handoff) jsmap"
  st_platformIndex :: "(string, string) jsmap"
  st_events :: "(string, event_record list) jsmap"
  st_eventDedupeIndex :: "(string, string) jsmap"
  st_deliveries :: "(string, delivery) jsmap"

section \<open>Operations\<close>

definition platform_key :: "string \<Rightarrow> string \<Rightarrow> string" where
  "platform_key platformId platformHandoffId = platformId @ '':'' @ platformHandoffId"

definition createInMemorySettlementStore :: "handoff list \<Rightarrow> store" where
  "createInMemorySettlementStore initialHandoffs =
    \<lparr>st_handoffs = fold (\<lambda>r. map_set (ho_handoffId r) r) initialHandoffs [],
     st_platformIndex = fold (\<lambda>r. map_set (platform_key (ho_platformId r) (ho_platformHandoffId r)) (ho_handoffId r))
       initialHandoffs [],
     st_events = [], st_eventDedupeIndex = [], st_deliveries = []\<rparr>"

definition byTrade :: "store \<Rightarrow> string \<Rightarrow> handoff option" where
  "byTrade st tradeId =
    (case sort_desc ho_updatedAt (filter (\<lambda>r. ho_tradeId r = tradeId) (map_values (st_handoffs st))) of
       [] \<Rightarrow> None | r # _ \<Rightarrow> Some r)"

text \<open>\<open>unknown\<close> view of an optional amount: \<open>undefined\<close>, \<open>null\<close> or the value.\<close>

fun json_input :: "json nullish \<Rightarrow> json option" where
  "json_input Undefined = None"
| "json_input Null = Some JNull"
| "json_input (Val v) = Some v"

fun binding_equal :: "json nullish \<Rightarrow> json nullish \<Rightarrow> bool" where
  "binding_equal (Val a) (Val b) = deep_equal a b"
| "binding_equal Null Null = True"
| "binding_equal Undefined Undefined = True"
| "binding_equal _ _ = False"

definition input_intent :: "handoff_input \<Rightarrow> gateway_error + monetary_intent" where
  "input_intent inp =
    rbind (parseSettlementAmount (Some (in_displayAmount inp)) ''displayAmount'' DISPLAY_AMOUNT_SPEC) (\<lambda>da.
    rbind (parseOptionalSettlementAmount (json_input (in_assetAmount inp)) ''assetAmount'' ASSET_AMOUNT_SPEC) (\<lambda>aa.
      Inr \<lparr>mi_displayCurrency = in_displayCurrency inp, mi_displayAmount = da,
           mi_assetSymbol = or_null (in_assetSymbol inp), mi_assetAmount = aa\<rparr>))"

definition stored_intent :: "handoff \<Rightarrow> gateway_error + monetary_intent" where
  "stored_intent h =
    rbind (parseSettlementAmount (Some (JNum (ho_displayAmount h))) ''displayAmount'' DISPLAY_AMOUNT_SPEC) (\<lambda>da.
    rbind (parseOptionalSettlementAmount (map_option JNum (ho_assetAmount h)) ''assetAmount'' ASSET_AMOUNT_SPEC) (\<lambda>aa.
      Inr \<lparr>mi_displayCurrency = ho_displayCurrency h, mi_displayAmount = da,
           mi_assetSymbol = ho_assetSymbol h, mi_assetAmount = aa\<rparr>))"

definition binding_differs :: "handoff \<Rightarrow> handoff_input \<Rightarrow> bool" where
  "binding_differs existing inp =
    ((in_phase inp = ''gasless_create_trade'' \<or> ho_phase existing = ''gasless_create_trade'') \<and>
     (\<not> truthy (or_null (in_sourceApiKeyId inp)) \<or>
      \<not> binding_equal (ho_executionBinding existing) (in_executionBinding inp) \<or>
      ho_phase existing \<noteq> in_phase inp \<or> ho_tradeId existing \<noteq> in_tradeId inp \<or>
      \<not> same_value (ho_ricardianHash existing) (in_ricardianHash inp) \<or>
      \<not> same_value (ho_externalReference existing) (in_externalReference inp)))"

definition new_handoff :: "string \<Rightarrow> timestamp \<Rightarrow> handoff_input \<Rightarrow> monetary_intent \<Rightarrow> handoff" where
  "new_handoff uuid now inp intent =
    \<lparr>ho_executionBinding = (case or_null (in_executionBinding inp) of None \<Rightarrow> Null | Some b \<Rightarrow> Val b),
     ho_handoffId = uuid, ho_platformId = in_platformId inp, ho_platformHandoffId = in_platformHandoffId inp,
     ho_tradeId = in_tradeId inp, ho_phase = in_phase inp, ho_settlementChannel = in_settlementChannel inp,
     ho_displayCurrency = in_displayCurrency inp,
     ho_displayAmount = settlementAmountToNumber (mi_displayAmount intent),
     ho_assetSymbol = mi_assetSymbol intent,
     ho_assetAmount = map_option settlementAmountToNumber (mi_assetAmount intent),
     ho_ricardianHash = or_null (in_ricardianHash inp), ho_externalReference = or_null (in_externalReference inp),
     ho_metadata = (case in_metadata inp of None \<Rightarrow> [] | Some m \<Rightarrow> m),
     ho_executionStatus = ES_pending, ho_reconciliationStatus = RS_pending, ho_callbackStatus = CS_pending,
     ho_providerStatus = None, ho_txHash = None, ho_latestEventId = None, ho_latestEventType = None,
     ho_latestEventDetail = None, ho_latestEventAt = None, ho_callbackDeliveredAt = None,
     ho_requestId = in_requestId inp, ho_sourceApiKeyId = or_null (in_sourceApiKeyId inp),
     ho_createdAt = now, ho_updatedAt = now\<rparr>"

definition createHandoff ::
  "string \<Rightarrow> timestamp \<Rightarrow> handoff_input \<Rightarrow> store \<Rightarrow> gateway_error + handoff \<times> store" where
  "createHandoff uuid now inp st =
    rbind (input_intent inp) (\<lambda>intent.
      let key = platform_key (in_platformId inp) (in_platformHandoffId inp);
          existingId = map_get (st_platformIndex st) key
      in if truthy existingId then
           (case map_get (st_handoffs st) (the existingId) of
              None \<Rightarrow> Inl (PlainError ''TypeError: existing is undefined'')
            | Some existing \<Rightarrow>
                if ho_sourceApiKeyId existing \<noteq> or_null (in_sourceApiKeyId inp) then
                  Inl (GatewayError 403 FORBIDDEN ''Handoff belongs to another service identity'' [])
                else if binding_differs existing inp then
                  Inl (GatewayError 409 CONFLICT ''Handoff key belongs to a different execution binding'' [])
                else
                  rbind (stored_intent existing) (\<lambda>stored.
                  rbind (assertSameMonetaryIntent stored intent) (\<lambda>_. Inr (existing, st))))
         else
           (let record = new_handoff uuid now inp intent in
            Inr (record, st\<lparr>st_handoffs := map_set (ho_handoffId record) record (st_handoffs st),
                            st_platformIndex := map_set key (ho_handoffId record) (st_platformIndex st)\<rparr>)))"

definition getHandoff :: "string \<Rightarrow> store \<Rightarrow> handoff option" where
  "getHandoff handoffId st = map_get (st_handoffs st) handoffId"

definition getHandoffByPlatformRef :: "string \<Rightarrow> string \<Rightarrow> store \<Rightarrow> handoff option" where
  "getHandoffByPlatformRef platformId platformHandoffId st =
    map_get (st_handoffs st)
      (case map_get (st_platformIndex st) (platform_key platformId platformHandoffId) of None \<Rightarrow> [] | Some i \<Rightarrow> i)"

definition listHandoffs :: "list_input \<Rightarrow> store \<Rightarrow> list_result" where
  "listHandoffs inp st =
    (let filtered = sort_desc (\<lambda>r. (ho_updatedAt r, ho_handoffId r))
       (filter (\<lambda>r. case li_executionStatus inp of None \<Rightarrow> True | Some s \<Rightarrow> ho_executionStatus r = s)
       (filter (\<lambda>r. case li_reconciliationStatus inp of None \<Rightarrow> True | Some s \<Rightarrow> ho_reconciliationStatus r = s)
       (filter (\<lambda>r. truthy (li_tradeId inp) \<longrightarrow> Some (ho_tradeId r) = li_tradeId inp)
         (map_values (st_handoffs st)))))
     in \<lparr>lr_items = slice (li_offset inp) (li_offset inp + li_limit inp) filtered,
         lr_total = length filtered,
         lr_sourceFreshAt = (case filtered of [] \<Rightarrow> None | r # _ \<Rightarrow> Some (ho_updatedAt r))\<rparr>)"

definition new_delivery ::
  "string \<Rightarrow> timestamp \<Rightarrow> string \<Rightarrow> string \<Rightarrow> json \<Rightarrow> callback_plan \<Rightarrow> delivery" where
  "new_delivery uuid now handoffId eventId body cb =
    \<lparr>cd_deliveryId = uuid, cd_handoffId = handoffId, cd_eventId = eventId, cd_targetUrl = cp_targetUrl cb,
     cd_requestBody = body, cd_status = (if cp_disabled cb then DS_disabled else DS_pending), cd_attemptCount = 0,
     cd_nextAttemptAt = cp_nextAttemptAt cb, cd_lastAttemptedAt = None, cd_deliveredAt = None,
     cd_responseStatus = None, cd_lastError = None, cd_leaseOwner = None, cd_leaseExpiresAt = None,
     cd_requestId = cp_requestId cb, cd_createdAt = now, cd_updatedAt = now\<rparr>"

definition new_event :: "string \<Rightarrow> timestamp \<Rightarrow> event_input \<Rightarrow> event_record" where
  "new_event uuid now inp =
    \<lparr>ev_eventId = uuid, ev_handoffId = ei_handoffId inp, ev_eventType = ei_eventType inp,
     ev_executionStatus = ei_executionStatus inp, ev_reconciliationStatus = ei_reconciliationStatus inp,
     ev_providerStatus = or_null (ei_providerStatus inp), ev_txHash = or_null (ei_txHash inp),
     ev_detail = or_null (ei_detail inp), ev_metadata = (case ei_metadata inp of None \<Rightarrow> [] | Some m \<Rightarrow> m),
     ev_observedAt = ei_observedAt inp, ev_requestId = ei_requestId inp,
     ev_sourceApiKeyId = or_null (ei_sourceApiKeyId inp), ev_createdAt = now\<rparr>"

definition applied_event :: "string \<Rightarrow> timestamp \<Rightarrow> event_input \<Rightarrow> handoff \<Rightarrow> handoff" where
  "applied_event eventId now inp h =
    h\<lparr>ho_executionStatus := ei_executionStatus inp, ho_reconciliationStatus := ei_reconciliationStatus inp,
      ho_callbackStatus := (if ho_callbackStatus h = CS_disabled then CS_disabled else CS_pending),
      ho_providerStatus := nullish_else (ei_providerStatus inp) (ho_providerStatus h),
      ho_txHash := nullish_else (ei_txHash inp) (ho_txHash h),
      ho_latestEventId := Some eventId, ho_latestEventType := Some (ei_eventType inp),
      ho_latestEventDetail := or_null (ei_detail inp), ho_latestEventAt := Some (ei_observedAt inp),
      ho_updatedAt := now\<rparr>"

definition events_of :: "store \<Rightarrow> string \<Rightarrow> event_record list" where
  "events_of st handoffId = (case map_get (st_events st) handoffId of None \<Rightarrow> [] | Some es \<Rightarrow> es)"

definition dedupe_key :: "string \<Rightarrow> string \<Rightarrow> string" where
  "dedupe_key handoffId k = handoffId @ '':'' @ k"

text \<open>A repeated event: the recorded event is returned, its delivery is created if it is missing.\<close>

definition replayExecutionEvent ::
  "string \<Rightarrow> timestamp \<Rightarrow> event_input \<Rightarrow> callback_plan \<Rightarrow> handoff \<Rightarrow> string \<Rightarrow> store \<Rightarrow>
   gateway_error + (handoff \<times> event_record \<times> delivery) \<times> store" where
  "replayExecutionEvent deliveryId now inp cb h existingEventId st =
    (case find (\<lambda>e. ev_eventId e = existingEventId) (events_of st (ei_handoffId inp)) of
       None \<Rightarrow> Inl (GatewayError 500 INTERNAL_ERROR ''Settlement event dedupe index is inconsistent''
                 [(''handoffId'', JStr (ei_handoffId inp)), (''eventId'', JStr existingEventId)])
     | Some event \<Rightarrow>
         (case find (\<lambda>d. cd_eventId d = ev_eventId event) (map_values (st_deliveries st)) of
            Some d \<Rightarrow> Inr ((h, event, d), st)
          | None \<Rightarrow>
              rbind (cp_buildRequestBody cb h event) (\<lambda>body.
                let d = new_delivery deliveryId now (ei_handoffId inp) (ev_eventId event) body cb;
                    h' = (if cp_disabled cb then h\<lparr>ho_callbackStatus := CS_disabled, ho_updatedAt := now\<rparr> else h)
                in Inr ((h', event, d),
                     st\<lparr>st_deliveries := map_set deliveryId d (st_deliveries st),
                        st_handoffs := (if cp_disabled cb then map_set (ei_handoffId inp) h' (st_handoffs st)
                                        else st_handoffs st)\<rparr>))))"

definition recordExecutionEvent ::
  "string \<Rightarrow> string \<Rightarrow> timestamp \<Rightarrow> event_input \<Rightarrow> callback_plan \<Rightarrow> store \<Rightarrow>
   gateway_error + (handoff \<times> event_record \<times> delivery) \<times> store" where
  "recordExecutionEvent eventId deliveryId now inp cb st =
    (case map_get (st_handoffs st) (ei_handoffId inp) of
       None \<Rightarrow> Inl (GatewayError 404 NOT_FOUND ''Settlement handoff not found''
                 [(''handoffId'', JStr (ei_handoffId inp))])
     | Some h \<Rightarrow>
         let dedupeIndexKey = dedupe_key (ei_handoffId inp) (ei_dedupeKey inp);
             existingEventId = map_get (st_eventDedupeIndex st) dedupeIndexKey
         in if truthy existingEventId then replayExecutionEvent deliveryId now inp cb h (the existingEventId) st
            else
              rbind (validateExecutionTransition (ho_executionStatus h) (ei_executionStatus inp) (ei_eventType inp))
              (\<lambda>_. let event = new_event eventId now inp; updatedHandoff = applied_event eventId now inp h in
                rbind (cp_buildRequestBody cb updatedHandoff event) (\<lambda>body.
                let d = new_delivery deliveryId now (ei_handoffId inp) eventId body cb;
                    finalHandoff = (if cp_disabled cb then updatedHandoff\<lparr>ho_callbackStatus := CS_disabled\<rparr>
                                    else updatedHandoff)
                in Inr ((finalHandoff, event, d),
                     st\<lparr>st_events := map_set (ei_handoffId inp) (event # events_of st (ei_handoffId inp)) (st_events st),
                        st_eventDedupeIndex := map_set dedupeIndexKey eventId (st_eventDedupeIndex st),
                        st_deliveries := map_set deliveryId d (st_deliveries st),
                        st_handoffs := map_set (ei_handoffId inp) finalHandoff (st_handoffs st)\<rparr>))))"

definition listExecutionEvents :: "string \<Rightarrow> store \<Rightarrow> event_record list" where
  "listExecutionEvents handoffId st = events_of st handoffId"

text \<open>A delivery is due, or ready to be leased, at \<open>now\<close>.\<close>

definition delivery_ready :: "timestamp \<Rightarrow> delivery \<Rightarrow> bool" where
  "delivery_ready now d =
    (((cd_status d = DS_pending \<or> cd_status d = DS_failed) \<and> cd_nextAttemptAt d \<le> now) \<or>
     (cd_status d = DS_delivering \<and> (case cd_leaseExpiresAt d of None \<Rightarrow> False | Some t \<Rightarrow> t \<le> now)))"

definition getDueCallbackDeliveries :: "nat \<Rightarrow> timestamp \<Rightarrow> store \<Rightarrow> delivery list" where
  "getDueCallbackDeliveries limit now st =
    take limit (sort_key (\<lambda>d. case cd_leaseExpiresAt d of None \<Rightarrow> cd_nextAttemptAt d | Some t \<Rightarrow> t)
      (filter (delivery_ready now) (map_values (st_deliveries st))))"

definition getCallbackDelivery :: "string \<Rightarrow> store \<Rightarrow> delivery option" where
  "getCallbackDelivery deliveryId st = map_get (st_deliveries st) deliveryId"

definition markCallbackDelivering ::
  "timestamp \<Rightarrow> string \<Rightarrow> string \<Rightarrow> timestamp \<Rightarrow> timestamp \<Rightarrow> store \<Rightarrow> delivery option \<times> store" where
  "markCallbackDelivering now deliveryId leaseOwner attemptedAt leaseExpiresAt st =
    (case map_get (st_deliveries st) deliveryId of
       None \<Rightarrow> (None, st)
     | Some d \<Rightarrow>
         if \<not> delivery_ready attemptedAt d then (None, st)
         else
           (let nxt = d\<lparr>cd_status := DS_delivering, cd_attemptCount := cd_attemptCount d + 1,
                  cd_lastAttemptedAt := Some attemptedAt, cd_leaseOwner := Some leaseOwner,
                  cd_leaseExpiresAt := Some leaseExpiresAt, cd_updatedAt := now\<rparr>
            in (Some nxt, st\<lparr>st_deliveries := map_set deliveryId nxt (st_deliveries st)\<rparr>)))"

text \<open>The handoff of a delivery, when the delivery is for its latest event.\<close>

definition update_latest_handoff :: "delivery \<Rightarrow> (handoff \<Rightarrow> handoff) \<Rightarrow> store \<Rightarrow> store" where
  "update_latest_handoff d f st =
    (case map_get (st_handoffs st) (cd_handoffId d) of
       None \<Rightarrow> st
     | Some h \<Rightarrow>
         if ho_latestEventId h = Some (cd_eventId d)
         then st\<lparr>st_handoffs := map_set (cd_handoffId d) (f h) (st_handoffs st)\<rparr> else st)"

definition holds_lease :: "string \<Rightarrow> delivery \<Rightarrow> bool" where
  "holds_lease leaseOwner d = (cd_status d = DS_delivering \<and> cd_leaseOwner d = Some leaseOwner)"

definition markCallbackDelivered ::
  "timestamp \<Rightarrow> timestamp \<Rightarrow> string \<Rightarrow> string \<Rightarrow> timestamp \<Rightarrow> int \<Rightarrow> store \<Rightarrow> bool \<times> store" where
  "markCallbackDelivered now now' deliveryId leaseOwner completedAt responseStatus st =
    (case map_get (st_deliveries st) deliveryId of
       None \<Rightarrow> (False, st)
     | Some d \<Rightarrow>
         if \<not> holds_lease leaseOwner d then (False, st)
         else (True,
           update_latest_handoff d
             (\<lambda>h. h\<lparr>ho_callbackStatus := CS_delivered, ho_callbackDeliveredAt := Some completedAt, ho_updatedAt := now'\<rparr>)
             (st\<lparr>st_deliveries := map_set deliveryId
                (d\<lparr>cd_status := DS_delivered, cd_deliveredAt := Some completedAt,
                   cd_responseStatus := Some responseStatus, cd_leaseOwner := None, cd_leaseExpiresAt := None,
                   cd_updatedAt := now\<rparr>) (st_deliveries st)\<rparr>)))"

record failure_update =
  fu_responseStatus :: "int nullish"
  fu_errorMessage :: string
  fu_nextAttemptAt :: timestamp
  fu_deadLetter :: bool

definition markCallbackFailed ::
  "timestamp \<Rightarrow> timestamp \<Rightarrow> string \<Rightarrow> string \<Rightarrow> failure_update \<Rightarrow> store \<Rightarrow> bool \<times> store" where
  "markCallbackFailed now now' deliveryId leaseOwner upd st =
    (case map_get (st_deliveries st) deliveryId of
       None \<Rightarrow> (False, st)
     | Some d \<Rightarrow>
         if \<not> holds_lease leaseOwner d then (False, st)
         else (True,
           update_latest_handoff d
             (\<lambda>h. h\<lparr>ho_callbackStatus := (if fu_deadLetter upd then CS_dead_letter else CS_failed), ho_updatedAt := now'\<rparr>)
             (st\<lparr>st_deliveries := map_set deliveryId
                (d\<lparr>cd_status := (if fu_deadLetter upd then DS_dead_letter else DS_failed),
                   cd_responseStatus := or_null (fu_responseStatus upd), cd_lastError := Some (fu_errorMessage upd),
                   cd_nextAttemptAt := fu_nextAttemptAt upd, cd_leaseOwner := None, cd_leaseExpiresAt := None,
                   cd_updatedAt := now\<rparr>) (st_deliveries st)\<rparr>)))"

definition requeueCallbackDelivery ::
  "timestamp \<Rightarrow> timestamp \<Rightarrow> string \<Rightarrow> timestamp \<Rightarrow> store \<Rightarrow> delivery option \<times> store" where
  "requeueCallbackDelivery now now' deliveryId nextAttemptAt st =
    (case map_get (st_deliveries st) deliveryId of
       None \<Rightarrow> (None, st)
     | Some d \<Rightarrow>
         if cd_status d \<noteq> DS_dead_letter then (None, st)
         else
           (let nxt = d\<lparr>cd_status := DS_pending, cd_nextAttemptAt := nextAttemptAt, cd_leaseOwner := None,
                  cd_leaseExpiresAt := None, cd_updatedAt := now\<rparr>
            in (Some nxt, update_latest_handoff d (\<lambda>h. h\<lparr>ho_callbackStatus := CS_pending, ho_updatedAt := now'\<rparr>)
                  (st\<lparr>st_deliveries := map_set deliveryId nxt (st_deliveries st)\<rparr>))))"

definition project_handoff :: "handoff \<Rightarrow> projection" where
  "project_handoff r =
    \<lparr>pj_handoffId = ho_handoffId r, pj_platformId = ho_platformId r, pj_platformHandoffId = ho_platformHandoffId r,
     pj_phase = ho_phase r, pj_settlementChannel = ho_settlementChannel r,
     pj_displayCurrency = ho_displayCurrency r, pj_displayAmount = ho_displayAmount r,
     pj_executionStatus = ho_executionStatus r, pj_reconciliationStatus = ho_reconciliationStatus r,
     pj_callbackStatus = ho_callbackStatus r, pj_providerStatus = ho_providerStatus r, pj_txHash = ho_txHash r,
     pj_externalReference = ho_externalReference r, pj_latestEventType = ho_latestEventType r,
     pj_latestEventDetail = ho_latestEventDetail r, pj_latestEventAt = ho_latestEventAt r,
     pj_callbackDeliveredAt = ho_callbackDeliveredAt r, pj_createdAt = ho_createdAt r, pj_updatedAt = ho_updatedAt r\<rparr>"

definition getTradeSettlementProjectionMap :: "string list \<Rightarrow> store \<Rightarrow> (string, projection) jsmap" where
  "getTradeSettlementProjectionMap tradeIds st =
    fold (\<lambda>tradeId m. case byTrade st tradeId of None \<Rightarrow> m | Some r \<Rightarrow> map_set tradeId (project_handoff r) m)
      tradeIds []"

end
