(* ===== verification/Store_Invariant.thy ===== *)
theory Store_Invariant
  imports Settlement_Store
begin

text \<open>
  The settlement store as a machine of operations, its invariant, and what follows from it over
  every run: idempotent writes, a consistent and append-only event log, the refinement of the
  execution state machine, and the lease protocol of the callback deliveries.

  Identifiers come from \<open>randomUUID()\<close>: \<open>ids_fresh\<close> states that a drawn identifier is a non-empty
  text without a colon that no record of its kind has; an operation whose identifiers do not satisfy
  it is not one the program performs, and the machine refuses it.
\<close>

section \<open>The machine\<close>

datatype store_op =
  Op_create string timestamp handoff_input
| Op_event string string timestamp event_input callback_plan
| Op_delivering timestamp string string timestamp timestamp
| Op_delivered timestamp timestamp string string timestamp int
| Op_failed timestamp timestamp string string failure_update
| Op_requeue timestamp timestamp string timestamp

datatype store_error = Store_threw gateway_error | Uuid_collision

definition uuid_text :: "string \<Rightarrow> bool" where
  "uuid_text i = (i \<noteq> [] \<and> CHR '':'' \<notin> set i)"

fun ids_fresh :: "store_op \<Rightarrow> store \<Rightarrow> bool" where
  "ids_fresh (Op_create i _ _) st = (uuid_text i \<and> map_get (st_handoffs st) i = None)"
| "ids_fresh (Op_event e d _ _ _) st =
     (uuid_text e \<and> uuid_text d \<and> map_get (st_deliveries st) d = None \<and>
      list_all (\<lambda>es. e \<notin> ev_eventId ` set es) (map_values (st_events st)))"
| "ids_fresh _ st = True"

fun outcome :: "gateway_error + 'a \<times> store \<Rightarrow> store_error + store" where
  "outcome (Inl e) = Inl (Store_threw e)"
| "outcome (Inr r) = Inr (snd r)"

definition store_step :: "store_op \<Rightarrow> store \<Rightarrow> store_error + store" where
  "store_step op st =
    (if \<not> ids_fresh op st then Inl Uuid_collision
     else case op of
       Op_create i now inp \<Rightarrow> outcome (createHandoff i now inp st)
     | Op_event e d now inp cb \<Rightarrow> outcome (recordExecutionEvent e d now inp cb st)
     | Op_delivering now i owner at exp \<Rightarrow> Inr (snd (markCallbackDelivering now i owner at exp st))
     | Op_delivered now now' i owner at code \<Rightarrow> Inr (snd (markCallbackDelivered now now' i owner at code st))
     | Op_failed now now' i owner upd \<Rightarrow> Inr (snd (markCallbackFailed now now' i owner upd st))
     | Op_requeue now now' i at \<Rightarrow> Inr (snd (requeueCallbackDelivery now now' i at st)))"

section \<open>The invariant\<close>

text \<open>The log of a handoff, newest first, is a history of the execution machine from \<open>pending\<close>.\<close>

fun logged_status :: "event_record list \<Rightarrow> exec_status" where
  "logged_status [] = ES_pending"
| "logged_status (e # es) = ev_executionStatus e"

fun valid_history :: "event_record list \<Rightarrow> bool" where
  "valid_history [] = True"
| "valid_history (e # es) =
     (execution_step (ev_eventType e, ev_executionStatus e) (logged_status es) = Inr (ev_executionStatus e) \<and>
      valid_history es)"

definition handoff_ok :: "store \<Rightarrow> string \<Rightarrow> handoff \<Rightarrow> bool" where
  "handoff_ok st i h =
    (ho_handoffId h = i \<and> uuid_text i \<and>
     map_get (st_platformIndex st) (platform_key (ho_platformId h) (ho_platformHandoffId h)) = Some i \<and>
     (\<exists>m. stored_intent h = Inr m) \<and>
     ho_latestEventId h = (case events_of st i of [] \<Rightarrow> None | e # _ \<Rightarrow> Some (ev_eventId e)) \<and>
     ho_executionStatus h = logged_status (events_of st i))"

definition delivery_ok :: "store \<Rightarrow> string \<Rightarrow> delivery \<Rightarrow> bool" where
  "delivery_ok st i d =
    (cd_deliveryId d = i \<and> (cd_leaseOwner d \<noteq> None \<longleftrightarrow> cd_status d = DS_delivering) \<and>
     (cd_leaseExpiresAt d \<noteq> None \<longleftrightarrow> cd_status d = DS_delivering) \<and>
     cd_eventId d \<in> ev_eventId ` set (events_of st (cd_handoffId d)))"

definition event_ok :: "store \<Rightarrow> string \<Rightarrow> event_record \<Rightarrow> bool" where
  "event_ok st i e =
    (ev_handoffId e = i \<and> uuid_text (ev_eventId e) \<and>
     (\<exists>k d. map_get (st_deliveries st) k = Some d \<and> cd_eventId d = ev_eventId e))"

definition dedupe_ok :: "store \<Rightarrow> string \<Rightarrow> string \<Rightarrow> bool" where
  "dedupe_ok st key e =
    (e \<noteq> [] \<and> (\<exists>i k. key = dedupe_key i k \<and> CHR '':'' \<notin> set i \<and> e \<in> ev_eventId ` set (events_of st i)))"

definition store_wf :: "store \<Rightarrow> bool" where
  "store_wf st =
    (map_wf (st_deliveries st) \<and>
     (\<forall>i h. map_get (st_handoffs st) i = Some h \<longrightarrow> handoff_ok st i h) \<and>
     (\<forall>k i. map_get (st_platformIndex st) k = Some i \<longrightarrow>
        (\<exists>h. map_get (st_handoffs st) i = Some h \<and> platform_key (ho_platformId h) (ho_platformHandoffId h) = k)) \<and>
     (\<forall>i. valid_history (events_of st i) \<and> (events_of st i \<noteq> [] \<longrightarrow> map_get (st_handoffs st) i \<noteq> None)) \<and>
     (\<forall>i. \<forall>e \<in> set (events_of st i). event_ok st i e) \<and>
     (\<forall>k e. map_get (st_eventDedupeIndex st) k = Some e \<longrightarrow> dedupe_ok st k e) \<and>
     (\<forall>i d. map_get (st_deliveries st) i = Some d \<longrightarrow> delivery_ok st i d))"

lemma store_wfD:
  assumes "store_wf st"
  shows "map_wf (st_deliveries st)"
    and "map_get (st_handoffs st) i = Some h \<Longrightarrow> handoff_ok st i h"
    and "map_get (st_platformIndex st) k = Some i \<Longrightarrow>
      \<exists>h. map_get (st_handoffs st) i = Some h \<and> platform_key (ho_platformId h) (ho_platformHandoffId h) = k"
    and "valid_history (events_of st i)"
    and "events_of st i \<noteq> [] \<Longrightarrow> map_get (st_handoffs st) i \<noteq> None"
    and "e \<in> set (events_of st i) \<Longrightarrow> event_ok st i e"
    and "map_get (st_eventDedupeIndex st) k = Some ei \<Longrightarrow> dedupe_ok st k ei"
    and "map_get (st_deliveries st) i = Some d \<Longrightarrow> delivery_ok st i d"
  using assms unfolding store_wf_def by blast+

lemma createInMemorySettlementStore_empty [simp]: "store_wf (createInMemorySettlementStore [])"
  by (simp add: store_wf_def createInMemorySettlementStore_def events_of_def)

lemma events_of_update [simp]:
  "events_of (st\<lparr>st_handoffs := x\<rparr>) i = events_of st i" "events_of (st\<lparr>st_deliveries := y\<rparr>) i = events_of st i"
  "events_of (st\<lparr>st_platformIndex := z\<rparr>) i = events_of st i"
  by (simp_all add: events_of_def)

subsection \<open>Operations on deliveries\<close>

text \<open>
  The parts of a handoff and of a delivery the invariant reads; the delivery operations change
  neither a handoff's core nor a delivery's identity.
\<close>

definition same_core :: "handoff \<Rightarrow> handoff \<Rightarrow> bool" where
  "same_core h h' =
    (ho_handoffId h' = ho_handoffId h \<and> ho_platformId h' = ho_platformId h \<and>
     ho_platformHandoffId h' = ho_platformHandoffId h \<and> stored_intent h' = stored_intent h \<and>
     ho_latestEventId h' = ho_latestEventId h \<and> ho_executionStatus h' = ho_executionStatus h)"

lemma wf_put_handoff:
  assumes "store_wf st" and "map_get (st_handoffs st) i = Some h" and "same_core h h'"
  shows "store_wf (st\<lparr>st_handoffs := map_set i h' (st_handoffs st)\<rparr>)"
proof -
  have "\<exists>g. map_get (map_set i h' (st_handoffs st)) j = Some g \<and>
      platform_key (ho_platformId g) (ho_platformHandoffId g) = k"
    if "map_get (st_platformIndex st) k = Some j" for k j
    using store_wfD(3) [OF assms(1) that] assms(2,3) by (auto simp: js_map.get_put same_core_def)
  moreover have "handoff_ok (st\<lparr>st_handoffs := map_set i h' (st_handoffs st)\<rparr>) j g"
    if "map_get (map_set i h' (st_handoffs st)) j = Some g" for j g
    using that store_wfD(2) [OF assms(1)] assms(2,3)
    by (fastforce simp: js_map.get_put handoff_ok_def same_core_def split: if_splits)
  ultimately show ?thesis using assms(1) unfolding store_wf_def
    by (simp add: js_map.get_put event_ok_def dedupe_ok_def delivery_ok_def)
qed

lemma wf_put_delivery:
  assumes "store_wf st" and "delivery_ok st i d"
    and "\<And>d0. map_get (st_deliveries st) i = Some d0 \<Longrightarrow> cd_eventId d = cd_eventId d0"
  shows "store_wf (st\<lparr>st_deliveries := map_set i d (st_deliveries st)\<rparr>)"
proof -
  have "event_ok (st\<lparr>st_deliveries := map_set i d (st_deliveries st)\<rparr>) j e" if "event_ok st j e" for j e
  proof -
    from that obtain k d0 where k: "map_get (st_deliveries st) k = Some d0" "cd_eventId d0 = ev_eventId e"
      by (auto simp: event_ok_def)
    show ?thesis
    proof (cases "k = i")
      case True
      then show ?thesis using that assms(3) k by (auto simp: event_ok_def js_map.get_put)
    next
      case False
      then show ?thesis using that k by (auto simp: event_ok_def js_map.get_put)
    qed
  qed
  then show ?thesis using assms(1,2) unfolding store_wf_def
    by (auto simp: js_map.get_put js_map.wf_put handoff_ok_def delivery_ok_def dedupe_ok_def)
qed

lemma wf_update_latest:
  assumes "store_wf st" and "\<And>h. same_core h (f h)"
  shows "store_wf (update_latest_handoff d f st)"
  using assms wf_put_handoff by (auto simp: update_latest_handoff_def split: option.splits)

lemma stored_intent_cong:
  "stored_intent (h\<lparr>ho_callbackStatus := a\<rparr>) = stored_intent h"
  "stored_intent (h\<lparr>ho_callbackDeliveredAt := b\<rparr>) = stored_intent h"
  "stored_intent (h\<lparr>ho_updatedAt := c\<rparr>) = stored_intent h"
  "stored_intent (applied_event ei now inp h) = stored_intent h"
  by (simp_all add: stored_intent_def applied_event_def)

lemma delivering_wf:
  "store_wf st \<Longrightarrow> store_wf (snd (markCallbackDelivering now i owner at exp st))"
  using store_wfD(8) [of st i]
  by (auto simp: markCallbackDelivering_def Let_def delivery_ok_def split: option.splits intro!: wf_put_delivery)

lemma delivered_wf:
  "store_wf st \<Longrightarrow> store_wf (snd (markCallbackDelivered now now' i owner at code st))"
  using store_wfD(8) [of st i]
  by (auto simp: markCallbackDelivered_def delivery_ok_def same_core_def stored_intent_cong
      split: option.splits intro!: wf_update_latest wf_put_delivery)

lemma failed_wf:
  "store_wf st \<Longrightarrow> store_wf (snd (markCallbackFailed now now' i owner upd st))"
  using store_wfD(8) [of st i]
  by (auto simp: markCallbackFailed_def delivery_ok_def same_core_def stored_intent_cong
      split: option.splits intro!: wf_update_latest wf_put_delivery)

lemma requeue_wf:
  "store_wf st \<Longrightarrow> store_wf (snd (requeueCallbackDelivery now now' i at st))"
  using store_wfD(8) [of st i]
  by (auto simp: requeueCallbackDelivery_def Let_def delivery_ok_def same_core_def stored_intent_cong
      split: option.splits intro!: wf_update_latest wf_put_delivery)

subsection \<open>Creating a handoff\<close>

lemma new_handoff_intent:
  assumes "input_intent inp = Inr intent"
  shows "stored_intent (new_handoff i now inp intent) = Inr intent"
proof -
  from assms obtain da aa where d: "parseSettlementAmount (Some (in_displayAmount inp)) ''displayAmount'' DISPLAY_AMOUNT_SPEC = Inr da"
    and a: "parseOptionalSettlementAmount (json_input (in_assetAmount inp)) ''assetAmount'' ASSET_AMOUNT_SPEC = Inr aa"
    and i: "intent = \<lparr>mi_displayCurrency = in_displayCurrency inp, mi_displayAmount = da,
       mi_assetSymbol = or_null (in_assetSymbol inp), mi_assetAmount = aa\<rparr>"
    by (auto simp: input_intent_def rbind_Inr_iff)
  note parse_published_number [OF parse_amount_canonical [OF d], of "''displayAmount''"]
  moreover have "parseOptionalSettlementAmount (map_option JNum (map_option settlementAmountToNumber aa))
      ''assetAmount'' ASSET_AMOUNT_SPEC = Inr aa"
    using a parse_published_number [OF parse_amount_canonical]
    by (auto simp: parseOptionalSettlementAmount_def rbind_Inr_iff split: if_splits)
  ultimately show ?thesis by (simp add: stored_intent_def new_handoff_def i)
qed

lemma new_handoff_fields [simp]:
  "ho_handoffId (new_handoff i now inp intent) = i"
  "ho_platformId (new_handoff i now inp intent) = in_platformId inp"
  "ho_platformHandoffId (new_handoff i now inp intent) = in_platformHandoffId inp"
  "ho_latestEventId (new_handoff i now inp intent) = None"
  "ho_executionStatus (new_handoff i now inp intent) = ES_pending"
  "ho_sourceApiKeyId (new_handoff i now inp intent) = or_null (in_sourceApiKeyId inp)"
  "ho_phase (new_handoff i now inp intent) = in_phase inp"
  "ho_tradeId (new_handoff i now inp intent) = in_tradeId inp"
  by (simp_all add: new_handoff_def)

lemma known_id_truthy:
  assumes "store_wf st"
  shows "truthy (map_get (st_platformIndex st) k) \<longleftrightarrow> map_get (st_platformIndex st) k \<noteq> None"
    and "truthy (map_get (st_eventDedupeIndex st) k) \<longleftrightarrow> map_get (st_eventDedupeIndex st) k \<noteq> None"
  using store_wfD(2,3,7) [OF assms]
  by (fastforce simp: truthy_def handoff_ok_def uuid_text_def dedupe_ok_def split: option.splits)+

lemma wf_new_handoff:
  assumes "store_wf st" and "ids_fresh (Op_create i now inp) st" and "input_intent inp = Inr intent"
    and "map_get (st_platformIndex st) (platform_key (in_platformId inp) (in_platformHandoffId inp)) = None"
  shows "store_wf (st\<lparr>st_handoffs := map_set i (new_handoff i now inp intent) (st_handoffs st),
    st_platformIndex := map_set (platform_key (in_platformId inp) (in_platformHandoffId inp)) i (st_platformIndex st)\<rparr>)"
    (is "store_wf ?st")
proof -
  let ?h = "new_handoff i now inp intent" and ?k = "platform_key (in_platformId inp) (in_platformHandoffId inp)"
  have fresh: "uuid_text i" "map_get (st_handoffs st) i = None" using assms(2) by auto
  then have none: "events_of st i = []" using store_wfD(5) [OF assms(1), of i] by auto
  have "handoff_ok ?st j g" if "map_get (map_set i ?h (st_handoffs st)) j = Some g" for j g
  proof (cases "j = i")
    case True
    then show ?thesis using that fresh none new_handoff_intent [OF assms(3), of i now]
      by (auto simp: handoff_ok_def)
  next
    case False
    then have ok: "handoff_ok st j g" using that store_wfD(2) [OF assms(1)] by simp
    then have "platform_key (ho_platformId g) (ho_platformHandoffId g) \<noteq> ?k"
      using assms(4) by (auto simp: handoff_ok_def)
    then show ?thesis using ok by (simp add: handoff_ok_def)
  qed
  moreover have "\<exists>g. map_get (map_set i ?h (st_handoffs st)) j = Some g \<and>
      platform_key (ho_platformId g) (ho_platformHandoffId g) = k"
    if "map_get (map_set ?k i (st_platformIndex st)) k = Some j" for k j
  proof (cases "k = ?k")
    case True
    then show ?thesis using that by auto
  next
    case False
    then show ?thesis using that store_wfD(3) [OF assms(1), of k j] fresh by (auto simp: js_map.get_put)
  qed
  ultimately show ?thesis using assms(1) unfolding store_wf_def
    by (simp add: js_map.get_put event_ok_def dedupe_ok_def delivery_ok_def)
qed

lemma create_wf:
  assumes "store_wf st" and "ids_fresh (Op_create i now inp) st" and "createHandoff i now inp st = Inr (h, st')"
  shows "store_wf st'"
proof -
  from assms(3) obtain intent where i: "input_intent inp = Inr intent"
    by (auto simp: createHandoff_def rbind_Inr_iff)
  show ?thesis
  proof (cases "map_get (st_platformIndex st) (platform_key (in_platformId inp) (in_platformHandoffId inp))")
    case None
    then have "st' = st\<lparr>st_handoffs := map_set i (new_handoff i now inp intent) (st_handoffs st),
        st_platformIndex := map_set (platform_key (in_platformId inp) (in_platformHandoffId inp)) i (st_platformIndex st)\<rparr>"
      using assms(3) i by (auto simp: createHandoff_def truthy_def Let_def)
    then show ?thesis using wf_new_handoff [OF assms(1,2) i None] by simp
  next
    case (Some j)
    then have "truthy (map_get (st_platformIndex st) (platform_key (in_platformId inp) (in_platformHandoffId inp)))"
      using known_id_truthy(1) [OF assms(1)] by blast
    then have "st' = st" using assms(3) i
      by (auto simp: createHandoff_def Let_def rbind_Inr_iff split: option.splits if_splits)
    then show ?thesis using assms(1) by simp
  qed
qed

subsection \<open>Recording an execution event\<close>

lemma find_ex:
  assumes "x \<in> set xs" and "P x"
  obtains y where "find P xs = Some y" and "P y" and "y \<in> set xs"
  using assms by (cases "find P xs") (auto simp: find_None_iff find_Some_iff)

text \<open>In a well-formed store a repeated event finds its record and its delivery.\<close>

lemma replay_finds:
  assumes "store_wf st" and "map_get (st_handoffs st) (ei_handoffId inp) = Some h"
    and "map_get (st_eventDedupeIndex st) (dedupe_key (ei_handoffId inp) (ei_dedupeKey inp)) = Some e"
  shows "\<exists>ev d. recordExecutionEvent eventId deliveryId now inp cb st = Inr ((h, ev, d), st) \<and>
    ev_eventId ev = e \<and> ev \<in> set (events_of st (ei_handoffId inp)) \<and> cd_eventId d = e \<and>
    d \<in> set (map_values (st_deliveries st))"
proof -
  let ?i = "ei_handoffId inp"
  from store_wfD(7) [OF assms(1,3)] obtain i k where k: "dedupe_key ?i (ei_dedupeKey inp) = dedupe_key i k"
    "CHR '':'' \<notin> set i" "e \<in> ev_eventId ` set (events_of st i)" "e \<noteq> []" by (auto simp: dedupe_ok_def)
  have "CHR '':'' \<notin> set ?i" using store_wfD(2) [OF assms(1,2)] by (simp add: handoff_ok_def uuid_text_def)
  then have "i = ?i" using separator_split [of ?i _ _ i] k(1,2) by (auto simp: dedupe_key_def)
  then obtain ev0 where "ev0 \<in> set (events_of st ?i)" "ev_eventId ev0 = e" using k(3) by auto
  then obtain ev where ev: "find (\<lambda>x. ev_eventId x = e) (events_of st ?i) = Some ev" "ev_eventId ev = e"
    "ev \<in> set (events_of st ?i)" by (rule find_ex)
  from store_wfD(6) [OF assms(1) ev(3)] obtain j d0 where "map_get (st_deliveries st) j = Some d0" "cd_eventId d0 = e"
    using ev(2) by (auto simp: event_ok_def)
  then have "d0 \<in> set (map_values (st_deliveries st))" "cd_eventId d0 = e"
    using js_map.vals_get [OF store_wfD(1) [OF assms(1)]] by auto
  then obtain d where d: "find (\<lambda>x. cd_eventId x = e) (map_values (st_deliveries st)) = Some d" "cd_eventId d = e"
    "d \<in> set (map_values (st_deliveries st))" by (rule find_ex)
  have "recordExecutionEvent eventId deliveryId now inp cb st = Inr ((h, ev, d), st)"
    using assms(2,3) ev(1,2) d(1) k(4)
    by (simp add: recordExecutionEvent_def replayExecutionEvent_def truthy_def)
  then show ?thesis using ev d by blast
qed

text \<open>A new event: what the store becomes.\<close>

definition with_event :: "string \<Rightarrow> string \<Rightarrow> timestamp \<Rightarrow> event_input \<Rightarrow> handoff \<Rightarrow> delivery \<Rightarrow> store \<Rightarrow> store" where
  "with_event eventId deliveryId now inp h d st =
    st\<lparr>st_events := map_set (ei_handoffId inp) (new_event eventId now inp # events_of st (ei_handoffId inp)) (st_events st),
       st_eventDedupeIndex := map_set (dedupe_key (ei_handoffId inp) (ei_dedupeKey inp)) eventId (st_eventDedupeIndex st),
       st_deliveries := map_set deliveryId d (st_deliveries st),
       st_handoffs := map_set (ei_handoffId inp) h (st_handoffs st)\<rparr>"

lemma events_of_with_event:
  "events_of (with_event ei di now inp h d st) j =
    (if j = ei_handoffId inp then new_event ei now inp # events_of st j else events_of st j)"
  by (simp add: events_of_def with_event_def js_map.get_put)

lemma with_event_fields [simp]:
  "st_handoffs (with_event ei di now inp h d st) = map_set (ei_handoffId inp) h (st_handoffs st)"
  "st_platformIndex (with_event ei di now inp h d st) = st_platformIndex st"
  "st_deliveries (with_event ei di now inp h d st) = map_set di d (st_deliveries st)"
  "st_eventDedupeIndex (with_event ei di now inp h d st) =
    map_set (dedupe_key (ei_handoffId inp) (ei_dedupeKey inp)) ei (st_eventDedupeIndex st)"
  by (simp_all add: with_event_def)

lemma new_event_fields [simp]:
  "ev_eventId (new_event e now inp) = e" "ev_handoffId (new_event e now inp) = ei_handoffId inp"
  "ev_eventType (new_event e now inp) = ei_eventType inp"
  "ev_executionStatus (new_event e now inp) = ei_executionStatus inp"
  by (simp_all add: new_event_def)

lemma new_delivery_fields [simp]:
  "cd_deliveryId (new_delivery i now hid e body cb) = i" "cd_handoffId (new_delivery i now hid e body cb) = hid"
  "cd_eventId (new_delivery i now hid e body cb) = e" "cd_leaseOwner (new_delivery i now hid e body cb) = None"
  "cd_leaseExpiresAt (new_delivery i now hid e body cb) = None"
  "cd_status (new_delivery i now hid e body cb) = (if cp_disabled cb then DS_disabled else DS_pending)"
  by (simp_all add: new_delivery_def)

lemma record_new_event:
  assumes "recordExecutionEvent eventId deliveryId now inp cb st = Inr ((h', ev, d), st')"
    and "map_get (st_handoffs st) (ei_handoffId inp) = Some h"
    and "\<not> truthy (map_get (st_eventDedupeIndex st) (dedupe_key (ei_handoffId inp) (ei_dedupeKey inp)))"
  shows "\<exists>body. execution_step (ei_eventType inp, ei_executionStatus inp) (ho_executionStatus h) = Inr (ei_executionStatus inp) \<and>
    cp_buildRequestBody cb (applied_event eventId now inp h) ev = Inr body \<and> ev = new_event eventId now inp \<and>
    d = new_delivery deliveryId now (ei_handoffId inp) eventId body cb \<and>
    h' = (if cp_disabled cb then (applied_event eventId now inp h)\<lparr>ho_callbackStatus := CS_disabled\<rparr>
          else applied_event eventId now inp h) \<and>
    st' = with_event eventId deliveryId now inp h' d st"
  using assms
  by (auto simp: recordExecutionEvent_def rbind_Inr_iff Let_def execution_step_def with_event_def)

lemma event_ok_with_event:
  assumes "store_wf st" and "uuid_text ei" and "map_get (st_deliveries st) di = None" and "cd_eventId d = ei"
    and "e \<in> set (events_of (with_event ei di now inp h' d st) j)"
  shows "event_ok (with_event ei di now inp h' d st) j e" (is "event_ok ?st j e")
proof (cases "event_ok st j e")
  case True
  then obtain k x where k: "map_get (st_deliveries st) k = Some x" "cd_eventId x = ev_eventId e"
    by (auto simp: event_ok_def)
  then have "map_get (st_deliveries ?st) k = Some x" using assms(3) by (auto simp: js_map.get_put)
  then show ?thesis using True k(2) unfolding event_ok_def by blast
next
  case False
  then have "j = ei_handoffId inp" "e = new_event ei now inp"
    using assms(5) store_wfD(6) [OF assms(1), of e j] by (auto simp: events_of_with_event split: if_splits)
  moreover have "map_get (st_deliveries ?st) di = Some d" by simp
  ultimately show ?thesis unfolding event_ok_def using assms(2,4) new_event_fields(1,2) by metis
qed

lemma dedupe_ok_with_event:
  assumes "store_wf st" and "uuid_text ei" and "CHR '':'' \<notin> set (ei_handoffId inp)"
    and "map_get (st_eventDedupeIndex (with_event ei di now inp h' d st)) k = Some e"
  shows "dedupe_ok (with_event ei di now inp h' d st) k e" (is "dedupe_ok ?st k e")
proof (cases "k = dedupe_key (ei_handoffId inp) (ei_dedupeKey inp)")
  case True
  then have "e = ei" using assms(4) by simp
  moreover have "ei \<in> ev_eventId ` set (events_of ?st (ei_handoffId inp))" by (simp add: events_of_with_event)
  ultimately show ?thesis using True assms(2,3) unfolding dedupe_ok_def uuid_text_def by blast
next
  case False
  then have "dedupe_ok st k e" using assms(4) store_wfD(7) [OF assms(1), of k e] by simp
  moreover have "ev_eventId ` set (events_of st j) \<subseteq> ev_eventId ` set (events_of ?st j)" for j
    by (auto simp: events_of_with_event)
  ultimately show ?thesis unfolding dedupe_ok_def by blast
qed

lemma wf_with_event:
  assumes "store_wf st" and "map_get (st_handoffs st) (ei_handoffId inp) = Some h"
    and "ids_fresh (Op_event ei di now inp cb) st"
    and "execution_step (ei_eventType inp, ei_executionStatus inp) (ho_executionStatus h) = Inr (ei_executionStatus inp)"
    and "d = new_delivery di now (ei_handoffId inp) ei body cb"
    and "ho_handoffId h' = ho_handoffId h" "ho_platformId h' = ho_platformId h"
    and "ho_platformHandoffId h' = ho_platformHandoffId h" "stored_intent h' = stored_intent h"
    and "ho_latestEventId h' = Some ei" "ho_executionStatus h' = ei_executionStatus inp"
  shows "store_wf (with_event ei di now inp h' d st)" (is "store_wf ?st")
proof -
  let ?i = "ei_handoffId inp"
  have ok: "handoff_ok st ?i h" by (rule store_wfD(2) [OF assms(1,2)])
  then have nc: "CHR '':'' \<notin> set ?i" by (simp add: handoff_ok_def uuid_text_def)
  have fresh: "uuid_text ei" "map_get (st_deliveries st) di = None" using assms(3) by auto
  have more: "ev_eventId ` set (events_of st j) \<subseteq> ev_eventId ` set (events_of ?st j)" for j
    by (auto simp: events_of_with_event)
  have "handoff_ok ?st j g" if "map_get (st_handoffs ?st) j = Some g" for j g
    using that ok store_wfD(2) [OF assms(1), of j g] assms(6-11)
    by (cases "j = ?i") (auto simp: handoff_ok_def events_of_with_event)
  moreover have "\<exists>g. map_get (st_handoffs ?st) j = Some g \<and> platform_key (ho_platformId g) (ho_platformHandoffId g) = k"
    if "map_get (st_platformIndex ?st) k = Some j" for k j
    using store_wfD(3) [OF assms(1) that [simplified]] assms(2,7,8) by (auto simp: js_map.get_put)
  moreover have "valid_history (events_of ?st j) \<and> (events_of ?st j \<noteq> [] \<longrightarrow> map_get (st_handoffs ?st) j \<noteq> None)" for j
    using store_wfD(4,5) [OF assms(1), of j] assms(4) ok
    by (auto simp: events_of_with_event js_map.get_put handoff_ok_def)
  moreover have "event_ok ?st j e" if "e \<in> set (events_of ?st j)" for j e
    by (rule event_ok_with_event [OF assms(1) fresh _ that]) (simp add: assms(5))
  moreover have "dedupe_ok ?st k e" if "map_get (st_eventDedupeIndex ?st) k = Some e" for k e
    by (rule dedupe_ok_with_event [OF assms(1) fresh(1) nc that])
  moreover have "delivery_ok ?st k x" if "map_get (st_deliveries ?st) k = Some x" for k x
    using that store_wfD(8) [OF assms(1), of k x] more [of "cd_handoffId x"] assms(5)
    by (cases "k = di") (auto simp: delivery_ok_def events_of_with_event split: if_splits)
  moreover have "map_wf (st_deliveries ?st)" by (simp add: js_map.wf_put store_wfD(1) [OF assms(1)])
  ultimately show ?thesis unfolding store_wf_def by blast
qed

lemma applied_event_fields [simp]:
  "ho_handoffId (applied_event ei now inp h) = ho_handoffId h"
  "ho_platformId (applied_event ei now inp h) = ho_platformId h"
  "ho_platformHandoffId (applied_event ei now inp h) = ho_platformHandoffId h"
  "ho_latestEventId (applied_event ei now inp h) = Some ei"
  "ho_executionStatus (applied_event ei now inp h) = ei_executionStatus inp"
  by (simp_all add: applied_event_def)

text \<open>A recorded event is a replay that changes nothing, or a new event of the log.\<close>

lemma record_cases:
  assumes "store_wf st" and "recordExecutionEvent ei di now inp cb st = Inr (r, st')"
  obtains (replay) e where "st' = st"
      "map_get (st_eventDedupeIndex st) (dedupe_key (ei_handoffId inp) (ei_dedupeKey inp)) = Some e"
  | (fresh) h h' d body where "map_get (st_handoffs st) (ei_handoffId inp) = Some h"
      "execution_step (ei_eventType inp, ei_executionStatus inp) (ho_executionStatus h) = Inr (ei_executionStatus inp)"
      "d = new_delivery di now (ei_handoffId inp) ei body cb" "r = (h', new_event ei now inp, d)"
      "h' = (if cp_disabled cb then (applied_event ei now inp h)\<lparr>ho_callbackStatus := CS_disabled\<rparr>
             else applied_event ei now inp h)"
      "st' = with_event ei di now inp h' d st"
proof -
  from assms(2) obtain h where h: "map_get (st_handoffs st) (ei_handoffId inp) = Some h"
    by (cases "map_get (st_handoffs st) (ei_handoffId inp)") (auto simp: recordExecutionEvent_def)
  obtain h' ev d where r: "r = (h', ev, d)" by (cases r) auto
  show thesis
  proof (cases "map_get (st_eventDedupeIndex st) (dedupe_key (ei_handoffId inp) (ei_dedupeKey inp))")
    case None
    then have "\<not> truthy (map_get (st_eventDedupeIndex st) (dedupe_key (ei_handoffId inp) (ei_dedupeKey inp)))"
      by (simp add: truthy_def)
    from record_new_event [OF assms(2) [unfolded r] h this] show thesis using fresh h r by blast
  next
    case (Some e)
    from replay_finds [OF assms(1) h Some, of ei di now cb] assms(2) have "st' = st" by auto
    then show thesis using replay Some by blast
  qed
qed

lemma event_wf:
  assumes "store_wf st" and "ids_fresh (Op_event ei di now inp cb) st"
    and "recordExecutionEvent ei di now inp cb st = Inr (r, st')"
  shows "store_wf st'"
  using assms(1,3)
proof (cases rule: record_cases)
  case (fresh h h' d body)
  then show ?thesis using wf_with_event [OF assms(1) fresh(1) assms(2) fresh(2,3), of h']
    by (simp add: stored_intent_cong)
qed (use assms(1) in simp)

lemma store_step_cases:
  assumes "store_step op st = Inr st'"
  obtains (create) i now inp h where "op = Op_create i now inp" "createHandoff i now inp st = Inr (h, st')"
  | (event) e d now inp cb r where "op = Op_event e d now inp cb" "recordExecutionEvent e d now inp cb st = Inr (r, st')"
  | (delivering) now i owner at exp where "op = Op_delivering now i owner at exp"
      "st' = snd (markCallbackDelivering now i owner at exp st)"
  | (delivered) now now' i owner at code where "op = Op_delivered now now' i owner at code"
      "st' = snd (markCallbackDelivered now now' i owner at code st)"
  | (failed) now now' i owner upd where "op = Op_failed now now' i owner upd"
      "st' = snd (markCallbackFailed now now' i owner upd st)"
  | (requeue) now now' i at where "op = Op_requeue now now' i at"
      "st' = snd (requeueCallbackDelivery now now' i at st)"
proof (cases op)
  case (Op_create i now inp)
  then show ?thesis using assms create
    by (cases "createHandoff i now inp st") (auto simp: store_step_def split: if_splits)
next
  case (Op_event e d now inp cb)
  then show ?thesis using assms event
    by (cases "recordExecutionEvent e d now inp cb st") (auto simp: store_step_def split: if_splits)
qed (use assms delivering delivered failed requeue in \<open>auto simp: store_step_def split: if_splits\<close>)

lemma store_step_fresh: "store_step op st = Inr st' \<Longrightarrow> ids_fresh op st"
  by (simp add: store_step_def split: if_splits)

lemma store_step_wf:
  assumes "store_wf st" and "store_step op st = Inr st'"
  shows "store_wf st'"
  using assms(2)
proof (cases rule: store_step_cases)
  case (create i now inp h)
  then show ?thesis using create_wf assms store_step_fresh by blast
next
  case (event e d now inp cb r)
  then show ?thesis using event_wf assms store_step_fresh by blast
qed (use assms(1) delivering_wf delivered_wf failed_wf requeue_wf in simp_all)

interpretation settlement_store: machine_invariant store_step store_wf
  by unfold_locales (rule store_step_wf)

end
