(* ===== verification/Store_Properties.thy ===== *)
theory Store_Properties
  imports Store_Invariant "HOL-Library.Sublist"
begin

text \<open>
  What the settlement store promises its clients over every sequence of operations: handoffs keep
  their identity, the event log only grows and its replay is the current status, writes are
  idempotent, a callback delivery has one worker at a time and is never sent again once delivered.
\<close>

section \<open>What one operation changes\<close>

text \<open>The fields of a handoff no operation changes.\<close>

definition identity_of where
  "identity_of h = ((ho_executionBinding h, ho_handoffId h, ho_platformId h, ho_platformHandoffId h, ho_tradeId h),
     (ho_phase h, ho_settlementChannel h, ho_displayCurrency h, ho_displayAmount h, ho_assetSymbol h, ho_assetAmount h),
     (ho_ricardianHash h, ho_externalReference h, ho_metadata h, ho_requestId h, ho_sourceApiKeyId h, ho_createdAt h))"

lemma identity_of_upd [simp]:
  "identity_of (h\<lparr>ho_callbackStatus := a\<rparr>) = identity_of h"
  "identity_of (h\<lparr>ho_callbackDeliveredAt := b\<rparr>) = identity_of h"
  "identity_of (h\<lparr>ho_updatedAt := c\<rparr>) = identity_of h"
  "identity_of (applied_event ei now inp h) = identity_of h"
  by (simp_all add: identity_of_def applied_event_def)

lemma identity_of_fields:
  assumes "identity_of h = identity_of h'"
  shows "ho_handoffId h = ho_handoffId h'" "ho_sourceApiKeyId h = ho_sourceApiKeyId h'" "ho_phase h = ho_phase h'"
    "ho_tradeId h = ho_tradeId h'" "ho_ricardianHash h = ho_ricardianHash h'"
    "ho_externalReference h = ho_externalReference h'" "ho_executionBinding h = ho_executionBinding h'"
    "stored_intent h = stored_intent h'" "ho_platformId h = ho_platformId h'"
    "ho_platformHandoffId h = ho_platformHandoffId h'"
  using assms by (simp_all add: identity_of_def stored_intent_def)

lemma update_latest_get:
  "map_get (st_handoffs (update_latest_handoff d f st)) i =
    map_option (\<lambda>h. if i = cd_handoffId d \<and> ho_latestEventId h = Some (cd_eventId d) then f h else h)
      (map_get (st_handoffs st) i)"
  by (cases "map_get (st_handoffs st) i") (auto simp: update_latest_handoff_def js_map.get_put split: option.splits)

lemma update_latest_rest [simp]:
  "st_events (update_latest_handoff d f st) = st_events st"
  "st_deliveries (update_latest_handoff d f st) = st_deliveries st"
  "st_eventDedupeIndex (update_latest_handoff d f st) = st_eventDedupeIndex st"
  "st_platformIndex (update_latest_handoff d f st) = st_platformIndex st"
  by (auto simp: update_latest_handoff_def split: option.splits)

text \<open>The delivery operations touch only the callback fields of handoffs.\<close>

definition callback_only :: "store \<Rightarrow> store \<Rightarrow> bool" where
  "callback_only st st' =
    (st_events st' = st_events st \<and> st_eventDedupeIndex st' = st_eventDedupeIndex st \<and>
     st_platformIndex st' = st_platformIndex st \<and>
     (\<forall>i. map_option (\<lambda>h. (identity_of h, ho_executionStatus h)) (map_get (st_handoffs st') i) =
          map_option (\<lambda>h. (identity_of h, ho_executionStatus h)) (map_get (st_handoffs st) i)))"

lemma callback_only_ops:
  "callback_only st (snd (markCallbackDelivering now i owner at exp st))"
  "callback_only st (snd (markCallbackDelivered now now' i owner at code st))"
  "callback_only st (snd (markCallbackFailed now now' i owner upd st))"
  "callback_only st (snd (requeueCallbackDelivery now now' i at st))"
  by (auto simp: callback_only_def markCallbackDelivering_def markCallbackDelivered_def markCallbackFailed_def
      requeueCallbackDelivery_def update_latest_get Let_def option.map_comp o_def split: option.splits
      intro!: option.map_cong0)

text \<open>One operation, summarised.\<close>

lemma store_step_summary:
  assumes "store_wf st" and "store_step op st = Inr st'"
  obtains (same) "st' = st"
  | (created) i h k where "map_get (st_handoffs st) i = None"
      "st' = st\<lparr>st_handoffs := map_set i h (st_handoffs st), st_platformIndex := k\<rparr>" "ho_executionStatus h = ES_pending"
  | (logged) ei di now inp h h' d where "map_get (st_handoffs st) (ei_handoffId inp) = Some h"
      "st' = with_event ei di now inp h' d st" "map_get (st_deliveries st) di = None"
      "map_get (st_eventDedupeIndex st) (dedupe_key (ei_handoffId inp) (ei_dedupeKey inp)) = None"
      "execution_step (ei_eventType inp, ei_executionStatus inp) (ho_executionStatus h) = Inr (ei_executionStatus inp)"
      "identity_of h' = identity_of h" "ho_executionStatus h' = ei_executionStatus inp"
  | (callback) "callback_only st st'"
  using assms(2)
proof (cases rule: store_step_cases)
  case (create i now inp h)
  have fresh: "map_get (st_handoffs st) i = None" using store_step_fresh [OF assms(2)] create(1) by simp
  from create(2) consider "st' = st" | "st' = st\<lparr>st_handoffs := map_set i h (st_handoffs st),
      st_platformIndex := map_set (platform_key (in_platformId inp) (in_platformHandoffId inp)) i (st_platformIndex st)\<rparr>"
      "ho_executionStatus h = ES_pending"
    by (auto simp: createHandoff_def rbind_Inr_iff Let_def split: if_splits option.splits)
  then show ?thesis using same created fresh by cases blast+
next
  case (event e d now inp cb r)
  have di: "map_get (st_deliveries st) d = None" using store_step_fresh [OF assms(2)] event(1) by simp
  from assms(1) event(2) show ?thesis
  proof (cases rule: record_cases)
    case replay
    then show ?thesis using same by simp
  next
    case (fresh h h' dl body)
    show ?thesis
    proof (cases "map_get (st_eventDedupeIndex st) (dedupe_key (ei_handoffId inp) (ei_dedupeKey inp))")
      case None
      show ?thesis by (rule logged [OF fresh(1,6) di None fresh(2)]) (simp_all add: fresh(5))
    next
      case (Some e')
      from replay_finds [OF assms(1) fresh(1) Some, of e d now cb] event(2) show ?thesis using same by auto
    qed
  qed
next
  case (delivering now i owner at exp)
  then show ?thesis using callback callback_only_ops(1) by simp
next
  case (delivered now now' i owner at code)
  then show ?thesis using callback callback_only_ops(2) by simp
next
  case (failed now now' i owner upd)
  then show ?thesis using callback callback_only_ops(3) by simp
next
  case (requeue now now' i at)
  then show ?thesis using callback callback_only_ops(4) by simp
qed

section \<open>What every run keeps\<close>

text \<open>What a later store \<open>st'\<close> still holds of an earlier one.\<close>

definition extends :: "store \<Rightarrow> store \<Rightarrow> bool" where
  "extends st st' =
    ((\<forall>i h. map_get (st_handoffs st) i = Some h \<longrightarrow>
        (\<exists>h'. map_get (st_handoffs st') i = Some h' \<and> identity_of h' = identity_of h)) \<and>
     (\<forall>i. suffix (events_of st i) (events_of st' i)) \<and>
     (\<forall>k e. map_get (st_eventDedupeIndex st) k = Some e \<longrightarrow> map_get (st_eventDedupeIndex st') k = Some e))"

lemma extends_refl: "extends st st"
  by (simp add: extends_def)

lemma extends_trans: "extends a b \<Longrightarrow> extends b c \<Longrightarrow> extends a c"
  unfolding extends_def by (fastforce intro: suffix_order.order_trans)

lemma callback_only_extends:
  assumes "callback_only st st'"
  shows "extends st st'"
proof -
  have ev: "events_of st' i = events_of st i" for i using assms by (simp add: callback_only_def events_of_def)
  have "\<exists>h'. map_get (st_handoffs st') i = Some h' \<and> identity_of h' = identity_of h"
    if "map_get (st_handoffs st) i = Some h" for i h
  proof -
    have "map_option (\<lambda>h. (identity_of h, ho_executionStatus h)) (map_get (st_handoffs st') i) =
        map_option (\<lambda>h. (identity_of h, ho_executionStatus h)) (map_get (st_handoffs st) i)"
      using assms unfolding callback_only_def by blast
    then show ?thesis using that by auto
  qed
  then show ?thesis using assms by (simp add: extends_def ev callback_only_def)
qed

lemma store_step_extends:
  assumes "store_wf st" and "store_step op st = Inr st'"
  shows "extends st st'"
  using assms
proof (cases rule: store_step_summary)
  case (created i h k)
  then show ?thesis by (auto simp: extends_def events_of_def js_map.get_put)
next
  case (logged ei di now inp h h' d)
  then show ?thesis
    by (auto simp: extends_def events_of_with_event js_map.get_put suffix_def)
qed (simp_all add: extends_refl callback_only_extends)

lemma store_run_extends: "store_wf st \<Longrightarrow> extends st (settlement_store.run ops st)"
proof (induction ops arbitrary: st)
  case Nil
  then show ?case by (simp add: extends_refl)
next
  case (Cons op ops)
  show ?case
  proof (cases "store_step op st")
    case (Inl e)
    then show ?thesis using Cons by simp
  next
    case (Inr st')
    then have "settlement_store.run (op # ops) st = settlement_store.run ops st'" by simp
    then show ?thesis
      using extends_trans [OF store_step_extends [OF Cons.prems Inr] Cons.IH [OF store_step_wf [OF Cons.prems Inr]]]
      by metis
  qed
qed

section \<open>Refinement of the execution machine\<close>

definition abs_status :: "string \<Rightarrow> store \<Rightarrow> exec_status" where
  "abs_status i st = (case map_get (st_handoffs st) i of None \<Rightarrow> ES_pending | Some h \<Rightarrow> ho_executionStatus h)"

lemma store_step_simulates:
  assumes "store_wf st" and "store_step op st = Inr st'"
  shows "abs_status i st' = abs_status i st \<or> (\<exists>a. execution_step a (abs_status i st) = Inr (abs_status i st'))"
  using assms
proof (cases rule: store_step_summary)
  case (created j h k)
  then show ?thesis by (auto simp: abs_status_def js_map.get_put)
next
  case (logged ei di now inp h h' d)
  then show ?thesis by (cases "i = ei_handoffId inp") (auto simp: abs_status_def)
next
  case callback
  then have "map_option (\<lambda>h. (identity_of h, ho_executionStatus h)) (map_get (st_handoffs st') i) =
      map_option (\<lambda>h. (identity_of h, ho_executionStatus h)) (map_get (st_handoffs st) i)"
    unfolding callback_only_def by blast
  then have "abs_status i st' = abs_status i st" by (auto simp: abs_status_def split: option.splits)
  then show ?thesis ..
qed simp

interpretation handoff_refines: machine_refinement store_step store_wf execution_step "abs_status i" for i
  by unfold_locales (rule store_step_simulates)

section \<open>Repeated creation\<close>

text \<open>
  An input whose repetition is recognised: outside the bound phase always; in the phase
  \<open>gasless_create_trade\<close> when the caller is identified and sends the bound values explicitly.
\<close>

definition replayable :: "handoff_input \<Rightarrow> bool" where
  "replayable inp = (in_phase inp = ''gasless_create_trade'' \<longrightarrow>
     truthy (or_null (in_sourceApiKeyId inp)) \<and>
     (case in_executionBinding inp of Undefined \<Rightarrow> False | Null \<Rightarrow> True | Val b \<Rightarrow> json_wf b) \<and>
     in_ricardianHash inp \<noteq> Undefined \<and> in_externalReference inp \<noteq> Undefined)"

definition accepts :: "handoff \<Rightarrow> handoff_input \<Rightarrow> bool" where
  "accepts h inp =
    (platform_key (ho_platformId h) (ho_platformHandoffId h) =
       platform_key (in_platformId inp) (in_platformHandoffId inp) \<and>
     ho_sourceApiKeyId h = or_null (in_sourceApiKeyId inp) \<and> \<not> binding_differs h inp \<and>
     (\<exists>m. input_intent inp = Inr m \<and> stored_intent h = Inr m))"

lemma same_intent_refl: "assertSameMonetaryIntent m m = Inr ()"
  by (simp add: assertSameMonetaryIntent_def intent_mismatches_def)

lemma same_intent_eq: "assertSameMonetaryIntent a b = Inr u \<Longrightarrow> a = b"
  by (auto simp: assertSameMonetaryIntent_def intent_mismatches_def Let_def split: if_splits)

lemma accepts_new:
  assumes "input_intent inp = Inr m" and "replayable inp"
  shows "accepts (new_handoff i now inp m) inp"
proof -
  have same: "same_value (or_null x) x" if "x \<noteq> Undefined" for x :: "string nullish"
    using that by (cases x) auto
  have "\<not> binding_differs (new_handoff i now inp m) inp"
    using assms(2) same deep_equal_refl
    by (auto simp: binding_differs_def replayable_def new_handoff_def split: nullish.splits)
  then show ?thesis using assms(1) new_handoff_intent [OF assms(1)] by (simp add: accepts_def)
qed

lemma create_accepts:
  assumes "store_wf st" and "createHandoff i now inp st = Inr (h, st')" and "replayable inp"
  shows "accepts h inp \<and> map_get (st_handoffs st') (ho_handoffId h) = Some h"
proof -
  let ?k = "platform_key (in_platformId inp) (in_platformHandoffId inp)"
  from assms(2) obtain m where m: "input_intent inp = Inr m" by (auto simp: createHandoff_def rbind_Inr_iff)
  show ?thesis
  proof (cases "map_get (st_platformIndex st) ?k")
    case None
    then have "h = new_handoff i now inp m" "map_get (st_handoffs st') i = Some h"
      using assms(2) m by (auto simp: createHandoff_def truthy_def Let_def)
    then show ?thesis using accepts_new [OF m assms(3)] by simp
  next
    case (Some j)
    then have "truthy (map_get (st_platformIndex st) ?k)" using known_id_truthy(1) [OF assms(1)] by blast
    with assms(2) m Some have h: "map_get (st_handoffs st) j = Some h" "st' = st"
      "ho_sourceApiKeyId h = or_null (in_sourceApiKeyId inp)" "\<not> binding_differs h inp"
      "\<exists>s. stored_intent h = Inr s \<and> assertSameMonetaryIntent s m = Inr ()"
      by (auto simp: createHandoff_def Let_def rbind_Inr_iff split: option.splits if_splits)
    have "ho_handoffId h = j" using store_wfD(2) [OF assms(1) h(1)] by (simp add: handoff_ok_def)
    then show ?thesis using h m store_wfD(3) [OF assms(1) Some] same_intent_eq by (auto simp: accepts_def)
  qed
qed

text \<open>The joined key does not separate its parts: two references can share one.\<close>

lemma platform_key_collision: "platform_key ''a:b'' ''c'' = platform_key ''a'' ''b:c''"
  by (simp add: platform_key_def)

lemma accepted_is_returned:
  assumes "store_wf st" and "map_get (st_handoffs st) i = Some h" and "accepts h inp"
  shows "createHandoff j now inp st = Inr (h, st)"
proof -
  let ?k = "platform_key (in_platformId inp) (in_platformHandoffId inp)"
  have ok: "handoff_ok st i h" by (rule store_wfD(2) [OF assms(1,2)])
  then have k: "map_get (st_platformIndex st) ?k = Some i" using assms(3) by (simp add: handoff_ok_def accepts_def)
  then have "truthy (map_get (st_platformIndex st) ?k)" using known_id_truthy(1) [OF assms(1)] by blast
  then show ?thesis using assms(2,3) k by (auto simp: createHandoff_def accepts_def same_intent_refl)
qed

lemma accepts_identity:
  assumes "identity_of h' = identity_of h" and "accepts h inp"
  shows "accepts h' inp"
  using assms(2) identity_of_fields [OF assms(1)] by (simp add: accepts_def binding_differs_def)

section \<open>Deliveries\<close>

text \<open>The operations that change a delivery, by the guards of the code.\<close>

fun touches :: "string \<Rightarrow> delivery \<Rightarrow> store_op \<Rightarrow> bool" where
  "touches i d (Op_delivering _ j _ at _) = (j = i \<and> delivery_ready at d)"
| "touches i d (Op_delivered _ _ j owner _ _) = (j = i \<and> holds_lease owner d)"
| "touches i d (Op_failed _ _ j owner _) = (j = i \<and> holds_lease owner d)"
| "touches i d (Op_requeue _ _ j _) = (j = i \<and> cd_status d = DS_dead_letter)"
| "touches i d _ = False"

lemma untouched_step:
  assumes "store_wf st" and "store_step op st = Inr st'" and "map_get (st_deliveries st) i = Some d"
    and "\<not> touches i d op"
  shows "map_get (st_deliveries st') i = Some d"
  using assms(2)
proof (cases rule: store_step_cases)
  case (create j now inp h)
  then show ?thesis using assms(3)
    by (auto simp: createHandoff_def rbind_Inr_iff Let_def split: if_splits option.splits)
next
  case (event e di now inp cb r)
  have "map_get (st_deliveries st) di = None" using store_step_fresh [OF assms(2)] event(1) by simp
  with assms(1) event(2) assms(3) show ?thesis
    by (cases rule: record_cases) (auto simp: js_map.get_put)
next
  case (delivering now j owner at exp)
  then show ?thesis using assms(3,4)
    by (auto simp: markCallbackDelivering_def Let_def js_map.get_put split: option.splits)
next
  case (delivered now now' j owner at code)
  then show ?thesis using assms(3,4) by (auto simp: markCallbackDelivered_def js_map.get_put split: option.splits)
next
  case (failed now now' j owner upd)
  then show ?thesis using assms(3,4) by (auto simp: markCallbackFailed_def js_map.get_put split: option.splits)
next
  case (requeue now now' j at)
  then show ?thesis using assms(3,4)
    by (auto simp: requeueCallbackDelivery_def Let_def js_map.get_put split: option.splits)
qed

lemma untouched_run:
  assumes "store_wf st" and "map_get (st_deliveries st) i = Some d" and "list_all (\<lambda>op. \<not> touches i d op) ops"
  shows "map_get (st_deliveries (settlement_store.run ops st)) i = Some d"
  using assms
proof (induction ops arbitrary: st)
  case Nil
  then show ?case by simp
next
  case (Cons op ops)
  show ?case
  proof (cases "store_step op st")
    case (Inl e)
    then show ?thesis using Cons by simp
  next
    case (Inr st')
    have "map_get (st_deliveries st') i = Some d" using untouched_step [OF Cons.prems(1) Inr Cons.prems(2)] Cons.prems(3) by simp
    then show ?thesis using Cons.IH [OF store_step_wf [OF Cons.prems(1) Inr]] Cons.prems(3) Inr by simp
  qed
qed

section \<open>Sample run\<close>

definition sample_input :: handoff_input where
  "sample_input = \<lparr>in_executionBinding = Undefined, in_platformId = ''p'', in_platformHandoffId = ''1'',
     in_tradeId = ''7'', in_phase = ''fund'', in_settlementChannel = ''c'', in_displayCurrency = ''USD'',
     in_displayAmount = JStr ''10.5'', in_assetSymbol = Undefined, in_assetAmount = Null, in_ricardianHash = Undefined,
     in_externalReference = Undefined, in_metadata = None, in_requestId = ''r'', in_sourceApiKeyId = Undefined\<rparr>"

definition sample_event :: event_input where
  "sample_event = \<lparr>ei_handoffId = ''h1'', ei_eventType = EV_submitted, ei_executionStatus = ES_submitted,
     ei_reconciliationStatus = RS_pending, ei_providerStatus = Undefined, ei_txHash = Undefined, ei_detail = Undefined,
     ei_metadata = None, ei_observedAt = 15, ei_requestId = ''r'', ei_sourceApiKeyId = Undefined, ei_dedupeKey = ''k''\<rparr>"

definition sample_plan :: callback_plan where
  "sample_plan = \<lparr>cp_targetUrl = ''u'', cp_requestId = ''r'', cp_disabled = False, cp_nextAttemptAt = 20,
     cp_buildRequestBody = (\<lambda>h e. Inr JNull)\<rparr>"

definition sample_store :: store where
  "sample_store = settlement_store.run
     [Op_create ''h1'' 10 sample_input, Op_event ''e1'' ''d1'' 20 sample_event sample_plan] (createInMemorySettlementStore [])"

lemma sample_store_wf: "store_wf sample_store"
  unfolding sample_store_def by (rule settlement_store.inv_run) simp

definition sample_status :: "exec_status option" where
  "sample_status = map_option ho_executionStatus (getHandoff ''h1'' sample_store)"

lemma sample_status_eq: "sample_status = Some ES_submitted"
  by code_simp

section \<open>Properties\<close>

text \<open>
  C9. In every store reachable from an empty one, a handoff is found under its identifier and
  under its platform reference, its status is the one of its newest logged event, and its log is a
  legal history of the execution machine from \<open>pending\<close>.
\<close>

theorem reachable_handoffs_consistent:
  assumes "getHandoff i (settlement_store.run ops (createInMemorySettlementStore [])) = Some h"
  shows "ho_handoffId h = i \<and>
    getHandoffByPlatformRef (ho_platformId h) (ho_platformHandoffId h)
      (settlement_store.run ops (createInMemorySettlementStore [])) = Some h \<and>
    ho_executionStatus h = logged_status (listExecutionEvents i (settlement_store.run ops (createInMemorySettlementStore []))) \<and>
    valid_history (listExecutionEvents i (settlement_store.run ops (createInMemorySettlementStore [])))"
proof -
  let ?st = "settlement_store.run ops (createInMemorySettlementStore [])"
  have wf: "store_wf ?st" by (rule settlement_store.inv_run) simp
  have h: "map_get (st_handoffs ?st) i = Some h" using assms by (simp add: getHandoff_def)
  have ok: "handoff_ok ?st i h" by (rule store_wfD(2) [OF wf h])
  then have "getHandoffByPlatformRef (ho_platformId h) (ho_platformHandoffId h) ?st = Some h"
    using h by (simp add: getHandoffByPlatformRef_def handoff_ok_def)
  moreover have "valid_history (events_of ?st i)" by (rule store_wfD(4) [OF wf])
  ultimately show ?thesis using ok unfolding handoff_ok_def listExecutionEvents_def by blast
qed

theorem reachable_handoffs_consistent_witness:
  "\<exists>h. getHandoff ''h1'' sample_store = Some h \<and> ho_executionStatus h = ES_submitted \<and>
     valid_history (listExecutionEvents ''h1'' sample_store)"
proof -
  from sample_status_eq obtain h where h: "getHandoff ''h1'' sample_store = Some h" "ho_executionStatus h = ES_submitted"
    by (auto simp: sample_status_def)
  from reachable_handoffs_consistent [OF h(1) [unfolded sample_store_def]] h show ?thesis
    unfolding sample_store_def by blast
qed

text \<open>
  C4. Every handoff refines the execution state machine: whatever the operations of the store do,
  interleaved in any order, the statuses a handoff takes are reachable steps of the machine. In
  particular a handoff whose transaction may have been broadcast never becomes failed.
\<close>

theorem handoff_status_refines_machine:
  assumes "store_wf st"
  shows "execution.reaches (abs_status i st) (abs_status i (settlement_store.run ops st)) \<and>
    (broadcast_exposed (abs_status i st) \<longrightarrow> broadcast_exposed (abs_status i (settlement_store.run ops st)))"
proof -
  have r: "execution.reaches (abs_status i st) (abs_status i (settlement_store.run ops st))"
    by (rule handoff_refines.abs_run [OF assms])
  then show ?thesis using execution.reaches_preserves [OF r, of broadcast_exposed] exposed_step by blast
qed

theorem handoff_status_refines_machine_witness:
  "broadcast_exposed (abs_status ''h1'' (settlement_store.run
     [Op_event ''e2'' ''d2'' 30 (sample_event\<lparr>ei_eventType := EV_failed, ei_executionStatus := ES_failed, ei_dedupeKey := ''f''\<rparr>)
        sample_plan] sample_store))"
proof -
  have "abs_status ''h1'' sample_store = ES_submitted"
    using sample_status_eq by (auto simp: sample_status_def abs_status_def getHandoff_def)
  then show ?thesis using handoff_status_refines_machine [OF sample_store_wf, of "''h1''"]
    by (simp add: broadcast_exposed_def del: settlement_store.run.simps)
qed

text \<open>
  C20. The store forgets nothing: over every run a handoff keeps its identity (platform reference,
  trade, phase, amounts, binding, owner), its event log only grows at the front, and a recorded
  idempotency key stays bound to its event.
\<close>

theorem store_is_append_only:
  assumes "store_wf st"
  shows "(\<forall>i h. getHandoff i st = Some h \<longrightarrow>
      (\<exists>h'. getHandoff i (settlement_store.run ops st) = Some h' \<and> identity_of h' = identity_of h)) \<and>
    (\<forall>i. suffix (listExecutionEvents i st) (listExecutionEvents i (settlement_store.run ops st)))"
  using store_run_extends [OF assms] unfolding extends_def getHandoff_def listExecutionEvents_def by blast

theorem store_is_append_only_witness:
  "\<exists>h. getHandoff ''h1'' (settlement_store.run [Op_delivering 40 ''d1'' ''w'' 40 50] sample_store) = Some h \<and>
     identity_of h = identity_of (the (getHandoff ''h1'' sample_store))"
proof -
  from sample_status_eq obtain h where "getHandoff ''h1'' sample_store = Some h" by (auto simp: sample_status_def)
  then show ?thesis using store_is_append_only [OF sample_store_wf, of "[Op_delivering 40 ''d1'' ''w'' 40 50]"] by auto
qed





text \<open>
  C12. A callback delivery has one worker at a time: while a lease is unexpired, no sequence of
  operations in which the others try to lease, complete, fail or requeue the delivery changes it.
\<close>

theorem lease_is_exclusive:
  assumes "store_wf st" and "getCallbackDelivery i st = Some d" and "cd_status d = DS_delivering"
    and "cd_leaseOwner d = Some a" and "cd_leaseExpiresAt d = Some t"
    and "list_all (\<lambda>op. case op of
        Op_delivering _ _ _ at _ \<Rightarrow> at < t | Op_delivered _ _ _ b _ _ \<Rightarrow> b \<noteq> a | Op_failed _ _ _ b _ \<Rightarrow> b \<noteq> a
      | _ \<Rightarrow> True) ops"
  shows "getCallbackDelivery i (settlement_store.run ops st) = Some d"
proof -
  have "\<not> touches i d op" if "case op of Op_delivering _ _ _ at _ \<Rightarrow> at < t | Op_delivered _ _ _ b _ _ \<Rightarrow> b \<noteq> a
      | Op_failed _ _ _ b _ \<Rightarrow> b \<noteq> a | _ \<Rightarrow> True" for op
    using that assms(3-5) by (cases op) (auto simp: delivery_ready_def holds_lease_def)
  then have "list_all (\<lambda>op. \<not> touches i d op) ops" using assms(6) by (simp add: list_all_iff)
  then show ?thesis using untouched_run assms(1,2) by (simp add: getCallbackDelivery_def)
qed

theorem lease_is_exclusive_witness:
  "let st = settlement_store.run [Op_delivering 40 ''d1'' ''w'' 40 50] sample_store in
   getCallbackDelivery ''d1'' (settlement_store.run
     [Op_delivering 45 ''d1'' ''x'' 45 60, Op_delivered 46 46 ''d1'' ''x'' 46 200] st) = getCallbackDelivery ''d1'' st"
proof -
  let ?st = "settlement_store.run [Op_delivering 40 ''d1'' ''w'' 40 50] sample_store"
  have "map_option (\<lambda>d. (cd_status d, cd_leaseOwner d, cd_leaseExpiresAt d)) (getCallbackDelivery ''d1'' ?st) =
      Some (DS_delivering, Some ''w'', Some 50)" by code_simp
  then obtain d where d: "getCallbackDelivery ''d1'' ?st = Some d" "cd_status d = DS_delivering"
    "cd_leaseOwner d = Some ''w''" "cd_leaseExpiresAt d = Some 50" by auto
  have "store_wf ?st" by (rule settlement_store.inv_run [OF sample_store_wf])
  from lease_is_exclusive [OF this d, of "[Op_delivering 45 ''d1'' ''x'' 45 60, Op_delivered 46 46 ''d1'' ''x'' 46 200]"] d(1)
  show ?thesis by (simp add: Let_def del: settlement_store.run.simps)
qed

text \<open>
  C21. A delivered callback is never sent again, and a disabled one never at all: over every run
  the delivery stays as it is and is never listed as due.
\<close>

theorem settled_delivery_is_terminal:
  assumes "store_wf st" and "getCallbackDelivery i st = Some d" and "cd_status d \<in> {DS_delivered, DS_disabled}"
  shows "getCallbackDelivery i (settlement_store.run ops st) = Some d \<and>
    d \<notin> set (getDueCallbackDeliveries limit now (settlement_store.run ops st))"
proof -
  have "\<not> touches i d op" for op
    using assms(3) by (cases op) (auto simp: delivery_ready_def holds_lease_def)
  then have "list_all (\<lambda>op. \<not> touches i d op) ops" by (simp add: list_all_iff)
  then have "getCallbackDelivery i (settlement_store.run ops st) = Some d"
    using untouched_run assms(1,2) by (simp add: getCallbackDelivery_def)
  moreover have "\<not> delivery_ready now d" using assms(3) by (auto simp: delivery_ready_def)
  ultimately show ?thesis by (auto simp: getDueCallbackDeliveries_def dest: in_set_takeD)
qed

theorem settled_delivery_is_terminal_witness:
  "let st = settlement_store.run
     [Op_delivering 40 ''d1'' ''w'' 40 50, Op_delivered 41 41 ''d1'' ''w'' 41 200] sample_store in
   getCallbackDelivery ''d1'' (settlement_store.run [Op_delivering 99 ''d1'' ''x'' 99 120, Op_requeue 99 99 ''d1'' 99] st) =
     getCallbackDelivery ''d1'' st"
proof -
  let ?st = "settlement_store.run [Op_delivering 40 ''d1'' ''w'' 40 50, Op_delivered 41 41 ''d1'' ''w'' 41 200] sample_store"
  have "map_option cd_status (getCallbackDelivery ''d1'' ?st) = Some DS_delivered" by code_simp
  then obtain d where d: "getCallbackDelivery ''d1'' ?st = Some d" "cd_status d = DS_delivered" by auto
  have "store_wf ?st" by (rule settlement_store.inv_run [OF sample_store_wf])
  from settled_delivery_is_terminal [OF this d(1), of "[Op_delivering 99 ''d1'' ''x'' 99 120, Op_requeue 99 99 ''d1'' 99]"] d
  show ?thesis by (simp add: Let_def del: settlement_store.run.simps)
qed

end
