(* ===== verification/Funded_Binding.thy ===== *)
theory Funded_Binding
  imports Contracts
begin

text \<open>
  The immutable funded settlement binding (\<open>sdk/src/settlementFundedBinding.ts\<close>): the instruction
  a progression of a funded trade carries, its validation and its comparison with the trade on
  chain. \<open>getAddress\<close> of the package \<open>ethers\<close> is a parameter; \<open>address_law\<close> states the documented
  behaviour the lemmas use: it returns a hex address of 40 digits and accepts its lower-case form.

  A binding is the list of its string fields, in the order of \<open>fields\<close>. The lemmas show that an
  accepted binding conserves the locked amount and is its own normal form.
\<close>

section \<open>Phases and fields\<close>

definition FUNDED_SETTLEMENT_PHASES :: "string list" where
  "FUNDED_SETTLEMENT_PHASES =
    [''initial_release_after_custody_and_documents'', ''inspection_available_standard'',
     ''inspection_available_packaged_local'', ''final_release_after_inspection_acceptance'',
     ''final_release_after_notice_deadline'', ''dispute_resolution'']"

definition funded_fields :: "string list" where
  "funded_fields =
    [''scopeVersion'', ''ownerServiceId'', ''sourceOperationId'', ''phase'', ''chainId'', ''escrowAddress'',
     ''tokenAddress'', ''tradeId'', ''buyerAddress'', ''supplierAddress'', ''ricardianHash'', ''totalAmount'',
     ''logisticsAmount'', ''platformFeesAmount'', ''supplierFirstTranche'', ''supplierSecondTranche'',
     ''supplierPayoutAmount'', ''treasuryAccrualAmount'', ''buyerRefundAmount'', ''fundingTransactionHash'',
     ''fundingBlockNumber'', ''fundingBlockHash'', ''originalFundingFingerprint'']"

definition funded_numbers :: "string list" where
  "funded_numbers =
    [''chainId'', ''tradeId'', ''totalAmount'', ''logisticsAmount'', ''platformFeesAmount'', ''supplierFirstTranche'',
     ''supplierSecondTranche'', ''supplierPayoutAmount'', ''treasuryAccrualAmount'', ''buyerRefundAmount'',
     ''fundingBlockNumber'']"

type_synonym binding_row = "(string, string) jsmap"

definition fld :: "binding_row \<Rightarrow> string \<Rightarrow> string" where
  "fld b k = (case map_get b k of None \<Rightarrow> [] | Some v \<Rightarrow> v)"

definition amt :: "binding_row \<Rightarrow> string \<Rightarrow> int" where
  "amt b k = BigInt (fld b k)"

definition binding_json :: "binding_row \<Rightarrow> json" where
  "binding_json b = JObj (map (\<lambda>(k, v). (k, JStr v)) b)"

section \<open>Validation\<close>

text \<open>The pattern \<open>/^(0|[1-9]\\d{0,77})$/\<close> with the bound of a 256-bit word.\<close>

definition uint256_text :: "string \<Rightarrow> bool" where
  "uint256_text s = (uint_text s \<and> length s \<le> 78 \<and> BigInt s \<le> 2 ^ 256 - 1)"

definition zero_address :: "string \<Rightarrow> bool" where
  "zero_address s = (s = ''0x'' @ replicate 40 (CHR ''0''))"

definition normal_address :: "(string \<Rightarrow> string option) \<Rightarrow> string \<Rightarrow> string option" where
  "normal_address getAddress s =
    (case getAddress s of
       None \<Rightarrow> None
     | Some a \<Rightarrow> if zero_address (toLowerCase a) then None else Some (toLowerCase a))"

text \<open>\<open>/^0x[0-9a-f]{64}$/i\<close>, stored in lower case.\<close>

definition normal_hash :: "string \<Rightarrow> string option" where
  "normal_hash s = (if lower_hex_text 64 (toLowerCase s) then Some (toLowerCase s) else None)"

text \<open>A loop that rewrites the fields \<open>keys\<close> one after the other and gives up at the first failure.\<close>

fun rewrite_fields :: "(string \<Rightarrow> string option) \<Rightarrow> string list \<Rightarrow> binding_row \<Rightarrow> binding_row option" where
  "rewrite_fields f [] b = Some b"
| "rewrite_fields f (k # ks) b =
     (case f (fld b k) of None \<Rightarrow> None | Some v \<Rightarrow> rewrite_fields f ks (map_set k v b))"

definition funded_shape :: "json option \<Rightarrow> binding_row option" where
  "funded_shape v =
    (case v of
       Some (JObj row) \<Rightarrow>
         if length row \<noteq> length funded_fields \<or> list_ex (\<lambda>f. fst f \<notin> set funded_fields) row \<or>
            list_ex (\<lambda>k. str_member (JObj row) k = None) funded_fields \<or>
            \<not> member_is (JObj row) ''scopeVersion'' ''agroasys.funded-settlement-binding.v1'' \<or>
            the (str_member (JObj row) ''phase'') \<notin> set FUNDED_SETTLEMENT_PHASES
         then None
         else Some (map (\<lambda>k. (k, the (str_member (JObj row) k))) funded_fields)
     | _ \<Rightarrow> None)"

definition funded_texts_ok :: "binding_row \<Rightarrow> bool" where
  "funded_texts_ok b =
    (list_all (\<lambda>k. fld b k \<noteq> [] \<and> trim (fld b k) = fld b k \<and> length (fld b k) \<le> 128)
       [''ownerServiceId'', ''sourceOperationId''] \<and>
     list_all (\<lambda>k. uint256_text (fld b k)) funded_numbers \<and>
     0 < amt b ''chainId'' \<and> amt b ''chainId'' \<le> 2 ^ 53 - 1 \<and> 0 < amt b ''totalAmount'')"

definition funded_amounts_ok :: "binding_row \<Rightarrow> bool" where
  "funded_amounts_ok b =
    (let supplier = amt b ''supplierPayoutAmount''; treasury = amt b ''treasuryAccrualAmount'';
         refund = amt b ''buyerRefundAmount''; phase = fld b ''phase'';
         first = (phase = ''initial_release_after_custody_and_documents'');
         final = (phase = ''final_release_after_inspection_acceptance'' \<or> phase = ''final_release_after_notice_deadline'');
         inspection = startsWith phase ''inspection_available_''
     in bare_hex_text 64 (fld b ''originalFundingFingerprint'') \<and>
        amt b ''totalAmount'' = amt b ''logisticsAmount'' + amt b ''platformFeesAmount'' +
          amt b ''supplierFirstTranche'' + amt b ''supplierSecondTranche'' \<and>
        \<not> ((first \<and> (supplier \<noteq> amt b ''supplierFirstTranche'' \<or>
              treasury \<noteq> amt b ''logisticsAmount'' + amt b ''platformFeesAmount'' \<or> refund \<noteq> 0)) \<or>
           (final \<and> (supplier \<noteq> amt b ''supplierSecondTranche'' \<or> treasury \<noteq> 0 \<or> refund \<noteq> 0)) \<or>
           (inspection \<and> (supplier \<noteq> 0 \<or> treasury \<noteq> 0 \<or> refund \<noteq> 0)) \<or>
           (phase = ''dispute_resolution'' \<and> (treasury \<noteq> 0 \<or> supplier + refund \<noteq> amt b ''supplierSecondTranche''))))"

definition parseSettlementFundedBinding ::
  "(string \<Rightarrow> string option) \<Rightarrow> json option \<Rightarrow> string + binding_row" where
  "parseSettlementFundedBinding getAddress v =
    (let invalid = Inl ''A complete immutable funded settlement binding is required'' in
     case funded_shape v of
       None \<Rightarrow> invalid
     | Some b \<Rightarrow>
         if \<not> funded_texts_ok b then invalid
         else case rewrite_fields (normal_address getAddress)
             [''escrowAddress'', ''tokenAddress'', ''buyerAddress'', ''supplierAddress''] b of
           None \<Rightarrow> invalid
         | Some b1 \<Rightarrow>
             (case rewrite_fields normal_hash [''ricardianHash'', ''fundingTransactionHash'', ''fundingBlockHash''] b1 of
                None \<Rightarrow> invalid
              | Some b2 \<Rightarrow> if \<not> funded_amounts_ok b2 then invalid else Inr b2))"

section \<open>The trade on chain\<close>

datatype trade_status = LOCKED | IN_TRANSIT | ARRIVAL_CONFIRMED | FROZEN | CLOSED

record trade =
  tr_tradeId :: string
  tr_buyer :: string
  tr_supplier :: string
  tr_status :: trade_status
  tr_totalAmountLocked :: nat
  tr_logisticsAmount :: nat
  tr_platformFeesAmount :: nat
  tr_supplierFirstTranche :: nat
  tr_supplierSecondTranche :: nat
  tr_ricardianHash :: string
  tr_createdAt :: timestamp
  tr_arrivalTimestamp :: "timestamp option"

definition assertFundedTradeMatchesBinding ::
  "(string \<Rightarrow> string option) \<Rightarrow> trade \<Rightarrow> json option \<Rightarrow> string + unit" where
  "assertFundedTradeMatchesBinding getAddress tr v =
    rbind (parseSettlementFundedBinding getAddress v) (\<lambda>b.
      if tr_tradeId tr \<noteq> fld b ''tradeId'' \<or> toLowerCase (tr_buyer tr) \<noteq> fld b ''buyerAddress'' \<or>
         toLowerCase (tr_supplier tr) \<noteq> fld b ''supplierAddress'' \<or>
         toLowerCase (tr_ricardianHash tr) \<noteq> fld b ''ricardianHash'' \<or>
         show_nat (tr_totalAmountLocked tr) \<noteq> fld b ''totalAmount'' \<or>
         show_nat (tr_logisticsAmount tr) \<noteq> fld b ''logisticsAmount'' \<or>
         show_nat (tr_platformFeesAmount tr) \<noteq> fld b ''platformFeesAmount'' \<or>
         show_nat (tr_supplierFirstTranche tr) \<noteq> fld b ''supplierFirstTranche'' \<or>
         show_nat (tr_supplierSecondTranche tr) \<noteq> fld b ''supplierSecondTranche''
      then Inl ''The on-chain trade differs from its immutable original funding binding''
      else Inr ())"

section \<open>Rewriting fields\<close>

definition address_law :: "(string \<Rightarrow> string option) \<Rightarrow> bool" where
  "address_law getAddress = (\<forall>s a. getAddress s = Some a \<longrightarrow> hex_text 40 a \<and> getAddress (toLowerCase a) = Some a)"

lemma fld_set: "fld (map_set k v b) k' = (if k' = k then v else fld b k')"
  by (simp add: fld_def js_map.get_put)

lemma keys_set: "k \<in> fst ` set b \<Longrightarrow> map fst (map_set k v b) = map fst b"
  by (simp add: map_set_def update_keys)

lemma set_same: "k \<in> fst ` set b \<Longrightarrow> map_set k (fld b k) b = b"
  by (cases "map_of b k") (auto simp: map_set_def fld_def map_get_def map_of_eq_None_iff intro: update_triv)

lemma rewrite_fields_result:
  assumes "rewrite_fields f ks b = Some b'" and "distinct ks" and "set ks \<subseteq> fst ` set b"
  shows "map fst b' = map fst b" and "k \<notin> set ks \<Longrightarrow> fld b' k = fld b k"
    and "k \<in> set ks \<Longrightarrow> f (fld b k) = Some (fld b' k)"
  using assms
proof (induction ks arbitrary: b)
  case Nil
  { case 1 then show ?case by simp }
  { case 2 then show ?case by simp }
  { case 3 then show ?case by simp }
next
  case (Cons x ks)
  { case 1 then show ?case using Cons.IH(1) [of "map_set x (the (f (fld b x))) b"]
      by (auto simp: keys_set split: option.splits simp flip: set_map) }
  { case 2 then show ?case using Cons.IH(2) [of "map_set x (the (f (fld b x))) b"]
      by (auto simp: keys_set fld_set split: option.splits simp flip: set_map) }
  { case 3 then show ?case
      using Cons.IH(3) [of "map_set x (the (f (fld b x))) b"] Cons.IH(2) [of "map_set x (the (f (fld b x))) b"]
      by (cases "k = x") (auto simp: keys_set fld_set split: option.splits simp flip: set_map) }
qed

lemma rewrite_fields_fixed:
  assumes "\<And>k. k \<in> set ks \<Longrightarrow> f (fld b k) = Some (fld b k)" and "set ks \<subseteq> fst ` set b"
  shows "rewrite_fields f ks b = Some b"
  using assms by (induction ks) (auto simp: set_same)

section \<open>Accepted bindings\<close>

definition funded_addresses :: "string list" where
  "funded_addresses = [''escrowAddress'', ''tokenAddress'', ''buyerAddress'', ''supplierAddress'']"

definition funded_hashes :: "string list" where
  "funded_hashes = [''ricardianHash'', ''fundingTransactionHash'', ''fundingBlockHash'']"

lemma funded_keys:
  "distinct funded_fields" "distinct funded_addresses" "distinct funded_hashes"
  "set funded_addresses \<subseteq> set funded_fields" "set funded_hashes \<subseteq> set funded_fields"
  "set funded_addresses \<inter> set funded_hashes = {}"
  by (simp_all add: funded_fields_def funded_addresses_def funded_hashes_def)

lemma funded_texts_cong:
  assumes "\<And>k. k \<notin> set funded_addresses \<Longrightarrow> k \<notin> set funded_hashes \<Longrightarrow> fld b k = fld c k"
  shows "funded_texts_ok b = funded_texts_ok c"
  unfolding funded_texts_ok_def funded_numbers_def amt_def
  by (simp add: assms funded_addresses_def funded_hashes_def)

lemma funded_shape_keys:
  assumes "funded_shape v = Some b"
  shows "map fst b = funded_fields" and "fld b ''scopeVersion'' = ''agroasys.funded-settlement-binding.v1''"
    and "fld b ''phase'' \<in> set FUNDED_SETTLEMENT_PHASES"
proof -
  from assms obtain row where row: "v = Some (JObj row)"
    by (auto simp: funded_shape_def split: option.splits json.splits)
  then have b: "b = map (\<lambda>k. (k, the (str_member (JObj row) k))) funded_fields"
    and sv: "member_is (JObj row) ''scopeVersion'' ''agroasys.funded-settlement-binding.v1''"
    and ph: "the (str_member (JObj row) ''phase'') \<in> set FUNDED_SETTLEMENT_PHASES"
    using assms by (auto simp: funded_shape_def split: if_splits)
  have fld: "fld b k = the (str_member (JObj row) k)" if "k \<in> set funded_fields" for k
    using that by (simp add: b fld_def map_get_def map_of_map_restrict)
  show "map fst b = funded_fields" by (simp add: b comp_def)
  show "fld b ''scopeVersion'' = ''agroasys.funded-settlement-binding.v1''"
    using sv fld [of "''scopeVersion''"] by (simp add: funded_fields_def member_is_def str_member_def)
  show "fld b ''phase'' \<in> set FUNDED_SETTLEMENT_PHASES"
    using ph fld [of "''phase''"] by (simp add: funded_fields_def)
qed

lemma parse_funded_parts:
  assumes "parseSettlementFundedBinding ga v = Inr b"
  obtains b0 b1 where "funded_shape v = Some b0" "funded_texts_ok b0"
    "rewrite_fields (normal_address ga) funded_addresses b0 = Some b1"
    "rewrite_fields normal_hash funded_hashes b1 = Some b" "funded_amounts_ok b"
  using assms unfolding parseSettlementFundedBinding_def funded_addresses_def funded_hashes_def Let_def
  by (auto split: option.splits if_splits)

lemma parse_fundedD:
  assumes "parseSettlementFundedBinding ga v = Inr b"
  shows "map fst b = funded_fields" and "fld b ''scopeVersion'' = ''agroasys.funded-settlement-binding.v1''"
    and "fld b ''phase'' \<in> set FUNDED_SETTLEMENT_PHASES" and "funded_texts_ok b" and "funded_amounts_ok b"
    and "k \<in> set funded_addresses \<Longrightarrow> \<exists>t. normal_address ga t = Some (fld b k)"
    and "k \<in> set funded_hashes \<Longrightarrow> \<exists>t. normal_hash t = Some (fld b k)"
proof -
  from assms obtain b0 b1 where p: "funded_shape v = Some b0" "funded_texts_ok b0"
    "rewrite_fields (normal_address ga) funded_addresses b0 = Some b1"
    "rewrite_fields normal_hash funded_hashes b1 = Some b" "funded_amounts_ok b" by (rule parse_funded_parts)
  note sh = funded_shape_keys [OF p(1)]
  have k0: "set funded_addresses \<subseteq> fst ` set b0" using sh(1) funded_keys(4) by (simp flip: set_map)
  note r1 = rewrite_fields_result [OF p(3) funded_keys(2) k0]
  have k1: "set funded_hashes \<subseteq> fst ` set b1" using r1(1) sh(1) funded_keys(5) by (simp flip: set_map)
  note r2 = rewrite_fields_result [OF p(4) funded_keys(3) k1]
  have same: "fld b k = fld b0 k" if "k \<notin> set funded_addresses" "k \<notin> set funded_hashes" for k
    using r1(2) [OF that(1)] r2(2) [OF that(2)] by simp
  show "map fst b = funded_fields" using r1(1) r2(1) sh(1) by simp
  show "fld b ''scopeVersion'' = ''agroasys.funded-settlement-binding.v1''" "fld b ''phase'' \<in> set FUNDED_SETTLEMENT_PHASES"
    using same sh by (simp_all add: funded_addresses_def funded_hashes_def)
  show "funded_texts_ok b" using funded_texts_cong [of b b0] same p(2) by blast
  show "funded_amounts_ok b" by (rule p(5))
  show "\<exists>t. normal_address ga t = Some (fld b k)" if k: "k \<in> set funded_addresses"
  proof -
    have "fld b k = fld b1 k" using k funded_keys(6) by (intro r2(2)) blast
    then show ?thesis using r1(3) [OF k] by auto
  qed
  show "\<exists>t. normal_hash t = Some (fld b k)" if "k \<in> set funded_hashes" using r2(3) [OF that] by blast
qed

lemma normal_address_fixed:
  assumes "address_law ga" and "normal_address ga t = Some a"
  shows "normal_address ga a = Some a"
proof -
  from assms(2) obtain c where c: "ga t = Some c" "a = toLowerCase c" "\<not> zero_address a"
    by (auto simp: normal_address_def split: option.splits if_splits)
  then have "ga a = Some c" using assms(1) by (auto simp: address_law_def)
  then show ?thesis using c by (simp add: normal_address_def)
qed

lemma normal_hash_fixed: "normal_hash t = Some h \<Longrightarrow> normal_hash h = Some h"
  by (auto simp: normal_hash_def split: if_splits)

lemma funded_shape_json:
  assumes "map fst b = funded_fields" and "fld b ''scopeVersion'' = ''agroasys.funded-settlement-binding.v1''"
    and "fld b ''phase'' \<in> set FUNDED_SETTLEMENT_PHASES"
  shows "funded_shape (Some (binding_json b)) = Some b"
proof -
  have dist: "distinct (map fst b)" using assms(1) funded_keys(1) by simp
  have mo: "member_of (binding_json b) k = map_option JStr (map_of b k)" for k
    by (simp add: binding_json_def map_of_map)
  then have mem: "str_member (binding_json b) k = map_of b k" for k
    by (cases "map_of b k") (simp_all add: str_member_def)
  have dom: "map_of b k = Some (fld b k)" if "k \<in> set funded_fields" for k
  proof -
    have "k \<in> fst ` set b" using that assms(1) by (metis set_map)
    then show ?thesis by (cases "map_of b k") (auto simp: fld_def map_get_def map_of_eq_None_iff)
  qed
  have "map (\<lambda>k. (k, the (map_of b k))) (map fst b) = b"
    using dist by (auto intro!: map_idI simp: comp_def)
  then have row: "map (\<lambda>k. (k, the (str_member (binding_json b) k))) funded_fields = b" using assms(1) mem by simp
  have all: "\<not> list_ex (\<lambda>k. str_member (binding_json b) k = None) funded_fields"
    using mem dom by (auto simp: list_ex_iff)
  have "member_of (binding_json b) ''scopeVersion'' = Some (JStr ''agroasys.funded-settlement-binding.v1'')"
    using dom [of "''scopeVersion''"] assms(2) mo by (simp add: funded_fields_def)
  then have sv: "member_is (binding_json b) ''scopeVersion'' ''agroasys.funded-settlement-binding.v1''"
    by (simp add: member_is_def)
  have ph: "the (str_member (binding_json b) ''phase'') \<in> set FUNDED_SETTLEMENT_PHASES"
    using dom [of "''phase''"] assms(3) mem by (simp add: funded_fields_def)
  have len: "length b = length funded_fields" using assms(1) by (metis length_map)
  have known: "\<not> list_ex (\<lambda>f. fst f \<notin> set funded_fields) (map (\<lambda>(k, v). (k, JStr v)) b)"
    by (force simp: list_ex_iff simp flip: assms(1))
  show ?thesis using row all sv ph len known unfolding binding_json_def funded_shape_def by simp
qed

section \<open>Properties\<close>

definition payout :: "binding_row \<Rightarrow> int" where
  "payout b = amt b ''supplierPayoutAmount'' + amt b ''treasuryAccrualAmount'' + amt b ''buyerRefundAmount''"

lemma funded_payout:
  assumes "parseSettlementFundedBinding ga v = Inr b"
  shows "amt b ''totalAmount'' = amt b ''logisticsAmount'' + amt b ''platformFeesAmount'' +
      amt b ''supplierFirstTranche'' + amt b ''supplierSecondTranche''"
    and "payout b = (if fld b ''phase'' = ''initial_release_after_custody_and_documents''
      then amt b ''totalAmount'' - amt b ''supplierSecondTranche''
      else if fld b ''phase'' \<in> {''inspection_available_standard'', ''inspection_available_packaged_local''} then 0
      else amt b ''supplierSecondTranche'')"
proof -
  note ok = parse_fundedD(5) [OF assms, unfolded funded_amounts_ok_def Let_def]
  show total: "amt b ''totalAmount'' = amt b ''logisticsAmount'' + amt b ''platformFeesAmount'' +
      amt b ''supplierFirstTranche'' + amt b ''supplierSecondTranche''" using ok by (elim conjE) assumption
  have "fld b ''phase'' = ''initial_release_after_custody_and_documents'' \<or> fld b ''phase'' = ''inspection_available_standard'' \<or>
      fld b ''phase'' = ''inspection_available_packaged_local'' \<or> fld b ''phase'' = ''final_release_after_inspection_acceptance'' \<or>
      fld b ''phase'' = ''final_release_after_notice_deadline'' \<or> fld b ''phase'' = ''dispute_resolution''"
    using parse_fundedD(3) [OF assms] by (simp add: FUNDED_SETTLEMENT_PHASES_def)
  then show "payout b = (if fld b ''phase'' = ''initial_release_after_custody_and_documents''
      then amt b ''totalAmount'' - amt b ''supplierSecondTranche''
      else if fld b ''phase'' \<in> {''inspection_available_standard'', ''inspection_available_packaged_local''} then 0
      else amt b ''supplierSecondTranche'')"
    unfolding payout_def by (elim disjE) (use ok in simp_all)
qed

text \<open>
  C13. Funded bindings conserve the locked amount: an accepted binding splits the total exactly into
  its four parts, and the initial release together with the final release (or the resolution of a
  dispute) of a trade pays out the total, no more and no less; notices of inspection pay nothing.
\<close>

theorem funded_releases_pay_total:
  assumes "parseSettlementFundedBinding ga v = Inr b" and "parseSettlementFundedBinding ga w = Inr c"
    and "fld b ''phase'' = ''initial_release_after_custody_and_documents''"
    and "fld c ''phase'' \<notin> {''initial_release_after_custody_and_documents'', ''inspection_available_standard'',
      ''inspection_available_packaged_local''}"
    and "amt c ''supplierSecondTranche'' = amt b ''supplierSecondTranche''"
  shows "payout b + payout c = amt b ''totalAmount'' \<and>
    amt b ''totalAmount'' = amt b ''logisticsAmount'' + amt b ''platformFeesAmount'' +
      amt b ''supplierFirstTranche'' + amt b ''supplierSecondTranche''"
  using funded_payout [OF assms(1)] funded_payout [OF assms(2)] assms(3-5) by simp

text \<open>A funded binding of a trade of 100 units, and a \<open>getAddress\<close> that satisfies the law.\<close>

definition lower_address :: "string \<Rightarrow> string option" where
  "lower_address s = (if hex_text 40 s then Some (toLowerCase s) else None)"

lemma lower_address_law: "address_law lower_address"
proof -
  have "hex_text 40 (toLowerCase s)" if "hex_text 40 s" for s
    using lower_hex_imp_hex [OF hex_text_toLowerCase [OF that]] .
  then show ?thesis by (auto simp: address_law_def lower_address_def split: if_splits)
qed

definition sample_funded :: "string \<Rightarrow> string \<Rightarrow> string \<Rightarrow> json" where
  "sample_funded phase supplier treasury = JObj
    [(''scopeVersion'', JStr ''agroasys.funded-settlement-binding.v1''), (''ownerServiceId'', JStr ''svc''),
     (''sourceOperationId'', JStr ''op''), (''phase'', JStr phase), (''chainId'', JStr ''8453''),
     (''escrowAddress'', JStr (''0x'' @ replicate 40 (CHR ''a''))), (''tokenAddress'', JStr (''0x'' @ replicate 40 (CHR ''B''))),
     (''tradeId'', JStr ''7''), (''buyerAddress'', JStr (''0x'' @ replicate 40 (CHR ''c''))),
     (''supplierAddress'', JStr (''0x'' @ replicate 40 (CHR ''d''))), (''ricardianHash'', JStr (''0x'' @ replicate 64 (CHR ''E''))),
     (''totalAmount'', JStr ''100''), (''logisticsAmount'', JStr ''10''), (''platformFeesAmount'', JStr ''5''),
     (''supplierFirstTranche'', JStr ''40''), (''supplierSecondTranche'', JStr ''45''), (''supplierPayoutAmount'', JStr supplier),
     (''treasuryAccrualAmount'', JStr treasury), (''buyerRefundAmount'', JStr ''0''),
     (''fundingTransactionHash'', JStr (''0x'' @ replicate 64 (CHR ''1''))), (''fundingBlockNumber'', JStr ''9''),
     (''fundingBlockHash'', JStr (''0x'' @ replicate 64 (CHR ''2''))), (''originalFundingFingerprint'', JStr (replicate 64 (CHR ''3'')))]"

definition sample_initial :: json where
  "sample_initial = sample_funded ''initial_release_after_custody_and_documents'' ''40'' ''15''"

definition sample_final :: json where
  "sample_final = sample_funded ''final_release_after_notice_deadline'' ''45'' ''0''"

text \<open>The fields of an accepted sample the examples look at.\<close>

definition sample_view :: "json \<Rightarrow> (string \<times> int \<times> int \<times> int) option" where
  "sample_view v = (case parseSettlementFundedBinding lower_address (Some v) of
     Inl _ \<Rightarrow> None
   | Inr b \<Rightarrow> Some (fld b ''phase'', amt b ''supplierSecondTranche'', amt b ''totalAmount'', payout b))"

lemma sample_views:
  "sample_view sample_initial = Some (''initial_release_after_custody_and_documents'', 45, 100, 55)"
  "sample_view sample_final = Some (''final_release_after_notice_deadline'', 45, 100, 45)"
  by code_simp+

theorem funded_releases_pay_total_witness:
  "\<exists>b c. parseSettlementFundedBinding lower_address (Some sample_initial) = Inr b \<and>
     parseSettlementFundedBinding lower_address (Some sample_final) = Inr c \<and> payout b + payout c = 100"
proof -
  from sample_views obtain b c where
    b: "parseSettlementFundedBinding lower_address (Some sample_initial) = Inr b"
      "fld b ''phase'' = ''initial_release_after_custody_and_documents''" "amt b ''supplierSecondTranche'' = 45"
      "amt b ''totalAmount'' = 100"
    and c: "parseSettlementFundedBinding lower_address (Some sample_final) = Inr c"
      "fld c ''phase'' = ''final_release_after_notice_deadline''" "amt c ''supplierSecondTranche'' = 45"
    by (auto simp: sample_view_def split: sum.splits)
  with funded_releases_pay_total [OF b(1) c(1) b(2)] show ?thesis by simp
qed

text \<open>
  C35. Validation normalises once: an accepted binding, sent back as JSON, is accepted unchanged.
\<close>

theorem funded_binding_normal_form:
  assumes "address_law ga" and "parseSettlementFundedBinding ga v = Inr b"
  shows "parseSettlementFundedBinding ga (Some (binding_json b)) = Inr b"
proof -
  note d = parse_fundedD [OF assms(2)]
  have keys: "set funded_addresses \<subseteq> fst ` set b" "set funded_hashes \<subseteq> fst ` set b"
    using d(1) funded_keys(4,5) by (simp_all flip: set_map)
  have "rewrite_fields (normal_address ga) funded_addresses b = Some b"
    using d(6) normal_address_fixed [OF assms(1)] keys(1) by (intro rewrite_fields_fixed) blast+
  moreover have "rewrite_fields normal_hash funded_hashes b = Some b"
    using d(7) normal_hash_fixed keys(2) by (intro rewrite_fields_fixed) blast+
  ultimately show ?thesis using funded_shape_json [OF d(1-3)] d(4,5)
    unfolding parseSettlementFundedBinding_def funded_addresses_def funded_hashes_def Let_def by simp
qed

theorem funded_binding_normal_form_witness:
  "\<exists>b. parseSettlementFundedBinding lower_address (Some sample_initial) = Inr b \<and>
     parseSettlementFundedBinding lower_address (Some (binding_json b)) = Inr b"
proof -
  from sample_views(1) obtain b where b: "parseSettlementFundedBinding lower_address (Some sample_initial) = Inr b"
    by (auto simp: sample_view_def split: sum.splits)
  with funded_binding_normal_form [OF lower_address_law b] show ?thesis by blast
qed

text \<open>
  C22. A submission never pays out more than the chain holds: when the trade on chain matches the
  binding, the trade's own amounts add up and the payout of the binding is at most what is locked.
\<close>

theorem matched_trade_covers_payout:
  assumes "assertFundedTradeMatchesBinding ga tr v = Inr ()"
  shows "\<exists>b. parseSettlementFundedBinding ga v = Inr b \<and> fld b ''tradeId'' = tr_tradeId tr \<and>
    payout b \<le> int (tr_totalAmountLocked tr) \<and>
    tr_totalAmountLocked tr = tr_logisticsAmount tr + tr_platformFeesAmount tr +
      tr_supplierFirstTranche tr + tr_supplierSecondTranche tr"
proof -
  from assms obtain b where b: "parseSettlementFundedBinding ga v = Inr b" "fld b ''tradeId'' = tr_tradeId tr"
    "amt b ''totalAmount'' = int (tr_totalAmountLocked tr)" "amt b ''logisticsAmount'' = int (tr_logisticsAmount tr)"
    "amt b ''platformFeesAmount'' = int (tr_platformFeesAmount tr)"
    "amt b ''supplierFirstTranche'' = int (tr_supplierFirstTranche tr)"
    "amt b ''supplierSecondTranche'' = int (tr_supplierSecondTranche tr)"
    by (auto simp: assertFundedTradeMatchesBinding_def rbind_Inr_iff amt_def BigInt_bigint split: if_splits
        dest!: sym [of "show_nat _"])
  have "payout b \<le> amt b ''totalAmount''" using funded_payout [OF b(1)] b(3-7) by auto
  moreover have "int (tr_totalAmountLocked tr) = int (tr_logisticsAmount tr + tr_platformFeesAmount tr +
      tr_supplierFirstTranche tr + tr_supplierSecondTranche tr)" using funded_payout(1) [OF b(1)] b(3-7) by simp
  ultimately show ?thesis using b(1-3) by auto
qed

definition sample_trade :: trade where
  "sample_trade = \<lparr>tr_tradeId = ''7'', tr_buyer = ''0x'' @ replicate 40 (CHR ''C''), tr_supplier = ''0x'' @ replicate 40 (CHR ''d''),
     tr_status = LOCKED, tr_totalAmountLocked = 100, tr_logisticsAmount = 10, tr_platformFeesAmount = 5,
     tr_supplierFirstTranche = 40, tr_supplierSecondTranche = 45, tr_ricardianHash = ''0x'' @ replicate 64 (CHR ''e''),
     tr_createdAt = 1, tr_arrivalTimestamp = None\<rparr>"

theorem matched_trade_covers_payout_witness:
  "\<exists>b. parseSettlementFundedBinding lower_address (Some sample_initial) = Inr b \<and> payout b \<le> 100"
proof -
  have "assertFundedTradeMatchesBinding lower_address sample_trade (Some sample_initial) = Inr ()" by code_simp
  from matched_trade_covers_payout [OF this] show ?thesis by (auto simp: sample_trade_def)
qed

end
