(* ===== verification/JS_Time.thy ===== *)
theory JS_Time
  imports JS_Text
begin

text \<open>
  The texts \<open>Date.prototype.toISOString\<close> prints, read back. A source that checks
  \<open>Number.isFinite(Date.parse(s)) && new Date(s).toISOString() === s\<close> accepts exactly these texts:
  \<open>YYYY-MM-DDTHH:mm:ss.sssZ\<close>, or a signed six-digit year outside 0 to 9999, of an instant at most
  \<open>8.64e15\<close> milliseconds from the epoch.
\<close>

text \<open>Days from the epoch to a date of the proleptic Gregorian calendar.\<close>

definition days_from_civil :: "int \<Rightarrow> int \<Rightarrow> int \<Rightarrow> int" where
  "days_from_civil y m d =
    (let y' = (if m \<le> 2 then y - 1 else y); era = y' div 400; yoe = y' - era * 400;
         doy = (153 * (if m > 2 then m - 3 else m + 9) + 2) div 5 + d - 1;
         doe = yoe * 365 + yoe div 4 - yoe div 100 + doy
     in era * 146097 + doe - 719468)"

definition leap_year :: "int \<Rightarrow> bool" where
  "leap_year y = (y mod 4 = 0 \<and> (y mod 100 \<noteq> 0 \<or> y mod 400 = 0))"

definition days_in_month :: "int \<Rightarrow> nat \<Rightarrow> nat" where
  "days_in_month y m =
    (if m = 2 then (if leap_year y then 29 else 28) else if m \<in> {4, 6, 9, 11} then 30 else 31)"

text \<open>The year, and the text after it.\<close>

definition iso_year :: "string \<Rightarrow> (int \<times> string) option" where
  "iso_year s =
    (case s of
       [] \<Rightarrow> None
     | c # t \<Rightarrow>
         if c = CHR ''+'' \<or> c = CHR ''-'' then
           (let y = take 6 t in
            if length y = 6 \<and> all_digits y \<and> (c = CHR ''+'' \<longrightarrow> 9999 < bigint y) \<and> 0 < bigint y
            then Some ((if c = CHR ''-'' then - int (bigint y) else int (bigint y)), drop 6 t) else None)
         else if length (take 4 s) = 4 \<and> all_digits (take 4 s) then Some (int (bigint (take 4 s)), drop 4 s)
         else None)"

definition iso_ms :: "string \<Rightarrow> int option" where
  "iso_ms s =
    (case iso_year s of
       None \<Rightarrow> None
     | Some (y, r) \<Rightarrow>
         let num = (\<lambda>i n. bigint (take n (drop i r))); digs = (\<lambda>i n. all_digits (take n (drop i r))) in
         if length r = 20 \<and> r ! 0 = CHR ''-'' \<and> digs 1 2 \<and> r ! 3 = CHR ''-'' \<and> digs 4 2 \<and> r ! 6 = CHR ''T'' \<and>
            digs 7 2 \<and> r ! 9 = CHR '':'' \<and> digs 10 2 \<and> r ! 12 = CHR '':'' \<and> digs 13 2 \<and> r ! 15 = CHR ''.'' \<and>
            digs 16 3 \<and> r ! 19 = CHR ''Z'' \<and>
            1 \<le> num 1 2 \<and> num 1 2 \<le> 12 \<and> 1 \<le> num 4 2 \<and> num 4 2 \<le> days_in_month y (num 1 2) \<and>
            num 7 2 < 24 \<and> num 10 2 < 60 \<and> num 13 2 < 60
         then (let t = 86400000 * days_from_civil y (int (num 1 2)) (int (num 4 2)) + 3600000 * int (num 7 2) +
                 60000 * int (num 10 2) + 1000 * int (num 13 2) + int (num 16 3)
               in if \<bar>t\<bar> \<le> 8640000000000000 then Some t else None)
         else None)"

text \<open>The date of a day, and \<open>toISOString\<close> itself.\<close>

definition civil_from_days :: "int \<Rightarrow> int \<times> int \<times> int" where
  "civil_from_days z =
    (let z' = z + 719468; era = z' div 146097; doe = z' - era * 146097;
         yoe = (doe - doe div 1460 + doe div 36524 - doe div 146096) div 365;
         doy = doe - (365 * yoe + yoe div 4 - yoe div 100); mp = (5 * doy + 2) div 153;
         d = doy - (153 * mp + 2) div 5 + 1; m = (if mp < 10 then mp + 3 else mp - 9);
         y = yoe + era * 400
     in (if m \<le> 2 then y + 1 else y, m, d))"

definition pad_int :: "nat \<Rightarrow> int \<Rightarrow> string" where
  "pad_int n i = padStart n (CHR ''0'') (show_int i)"

definition toISOString :: "timestamp \<Rightarrow> string" where
  "toISOString t =
    (let (y, m, d) = civil_from_days (t div 86400000); r = t mod 86400000 in
     (if 0 \<le> y \<and> y \<le> 9999 then pad_int 4 y else if y < 0 then ''-'' @ pad_int 6 (- y) else ''+'' @ pad_int 6 y) @
     ''-'' @ pad_int 2 m @ ''-'' @ pad_int 2 d @ ''T'' @ pad_int 2 (r div 3600000) @ '':'' @
     pad_int 2 (r div 60000 mod 60) @ '':'' @ pad_int 2 (r div 1000 mod 60) @ ''.'' @ pad_int 3 (r mod 1000) @ ''Z'')"

lemma toISOString_samples:
  "toISOString 0 = ''1970-01-01T00:00:00.000Z''"
  "toISOString 951827696789 = ''2000-02-29T12:34:56.789Z''"
  "toISOString (- 1) = ''1969-12-31T23:59:59.999Z''"
  by code_simp+

lemma iso_ms_samples:
  "iso_ms ''1970-01-01T00:00:00.000Z'' = Some 0"
  "iso_ms ''2024-02-29T12:34:56.789Z'' = Some 1709210096789"
  "iso_ms ''2023-02-29T00:00:00.000Z'' = None"
  "iso_ms ''-000001-12-31T23:59:59.999Z'' = Some (- 62167219200001)"
  by code_simp+

end
