(* ===== verification/Execution_Binding.thy ===== *)
theory Execution_Binding
  imports Settlement_Machine Funded_Binding JS_Time
begin

text \<open>
  The execution bindings of the gateway (\<open>gateway/src/core/settlementExecutionBinding.ts\<close>,
  \<open>settlementUserActionBinding.ts\<close>): validation of the typed instruction a handoff carries, for the
  creation of a trade, a funded progression or a user action. The service identity is the
  authenticated one; \<open>getAddress\<close> is the parameter of theory \<open>Funded_Binding\<close>. The lemmas show who
  owns an accepted binding and what it can pay.

  The comparison of a binding with an execution request (signature recovery and scope hashes) is
  not modelled.
\<close>

section \<open>User actions\<close>

definition USER_ACTION_BINDING_VERSION :: string where
  "USER_ACTION_BINDING_VERSION = ''agroasys.cotsel-user-action-binding.v1''"

definition USER_ACTIONS :: "string list" where
  "USER_ACTIONS =
    [''open_dispute'', ''cancel_locked_timeout'', ''refund_in_transit_timeout'', ''finalize_after_dispute_window'',
     ''finalize_after_inspection_acceptance'']"

definition USER_ACTION_IDS :: "(string, string) jsmap" where
  "USER_ACTION_IDS =
    [(''open_dispute'', ''1''), (''cancel_locked_timeout'', ''2''), (''refund_in_transit_timeout'', ''3''),
     (''finalize_after_dispute_window'', ''4''), (''finalize_after_inspection_acceptance'', ''5'')]"

definition user_action_fields :: "string list" where
  "user_action_fields =
    [''scopeVersion'', ''ownerServiceId'', ''packageId'', ''sourceOperationId'', ''approvalScopeFingerprint'',
     ''originalFundingFingerprint'', ''phase'', ''action'', ''signerRole'', ''signerAddress'', ''buyerAddress'',
     ''supplierAddress'', ''chainId'', ''escrowAddress'', ''tokenAddress'', ''deploymentIdentity'', ''tradeId'',
     ''nonce'', ''deadline'', ''expiresAt'', ''recipient'', ''amount'', ''totalAmount'', ''supplierSecondTranche'',
     ''fundingTransactionHash'', ''fundingBlockNumber'', ''fundingBlockHash'', ''executionScopeHash'']"

definition user_action_invalid :: gateway_error where
  "user_action_invalid = GatewayError 409 CONFLICT ''settlement_user_action_binding_invalid'' []"

definition uint :: "json option \<Rightarrow> bool" where
  "uint v = (case v of Some (JStr s) \<Rightarrow> uint256_text s | _ \<Rightarrow> False)"

definition user_address :: "(string \<Rightarrow> string option) \<Rightarrow> json option \<Rightarrow> bool" where
  "user_address getAddress v =
    (case v of
       Some (JStr s) \<Rightarrow> \<not> zero_address s \<and> (case getAddress s of None \<Rightarrow> False | Some a \<Rightarrow> toLowerCase a = s)
     | _ \<Rightarrow> False)"

text \<open>The patterns \<open>/^\\S{1,128}$/\<close>, \<open>/^0x[0-9a-f]{64}$/\<close> and \<open>/^[0-9a-f]{64}$/\<close> on a member.\<close>

definition str_matches :: "(string \<Rightarrow> bool) \<Rightarrow> json option \<Rightarrow> bool" where
  "str_matches P v = (case v of Some (JStr s) \<Rightarrow> P s | _ \<Rightarrow> False)"

definition token_text :: "string \<Rightarrow> bool" where
  "token_text s = (1 \<le> length s \<and> length s \<le> 128 \<and> list_all (\<lambda>c. \<not> is_space c) s)"

definition sf :: "json \<Rightarrow> string \<Rightarrow> string" where
  "sf b k = (case str_member b k of None \<Rightarrow> [] | Some s \<Rightarrow> s)"

definition user_action_shape :: "(string \<Rightarrow> string option) \<Rightarrow> json \<Rightarrow> bool" where
  "user_action_shape getAddress b =
    (member_is b ''scopeVersion'' USER_ACTION_BINDING_VERSION \<and> member_is b ''phase'' ''gasless_user_action'' \<and>
     list_ex (\<lambda>a. member_is b ''action'' a) USER_ACTIONS \<and>
     list_all (\<lambda>k. str_matches token_text (member_of b k)) [''packageId'', ''sourceOperationId'', ''ownerServiceId''] \<and>
     list_all (\<lambda>k. uint (member_of b k))
       [''chainId'', ''tradeId'', ''nonce'', ''deadline'', ''amount'', ''totalAmount'', ''supplierSecondTranche'',
        ''fundingBlockNumber''] \<and>
     list_all (\<lambda>k. user_address getAddress (member_of b k))
       [''signerAddress'', ''buyerAddress'', ''supplierAddress'', ''escrowAddress'', ''tokenAddress''] \<and>
     list_all (\<lambda>k. str_matches (lower_hex_text 64) (member_of b k))
       [''approvalScopeFingerprint'', ''fundingTransactionHash'', ''fundingBlockHash'', ''executionScopeHash''] \<and>
     str_matches (bare_hex_text 64) (member_of b ''originalFundingFingerprint''))"

definition user_action_terms :: "json \<Rightarrow> bool" where
  "user_action_terms b =
    (let action = sf b ''action''; supplier = (action = ''finalize_after_dispute_window'');
         noPayout = (action = ''open_dispute'');
         refund = (action = ''cancel_locked_timeout'' \<or> action = ''refund_in_transit_timeout'')
     in \<not> (sf b ''chainId'' = ''0'' \<or> BigInt (sf b ''chainId'') > 2 ^ 53 - 1 \<or>
           sf b ''buyerAddress'' = sf b ''supplierAddress'' \<or>
           \<not> member_is b ''signerRole'' (if supplier then ''supplier'' else ''buyer'') \<or>
           sf b ''signerAddress'' \<noteq> (if supplier then sf b ''supplierAddress'' else sf b ''buyerAddress'') \<or>
           \<not> member_is b ''deploymentIdentity''
               (sf b ''chainId'' @ '':'' @ sf b ''escrowAddress'' @ '':'' @ sf b ''tokenAddress'') \<or>
           (case Option.bind (str_member b ''expiresAt'') iso_ms of
              None \<Rightarrow> True
            | Some t \<Rightarrow> t mod 1000 \<noteq> 0 \<or> t div 1000 \<noteq> BigInt (sf b ''deadline'')) \<or>
           BigInt (sf b ''totalAmount'') \<le> 0 \<or> BigInt (sf b ''supplierSecondTranche'') \<le> 0 \<or>
           BigInt (sf b ''supplierSecondTranche'') \<ge> BigInt (sf b ''totalAmount'') \<or>
           member_of b ''recipient'' \<noteq> Some (if noPayout then JNull
             else if refund then JStr (sf b ''buyerAddress'') else JStr (sf b ''supplierAddress'')) \<or>
           sf b ''amount'' \<noteq> (if noPayout then ''0''
             else if action = ''cancel_locked_timeout'' then sf b ''totalAmount'' else sf b ''supplierSecondTranche'')))"

definition parseSettlementUserActionBinding ::
  "(string \<Rightarrow> string option) \<Rightarrow> json option \<Rightarrow> string option \<Rightarrow> gateway_error + json" where
  "parseSettlementUserActionBinding getAddress v owner =
    (if \<not> truthy owner then Inl (GatewayError 403 FORBIDDEN ''Authenticated handoff owner is required'' [])
     else case v of
       Some (JObj row) \<Rightarrow>
         let b = JObj row in
         if length row \<noteq> length user_action_fields \<or> list_ex (\<lambda>k. k \<notin> fst ` set row) user_action_fields \<or>
            list_ex (\<lambda>f. fst f \<notin> set user_action_fields) row
         then Inl user_action_invalid
         else if \<not> member_is b ''ownerServiceId'' (the owner) then
           Inl (GatewayError 403 FORBIDDEN ''User-action owner differs from authenticated service'' [])
         else if \<not> user_action_shape getAddress b \<or> \<not> user_action_terms b then Inl user_action_invalid
         else Inr b
     | _ \<Rightarrow> Inl user_action_invalid)"

section \<open>Execution bindings\<close>

definition exec_fields :: "string list" where
  "exec_fields =
    [''scopeVersion'', ''ownerServiceId'', ''sourceOperationId'', ''packageId'', ''approvalScopeFingerprint'',
     ''chainId'', ''escrowAddress'', ''tokenAddress'', ''buyerAddress'', ''supplierAddress'', ''ricardianHash'',
     ''totalAmount'', ''logisticsAmount'', ''platformFeesAmount'', ''supplierFirstTranche'',
     ''supplierSecondTranche'', ''expiresAt'', ''buyerAuthorization'', ''usdcAuthorization'', ''executionScopeHash'']"

definition exec_invalid :: gateway_error where
  "exec_invalid =
    GatewayError 400 VALIDATION_ERROR ''A complete versioned settlement execution binding is required'' []"

definition exec_object :: "json option \<Rightarrow> string list \<Rightarrow> gateway_error + json" where
  "exec_object v known =
    (case v of
       Some (JObj row) \<Rightarrow> if list_ex (\<lambda>f. fst f \<notin> set known) row then Inl exec_invalid else Inr (JObj row)
     | _ \<Rightarrow> Inl exec_invalid)"

definition exec_text :: "json option \<Rightarrow> gateway_error + string" where
  "exec_text v =
    (case v of
       Some (JStr s) \<Rightarrow> if s = [] \<or> length s > 255 \<or> trim s \<noteq> s then Inl exec_invalid else Inr s
     | _ \<Rightarrow> Inl exec_invalid)"

definition exec_integer :: "json option \<Rightarrow> gateway_error + string" where
  "exec_integer v = rbind (exec_text v) (\<lambda>s.
     if \<not> uint_text s \<or> BigInt s > 2 ^ 256 - 1 then Inl exec_invalid else Inr s)"

definition exec_address :: "(string \<Rightarrow> string option) \<Rightarrow> json option \<Rightarrow> gateway_error + string" where
  "exec_address getAddress v = rbind (exec_text v) (\<lambda>s.
     case getAddress s of None \<Rightarrow> Inl exec_invalid | Some a \<Rightarrow> Inr (toLowerCase a))"

definition exec_hash :: "json option \<Rightarrow> gateway_error + string" where
  "exec_hash v = rbind (exec_text v) (\<lambda>s.
     if \<not> lower_hex_text 64 (toLowerCase s) then Inl exec_invalid else Inr (toLowerCase s))"

text \<open>A list of named readings, evaluated in order.\<close>

fun read_all :: "(string \<times> (gateway_error + string)) list \<Rightarrow> gateway_error + (string \<times> json) list" where
  "read_all [] = Inr []"
| "read_all ((k, r) # rs) = rbind r (\<lambda>s. rbind (read_all rs) (\<lambda>fs. Inr ((k, JStr s) # fs)))"

definition create_terms :: "json \<Rightarrow> json \<Rightarrow> json \<Rightarrow> int \<Rightarrow> bool" where
  "create_terms r buyer usdc t =
    (let expiry = int_text (t div 1000) in
     \<not> (sf r ''chainId'' = ''0'' \<or> sf r ''totalAmount'' \<noteq> sf usdc ''value'' \<or>
        sf r ''buyerAddress'' \<noteq> sf usdc ''from'' \<or> sf r ''escrowAddress'' \<noteq> sf usdc ''to'' \<or>
        sf buyer ''deadline'' \<noteq> expiry \<or> sf usdc ''validBefore'' \<noteq> expiry \<or>
        BigInt (sf usdc ''validAfter'') \<ge> BigInt (sf usdc ''validBefore'') \<or>
        BigInt (sf r ''totalAmount'') \<noteq> BigInt (sf r ''logisticsAmount'') + BigInt (sf r ''platformFeesAmount'') +
          BigInt (sf r ''supplierFirstTranche'') + BigInt (sf r ''supplierSecondTranche'')))"

definition create_fields :: "(string \<Rightarrow> string option) \<Rightarrow> json \<Rightarrow> gateway_error + (string \<times> json) list" where
  "create_fields getAddress inp =
    (let field = member_of inp; addr = exec_address getAddress in
     read_all
       [(''sourceOperationId'', exec_text (field ''sourceOperationId'')), (''packageId'', exec_text (field ''packageId'')),
        (''approvalScopeFingerprint'', exec_hash (field ''approvalScopeFingerprint'')),
        (''chainId'', exec_integer (field ''chainId'')), (''escrowAddress'', addr (field ''escrowAddress'')),
        (''tokenAddress'', addr (field ''tokenAddress'')), (''buyerAddress'', addr (field ''buyerAddress'')),
        (''supplierAddress'', addr (field ''supplierAddress'')), (''ricardianHash'', exec_hash (field ''ricardianHash'')),
        (''totalAmount'', exec_integer (field ''totalAmount'')), (''logisticsAmount'', exec_integer (field ''logisticsAmount'')),
        (''platformFeesAmount'', exec_integer (field ''platformFeesAmount'')),
        (''supplierFirstTranche'', exec_integer (field ''supplierFirstTranche'')),
        (''supplierSecondTranche'', exec_integer (field ''supplierSecondTranche''))])"

definition buyer_fields :: "json \<Rightarrow> gateway_error + (string \<times> json) list" where
  "buyer_fields buyer =
    read_all [(''nonce'', exec_integer (member_of buyer ''nonce'')), (''deadline'', exec_integer (member_of buyer ''deadline''))]"

definition usdc_fields :: "(string \<Rightarrow> string option) \<Rightarrow> json \<Rightarrow> gateway_error + (string \<times> json) list" where
  "usdc_fields getAddress usdc =
    (let field = member_of usdc; addr = exec_address getAddress in
     read_all
       [(''from'', addr (field ''from'')), (''to'', addr (field ''to'')), (''value'', exec_integer (field ''value'')),
        (''validAfter'', exec_integer (field ''validAfter'')), (''validBefore'', exec_integer (field ''validBefore'')),
        (''nonce'', exec_hash (field ''nonce''))])"

definition create_result ::
  "string \<Rightarrow> (string \<times> json) list \<Rightarrow> string \<Rightarrow> (string \<times> json) list \<Rightarrow> (string \<times> json) list \<Rightarrow> string \<Rightarrow> json" where
  "create_result who fs expiresAt ba ua scope =
    JObj ([(''scopeVersion'', JStr ''agroasys.cotsel-execution-binding.v1''), (''ownerServiceId'', JStr who)] @ fs @
      [(''expiresAt'', JStr expiresAt), (''buyerAuthorization'', JObj ba), (''usdcAuthorization'', JObj ua),
       (''executionScopeHash'', JStr scope)])"

definition parseCreateTradeBinding ::
  "(string \<Rightarrow> string option) \<Rightarrow> json option \<Rightarrow> string \<Rightarrow> gateway_error + json" where
  "parseCreateTradeBinding getAddress v serviceIdentity =
    rbind (exec_object v exec_fields) (\<lambda>inp.
    if \<not> member_is inp ''scopeVersion'' ''agroasys.cotsel-execution-binding.v1'' then Inl exec_invalid
    else if member_of inp ''ownerServiceId'' \<noteq> None \<and> \<not> member_is inp ''ownerServiceId'' serviceIdentity then
      Inl (GatewayError 403 FORBIDDEN ''Execution binding owner does not match authenticated service'' [])
    else
      rbind (exec_object (member_of inp ''buyerAuthorization'') [''nonce'', ''deadline'']) (\<lambda>buyer.
      rbind (exec_object (member_of inp ''usdcAuthorization'')
               [''from'', ''to'', ''value'', ''validAfter'', ''validBefore'', ''nonce'']) (\<lambda>usdc.
      rbind (exec_text (member_of inp ''expiresAt'')) (\<lambda>expiresAt.
      case iso_ms expiresAt of
        None \<Rightarrow> Inl exec_invalid
      | Some t \<Rightarrow>
          rbind (create_fields getAddress inp) (\<lambda>fs.
          rbind (buyer_fields buyer) (\<lambda>ba.
          rbind (usdc_fields getAddress usdc) (\<lambda>ua.
          rbind (exec_hash (member_of inp ''executionScopeHash'')) (\<lambda>scope.
          let r = create_result serviceIdentity fs expiresAt ba ua scope in
          if create_terms r (JObj ba) (JObj ua) t then Inr r else Inl exec_invalid))))))))"

definition parseSettlementExecutionBinding ::
  "(string \<Rightarrow> string option) \<Rightarrow> json option \<Rightarrow> string option \<Rightarrow> gateway_error + json" where
  "parseSettlementExecutionBinding getAddress v serviceIdentity =
    (if \<not> truthy serviceIdentity then Inl (GatewayError 403 FORBIDDEN ''An authenticated owning service is required'' [])
     else if v \<noteq> None \<and> member_is (the v) ''scopeVersion'' USER_ACTION_BINDING_VERSION then
       parseSettlementUserActionBinding getAddress v serviceIdentity
     else if v \<noteq> None \<and> member_is (the v) ''scopeVersion'' ''agroasys.funded-settlement-binding.v1'' then
       (case parseSettlementFundedBinding getAddress v of
          Inl _ \<Rightarrow> Inl exec_invalid
        | Inr b \<Rightarrow>
            if Some (fld b ''ownerServiceId'') \<noteq> serviceIdentity then
              Inl (GatewayError 403 FORBIDDEN ''Funded binding owner does not match authenticated service'' [])
            else Inr (binding_json b))
     else parseCreateTradeBinding getAddress v (the serviceIdentity))"

section \<open>Accepted bindings\<close>

lemma member_binding_json: "member_of (binding_json b) k = map_option JStr (map_get b k)"
  by (simp add: binding_json_def map_of_map map_get_def)

lemma read_all_keys: "read_all rs = Inr fs \<Longrightarrow> map fst fs = map fst rs"
  by (induction rs arbitrary: fs rule: read_all.induct) (auto simp: rbind_Inr_iff)

lemma member_after:
  assumes "k \<notin> fst ` set pre" and "k \<notin> set (map fst fs)"
  shows "member_of (JObj (pre @ fs @ rest)) k = map_of rest k"
proof -
  have "map_of pre k = None" "map_of fs k = None" using assms by (simp_all add: map_of_eq_None_iff)
  then show ?thesis by (simp add: map_add_def)
qed

lemma parse_create_parts:
  assumes "parseCreateTradeBinding ga v who = Inr r"
  obtains fs ba ua expiresAt scope t where "iso_ms expiresAt = Some t" "r = create_result who fs expiresAt ba ua scope"
    "create_terms r (JObj ba) (JObj ua) t"
    "''expiresAt'' \<notin> set (map fst fs)" "''buyerAuthorization'' \<notin> set (map fst fs)"
    "''usdcAuthorization'' \<notin> set (map fst fs)"
proof -
  from assms obtain inp fs expiresAt t ba ua scope where p: "iso_ms expiresAt = Some t" "create_fields ga inp = Inr fs"
    "r = create_result who fs expiresAt ba ua scope" "create_terms r (JObj ba) (JObj ua) t"
    by (auto simp: parseCreateTradeBinding_def rbind_Inr_iff Let_def split: if_splits option.splits)
  have keys: "map fst fs = [''sourceOperationId'', ''packageId'', ''approvalScopeFingerprint'', ''chainId'', ''escrowAddress'',
       ''tokenAddress'', ''buyerAddress'', ''supplierAddress'', ''ricardianHash'', ''totalAmount'', ''logisticsAmount'',
       ''platformFeesAmount'', ''supplierFirstTranche'', ''supplierSecondTranche'']"
    using read_all_keys [OF p(2) [unfolded create_fields_def Let_def]] by simp
  show thesis by (rule that [OF p(1,3,4)]) (simp_all add: keys del: set_map)
qed

lemma user_binding_accepted:
  assumes "parseSettlementUserActionBinding ga v who = Inr b"
  shows "v = Some b" and "truthy who" and "member_is b ''ownerServiceId'' (the who)"
    and "user_action_shape ga b" and "user_action_terms b"
  using assms unfolding parseSettlementUserActionBinding_def Let_def
  by (auto split: if_splits option.splits json.splits)

lemma exec_binding_cases:
  assumes "parseSettlementExecutionBinding ga v who = Inr b" and "who = Some s" and "s \<noteq> []"
  obtains (user) "parseSettlementUserActionBinding ga v who = Inr b"
  | (funded) c where "parseSettlementFundedBinding ga v = Inr c" "fld c ''ownerServiceId'' = s" "b = binding_json c"
  | (create) "parseCreateTradeBinding ga v s = Inr b"
proof -
  have tr: "truthy who" using assms(2,3) by (simp add: truthy_def)
  let ?user = "v \<noteq> None \<and> member_is (the v) ''scopeVersion'' USER_ACTION_BINDING_VERSION"
  let ?funded = "v \<noteq> None \<and> member_is (the v) ''scopeVersion'' ''agroasys.funded-settlement-binding.v1''"
  have r: "(if ?user then parseSettlementUserActionBinding ga v who else if ?funded then
      (case parseSettlementFundedBinding ga v of Inl _ \<Rightarrow> Inl exec_invalid
       | Inr c \<Rightarrow> if Some (fld c ''ownerServiceId'') \<noteq> who
           then Inl (GatewayError 403 FORBIDDEN ''Funded binding owner does not match authenticated service'' [])
           else Inr (binding_json c))
      else parseCreateTradeBinding ga v s) = Inr b"
    using assms(1) tr unfolding parseSettlementExecutionBinding_def assms(2) option.sel by (simp only: not_True_eq_False if_False)
  show thesis
  proof (cases ?user)
    case True
    have "parseSettlementUserActionBinding ga v who = Inr b" using r unfolding if_P [OF True] .
    then show thesis by (rule user)
  next
    case nu: False
    show thesis
    proof (cases ?funded)
      case False
      have "parseCreateTradeBinding ga v s = Inr b" using r unfolding if_not_P [OF nu] if_not_P [OF False] .
      then show thesis by (rule create)
    next
      case True
      from r [unfolded if_not_P [OF nu] if_P [OF True]]
      obtain c where "parseSettlementFundedBinding ga v = Inr c" "Some (fld c ''ownerServiceId'') = who" "binding_json c = b"
        by (cases "parseSettlementFundedBinding ga v") (auto split: if_split_asm)
      with assms(2) show thesis by (intro funded [of c]) auto
    qed
  qed
qed

section \<open>Properties\<close>

text \<open>
  C25. Ownership comes from the credentials: every accepted binding, of whichever kind, belongs to
  the authenticated service, and without an authenticated service nothing is accepted.
\<close>

theorem accepted_binding_owner:
  assumes "parseSettlementExecutionBinding ga v who = Inr b"
  shows "\<exists>s. who = Some s \<and> s \<noteq> [] \<and> member_of b ''ownerServiceId'' = Some (JStr s)"
proof -
  from assms have "truthy who" by (auto simp: parseSettlementExecutionBinding_def split: if_splits)
  then obtain s where s: "who = Some s" "s \<noteq> []" by (auto simp: truthy_def split: option.splits)
  from assms s have "member_of b ''ownerServiceId'' = Some (JStr s)"
  proof (cases rule: exec_binding_cases)
    case user
    then show ?thesis using user_binding_accepted(3) s(1) by (simp add: member_is_def)
  next
    case (funded c)
    have "''ownerServiceId'' \<in> set (map fst c)"
      unfolding parse_fundedD(1) [OF funded(1)] by (simp add: funded_fields_def)
    then have "''ownerServiceId'' \<in> fst ` set c" by simp
    then show ?thesis using funded
      by (cases "map_of c ''ownerServiceId''") (auto simp: member_binding_json fld_def map_get_def map_of_eq_None_iff)
  next
    case create
    then obtain fs ba ua e scope where "b = create_result s fs e ba ua scope" by (rule parse_create_parts)
    then show ?thesis by (simp add: create_result_def)
  qed
  then show ?thesis using s by blast
qed

text \<open>
  C37. A create-trade binding authorises exactly its total: the USDC authorization moves the total
  from the buyer to the escrow, both authorizations end at the binding's expiry, and the total is
  the sum of its four parts.
\<close>

theorem create_binding_authorises_total:
  assumes "parseCreateTradeBinding ga v who = Inr b"
  shows "\<exists>buyer usdc t. member_of b ''buyerAuthorization'' = Some buyer \<and> member_of b ''usdcAuthorization'' = Some usdc \<and>
    iso_ms (sf b ''expiresAt'') = Some t \<and>
    sf usdc ''value'' = sf b ''totalAmount'' \<and> sf usdc ''from'' = sf b ''buyerAddress'' \<and> sf usdc ''to'' = sf b ''escrowAddress'' \<and>
    sf buyer ''deadline'' = int_text (t div 1000) \<and> sf usdc ''validBefore'' = int_text (t div 1000) \<and>
    BigInt (sf usdc ''validAfter'') < BigInt (sf usdc ''validBefore'') \<and>
    BigInt (sf b ''totalAmount'') = BigInt (sf b ''logisticsAmount'') + BigInt (sf b ''platformFeesAmount'') +
      BigInt (sf b ''supplierFirstTranche'') + BigInt (sf b ''supplierSecondTranche'')"
proof -
  from assms obtain fs ba ua e scope t where p: "iso_ms e = Some t" "b = create_result who fs e ba ua scope"
    "create_terms b (JObj ba) (JObj ua) t" "''expiresAt'' \<notin> set (map fst fs)"
    "''buyerAuthorization'' \<notin> set (map fst fs)" "''usdcAuthorization'' \<notin> set (map fst fs)" by (rule parse_create_parts)
  have m: "member_of b ''buyerAuthorization'' = Some (JObj ba)" "member_of b ''usdcAuthorization'' = Some (JObj ua)"
    "member_of b ''expiresAt'' = Some (JStr e)"
    unfolding p(2) create_result_def by (subst member_after; use p(4-6) in simp)+
  then have "sf b ''expiresAt'' = e" by (simp add: sf_def str_member_def)
  then show ?thesis using m p(1,3) unfolding create_terms_def Let_def
    by (intro exI [of _ "JObj ba"] exI [of _ "JObj ua"] exI [of _ t]) auto
qed

text \<open>
  C38. What a user action can move: an accepted binding is signed by the supplier only to finalize
  after the dispute window and by the buyer otherwise; opening a dispute moves nothing, a refund goes
  to the buyer and a finalization to the supplier, and never more than the trade's total.
\<close>

theorem user_action_pays_bounded:
  assumes "parseSettlementUserActionBinding ga v who = Inr b"
  shows "sf b ''signerAddress'' = (if sf b ''action'' = ''finalize_after_dispute_window'' then sf b ''supplierAddress''
      else sf b ''buyerAddress'') \<and>
    BigInt (sf b ''amount'') \<le> BigInt (sf b ''totalAmount'') \<and>
    member_of b ''recipient'' = Some (if sf b ''action'' = ''open_dispute'' then JNull
      else if sf b ''action'' \<in> {''cancel_locked_timeout'', ''refund_in_transit_timeout''} then JStr (sf b ''buyerAddress'')
      else JStr (sf b ''supplierAddress'')) \<and>
    (BigInt (sf b ''amount'') = 0 \<longleftrightarrow> sf b ''action'' = ''open_dispute'')"
proof -
  have t: "user_action_terms b" by (rule user_binding_accepted(5) [OF assms])
  have z: "BigInt ''0'' = 0" by (simp add: BigInt_def)
  show ?thesis using t unfolding user_action_terms_def Let_def
    by (cases "sf b ''action'' = ''open_dispute''"; cases "sf b ''action'' = ''cancel_locked_timeout''")
      (simp_all add: z)
qed

text \<open>A create-trade request and a user action the gateway accepts.\<close>

definition sample_create :: json where
  "sample_create = JObj
    [(''scopeVersion'', JStr ''agroasys.cotsel-execution-binding.v1''), (''sourceOperationId'', JStr ''op''), (''packageId'', JStr ''pk''),
     (''approvalScopeFingerprint'', JStr (''0x'' @ replicate 64 (CHR ''1''))), (''chainId'', JStr ''8453''),
     (''escrowAddress'', JStr (''0x'' @ replicate 40 (CHR ''a''))), (''tokenAddress'', JStr (''0x'' @ replicate 40 (CHR ''b''))),
     (''buyerAddress'', JStr (''0x'' @ replicate 40 (CHR ''C''))), (''supplierAddress'', JStr (''0x'' @ replicate 40 (CHR ''d''))),
     (''ricardianHash'', JStr (''0x'' @ replicate 64 (CHR ''2''))), (''totalAmount'', JStr ''100''), (''logisticsAmount'', JStr ''10''),
     (''platformFeesAmount'', JStr ''5''), (''supplierFirstTranche'', JStr ''40''), (''supplierSecondTranche'', JStr ''45''),
     (''expiresAt'', JStr ''1970-01-01T00:01:40.000Z''),
     (''buyerAuthorization'', JObj [(''nonce'', JStr ''0''), (''deadline'', JStr ''100'')]),
     (''usdcAuthorization'', JObj [(''from'', JStr (''0x'' @ replicate 40 (CHR ''c''))), (''to'', JStr (''0x'' @ replicate 40 (CHR ''a''))),
        (''value'', JStr ''100''), (''validAfter'', JStr ''0''), (''validBefore'', JStr ''100''), (''nonce'', JStr (''0x'' @ replicate 64 (CHR ''4'')))]),
     (''executionScopeHash'', JStr (''0x'' @ replicate 64 (CHR ''3'')))]"

definition accepted :: "'e + 'a \<Rightarrow> bool" where
  "accepted r = (case r of Inl _ \<Rightarrow> False | Inr _ \<Rightarrow> True)"

lemma accepted_iff: "accepted r \<longleftrightarrow> (\<exists>x. r = Inr x)"
  by (cases r) (simp_all add: accepted_def)

lemma sample_create_accepted: "accepted (parseCreateTradeBinding lower_address (Some sample_create) ''svc'')"
  by code_simp

theorem accepted_binding_owner_witness:
  "\<exists>b. parseSettlementExecutionBinding lower_address (Some sample_create) (Some ''svc'') = Inr b \<and>
     member_of b ''ownerServiceId'' = Some (JStr ''svc'')"
proof -
  from sample_create_accepted obtain b where b: "parseCreateTradeBinding lower_address (Some sample_create) ''svc'' = Inr b"
    by (auto simp: accepted_iff)
  then have "parseSettlementExecutionBinding lower_address (Some sample_create) (Some ''svc'') = Inr b"
    by (simp add: parseSettlementExecutionBinding_def truthy_def member_is_def sample_create_def USER_ACTION_BINDING_VERSION_def)
  with accepted_binding_owner [OF this] show ?thesis by auto
qed

theorem create_binding_authorises_total_witness:
  "\<exists>b usdc. parseCreateTradeBinding lower_address (Some sample_create) ''svc'' = Inr b \<and>
     member_of b ''usdcAuthorization'' = Some usdc \<and> sf usdc ''value'' = sf b ''totalAmount''"
proof -
  from sample_create_accepted obtain b where b: "parseCreateTradeBinding lower_address (Some sample_create) ''svc'' = Inr b"
    by (auto simp: accepted_iff)
  from create_binding_authorises_total [OF b] b show ?thesis by blast
qed

definition sample_user_action :: json where
  "sample_user_action = JObj
    [(''scopeVersion'', JStr ''agroasys.cotsel-user-action-binding.v1''), (''ownerServiceId'', JStr ''svc''), (''packageId'', JStr ''pk''),
     (''sourceOperationId'', JStr ''op''), (''approvalScopeFingerprint'', JStr (''0x'' @ replicate 64 (CHR ''1''))),
     (''originalFundingFingerprint'', JStr (replicate 64 (CHR ''2''))), (''phase'', JStr ''gasless_user_action''),
     (''action'', JStr ''cancel_locked_timeout''), (''signerRole'', JStr ''buyer''), (''signerAddress'', JStr (''0x'' @ replicate 40 (CHR ''c''))),
     (''buyerAddress'', JStr (''0x'' @ replicate 40 (CHR ''c''))), (''supplierAddress'', JStr (''0x'' @ replicate 40 (CHR ''d''))),
     (''chainId'', JStr ''8453''), (''escrowAddress'', JStr (''0x'' @ replicate 40 (CHR ''a''))),
     (''tokenAddress'', JStr (''0x'' @ replicate 40 (CHR ''b''))),
     (''deploymentIdentity'', JStr (''8453:0x'' @ replicate 40 (CHR ''a'') @ '':0x'' @ replicate 40 (CHR ''b''))),
     (''tradeId'', JStr ''7''), (''nonce'', JStr ''0''), (''deadline'', JStr ''100''), (''expiresAt'', JStr ''1970-01-01T00:01:40.000Z''),
     (''recipient'', JStr (''0x'' @ replicate 40 (CHR ''c''))), (''amount'', JStr ''100''), (''totalAmount'', JStr ''100''),
     (''supplierSecondTranche'', JStr ''45''), (''fundingTransactionHash'', JStr (''0x'' @ replicate 64 (CHR ''1''))),
     (''fundingBlockNumber'', JStr ''9''), (''fundingBlockHash'', JStr (''0x'' @ replicate 64 (CHR ''2''))),
     (''executionScopeHash'', JStr (''0x'' @ replicate 64 (CHR ''3'')))]"

theorem user_action_pays_bounded_witness:
  "\<exists>b. parseSettlementUserActionBinding lower_address (Some sample_user_action) (Some ''svc'') = Inr b \<and>
     BigInt (sf b ''amount'') \<le> BigInt (sf b ''totalAmount'')"
proof -
  have "accepted (parseSettlementUserActionBinding lower_address (Some sample_user_action) (Some ''svc''))" by code_simp
  then obtain b where b: "parseSettlementUserActionBinding lower_address (Some sample_user_action) (Some ''svc'') = Inr b"
    by (auto simp: accepted_iff)
  from user_action_pays_bounded [OF b] b show ?thesis by blast
qed

end
