(* ===== verification/Settlement_Service.thy ===== *)
theory Settlement_Service
  imports Store_Properties Execution_Binding
begin

text \<open>
  The settlement service of the gateway (\<open>gateway/src/core/settlementService.ts\<close>) over the
  settlement store: creation of handoffs with their execution bindings, recording of execution
  events, and the callback payload with its reconciliation evidence.

  Parameters of the model: \<open>getAddress\<close> of \<open>ethers\<close> (theory \<open>Funded_Binding\<close>), the hex digest
  \<open>sha256\<close>, and \<open>date_parse\<close>, the instant \<open>new Date(text)\<close> denotes, whose reading of texts outside
  the ISO format the language leaves to the host. Clock readings and identifiers are arguments.
\<close>

record gateway_config =
  gc_settlementCallbackEnabled :: bool
  gc_settlementCallbackUrl :: "string option"
  gc_settlementCallbackApiKey :: "string option"
  gc_settlementCallbackApiSecret :: "string option"

section \<open>Readers\<close>

definition parseIsoTimestamp :: "(string \<Rightarrow> int option) \<Rightarrow> string \<Rightarrow> string \<Rightarrow> gateway_error + timestamp" where
  "parseIsoTimestamp date_parse v field =
    (case date_parse v of
       None \<Rightarrow> Inl (GatewayError 400 VALIDATION_ERROR (field @ '' must be an ISO-8601 timestamp'')
                 [(''field'', JStr field), (''value'', JStr v)])
     | Some t \<Rightarrow> Inr t)"

definition requireNonEmpty :: "string \<Rightarrow> string \<Rightarrow> gateway_error + string" where
  "requireNonEmpty v field =
    (if trim v = [] then Inl (GatewayError 400 VALIDATION_ERROR (field @ '' is required'') []) else Inr (trim v))"

definition SETTLEMENT_CALLBACK_CONTRACT_VERSION :: string where
  "SETTLEMENT_CALLBACK_CONTRACT_VERSION = ''cotsel.settlement-callback.v1''"

definition SETTLEMENT_OBSERVED_AMOUNTS_SCHEMA_VERSION :: string where
  "SETTLEMENT_OBSERVED_AMOUNTS_SCHEMA_VERSION = ''cotsel.settlement-observed-amounts.v1''"

text \<open>The patterns \<open>/^(0|[1-9]\\d*)(\\.\\d{1,2})?$/\<close> and \<open>/^0x[0-9a-fA-F]{64}$/\<close>.\<close>

definition SETTLEMENT_AMOUNT_PATTERN :: "string \<Rightarrow> bool" where
  "SETTLEMENT_AMOUNT_PATTERN s =
    (case DECIMAL_PATTERN s of None \<Rightarrow> False | Some (_, f) \<Rightarrow> length (fraction_part f) \<le> 2)"

definition SETTLEMENT_TRANSACTION_HASH_PATTERN :: "string \<Rightarrow> bool" where
  "SETTLEMENT_TRANSACTION_HASH_PATTERN s = hex_text 64 s"

definition GASLESS_SPONSORSHIP_HANDOFF_PREFIX :: string where
  "GASLESS_SPONSORSHIP_HANDOFF_PREFIX = ''gasless-sponsorship:''"

definition requireObservedAmount :: "json option \<Rightarrow> string \<Rightarrow> gateway_error + string" where
  "requireObservedAmount v field =
    (case v of
       Some (JStr s) \<Rightarrow>
         if SETTLEMENT_AMOUNT_PATTERN s then Inr s
         else Inl (GatewayError 400 VALIDATION_ERROR
           (field @ '' must be a non-negative decimal string with at most two fractional digits'') [(''field'', JStr field)])
     | _ \<Rightarrow> Inl (GatewayError 400 VALIDATION_ERROR
           (field @ '' must be a non-negative decimal string with at most two fractional digits'') [(''field'', JStr field)]))"

fun join :: "string \<Rightarrow> string list \<Rightarrow> string" where
  "join sep [] = []"
| "join sep [x] = x"
| "join sep (x # xs) = x @ sep @ join sep xs"

definition requireExactKeys :: "(string \<times> json) list \<Rightarrow> string list \<Rightarrow> string \<Rightarrow> gateway_error + unit" where
  "requireExactKeys row expectedKeys field =
    (let actualKeys = sort (map fst row); requiredKeys = sort expectedKeys in
     if actualKeys \<noteq> requiredKeys then
       Inl (GatewayError 400 VALIDATION_ERROR (field @ '' must contain exactly: '' @ join '', '' requiredKeys)
         [(''field'', JStr field)])
     else Inr ())"

definition parseReconciliationEvidence :: "json option \<Rightarrow> bool \<Rightarrow> gateway_error + json option" where
  "parseReconciliationEvidence v required =
    (let field = ''metadata.reconciliationEvidence'' in
     if v = None \<and> \<not> required then Inr None
     else case v of
       Some (JObj row) \<Rightarrow>
         rbind (requireExactKeys row [''schemaVersion'', ''observedAmounts''] field) (\<lambda>_.
         if \<not> member_is (JObj row) ''schemaVersion'' SETTLEMENT_OBSERVED_AMOUNTS_SCHEMA_VERSION then
           Inl (GatewayError 400 VALIDATION_ERROR
             (field @ ''.schemaVersion must be '' @ SETTLEMENT_OBSERVED_AMOUNTS_SCHEMA_VERSION)
             [(''field'', JStr (field @ ''.schemaVersion''))])
         else case member_of (JObj row) ''observedAmounts'' of
           Some (JObj amounts) \<Rightarrow>
             let obs = field @ ''.observedAmounts'' in
             rbind (requireExactKeys amounts [''supplierPayoutUsd'', ''treasuryClaimableUsd'', ''buyerRefundUsd''] obs) (\<lambda>_.
             rbind (requireObservedAmount (member_of (JObj amounts) ''supplierPayoutUsd'') (obs @ ''.supplierPayoutUsd'')) (\<lambda>sp.
             rbind (requireObservedAmount (member_of (JObj amounts) ''treasuryClaimableUsd'') (obs @ ''.treasuryClaimableUsd'')) (\<lambda>tc.
             rbind (requireObservedAmount (member_of (JObj amounts) ''buyerRefundUsd'') (obs @ ''.buyerRefundUsd'')) (\<lambda>br.
               Inr (Some (JObj [(''schemaVersion'', JStr SETTLEMENT_OBSERVED_AMOUNTS_SCHEMA_VERSION),
                 (''observedAmounts'', JObj [(''supplierPayoutUsd'', JStr sp), (''treasuryClaimableUsd'', JStr tc),
                    (''buyerRefundUsd'', JStr br)])]))))))
         | _ \<Rightarrow> Inl (GatewayError 400 VALIDATION_ERROR (field @ ''.observedAmounts is required'')
                 [(''field'', JStr (field @ ''.observedAmounts''))]))
     | _ \<Rightarrow> Inl (GatewayError 400 VALIDATION_ERROR
             (field @ '' is required for matched or drift reconciliation callbacks'') [(''field'', JStr field)]))"

section \<open>Handoffs\<close>

text \<open>\<open>binding.x !== input.y\<close> against an optional text, and \<open>binding.x !== input.y?.toLowerCase()\<close>.\<close>

definition same_text :: "json \<Rightarrow> string \<Rightarrow> string nullish \<Rightarrow> bool" where
  "same_text b k x = (case x of Val s \<Rightarrow> member_is b k s | _ \<Rightarrow> False)"

definition same_lower_text :: "json \<Rightarrow> string \<Rightarrow> string nullish \<Rightarrow> bool" where
  "same_lower_text b k x = (case x of Val s \<Rightarrow> member_is b k (toLowerCase s) | _ \<Rightarrow> False)"

fun json_truthy :: "json \<Rightarrow> bool" where
  "json_truthy JNull = False"
| "json_truthy (JBool b) = b"
| "json_truthy (JNum n) = (n \<noteq> Finite ''0'' \<and> n \<noteq> NonFinite ''NaN'')"
| "json_truthy (JStr s) = (s \<noteq> [])"
| "json_truthy (JArr _) = True"
| "json_truthy (JObj _) = True"

definition without_dot :: "string \<Rightarrow> string" where
  "without_dot s = takeWhile (\<lambda>c. c \<noteq> CHR ''.'') s @ drop 1 (dropWhile (\<lambda>c. c \<noteq> CHR ''.'') s)"

definition bind_create_trade :: "(string \<Rightarrow> string option) \<Rightarrow> handoff_input \<Rightarrow> gateway_error + handoff_input" where
  "bind_create_trade getAddress inp =
    rbind (parseSettlementExecutionBinding getAddress (json_input (in_executionBinding inp)) (or_null (in_sourceApiKeyId inp))) (\<lambda>b.
      if \<not> member_is b ''scopeVersion'' ''agroasys.cotsel-execution-binding.v1'' then
        Inl (GatewayError 400 VALIDATION_ERROR ''Create-trade requires a funding binding'' [])
      else if \<not> same_text b ''sourceOperationId'' (in_externalReference inp) \<or>
          \<not> same_lower_text b ''ricardianHash'' (in_ricardianHash inp) then
        Inl (GatewayError 409 CONFLICT ''Execution binding correlation differs from handoff identity'' [])
      else Inr (inp\<lparr>in_executionBinding := Val b\<rparr>))"

definition bind_user_action :: "(string \<Rightarrow> string option) \<Rightarrow> handoff_input \<Rightarrow> gateway_error + handoff_input" where
  "bind_user_action getAddress inp =
    rbind (parseSettlementExecutionBinding getAddress (json_input (in_executionBinding inp)) (or_null (in_sourceApiKeyId inp))) (\<lambda>b.
      if \<not> member_is b ''scopeVersion'' ''agroasys.cotsel-user-action-binding.v1'' \<or>
         \<not> member_is b ''tradeId'' (in_tradeId inp) \<or> \<not> same_text b ''sourceOperationId'' (in_externalReference inp) \<or>
         in_settlementChannel inp \<noteq> ''cotsel_escrow'' then
        Inl (GatewayError 409 CONFLICT ''User-action handoff differs from immutable instructions'' [])
      else Inr (inp\<lparr>in_executionBinding := Val b\<rparr>))"

definition bind_funded :: "(string \<Rightarrow> string option) \<Rightarrow> handoff_input \<Rightarrow> gateway_error + handoff_input" where
  "bind_funded getAddress inp =
    rbind (parseSettlementExecutionBinding getAddress (json_input (in_executionBinding inp)) (or_null (in_sourceApiKeyId inp))) (\<lambda>b.
      if \<not> member_is b ''scopeVersion'' ''agroasys.funded-settlement-binding.v1'' \<or> \<not> member_is b ''phase'' (in_phase inp) \<or>
         \<not> member_is b ''sourceOperationId'' (in_platformHandoffId inp) \<or> \<not> member_is b ''tradeId'' (in_tradeId inp) \<or>
         \<not> same_lower_text b ''ricardianHash'' (in_ricardianHash inp) then
        Inl (GatewayError 409 CONFLICT ''Progression differs from its original funded instruction'' [])
      else
        let amount = BigInt (sf b ''supplierPayoutAmount'') + BigInt (sf b ''treasuryAccrualAmount'') +
              BigInt (sf b ''buyerRefundAmount'')
        in rbind (parseSettlementAmount (Some (in_displayAmount inp)) ''displayAmount'' DISPLAY_AMOUNT_SPEC) (\<lambda>display.
           rbind (parseOptionalSettlementAmount (json_input (in_assetAmount inp)) ''assetAmount'' ASSET_AMOUNT_SPEC) (\<lambda>asset.
             if in_displayCurrency inp \<noteq> ''USD'' \<or> in_assetSymbol inp \<noteq> Val ''USDC'' \<or> asset = None \<or>
                BigInt (without_dot display) * 10000 \<noteq> amount \<or> BigInt (without_dot (the asset)) \<noteq> amount then
               Inl (GatewayError 409 CONFLICT ''Progression amount differs from its immutable funded instruction'' [])
             else Inr (inp\<lparr>in_executionBinding := Val b\<rparr>))))"

definition bind_handoff :: "(string \<Rightarrow> string option) \<Rightarrow> handoff_input \<Rightarrow> gateway_error + handoff_input" where
  "bind_handoff getAddress inp =
    (if in_phase inp = ''gasless_create_trade'' then bind_create_trade getAddress inp
     else if in_phase inp = ''gasless_user_action'' then bind_user_action getAddress inp
     else if in_phase inp \<in> set FUNDED_SETTLEMENT_PHASES then bind_funded getAddress inp
     else if (case in_executionBinding inp of Val b \<Rightarrow> json_truthy b | _ \<Rightarrow> False) then
       Inl (GatewayError 400 VALIDATION_ERROR ''Execution binding is unsupported for this handoff phase'' [])
     else Inr inp)"

text \<open>\<open>x?.trim() || null\<close>.\<close>

definition trimmed_or_null :: "string nullish \<Rightarrow> string nullish" where
  "trimmed_or_null x = (case x of Val s \<Rightarrow> if trim s = [] then Null else Val (trim s) | _ \<Rightarrow> Null)"

definition normalise_handoff :: "handoff_input \<Rightarrow> gateway_error + handoff_input" where
  "normalise_handoff inp =
    rbind (requireNonEmpty (in_platformId inp) ''platformId'') (\<lambda>platformId.
    rbind (requireNonEmpty (in_platformHandoffId inp) ''platformHandoffId'') (\<lambda>platformHandoffId.
    rbind (requireNonEmpty (in_tradeId inp) ''tradeId'') (\<lambda>tradeId.
    rbind (requireNonEmpty (in_phase inp) ''phase'') (\<lambda>phase.
    rbind (requireNonEmpty (in_settlementChannel inp) ''settlementChannel'') (\<lambda>channel.
    rbind (requireNonEmpty (in_displayCurrency inp) ''displayCurrency'') (\<lambda>currency.
    rbind (parseSettlementAmount (Some (in_displayAmount inp)) ''displayAmount'' DISPLAY_AMOUNT_SPEC) (\<lambda>display.
    rbind (parseOptionalSettlementAmount (json_input (in_assetAmount inp)) ''assetAmount'' ASSET_AMOUNT_SPEC) (\<lambda>asset.
      Inr (inp\<lparr>in_platformId := platformId, in_platformHandoffId := platformHandoffId, in_tradeId := tradeId,
        in_phase := phase, in_settlementChannel := channel, in_displayCurrency := currency,
        in_displayAmount := JStr display,
        in_assetAmount := (case asset of None \<Rightarrow> Null | Some a \<Rightarrow> Val (JStr a)),
        in_ricardianHash := trimmed_or_null (in_ricardianHash inp),
        in_externalReference := trimmed_or_null (in_externalReference inp),
        in_metadata := Some (case in_metadata inp of None \<Rightarrow> [] | Some m \<Rightarrow> m)\<rparr>)))))))))"

definition serviceCreateHandoff ::
  "(string \<Rightarrow> string option) \<Rightarrow> string \<Rightarrow> timestamp \<Rightarrow> handoff_input \<Rightarrow> store \<Rightarrow> gateway_error + handoff \<times> store" where
  "serviceCreateHandoff getAddress uuid now inp st =
    rbind (bind_handoff getAddress inp) (\<lambda>bound.
    rbind (normalise_handoff bound) (\<lambda>input. createHandoff uuid now input st))"

section \<open>Callbacks and events\<close>

definition opt_str :: "string option \<Rightarrow> json" where
  "opt_str s = (case s of None \<Rightarrow> JNull | Some t \<Rightarrow> JStr t)"

definition opt_time :: "timestamp option \<Rightarrow> json" where
  "opt_time s = (case s of None \<Rightarrow> JNull | Some t \<Rightarrow> JStr (toISOString t))"

definition requires_observed_amounts :: "handoff \<Rightarrow> event_record \<Rightarrow> bool" where
  "requires_observed_amounts h e =
    (\<not> startsWith (ho_platformHandoffId h) GASLESS_SPONSORSHIP_HANDOFF_PREFIX \<and>
     (ho_reconciliationStatus h = RS_matched \<or> ho_reconciliationStatus h = RS_drift \<or>
      ev_eventType e = EV_reconciled \<or> ev_eventType e = EV_drift_detected))"

definition buildCallbackPayload :: "handoff \<Rightarrow> event_record \<Rightarrow> gateway_error + json" where
  "buildCallbackPayload h e =
    (let requiresObservedAmounts = requires_observed_amounts h e in
     rbind (parseReconciliationEvidence (map_of (ev_metadata e) ''reconciliationEvidence'') requiresObservedAmounts) (\<lambda>proof_row.
     if requiresObservedAmounts \<and> \<not> digits_text (ho_tradeId h) then
       Inl (GatewayError 400 VALIDATION_ERROR
         ''tradeId must be the numeric on-chain trade identifier for reconciliation callbacks'' [(''field'', JStr ''tradeId'')])
     else if requiresObservedAmounts \<and>
         \<not> SETTLEMENT_TRANSACTION_HASH_PATTERN (case ho_txHash h of None \<Rightarrow> [] | Some t \<Rightarrow> t) then
       Inl (GatewayError 400 VALIDATION_ERROR
         ''txHash must be the canonical release transaction hash for reconciliation callbacks'' [(''field'', JStr ''txHash'')])
     else Inr (JObj
       [(''contractVersion'', JStr SETTLEMENT_CALLBACK_CONTRACT_VERSION), (''eventId'', JStr (ev_eventId e)),
        (''handoffId'', JStr (ho_handoffId h)), (''platformId'', JStr (ho_platformId h)),
        (''platformHandoffId'', JStr (ho_platformHandoffId h)), (''tradeId'', JStr (ho_tradeId h)),
        (''phase'', JStr (ho_phase h)), (''settlementChannel'', JStr (ho_settlementChannel h)),
        (''displayCurrency'', JStr (ho_displayCurrency h)), (''displayAmount'', JNum (ho_displayAmount h)),
        (''executionStatus'', JStr (exec_status_text (ho_executionStatus h))),
        (''reconciliationStatus'', JStr (recon_status_text (ho_reconciliationStatus h))),
        (''callbackStatus'', JStr (callback_status_text (ho_callbackStatus h))),
        (''providerStatus'', opt_str (ho_providerStatus h)), (''txHash'', opt_str (ho_txHash h)),
        (''latestEventType'', opt_str (map_option event_type_text (ho_latestEventType h))),
        (''latestEventDetail'', opt_str (ho_latestEventDetail h)), (''latestEventAt'', opt_time (ho_latestEventAt h)),
        (''observedAt'', JStr (toISOString (ev_observedAt e))),
        (''metadata'', JObj
          (let m = map_set ''event'' (JObj (ev_metadata e)) (ho_metadata h) in
           case proof_row of None \<Rightarrow> m | Some r \<Rightarrow> map_set ''reconciliationEvidence'' r m))])))"

definition shouldQueueCallback :: "gateway_config \<Rightarrow> bool" where
  "shouldQueueCallback cfg =
    (gc_settlementCallbackEnabled cfg \<and> truthy (gc_settlementCallbackUrl cfg) \<and>
     truthy (gc_settlementCallbackApiKey cfg) \<and> truthy (gc_settlementCallbackApiSecret cfg))"

text \<open>The event a caller submits, before the service adds the parsed time and the idempotency key.\<close>

definition event_dedupe_key :: "(string \<Rightarrow> string) \<Rightarrow> event_input \<Rightarrow> string" where
  "event_dedupe_key sha256 inp =
    sha256 (ei_handoffId inp @ [CHR 0x0A] @ event_type_text (ei_eventType inp) @ [CHR 0x0A] @ ei_requestId inp)"

definition callback_plan_of :: "gateway_config \<Rightarrow> timestamp \<Rightarrow> string \<Rightarrow> callback_plan" where
  "callback_plan_of cfg now requestId =
    \<lparr>cp_targetUrl = (if shouldQueueCallback cfg then the (gc_settlementCallbackUrl cfg)
       else case gc_settlementCallbackUrl cfg of None \<Rightarrow> ''disabled://callback'' | Some u \<Rightarrow> u),
     cp_requestId = requestId, cp_disabled = (\<not> shouldQueueCallback cfg), cp_nextAttemptAt = now,
     cp_buildRequestBody = buildCallbackPayload\<rparr>"

definition serviceRecordExecutionEvent ::
  "(string \<Rightarrow> int option) \<Rightarrow> (string \<Rightarrow> string) \<Rightarrow> gateway_config \<Rightarrow> string \<Rightarrow> string \<Rightarrow> timestamp \<Rightarrow> timestamp \<Rightarrow>
   string \<Rightarrow> event_input \<Rightarrow> store \<Rightarrow> gateway_error + (handoff \<times> event_record \<times> delivery) \<times> store" where
  "serviceRecordExecutionEvent date_parse sha256 cfg eventId deliveryId planned now observedAt inp st =
    rbind (parseIsoTimestamp date_parse observedAt ''observedAt'') (\<lambda>t.
      recordExecutionEvent eventId deliveryId now
        (inp\<lparr>ei_observedAt := t, ei_dedupeKey := event_dedupe_key sha256 inp\<rparr>)
        (callback_plan_of cfg planned (ei_requestId inp)) st)"

definition serviceListExecutionEvents :: "string \<Rightarrow> store \<Rightarrow> gateway_error + event_record list" where
  "serviceListExecutionEvents handoffId st =
    rbind (requireNonEmpty handoffId ''handoffId'') (\<lambda>i. Inr (listExecutionEvents i st))"

section \<open>Funded handoffs\<close>

lemma created_intent:
  assumes "createHandoff i now inp st = Inr (h, st')"
  shows "\<exists>m. input_intent inp = Inr m \<and> stored_intent h = Inr m"
proof -
  let ?k = "platform_key (in_platformId inp) (in_platformHandoffId inp)"
  from assms obtain m where m: "input_intent inp = Inr m" by (auto simp: createHandoff_def rbind_Inr_iff)
  have "stored_intent h = Inr m"
  proof (cases "truthy (map_get (st_platformIndex st) ?k)")
    case True
    with assms m obtain s where "stored_intent h = Inr s" "assertSameMonetaryIntent s m = Inr ()"
      by (auto simp: createHandoff_def Let_def rbind_Inr_iff split: option.splits if_splits)
    then show ?thesis using same_intent_eq by blast
  next
    case False
    then have "h = new_handoff i now inp m" using assms m by (auto simp: createHandoff_def Let_def)
    then show ?thesis using new_handoff_intent [OF m] by simp
  qed
  then show ?thesis using m by blast
qed

text \<open>The digits of a canonical amount are its value in units of its scale.\<close>

lemma canonical_digits:
  assumes "canonical_amount spec c" and "0 < sp_scale spec"
  shows "BigInt (without_dot c) = int (amount_units (sp_scale spec) c)"
proof -
  from assms(1) obtain ip fp where c: "c = ip @ ''.'' @ fp" "uint_text ip" "all_digits fp"
    "length fp = sp_scale spec" unfolding canonical_amount_def by blast
  have "CHR ''.'' \<notin> set ip" using uint_text_digits [OF c(2)] not_digit_dot by (auto simp: all_digits_def list_all_iff)
  then have "without_dot c = ip @ fp" unfolding without_dot_def c(1)
    by (simp add: takeWhile_append dropWhile_append)
  moreover have "digits_text fp" using c(3,4) assms(2) by (auto simp: digits_text_def)
  ultimately show ?thesis using canonical_units [OF c(2) _ c(4)] by (simp add: c(1) BigInt_bigint)
qed

lemma spec_scales [simp]: "sp_scale DISPLAY_AMOUNT_SPEC = 2" "sp_scale ASSET_AMOUNT_SPEC = 6"
  by (simp_all add: DISPLAY_AMOUNT_SPEC_def ASSET_AMOUNT_SPEC_def)

lemma parse_optional_some:
  "parseOptionalSettlementAmount v field spec = Inr (Some a) \<Longrightarrow> parseSettlementAmount v field spec = Inr a"
  by (auto simp: parseOptionalSettlementAmount_def rbind_Inr_iff split: if_splits)

definition binding_payout :: "json \<Rightarrow> int" where
  "binding_payout b = BigInt (sf b ''supplierPayoutAmount'') + BigInt (sf b ''treasuryAccrualAmount'') +
     BigInt (sf b ''buyerRefundAmount'')"

lemma bind_funded_amounts:
  assumes "bind_funded ga inp = Inr r"
  obtains b d a where
    "parseSettlementExecutionBinding ga (json_input (in_executionBinding inp)) (or_null (in_sourceApiKeyId inp)) = Inr b"
    "r = inp\<lparr>in_executionBinding := Val b\<rparr>"
    "parseSettlementAmount (Some (in_displayAmount inp)) ''displayAmount'' DISPLAY_AMOUNT_SPEC = Inr d"
    "parseOptionalSettlementAmount (json_input (in_assetAmount inp)) ''assetAmount'' ASSET_AMOUNT_SPEC = Inr (Some a)"
    "in_displayCurrency inp = ''USD''" "in_assetSymbol inp = Val ''USDC''"
    "int (amount_units 2 d) * 10000 = binding_payout b" "int (amount_units 6 a) = binding_payout b"
    "member_is b ''tradeId'' (in_tradeId inp)" "member_is b ''phase'' (in_phase inp)"
proof -
  from assms obtain b d a where p:
    "parseSettlementExecutionBinding ga (json_input (in_executionBinding inp)) (or_null (in_sourceApiKeyId inp)) = Inr b"
    "r = inp\<lparr>in_executionBinding := Val b\<rparr>"
    "parseSettlementAmount (Some (in_displayAmount inp)) ''displayAmount'' DISPLAY_AMOUNT_SPEC = Inr d"
    "parseOptionalSettlementAmount (json_input (in_assetAmount inp)) ''assetAmount'' ASSET_AMOUNT_SPEC = Inr (Some a)"
    "in_displayCurrency inp = ''USD''" "in_assetSymbol inp = Val ''USDC''"
    "BigInt (without_dot d) * 10000 = binding_payout b" "BigInt (without_dot a) = binding_payout b"
    "member_is b ''tradeId'' (in_tradeId inp)" "member_is b ''phase'' (in_phase inp)"
    by (auto simp: bind_funded_def rbind_Inr_iff Let_def binding_payout_def split: if_splits)
  note canonical = parse_amount_canonical [OF p(3)] parse_amount_canonical [OF parse_optional_some [OF p(4)]]
  have "int (amount_units 2 d) * 10000 = binding_payout b" using p(7) canonical_digits [OF canonical(1)] by simp
  moreover have "int (amount_units 6 a) = binding_payout b" using p(8) canonical_digits [OF canonical(2)] by simp
  ultimately show thesis using p(9,10) by (rule that [OF p(1-6)])
qed

text \<open>Normalisation keeps the monetary intent.\<close>

lemma normalised_fields:
  assumes "normalise_handoff inp = Inr r"
  shows "\<exists>d a. requireNonEmpty (in_displayCurrency inp) ''displayCurrency'' = Inr (in_displayCurrency r) \<and>
    parseSettlementAmount (Some (in_displayAmount inp)) ''displayAmount'' DISPLAY_AMOUNT_SPEC = Inr d \<and>
    parseOptionalSettlementAmount (json_input (in_assetAmount inp)) ''assetAmount'' ASSET_AMOUNT_SPEC = Inr a \<and>
    in_displayAmount r = JStr d \<and> in_assetAmount r = (case a of None \<Rightarrow> Null | Some a \<Rightarrow> Val (JStr a)) \<and>
    in_assetSymbol r = in_assetSymbol inp"
  using assms unfolding normalise_handoff_def rbind_Inr_iff sum.inject by fastforce

lemma normalised_intent:
  assumes "normalise_handoff inp = Inr r" and "in_displayCurrency inp = ''USD''"
    and "parseSettlementAmount (Some (in_displayAmount inp)) ''displayAmount'' DISPLAY_AMOUNT_SPEC = Inr d"
    and "parseOptionalSettlementAmount (json_input (in_assetAmount inp)) ''assetAmount'' ASSET_AMOUNT_SPEC = Inr (Some a)"
  shows "input_intent r = Inr \<lparr>mi_displayCurrency = ''USD'', mi_displayAmount = d,
    mi_assetSymbol = or_null (in_assetSymbol inp), mi_assetAmount = Some a\<rparr>"
proof -
  have n: "requireNonEmpty (in_displayCurrency inp) ''displayCurrency'' = Inr (in_displayCurrency r)"
    "in_displayAmount r = JStr d" "in_assetAmount r = Val (JStr a)" "in_assetSymbol r = in_assetSymbol inp"
    using normalised_fields [OF assms(1)] assms(3,4) by auto
  have "trim ''USD'' = ''USD''" by code_simp
  then have "in_displayCurrency r = ''USD''" using n(1) by (simp add: requireNonEmpty_def assms(2))
  note f = this n(2-4)
  note canonical = parse_amount_canonical [OF assms(3)] parse_amount_canonical [OF parse_optional_some [OF assms(4)]]
  show ?thesis unfolding input_intent_def f
    using parse_canonical [OF canonical(1), of "''displayAmount''"] parse_canonical [OF canonical(2), of "''assetAmount''"]
    by (simp add: parseOptionalSettlementAmount_def)
qed

section \<open>Reconciliation callbacks\<close>

lemma plan_body: "cp_buildRequestBody (callback_plan_of cfg planned r) = buildCallbackPayload"
  by (simp add: callback_plan_of_def)

lemma parsed_evidence:
  assumes "parseReconciliationEvidence v True = Inr r"
  obtains sp tc br where "SETTLEMENT_AMOUNT_PATTERN sp" "SETTLEMENT_AMOUNT_PATTERN tc" "SETTLEMENT_AMOUNT_PATTERN br"
    "r = Some (JObj [(''schemaVersion'', JStr SETTLEMENT_OBSERVED_AMOUNTS_SCHEMA_VERSION),
       (''observedAmounts'', JObj [(''supplierPayoutUsd'', JStr sp), (''treasuryClaimableUsd'', JStr tc), (''buyerRefundUsd'', JStr br)])])"
proof -
  have amount: "SETTLEMENT_AMOUNT_PATTERN s" if "requireObservedAmount w f = Inr s" for w f s
    using that by (auto simp: requireObservedAmount_def split: option.splits json.splits if_splits)
  have "\<exists>sp tc br. SETTLEMENT_AMOUNT_PATTERN sp \<and> SETTLEMENT_AMOUNT_PATTERN tc \<and> SETTLEMENT_AMOUNT_PATTERN br \<and>
      r = Some (JObj [(''schemaVersion'', JStr SETTLEMENT_OBSERVED_AMOUNTS_SCHEMA_VERSION),
       (''observedAmounts'', JObj [(''supplierPayoutUsd'', JStr sp), (''treasuryClaimableUsd'', JStr tc), (''buyerRefundUsd'', JStr br)])])"
    using assms by (auto simp: parseReconciliationEvidence_def Let_def rbind_Inr_iff
      split: option.splits json.splits if_splits dest!: amount)
  then show thesis using that by blast
qed

lemma payload_evidence:
  assumes "buildCallbackPayload h e = Inr body" and "requires_observed_amounts h e"
  obtains r m where "parseReconciliationEvidence (map_of (ev_metadata e) ''reconciliationEvidence'') True = Inr (Some r)"
    "digits_text (ho_tradeId h)" "\<exists>t. ho_txHash h = Some t \<and> hex_text 64 t"
    "member_of body ''metadata'' = Some (JObj m)" "map_of m ''reconciliationEvidence'' = Some r"
    "member_of body ''txHash'' = Some (opt_str (ho_txHash h))" "member_of body ''tradeId'' = Some (JStr (ho_tradeId h))"
proof -
  from assms obtain r where r: "parseReconciliationEvidence (map_of (ev_metadata e) ''reconciliationEvidence'') True = Inr r"
    by (auto simp: buildCallbackPayload_def Let_def rbind_Inr_iff)
  obtain e' where e': "r = Some e'" using r by (cases rule: parsed_evidence) auto
  let ?tx = "case ho_txHash h of None \<Rightarrow> [] | Some t \<Rightarrow> t"
  have d: "digits_text (ho_tradeId h)" "SETTLEMENT_TRANSACTION_HASH_PATTERN ?tx"
    using assms r by (auto simp: buildCallbackPayload_def Let_def rbind_Inr_iff split: if_splits)
  have tx: "\<exists>t. ho_txHash h = Some t \<and> hex_text 64 t"
    using d(2) by (cases "ho_txHash h") (auto simp: SETTLEMENT_TRANSACTION_HASH_PATTERN_def hex_text_def)
  let ?m = "map_set ''reconciliationEvidence'' e' (map_set ''event'' (JObj (ev_metadata e)) (ho_metadata h))"
  have "map_of ?m ''reconciliationEvidence'' = Some e'"
    using js_map.get_put_same [of "''reconciliationEvidence''" e' "map_set ''event'' (JObj (ev_metadata e)) (ho_metadata h)"]
    by (simp add: map_get_def)
  moreover have "member_of body ''metadata'' = Some (JObj ?m)" "member_of body ''txHash'' = Some (opt_str (ho_txHash h))"
    "member_of body ''tradeId'' = Some (JStr (ho_tradeId h))"
    using assms r d by (auto simp: buildCallbackPayload_def Let_def e')
  ultimately show thesis using r e' d(1) tx by (intro that) auto
qed

section \<open>Samples\<close>

definition sample_release_binding :: json where
  "sample_release_binding = (case sample_final of JObj row \<Rightarrow> JObj
     (map_set ''totalAmount'' (JStr ''1000000'') (map_set ''logisticsAmount'' (JStr ''100000'')
     (map_set ''platformFeesAmount'' (JStr ''50000'') (map_set ''supplierFirstTranche'' (JStr ''400000'')
     (map_set ''supplierSecondTranche'' (JStr ''450000'') (map_set ''supplierPayoutAmount'' (JStr ''450000'') row))))))
   | v \<Rightarrow> v)"

definition sample_release :: handoff_input where
  "sample_release = sample_input\<lparr>in_executionBinding := Val sample_release_binding, in_platformHandoffId := ''op'',
     in_phase := ''final_release_after_notice_deadline'', in_displayAmount := JStr ''0.45'', in_assetSymbol := Val ''USDC'',
     in_assetAmount := Val (JStr ''0.45''), in_ricardianHash := Val (''0x'' @ replicate 64 (CHR ''E'')),
     in_sourceApiKeyId := Val ''svc''\<rparr>"

definition sample_config :: gateway_config where
  "sample_config = \<lparr>gc_settlementCallbackEnabled = True, gc_settlementCallbackUrl = Some ''https://p'',
     gc_settlementCallbackApiKey = Some ''k'', gc_settlementCallbackApiSecret = Some ''s''\<rparr>"

definition sample_reconciled :: event_input where
  "sample_reconciled = sample_event\<lparr>ei_eventType := EV_reconciled, ei_executionStatus := ES_confirmed,
     ei_reconciliationStatus := RS_matched,
     ei_txHash := Val (''0x'' @ replicate 64 (CHR ''a'')),
     ei_metadata := Some [(''reconciliationEvidence'', JObj
       [(''schemaVersion'', JStr SETTLEMENT_OBSERVED_AMOUNTS_SCHEMA_VERSION),
        (''observedAmounts'', JObj [(''supplierPayoutUsd'', JStr ''0.45''), (''treasuryClaimableUsd'', JStr ''0''),
           (''buyerRefundUsd'', JStr ''0'')])])]\<rparr>"

definition sample_confirmed :: store where
  "sample_confirmed = settlement_store.run [Op_event ''e3'' ''d3'' 25 (sample_event\<lparr>ei_eventType := EV_confirmed,
     ei_executionStatus := ES_confirmed, ei_dedupeKey := ''c''\<rparr>) sample_plan] sample_store"

definition sample_reconcile :: "gateway_error + (handoff \<times> event_record \<times> delivery) \<times> store" where
  "sample_reconcile = serviceRecordExecutionEvent iso_ms (\<lambda>t. t) sample_config ''e2'' ''d2'' 30 30
     ''1970-01-01T00:00:00.000Z'' sample_reconciled sample_confirmed"

section \<open>Properties\<close>

text \<open>
  C24. The amounts of a funded handoff are those of its binding: whether the handoff is created or
  replayed, its stored display amount and asset amount, read back from the published numbers, are
  exactly the payout of the accepted binding, in US dollars and USDC.
\<close>

theorem funded_handoff_carries_payout:
  assumes "in_phase inp \<in> set FUNDED_SETTLEMENT_PHASES"
    and "serviceCreateHandoff getAddress uuid now inp st = Inr (h, st')"
  shows "\<exists>b d n a.
    parseSettlementExecutionBinding getAddress (json_input (in_executionBinding inp)) (or_null (in_sourceApiKeyId inp)) = Inr b \<and>
    parseSettlementAmount (Some (JNum (ho_displayAmount h))) ''displayAmount'' DISPLAY_AMOUNT_SPEC = Inr d \<and>
    int (amount_units 2 d) * 10000 = binding_payout b \<and> ho_assetAmount h = Some n \<and>
    parseSettlementAmount (Some (JNum n)) ''assetAmount'' ASSET_AMOUNT_SPEC = Inr a \<and>
    int (amount_units 6 a) = binding_payout b \<and> ho_displayCurrency h = ''USD'' \<and> ho_assetSymbol h = Some ''USDC''"
proof -
  have phase: "in_phase inp \<noteq> ''gasless_create_trade''" "in_phase inp \<noteq> ''gasless_user_action''"
    using assms(1) by (auto simp: FUNDED_SETTLEMENT_PHASES_def)
  then have "bind_handoff getAddress inp = bind_funded getAddress inp" using assms(1) by (simp add: bind_handoff_def)
  with assms(2) obtain r n where r: "bind_funded getAddress inp = Inr r" "normalise_handoff r = Inr n"
    "createHandoff uuid now n st = Inr (h, st')" unfolding serviceCreateHandoff_def rbind_Inr_iff by auto
  from r(1) obtain b d a where b:
    "parseSettlementExecutionBinding getAddress (json_input (in_executionBinding inp)) (or_null (in_sourceApiKeyId inp)) = Inr b"
    and re: "r = inp\<lparr>in_executionBinding := Val b\<rparr>"
    and am: "parseSettlementAmount (Some (in_displayAmount inp)) ''displayAmount'' DISPLAY_AMOUNT_SPEC = Inr d"
    "parseOptionalSettlementAmount (json_input (in_assetAmount inp)) ''assetAmount'' ASSET_AMOUNT_SPEC = Inr (Some a)"
    and cur: "in_displayCurrency inp = ''USD''" "in_assetSymbol inp = Val ''USDC''"
    and pay: "int (amount_units 2 d) * 10000 = binding_payout b" "int (amount_units 6 a) = binding_payout b"
    by (rule bind_funded_amounts)
  have "input_intent n = Inr \<lparr>mi_displayCurrency = ''USD'', mi_displayAmount = d, mi_assetSymbol = Some ''USDC'',
      mi_assetAmount = Some a\<rparr>"
    using normalised_intent [OF r(2), of d a] am cur by (simp add: re)
  with created_intent [OF r(3)] have s: "stored_intent h = Inr \<lparr>mi_displayCurrency = ''USD'', mi_displayAmount = d,
      mi_assetSymbol = Some ''USDC'', mi_assetAmount = Some a\<rparr>" by simp
  then have "parseOptionalSettlementAmount (map_option JNum (ho_assetAmount h)) ''assetAmount'' ASSET_AMOUNT_SPEC = Inr (Some a)"
    by (auto simp: stored_intent_def rbind_Inr_iff)
  then obtain m where "ho_assetAmount h = Some m" "parseSettlementAmount (Some (JNum m)) ''assetAmount'' ASSET_AMOUNT_SPEC = Inr a"
    using parse_optional_some by (cases "ho_assetAmount h") (auto simp: parseOptionalSettlementAmount_def)
  moreover have "parseSettlementAmount (Some (JNum (ho_displayAmount h))) ''displayAmount'' DISPLAY_AMOUNT_SPEC = Inr d"
    "ho_displayCurrency h = ''USD''" "ho_assetSymbol h = Some ''USDC''"
    using s by (auto simp: stored_intent_def rbind_Inr_iff)
  ultimately show ?thesis using b pay by blast
qed

theorem funded_handoff_carries_payout_witness:
  "\<exists>h st b a. serviceCreateHandoff lower_address ''h1'' 10 sample_release (createInMemorySettlementStore []) = Inr (h, st) \<and>
     parseSettlementExecutionBinding lower_address (Some sample_release_binding) (Some ''svc'') = Inr b \<and>
     parseSettlementAmount (Option.bind (ho_assetAmount h) (\<lambda>n. Some (JNum n))) ''assetAmount'' ASSET_AMOUNT_SPEC = Inr a \<and>
     int (amount_units 6 a) = binding_payout b"
proof -
  let ?r = "serviceCreateHandoff lower_address ''h1'' 10 sample_release (createInMemorySettlementStore [])"
  have "accepted ?r = True" by code_simp
  then obtain h st where c: "?r = Inr (h, st)" unfolding accepted_iff eq_True by auto
  have "in_phase sample_release \<in> set FUNDED_SETTLEMENT_PHASES"
    by (simp add: sample_release_def FUNDED_SETTLEMENT_PHASES_def)
  from funded_handoff_carries_payout [OF this c] c show ?thesis by (auto simp: sample_release_def)
qed

text \<open>
  C23. A reconciliation callback always carries its evidence: when a reconciliation event is
  recorded for a settlement that is not a gas sponsorship, the handoff names a numeric trade and a
  transaction hash, and the queued body contains them together with the three observed amounts,
  each a decimal of at most two fractional digits.
\<close>

theorem reconciliation_callback_is_evidenced:
  assumes "serviceRecordExecutionEvent date_parse sha256 cfg ei di planned now observedAt inp st = Inr ((h, ev, d), st')"
    and "map_get (st_eventDedupeIndex st) (dedupe_key (ei_handoffId inp) (event_dedupe_key sha256 inp)) = None"
    and "ei_eventType inp \<in> {EV_reconciled, EV_drift_detected}"
    and "\<not> startsWith (ho_platformHandoffId h) GASLESS_SPONSORSHIP_HANDOFF_PREFIX"
  shows "digits_text (ho_tradeId h) \<and> member_of (cd_requestBody d) ''tradeId'' = Some (JStr (ho_tradeId h)) \<and>
    (\<exists>t. ho_txHash h = Some t \<and> hex_text 64 t \<and> member_of (cd_requestBody d) ''txHash'' = Some (JStr t)) \<and>
    (\<exists>m sp tc br. member_of (cd_requestBody d) ''metadata'' = Some (JObj m) \<and>
      map_of m ''reconciliationEvidence'' = Some (JObj [(''schemaVersion'', JStr SETTLEMENT_OBSERVED_AMOUNTS_SCHEMA_VERSION),
        (''observedAmounts'', JObj [(''supplierPayoutUsd'', JStr sp), (''treasuryClaimableUsd'', JStr tc), (''buyerRefundUsd'', JStr br)])]) \<and>
      SETTLEMENT_AMOUNT_PATTERN sp \<and> SETTLEMENT_AMOUNT_PATTERN tc \<and> SETTLEMENT_AMOUNT_PATTERN br)"
proof -
  from assms(1) obtain t where rec: "recordExecutionEvent ei di now
      (inp\<lparr>ei_observedAt := t, ei_dedupeKey := event_dedupe_key sha256 inp\<rparr>) (callback_plan_of cfg planned (ei_requestId inp)) st =
      Inr ((h, ev, d), st')" (is "recordExecutionEvent _ _ _ ?inp ?cb _ = _")
    unfolding serviceRecordExecutionEvent_def rbind_Inr_iff by blast
  then obtain h0 where h0: "map_get (st_handoffs st) (ei_handoffId ?inp) = Some h0"
    by (cases "map_get (st_handoffs st) (ei_handoffId inp)") (auto simp: recordExecutionEvent_def)
  let ?h = "applied_event ei now ?inp h0"
  have new: "\<not> truthy (map_get (st_eventDedupeIndex st) (dedupe_key (ei_handoffId ?inp) (ei_dedupeKey ?inp)))"
    using assms(2) by (simp add: truthy_def)
  obtain body where n: "buildCallbackPayload ?h ev = Inr body" "ev = new_event ei now ?inp"
    "d = new_delivery di now (ei_handoffId ?inp) ei body ?cb"
    "h = (if cp_disabled ?cb then ?h\<lparr>ho_callbackStatus := CS_disabled\<rparr> else ?h)"
    using record_new_event [OF rec h0 new] unfolding plan_body by blast
  have same: "ho_tradeId h = ho_tradeId ?h" "ho_txHash h = ho_txHash ?h" "ho_platformHandoffId h = ho_platformHandoffId ?h"
    by (cases "cp_disabled ?cb"; simp add: n(4))+
  have body: "cd_requestBody d = body" by (simp add: n(3) new_delivery_def)
  have "ev_eventType ev = ei_eventType inp" by (simp add: n(2))
  then have "requires_observed_amounts ?h ev"
    using assms(3,4) same(3) by (auto simp: requires_observed_amounts_def)
  from n(1) this show ?thesis
  proof (cases rule: payload_evidence)
    case (1 r m)
    from 1(1) obtain sp tc br where "SETTLEMENT_AMOUNT_PATTERN sp" "SETTLEMENT_AMOUNT_PATTERN tc" "SETTLEMENT_AMOUNT_PATTERN br"
      "Some r = Some (JObj [(''schemaVersion'', JStr SETTLEMENT_OBSERVED_AMOUNTS_SCHEMA_VERSION),
        (''observedAmounts'', JObj [(''supplierPayoutUsd'', JStr sp), (''treasuryClaimableUsd'', JStr tc), (''buyerRefundUsd'', JStr br)])])"
      by (rule parsed_evidence)
    moreover from 1(3) obtain t where "ho_txHash ?h = Some t" "hex_text 64 t" by blast
    moreover from this 1(6) have "member_of body ''txHash'' = Some (JStr t)" by (simp add: opt_str_def del: member_of.simps)
    ultimately show ?thesis using 1(2,4,5,7) unfolding body same by blast
  qed
qed

theorem reconciliation_callback_is_evidenced_witness:
  "\<exists>h ev d st. sample_reconcile = Inr ((h, ev, d), st) \<and> digits_text (ho_tradeId h) \<and>
     (\<exists>t. ho_txHash h = Some t \<and> hex_text 64 t \<and> member_of (cd_requestBody d) ''txHash'' = Some (JStr t))"
proof -
  have "accepted sample_reconcile = True" by code_simp
  then obtain h ev d st where c: "sample_reconcile = Inr ((h, ev, d), st)" unfolding accepted_iff eq_True by auto
  have "(case sample_reconcile of Inr ((h, _), _) \<Rightarrow> ho_platformHandoffId h | Inl _ \<Rightarrow> []) = ''1''" by code_simp
  then have "\<not> startsWith (ho_platformHandoffId h) GASLESS_SPONSORSHIP_HANDOFF_PREFIX"
    by (simp add: c GASLESS_SPONSORSHIP_HANDOFF_PREFIX_def)
  moreover have "map_get (st_eventDedupeIndex sample_confirmed) (dedupe_key (ei_handoffId sample_reconciled)
      (event_dedupe_key (\<lambda>t. t) sample_reconciled)) = None" by code_simp
  moreover have "ei_eventType sample_reconciled \<in> {EV_reconciled, EV_drift_detected}" by (simp add: sample_reconciled_def)
  ultimately show ?thesis using reconciliation_callback_is_evidenced [OF c [unfolded sample_reconcile_def]] c by blast
qed

end
