(* ===== verification/Failed_Operations.thy ===== *)
theory Failed_Operations
  imports Settlement_Service
begin

text \<open>
  Failed operations of the gateway: the classification of errors
  (\<open>gateway/src/core/errorEnvelope.ts\<close>), the in-memory store of failed operations
  (\<open>failedOperationStore.ts\<close>) and the capture of a dead-lettered callback
  (\<open>errorHandlerWorkflow.ts\<close>). The hex digest \<open>sha256\<close> is a parameter. The lemmas show that every
  operation key has one record, found under the identifier it was given first.
\<close>

section \<open>JSON text\<close>

text \<open>\<open>JSON.stringify\<close> without spacing; the escapes are those of the characters up to 255.\<close>

definition hex_digit :: "nat \<Rightarrow> char" where
  "hex_digit d = ''0123456789abcdef'' ! d"

definition json_escape :: "char \<Rightarrow> string" where
  "json_escape c =
    (if c = CHR 0x22 then [CHR 0x5C, CHR 0x22]
     else if c = CHR 0x5C then [CHR 0x5C, CHR 0x5C]
     else if c = CHR 0x08 then [CHR 0x5C, CHR ''b'']
     else if c = CHR 0x0C then [CHR 0x5C, CHR ''f'']
     else if c = CHR 0x0A then [CHR 0x5C, CHR ''n'']
     else if c = CHR 0x0D then [CHR 0x5C, CHR ''r'']
     else if c = CHR 0x09 then [CHR 0x5C, CHR ''t'']
     else if c < CHR '' '' then [CHR 0x5C, CHR ''u'', CHR ''0'', CHR ''0'', hex_digit (of_char c div 16), hex_digit (of_char c mod 16)]
     else [c])"

definition json_quote :: "string \<Rightarrow> string" where
  "json_quote s = [CHR 0x22] @ concat (map json_escape s) @ [CHR 0x22]"

fun stringify :: "json \<Rightarrow> string"
  and stringify_list :: "json list \<Rightarrow> string list"
  and stringify_fields :: "(string \<times> json) list \<Rightarrow> string list" where
  "stringify JNull = ''null''"
| "stringify (JBool b) = (if b then ''true'' else ''false'')"
| "stringify (JNum (Finite t)) = t"
| "stringify (JNum (NonFinite _)) = ''null''"
| "stringify (JStr s) = json_quote s"
| "stringify (JArr xs) = ''['' @ join '','' (stringify_list xs) @ '']''"
| "stringify (JObj fs) = ''{'' @ join '','' (stringify_fields fs) @ ''}''"
| "stringify_list [] = []"
| "stringify_list (x # xs) = stringify x # stringify_list xs"
| "stringify_fields [] = []"
| "stringify_fields ((k, v) # fs) = (json_quote k @ '':'' @ stringify v) # stringify_fields fs"

section \<open>Error envelopes\<close>

datatype failure_class = FC_client_contract | FC_upstream_business | FC_infrastructure | FC_unexpected

record error_envelope =
  en_statusCode :: nat
  en_code :: gateway_code
  en_message :: string
  en_requestId :: "string option"
  en_traceId :: "string option"
  en_details :: "(string \<times> json) list"
  en_failureClass :: failure_class
  en_retryable :: bool
  en_replayable :: bool

definition classifyGatewayErrorCode :: "nat \<Rightarrow> gateway_code \<Rightarrow> failure_class" where
  "classifyGatewayErrorCode statusCode code =
    (if code = UPSTREAM_UNAVAILABLE \<or> statusCode \<ge> 500 then FC_infrastructure
     else if code \<in> {AUTH_REQUIRED, FORBIDDEN, VALIDATION_ERROR, NOT_FOUND} then FC_client_contract
     else FC_upstream_business)"

text \<open>The request context is a request identifier with an optional correlation identifier.\<close>

fun createGatewayErrorEnvelope :: "gateway_error \<Rightarrow> (string \<times> string option) option \<Rightarrow> error_envelope" where
  "createGatewayErrorEnvelope (GatewayError statusCode code message details) ctx =
    (let failureClass = classifyGatewayErrorCode statusCode code;
         outcome = map_of details ''outcome'';
         financialOutcomePending = (outcome = Some (JStr ''broadcast_unknown'') \<or> outcome = Some (JStr ''confirmation_pending''));
         retryable = (failureClass = FC_infrastructure \<and> \<not> financialOutcomePending)
     in \<lparr>en_statusCode = statusCode, en_code = code, en_message = message, en_requestId = map_option fst ctx,
         en_traceId = Option.bind ctx snd, en_details = details, en_failureClass = failureClass,
         en_retryable = retryable, en_replayable = retryable\<rparr>)"
| "createGatewayErrorEnvelope (PlainError message) ctx =
     \<lparr>en_statusCode = 500, en_code = INTERNAL_ERROR, en_message = ''An unexpected error occurred'',
      en_requestId = map_option fst ctx, en_traceId = Option.bind ctx snd, en_details = [],
      en_failureClass = FC_unexpected, en_retryable = True, en_replayable = True\<rparr>"

definition shouldDeadLetterError :: "gateway_error \<Rightarrow> bool" where
  "shouldDeadLetterError e =
    (let c = en_failureClass (createGatewayErrorEnvelope e None) in c = FC_infrastructure \<or> c = FC_unexpected)"

section \<open>The store of failed operations\<close>

datatype failed_state = FO_open | FO_replayed | FO_replay_failed

record failed_op =
  fo_failedOperationId :: string
  fo_operationType :: string
  fo_operationKey :: string
  fo_targetService :: string
  fo_route :: string
  fo_method :: string
  fo_payloadHash :: string
  fo_requestPayload :: "json option"
  fo_requestId :: string
  fo_correlationId :: "string option"
  fo_idempotencyKey :: "string option"
  fo_actionKey :: "string option"
  fo_actorId :: "string option"
  fo_actorUserId :: "string option"
  fo_actorWalletAddress :: "string option"
  fo_actorRole :: "string option"
  fo_sessionReference :: "string option"
  fo_replayEligible :: bool
  fo_failureState :: failed_state
  fo_firstFailedAt :: timestamp
  fo_lastFailedAt :: timestamp
  fo_retryCount :: nat
  fo_terminalErrorClass :: failure_class
  fo_terminalErrorCode :: string
  fo_terminalErrorMessage :: string
  fo_metadata :: "(string \<times> json) list"
  fo_lastReplayedAt :: "timestamp option"
  fo_createdAt :: timestamp
  fo_updatedAt :: timestamp

record failure_input =
  fi_operationType :: string
  fi_operationKey :: string
  fi_targetService :: string
  fi_route :: string
  fi_method :: string
  fi_requestPayload :: "json nullish"
  fi_requestId :: string
  fi_correlationId :: "string nullish"
  fi_idempotencyKey :: "string nullish"
  fi_actionKey :: "string nullish"
  fi_actorId :: "string nullish"
  fi_actorUserId :: "string nullish"
  fi_actorWalletAddress :: "string nullish"
  fi_actorRole :: "string nullish"
  fi_sessionReference :: "string nullish"
  fi_replayEligible :: bool
  fi_terminalErrorClass :: failure_class
  fi_terminalErrorCode :: string
  fi_terminalErrorMessage :: string
  fi_failedAt :: timestamp
  fi_metadata :: "(string \<times> json) list option"

record list_failed_input =
  lf_failureState :: "failed_state option"
  lf_replayEligible :: "bool option"

definition buildPayloadHash :: "(string \<Rightarrow> string) \<Rightarrow> json nullish \<Rightarrow> string" where
  "buildPayloadHash sha256 requestPayload =
    sha256 (case or_null requestPayload of None \<Rightarrow> [] | Some p \<Rightarrow> stringify p)"

definition toScopedKey :: "string \<Rightarrow> string \<Rightarrow> string" where
  "toScopedKey operationType operationKey = operationType @ [CHR 0x00] @ operationKey"

text \<open>\<open>find\<close> followed by assignments to the element found.\<close>

fun update_first :: "('a \<Rightarrow> bool) \<Rightarrow> ('a \<Rightarrow> 'a) \<Rightarrow> 'a list \<Rightarrow> 'a list" where
  "update_first P f [] = []"
| "update_first P f (x # xs) = (if P x then f x # xs else x # update_first P f xs)"

definition refailed :: "string \<Rightarrow> failure_input \<Rightarrow> failed_op \<Rightarrow> failed_op" where
  "refailed payloadHash inp r = r\<lparr>
     fo_targetService := fi_targetService inp, fo_route := fi_route inp, fo_method := fi_method inp,
     fo_payloadHash := payloadHash, fo_requestPayload := or_null (fi_requestPayload inp),
     fo_requestId := fi_requestId inp, fo_correlationId := or_null (fi_correlationId inp),
     fo_idempotencyKey := or_null (fi_idempotencyKey inp), fo_actionKey := or_null (fi_actionKey inp),
     fo_actorId := or_null (fi_actorId inp), fo_actorUserId := or_null (fi_actorUserId inp),
     fo_actorWalletAddress := or_null (fi_actorWalletAddress inp), fo_actorRole := or_null (fi_actorRole inp),
     fo_sessionReference := or_null (fi_sessionReference inp), fo_replayEligible := fi_replayEligible inp,
     fo_failureState := FO_open, fo_lastFailedAt := fi_failedAt inp, fo_retryCount := fo_retryCount r + 1,
     fo_terminalErrorClass := fi_terminalErrorClass inp, fo_terminalErrorCode := fi_terminalErrorCode inp,
     fo_terminalErrorMessage := fi_terminalErrorMessage inp,
     fo_metadata := (case fi_metadata inp of None \<Rightarrow> [] | Some m \<Rightarrow> m), fo_updatedAt := fi_failedAt inp\<rparr>"

definition new_failed_op :: "string \<Rightarrow> string \<Rightarrow> failure_input \<Rightarrow> failed_op" where
  "new_failed_op i payloadHash inp =
    \<lparr>fo_failedOperationId = i, fo_operationType = fi_operationType inp, fo_operationKey = fi_operationKey inp,
     fo_targetService = fi_targetService inp, fo_route = fi_route inp, fo_method = fi_method inp,
     fo_payloadHash = payloadHash, fo_requestPayload = or_null (fi_requestPayload inp),
     fo_requestId = fi_requestId inp, fo_correlationId = or_null (fi_correlationId inp),
     fo_idempotencyKey = or_null (fi_idempotencyKey inp), fo_actionKey = or_null (fi_actionKey inp),
     fo_actorId = or_null (fi_actorId inp), fo_actorUserId = or_null (fi_actorUserId inp),
     fo_actorWalletAddress = or_null (fi_actorWalletAddress inp), fo_actorRole = or_null (fi_actorRole inp),
     fo_sessionReference = or_null (fi_sessionReference inp), fo_replayEligible = fi_replayEligible inp,
     fo_failureState = FO_open, fo_firstFailedAt = fi_failedAt inp, fo_lastFailedAt = fi_failedAt inp,
     fo_retryCount = 1, fo_terminalErrorClass = fi_terminalErrorClass inp,
     fo_terminalErrorCode = fi_terminalErrorCode inp, fo_terminalErrorMessage = fi_terminalErrorMessage inp,
     fo_metadata = (case fi_metadata inp of None \<Rightarrow> [] | Some m \<Rightarrow> m), fo_lastReplayedAt = None,
     fo_createdAt = fi_failedAt inp, fo_updatedAt = fi_failedAt inp\<rparr>"

definition same_operation :: "failure_input \<Rightarrow> failed_op \<Rightarrow> bool" where
  "same_operation inp r =
    (toScopedKey (fo_operationType r) (fo_operationKey r) = toScopedKey (fi_operationType inp) (fi_operationKey inp))"

definition recordFailure ::
  "(string \<Rightarrow> string) \<Rightarrow> failure_input \<Rightarrow> failed_op list \<Rightarrow> string + failed_op \<times> failed_op list" where
  "recordFailure sha256 inp records =
    (let payloadHash = buildPayloadHash sha256 (fi_requestPayload inp) in
     case find (same_operation inp) records of
       Some existing \<Rightarrow>
         if fo_payloadHash existing \<noteq> payloadHash then
           Inl ''Failed operation key was reused with a conflicting payload''
         else Inr (refailed payloadHash inp existing, update_first (same_operation inp) (refailed payloadHash inp) records)
     | None \<Rightarrow>
         let r = new_failed_op (''failed-op-'' @ show_nat (length records + 1)) payloadHash inp
         in Inr (r, records @ [r]))"

definition getFailedOperation :: "string \<Rightarrow> failed_op list \<Rightarrow> failed_op option" where
  "getFailedOperation i records = find (\<lambda>r. fo_failedOperationId r = i) records"

definition listFailedOperations :: "list_failed_input \<Rightarrow> failed_op list \<Rightarrow> failed_op list" where
  "listFailedOperations inp records =
    sort_desc fo_lastFailedAt
      (filter (\<lambda>r. case lf_replayEligible inp of None \<Rightarrow> True | Some b \<Rightarrow> fo_replayEligible r = b)
      (filter (\<lambda>r. case lf_failureState inp of None \<Rightarrow> True | Some s \<Rightarrow> fo_failureState r = s) records))"

text \<open>\<open>{ ...a, ...b }\<close>.\<close>

definition spread :: "(string \<times> json) list \<Rightarrow> (string \<times> json) list \<Rightarrow> (string \<times> json) list" where
  "spread a b = fold (\<lambda>(k, v). map_set k v) b a"

definition markReplayed :: "string \<Rightarrow> timestamp \<Rightarrow> (string \<times> json) list \<Rightarrow> failed_op list \<Rightarrow> failed_op list" where
  "markReplayed i replayedAt metadata =
    update_first (\<lambda>r. fo_failedOperationId r = i)
      (\<lambda>r. r\<lparr>fo_failureState := FO_replayed, fo_lastReplayedAt := Some replayedAt,
         fo_metadata := spread (fo_metadata r) metadata, fo_updatedAt := replayedAt\<rparr>)"

definition markReplayFailed ::
  "string \<Rightarrow> timestamp \<Rightarrow> failure_class \<Rightarrow> string \<Rightarrow> string \<Rightarrow> (string \<times> json) list \<Rightarrow> failed_op list \<Rightarrow> failed_op list" where
  "markReplayFailed i replayedAt cls code message metadata =
    update_first (\<lambda>r. fo_failedOperationId r = i)
      (\<lambda>r. r\<lparr>fo_failureState := FO_replay_failed, fo_lastReplayedAt := Some replayedAt,
         fo_terminalErrorClass := cls, fo_terminalErrorCode := code, fo_terminalErrorMessage := message,
         fo_metadata := spread (fo_metadata r) metadata, fo_updatedAt := replayedAt\<rparr>)"

section \<open>Capture of dead-lettered callbacks\<close>

definition dead_letter_input :: "timestamp \<Rightarrow> delivery \<Rightarrow> int option \<Rightarrow> string \<Rightarrow> failure_input" where
  "dead_letter_input failedAt d responseStatus errorMessage =
    \<lparr>fi_operationType = ''settlement.callback_delivery'', fi_operationKey = ''delivery:'' @ cd_deliveryId d,
     fi_targetService = ''settlement_callback'', fi_route = cd_targetUrl d, fi_method = ''POST'',
     fi_requestPayload = Val (cd_requestBody d), fi_requestId = cd_requestId d, fi_correlationId = Null,
     fi_idempotencyKey = Undefined, fi_actionKey = Undefined, fi_actorId = Undefined, fi_actorUserId = Undefined,
     fi_actorWalletAddress = Undefined, fi_actorRole = Undefined, fi_sessionReference = Undefined,
     fi_replayEligible = True, fi_terminalErrorClass = FC_infrastructure,
     fi_terminalErrorCode = (case responseStatus of
         Some n \<Rightarrow> if n \<noteq> 0 then ''HTTP_'' @ int_text n else ''UPSTREAM_UNAVAILABLE''
       | None \<Rightarrow> ''UPSTREAM_UNAVAILABLE''),
     fi_terminalErrorMessage = errorMessage, fi_failedAt = failedAt,
     fi_metadata = Some [(''replaySpec'', JObj
       [(''type'', JStr ''settlement.callback_delivery''), (''deliveryId'', JStr (cd_deliveryId d)),
        (''handoffId'', JStr (cd_handoffId d)), (''eventId'', JStr (cd_eventId d)), (''targetUrl'', JStr (cd_targetUrl d))])]\<rparr>"

record audit_entry =
  ae_eventType :: string
  ae_route :: string
  ae_method :: string
  ae_requestId :: string
  ae_status :: string
  ae_metadata :: "(string \<times> json) list"

definition dead_letter_audit :: "delivery \<Rightarrow> failed_op \<Rightarrow> audit_entry" where
  "dead_letter_audit d r =
    \<lparr>ae_eventType = ''gateway.failed_operation.dead_lettered'', ae_route = cd_targetUrl d, ae_method = ''POST'',
     ae_requestId = cd_requestId d, ae_status = ''dead_lettered'',
     ae_metadata = [(''failedOperationId'', JStr (fo_failedOperationId r)), (''operationType'', JStr (fo_operationType r)),
       (''targetService'', JStr (fo_targetService r)), (''deliveryId'', JStr (cd_deliveryId d)),
       (''handoffId'', JStr (cd_handoffId d)), (''eventId'', JStr (cd_eventId d))]\<rparr>"

text \<open>The audit log is \<open>None\<close> when the workflow has none.\<close>

definition captureSettlementCallbackDeadLetter ::
  "(string \<Rightarrow> string) \<Rightarrow> timestamp \<Rightarrow> delivery \<Rightarrow> int option \<Rightarrow> string \<Rightarrow> failed_op list \<times> audit_entry list option \<Rightarrow>
   string + failed_op \<times> failed_op list \<times> audit_entry list option" where
  "captureSettlementCallbackDeadLetter sha256 failedAt d responseStatus errorMessage s =
    rbind (recordFailure sha256 (dead_letter_input failedAt d responseStatus errorMessage) (fst s)) (\<lambda>(r, records).
      Inr (r, records, map_option (\<lambda>entries. entries @ [dead_letter_audit d r]) (snd s)))"

definition buildClientError :: "failed_op \<Rightarrow> string \<times> string option \<Rightarrow> gateway_error" where
  "buildClientError r ctx =
    GatewayError 503 UPSTREAM_UNAVAILABLE ''Gateway stored the failed operation for deterministic replay''
      ([(''failedOperationId'', JStr (fo_failedOperationId r)), (''operationType'', JStr (fo_operationType r)),
        (''targetService'', JStr (fo_targetService r)), (''replayEligible'', JBool (fo_replayEligible r)),
        (''requestId'', JStr (fst ctx))] @
       (case snd ctx of None \<Rightarrow> [] | Some t \<Rightarrow> [(''traceId'', JStr t)]))"

section \<open>The store as a machine\<close>

datatype failed_event =
  Fail failure_input
| Replayed string timestamp "(string \<times> json) list"
| Replay_Failed string timestamp failure_class string string "(string \<times> json) list"

fun failed_step :: "(string \<Rightarrow> string) \<Rightarrow> failed_event \<Rightarrow> failed_op list \<Rightarrow> string + failed_op list" where
  "failed_step sha256 (Fail inp) records = rbind (recordFailure sha256 inp records) (\<lambda>(_, rs). Inr rs)"
| "failed_step sha256 (Replayed i t m) records = Inr (markReplayed i t m records)"
| "failed_step sha256 (Replay_Failed i t c code msg m) records = Inr (markReplayFailed i t c code msg m records)"

text \<open>What an operation never changes of a record.\<close>

definition operation_key :: "failed_op \<Rightarrow> string" where
  "operation_key r = toScopedKey (fo_operationType r) (fo_operationKey r)"

definition operation_identity :: "failed_op \<Rightarrow> string \<times> string \<times> string \<times> timestamp" where
  "operation_identity r = (fo_failedOperationId r, operation_key r, fo_payloadHash r, fo_firstFailedAt r)"

definition failed_wf :: "failed_op list \<Rightarrow> bool" where
  "failed_wf rs = (map fo_failedOperationId rs = map (\<lambda>i. ''failed-op-'' @ show_nat (i + 1)) [0..<length rs] \<and>
     distinct (map operation_key rs))"

lemma update_first_map:
  assumes "\<And>x. P x \<Longrightarrow> x \<in> set xs \<Longrightarrow> g (f x) = g x"
  shows "map g (update_first P f xs) = map g xs"
  using assms by (induction xs) auto

lemma update_first_keeps:
  "x \<in> set xs \<Longrightarrow> x \<in> set (update_first P f xs) \<or> P x \<and> f x \<in> set (update_first P f xs)"
  by (induction xs) auto

lemma update_first_found: "find P xs = Some x \<Longrightarrow> f x \<in> set (update_first P f xs)"
  by (induction xs) (auto split: if_splits)

lemma map_eq_length: "map f xs = map g ys \<Longrightarrow> length xs = length ys"
  by (metis length_map)

lemma refailed_fields [simp]:
  "fo_failedOperationId (refailed h inp r) = fo_failedOperationId r" "operation_key (refailed h inp r) = operation_key r"
  "fo_payloadHash (refailed h inp r) = h" "fo_firstFailedAt (refailed h inp r) = fo_firstFailedAt r"
  "fo_retryCount (refailed h inp r) = fo_retryCount r + 1" "fo_failureState (refailed h inp r) = FO_open"
  "fo_replayEligible (refailed h inp r) = fi_replayEligible inp"
  "fo_requestPayload (refailed h inp r) = or_null (fi_requestPayload inp)"
  "fo_metadata (refailed h inp r) = (case fi_metadata inp of None \<Rightarrow> [] | Some m \<Rightarrow> m)"
  by (simp_all add: refailed_def operation_key_def)

lemma new_failed_op_fields [simp]:
  "fo_failedOperationId (new_failed_op i h inp) = i"
  "operation_key (new_failed_op i h inp) = toScopedKey (fi_operationType inp) (fi_operationKey inp)"
  "fo_failureState (new_failed_op i h inp) = FO_open" "fo_replayEligible (new_failed_op i h inp) = fi_replayEligible inp"
  "fo_requestPayload (new_failed_op i h inp) = or_null (fi_requestPayload inp)"
  "fo_metadata (new_failed_op i h inp) = (case fi_metadata inp of None \<Rightarrow> [] | Some m \<Rightarrow> m)"
  by (simp_all add: new_failed_op_def operation_key_def)

lemma same_operation_key: "same_operation inp r \<longleftrightarrow> operation_key r = toScopedKey (fi_operationType inp) (fi_operationKey inp)"
  by (simp add: same_operation_def operation_key_def)

text \<open>A recorded failure is open, replayable as asked, and carries the payload and metadata sent.\<close>

lemma recorded_failure:
  assumes "recordFailure sha256 inp rs = Inr (r, rs')"
  shows "r \<in> set rs'" and "operation_key r = toScopedKey (fi_operationType inp) (fi_operationKey inp)"
    and "fo_failureState r = FO_open" and "fo_replayEligible r = fi_replayEligible inp"
    and "fo_requestPayload r = or_null (fi_requestPayload inp)"
    and "fo_metadata r = (case fi_metadata inp of None \<Rightarrow> [] | Some m \<Rightarrow> m)"
proof -
  show "r \<in> set rs'" using assms update_first_found
    by (fastforce simp: recordFailure_def Let_def split: option.splits if_splits)
  show "operation_key r = toScopedKey (fi_operationType inp) (fi_operationKey inp)"
    using assms by (auto simp: recordFailure_def Let_def find_Some_iff same_operation_key split: option.splits if_splits)
  show "fo_failureState r = FO_open" "fo_replayEligible r = fi_replayEligible inp"
    "fo_requestPayload r = or_null (fi_requestPayload inp)"
    "fo_metadata r = (case fi_metadata inp of None \<Rightarrow> [] | Some m \<Rightarrow> m)"
    using assms by (auto simp: recordFailure_def Let_def split: option.splits if_splits)
qed

lemma failed_step_wf:
  assumes "failed_wf rs" and "failed_step sha256 e rs = Inr rs'"
  shows "failed_wf rs'"
proof -
  have keep: "failed_wf (update_first P f rs)"
    if "\<And>r. fo_failedOperationId (f r) = fo_failedOperationId r \<and> operation_key (f r) = operation_key r" for P f
    using assms(1) that update_first_map [of P rs fo_failedOperationId f] update_first_map [of P rs operation_key f]
      map_eq_length [of fo_failedOperationId "update_first P f rs" fo_failedOperationId rs]
    by (simp add: failed_wf_def)
  show ?thesis
  proof (cases e)
    case (Fail inp)
    then obtain r where rec: "recordFailure sha256 inp rs = Inr (r, rs')" using assms(2) by (auto simp: rbind_Inr_iff)
    show ?thesis
    proof (cases "find (same_operation inp) rs")
      case None
      then have r: "rs' = rs @ [r]" "operation_key r = toScopedKey (fi_operationType inp) (fi_operationKey inp)"
        "fo_failedOperationId r = ''failed-op-'' @ show_nat (length rs + 1)"
        using rec by (auto simp: recordFailure_def Let_def)
      moreover have "operation_key r \<notin> operation_key ` set rs"
        using None unfolding find_None_iff same_operation_key r(2) by auto
      ultimately show ?thesis using assms(1) by (simp add: failed_wf_def)
    next
      case (Some x)
      then show ?thesis using rec keep by (auto simp: recordFailure_def Let_def split: if_splits)
    qed
  next
    case (Replayed i t m)
    then show ?thesis using assms(2) keep by (auto simp: markReplayed_def operation_key_def)
  next
    case (Replay_Failed i t c code msg m)
    then show ?thesis using assms(2) keep by (auto simp: markReplayFailed_def operation_key_def)
  qed
qed

interpretation failed_ops: machine_invariant "failed_step sha256" failed_wf for sha256
  by unfold_locales (rule failed_step_wf)

lemma identity_update:
  assumes "r \<in> set rs" and "\<And>x. operation_identity (f x) = operation_identity x \<and> fo_retryCount (f x) = fo_retryCount x"
  shows "\<exists>r' \<in> set (update_first P f rs). operation_identity r' = operation_identity r \<and> fo_retryCount r \<le> fo_retryCount r'"
  using update_first_keeps [OF assms(1), of P f] assms(2) [of r] by (metis order_refl)

lemma filter_single:
  assumes "distinct (map k xs)" and "r \<in> set xs"
  shows "filter (\<lambda>x. k x = k r) xs = [r]"
  using assms
proof (induction xs)
  case (Cons a xs)
  show ?case
  proof (cases "a = r")
    case True
    then have "k x \<noteq> k r" if "x \<in> set xs" for x using Cons.prems(1) that by (metis distinct.simps(2) image_eqI list.map(2) set_map)
    then show ?thesis using True by (simp add: filter_empty_conv)
  next
    case False
    then have r: "r \<in> set xs" using Cons.prems(2) by simp
    then have "k a \<noteq> k r" using Cons.prems(1) by (metis distinct.simps(2) image_eqI list.map(2) set_map)
    then show ?thesis using Cons r by simp
  qed
qed simp

lemma failed_step_identity:
  assumes "r \<in> set rs" and "failed_wf rs" and "failed_step sha256 e rs = Inr rs'"
  shows "\<exists>r' \<in> set rs'. operation_identity r' = operation_identity r \<and> fo_retryCount r \<le> fo_retryCount r'"
proof (cases e)
  case (Fail inp)
  then obtain n where rec: "recordFailure sha256 inp rs = Inr (n, rs')" using assms(3) by (auto simp: rbind_Inr_iff)
  let ?h = "buildPayloadHash sha256 (fi_requestPayload inp)"
  show ?thesis
  proof (cases "find (same_operation inp) rs")
    case None
    then have "rs' = rs @ [n]" using rec by (auto simp: recordFailure_def Let_def)
    then show ?thesis using assms(1) by auto
  next
    case (Some x)
    then have h: "fo_payloadHash x = ?h" and rs': "rs' = update_first (same_operation inp) (refailed ?h inp) rs"
      using rec by (auto simp: recordFailure_def Let_def split: if_splits)
    have x: "x \<in> set rs" "same_operation inp x" using Some by (auto simp: find_Some_iff)
    from update_first_keeps [OF assms(1)] consider "r \<in> set rs'" | "same_operation inp r" "refailed ?h inp r \<in> set rs'"
      unfolding rs' by blast
    then show ?thesis
    proof cases
      case 2
      then have "r = x" using assms(1,2) x unfolding failed_wf_def same_operation_key by (metis distinct_map inj_onD)
      then show ?thesis using 2 h by (intro bexI [of _ "refailed ?h inp r"]) (simp_all add: operation_identity_def)
    qed auto
  qed
next
  case (Replayed i t m)
  then have rs': "rs' = markReplayed i t m rs" using assms(3) by simp
  show ?thesis unfolding rs' markReplayed_def
    by (rule identity_update [OF assms(1)]) (simp add: operation_identity_def operation_key_def)
next
  case (Replay_Failed i t c code msg m)
  then have rs': "rs' = markReplayFailed i t c code msg m rs" using assms(3) by simp
  show ?thesis unfolding rs' markReplayFailed_def
    by (rule identity_update [OF assms(1)]) (simp add: operation_identity_def operation_key_def)
qed

lemma get_by_id:
  assumes "failed_wf rs" and "r \<in> set rs"
  shows "getFailedOperation (fo_failedOperationId r) rs = Some r"
proof -
  have "distinct (map fo_failedOperationId rs)" using assms(1) unfolding failed_wf_def by (auto simp: distinct_map inj_on_def)
  then have uniq: "x = r" if "x \<in> set rs" "fo_failedOperationId x = fo_failedOperationId r" for x
    using that assms(2) by (metis distinct_map inj_onD)
  obtain x where x: "find (\<lambda>x. fo_failedOperationId x = fo_failedOperationId r) rs = Some x"
    using assms(2) by (cases "find (\<lambda>x. fo_failedOperationId x = fo_failedOperationId r) rs") (auto simp: find_None_iff)
  then have "x \<in> set rs" "fo_failedOperationId x = fo_failedOperationId r" by (auto simp: find_Some_iff)
  then show ?thesis using x uniq by (simp add: getFailedOperation_def)
qed

section \<open>Properties\<close>

definition sample_failure :: failure_input where
  "sample_failure = dead_letter_input 5 (new_delivery ''d1'' 1 ''h1'' ''e1'' JNull sample_plan) (Some 503) ''HTTP 503''"

text \<open>
  C36. An operation has one record for ever: in every store reached from an empty one, a record
  is found under its identifier, no other record has its operation key, and whatever is recorded or
  replayed afterwards the identifier still finds the same operation with the same payload hash and
  first failure, and a retry count that has not decreased.
\<close>

theorem failed_operation_permanent:
  assumes "r \<in> set (failed_ops.run sha256 es [])"
  shows "getFailedOperation (fo_failedOperationId r) (failed_ops.run sha256 es []) = Some r \<and>
    filter (\<lambda>x. toScopedKey (fo_operationType x) (fo_operationKey x) = toScopedKey (fo_operationType r) (fo_operationKey r))
      (failed_ops.run sha256 es []) = [r] \<and>
    (\<exists>r'. getFailedOperation (fo_failedOperationId r) (failed_ops.run sha256 (es @ fs) []) = Some r' \<and>
       operation_identity r' = operation_identity r \<and> fo_retryCount r \<le> fo_retryCount r')"
proof -
  let ?rs = "failed_ops.run sha256 es []"
  have wf: "failed_wf (failed_ops.run sha256 xs [])" for xs
    by (rule failed_ops.inv_run) (simp add: failed_wf_def)
  have get: "getFailedOperation (fo_failedOperationId r) ?rs = Some r" by (rule get_by_id [OF wf assms])
  have single: "filter (\<lambda>x. operation_key x = operation_key r) ?rs = [r]"
    by (rule filter_single [OF _ assms]) (use wf [of es] in \<open>simp add: failed_wf_def\<close>)
  have "failed_wf (failed_ops.run sha256 fs ?rs) \<and> (\<exists>r' \<in> set (failed_ops.run sha256 fs ?rs).
      operation_identity r' = operation_identity r \<and> fo_retryCount r \<le> fo_retryCount r')"
  proof (rule failed_ops.run_preserves)
    fix e t u
    assume t: "failed_wf t \<and> (\<exists>r' \<in> set t. operation_identity r' = operation_identity r \<and> fo_retryCount r \<le> fo_retryCount r')"
      and step: "failed_step sha256 e t = Inr u"
    then show "failed_wf u \<and> (\<exists>r' \<in> set u. operation_identity r' = operation_identity r \<and> fo_retryCount r \<le> fo_retryCount r')"
      using failed_step_wf failed_step_identity by (metis order_trans)
  qed (use wf assms in blast)
  then obtain r' where r': "r' \<in> set (failed_ops.run sha256 (es @ fs) [])" "operation_identity r' = operation_identity r"
    "fo_retryCount r \<le> fo_retryCount r'" by (auto simp: failed_ops.run_append)
  then have "fo_failedOperationId r' = fo_failedOperationId r" by (simp add: operation_identity_def)
  then have "getFailedOperation (fo_failedOperationId r) (failed_ops.run sha256 (es @ fs) []) = Some r'"
    using get_by_id [OF wf r'(1)] by simp
  then show ?thesis using get single r'(2,3) unfolding operation_key_def by blast
qed

theorem failed_operation_permanent_witness:
  "\<exists>r. getFailedOperation ''failed-op-1'' (failed_ops.run (\<lambda>t. t) [Fail sample_failure] []) = Some r \<and>
     (\<exists>r'. getFailedOperation ''failed-op-1'' (failed_ops.run (\<lambda>t. t) ([Fail sample_failure] @ [Fail sample_failure]) []) = Some r' \<and>
        operation_identity r' = operation_identity r)"
proof -
  let ?rs = "failed_ops.run (\<lambda>t. t) [Fail sample_failure] []"
  have "map fo_failedOperationId ?rs = [''failed-op-1'']" by code_simp
  then obtain r where r: "r \<in> set ?rs" "fo_failedOperationId r = ''failed-op-1''" 
    by (auto simp: map_eq_Cons_conv simp del: failed_ops.run.simps)
  from failed_operation_permanent [OF r(1), of "[Fail sample_failure]"] r(2) show ?thesis by auto
qed

end
