(* ===== verification/Callback_Dispatcher.thy ===== *)
theory Callback_Dispatcher
  imports Failed_Operations
begin

text \<open>
  The dispatcher of settlement callbacks (\<open>gateway/src/core/settlementCallbackDispatcher.ts\<close>) over
  the settlement store and the store of failed operations: leasing, posting, completion, backoff
  and dead letters, and the replay of a dead letter.

  \<open>post\<close> is the endpoint: the answer to the POST of a leased delivery, or the error that building or
  sending the request throws. It may depend on the whole delivery, so on the attempt number too.
  \<open>clk j\<close> is the \<open>j\<close>-th reading of the clock in a call, the store's own readings included. Log
  output is left out, except for the error codes of the polling loop. \<open>computeBackoffMs\<close> is exact:
  in the source a product beyond the range of numbers is capped like any other large one.
\<close>

section \<open>Configuration and state\<close>

record dispatcher_config = gateway_config +
  dc_settlementCallbackRequestTimeoutMs :: int
  dc_settlementCallbackMaxAttempts :: int
  dc_settlementCallbackInitialBackoffMs :: int
  dc_settlementCallbackMaxBackoffMs :: int
  dc_workerId :: string
  dc_failedOperationWorkflow :: bool

datatype post_result = Response int | Threw string

record dispatcher =
  ds_store :: store
  ds_failed :: "failed_op list"
  ds_audit :: "audit_entry list option"
  ds_posted :: "delivery list"
  ds_running :: bool
  ds_timer :: bool
  ds_consecutivePollFailures :: nat
  ds_pollStallReported :: bool
  ds_errors :: "string list"

definition computeBackoffMs :: "nat \<Rightarrow> int \<Rightarrow> int \<Rightarrow> int" where
  "computeBackoffMs attemptCount initialBackoffMs maxBackoffMs =
    min maxBackoffMs (initialBackoffMs * 2 ^ (attemptCount - 1))"

definition leaseDurationMs :: "'a dispatcher_config_scheme \<Rightarrow> int" where
  "leaseDurationMs cfg = max 30000 (dc_settlementCallbackRequestTimeoutMs cfg * 2)"

section \<open>Operations\<close>

text \<open>
  The error thrown, if any, with the state. The source reads the clock a second time for
  \<open>attemptedAt\<close>, which the store does not keep.
\<close>

definition scheduleFailure ::
  "(string \<Rightarrow> string) \<Rightarrow> dispatcher_config \<Rightarrow> (nat \<Rightarrow> timestamp) \<Rightarrow> delivery \<Rightarrow> string \<Rightarrow> int option \<Rightarrow> dispatcher \<Rightarrow>
   string option \<times> dispatcher" where
  "scheduleFailure sha256 cfg clk d message responseStatus s =
    (let deadLetter = (int (cd_attemptCount d) \<ge> dc_settlementCallbackMaxAttempts cfg);
         nextAttemptAt = clk 0 + computeBackoffMs (cd_attemptCount d)
           (dc_settlementCallbackInitialBackoffMs cfg) (dc_settlementCallbackMaxBackoffMs cfg);
         (updated, st) = markCallbackFailed (clk 2) (clk 3) (cd_deliveryId d) (dc_workerId cfg)
           \<lparr>fu_responseStatus = (case responseStatus of None \<Rightarrow> Null | Some n \<Rightarrow> Val n), fu_errorMessage = message,
            fu_nextAttemptAt = nextAttemptAt, fu_deadLetter = deadLetter\<rparr> (ds_store s);
         s' = s\<lparr>ds_store := st\<rparr>
     in if updated \<and> deadLetter \<and> dc_failedOperationWorkflow cfg then
          (case getCallbackDelivery (cd_deliveryId d) st of
             None \<Rightarrow> (None, s')
           | Some callbackDelivery \<Rightarrow>
               (case captureSettlementCallbackDeadLetter sha256 (clk 4) callbackDelivery responseStatus message
                   (ds_failed s', ds_audit s') of
                  Inl err \<Rightarrow> (Some err, s')
                | Inr (r, records, entries) \<Rightarrow> (None, s'\<lparr>ds_failed := records, ds_audit := entries\<rparr>)))
        else (None, s'))"

definition ok :: "int \<Rightarrow> bool" where
  "ok status = (200 \<le> status \<and> status \<le> 299)"

definition processDelivery ::
  "(string \<Rightarrow> string) \<Rightarrow> dispatcher_config \<Rightarrow> (delivery \<Rightarrow> post_result) \<Rightarrow> (nat \<Rightarrow> timestamp) \<Rightarrow> string \<Rightarrow> dispatcher \<Rightarrow>
   string option \<times> dispatcher" where
  "processDelivery sha256 cfg post clk deliveryId s =
    (let attemptedAt = clk 0;
         (leased, st) = markCallbackDelivering (clk 1) deliveryId (dc_workerId cfg) attemptedAt
           (attemptedAt + leaseDurationMs cfg) (ds_store s)
     in case leased of
          None \<Rightarrow> (None, s\<lparr>ds_store := st\<rparr>)
        | Some d \<Rightarrow>
            let s1 = s\<lparr>ds_store := st, ds_posted := ds_posted s @ [d]\<rparr> in
            (case post d of
               Response status \<Rightarrow>
                 if ok status then
                   (None, s1\<lparr>ds_store := snd (markCallbackDelivered (clk 3) (clk 4) deliveryId (dc_workerId cfg) (clk 2)
                      status (ds_store s1))\<rparr>)
                 else
                   (case scheduleFailure sha256 cfg (\<lambda>j. clk (2 + j)) d (''HTTP '' @ int_text status) (Some status) s1 of
                      (None, s2) \<Rightarrow> (None, s2)
                    | (Some err, s2) \<Rightarrow> scheduleFailure sha256 cfg (\<lambda>j. clk (7 + j)) d err None s2)
             | Threw err \<Rightarrow> scheduleFailure sha256 cfg (\<lambda>j. clk (2 + j)) d err None s1))"

text \<open>The loop stops at the first delivery whose processing throws.\<close>

fun process_all ::
  "(string \<Rightarrow> string) \<Rightarrow> dispatcher_config \<Rightarrow> (delivery \<Rightarrow> post_result) \<Rightarrow> (nat \<Rightarrow> nat \<Rightarrow> timestamp) \<Rightarrow> string list \<Rightarrow>
   dispatcher \<Rightarrow> string option \<times> dispatcher" where
  "process_all sha256 cfg post clks [] s = (None, s)"
| "process_all sha256 cfg post clks (i # is) s =
    (case processDelivery sha256 cfg post (clks 0) i s of
       (Some err, s') \<Rightarrow> (Some err, s')
     | (None, s') \<Rightarrow> process_all sha256 cfg post (\<lambda>n. clks (Suc n)) is s')"

definition processDueDeliveries ::
  "(string \<Rightarrow> string) \<Rightarrow> dispatcher_config \<Rightarrow> (delivery \<Rightarrow> post_result) \<Rightarrow> timestamp \<Rightarrow> (nat \<Rightarrow> nat \<Rightarrow> timestamp) \<Rightarrow> nat \<Rightarrow>
   dispatcher \<Rightarrow> string option \<times> dispatcher" where
  "processDueDeliveries sha256 cfg post now clks limit s =
    (if ds_running s \<or> \<not> gc_settlementCallbackEnabled cfg then (None, s)
     else
       let due = getDueCallbackDeliveries limit now (ds_store s);
           (err, s') = process_all sha256 cfg post clks (map cd_deliveryId due)
             (s\<lparr>ds_running := True, ds_consecutivePollFailures := 0, ds_pollStallReported := False\<rparr>)
       in (err, s'\<lparr>ds_running := False\<rparr>))"

text \<open>One firing of the timer: \<open>poll\<close> of \<open>start\<close>, with the handler of a rejected round.\<close>

definition poll ::
  "(string \<Rightarrow> string) \<Rightarrow> dispatcher_config \<Rightarrow> (delivery \<Rightarrow> post_result) \<Rightarrow> timestamp \<Rightarrow> (nat \<Rightarrow> nat \<Rightarrow> timestamp) \<Rightarrow>
   dispatcher \<Rightarrow> dispatcher" where
  "poll sha256 cfg post now clks s =
    (case processDueDeliveries sha256 cfg post now clks 25 s of
       (None, s') \<Rightarrow> s'
     | (Some _, s') \<Rightarrow>
         let n = min (ds_consecutivePollFailures s' + 1) 3;
             stalled = (n = 3 \<and> \<not> ds_pollStallReported s')
         in s'\<lparr>ds_consecutivePollFailures := n, ds_pollStallReported := (ds_pollStallReported s' \<or> stalled),
               ds_errors := ds_errors s' @ [''SETTLEMENT_CALLBACK_POLL_FAILED''] @
                 (if stalled then [''SETTLEMENT_CALLBACK_POLL_STALLED''] else [])\<rparr>)"

definition start ::
  "(string \<Rightarrow> string) \<Rightarrow> dispatcher_config \<Rightarrow> (delivery \<Rightarrow> post_result) \<Rightarrow> timestamp \<Rightarrow> (nat \<Rightarrow> nat \<Rightarrow> timestamp) \<Rightarrow>
   dispatcher \<Rightarrow> dispatcher" where
  "start sha256 cfg post now clks s =
    (if \<not> gc_settlementCallbackEnabled cfg \<or> ds_timer s then s
     else poll sha256 cfg post now clks (s\<lparr>ds_timer := True\<rparr>))"

definition stop :: "dispatcher \<Rightarrow> dispatcher" where
  "stop s = s\<lparr>ds_timer := False\<rparr>"

definition replayDeadLetterDelivery ::
  "(string \<Rightarrow> string) \<Rightarrow> dispatcher_config \<Rightarrow> (delivery \<Rightarrow> post_result) \<Rightarrow> (nat \<Rightarrow> timestamp) \<Rightarrow> string \<Rightarrow> dispatcher \<Rightarrow>
   string option \<times> dispatcher" where
  "replayDeadLetterDelivery sha256 cfg post clk deliveryId s =
    (case requeueCallbackDelivery (clk 1) (clk 2) deliveryId (clk 0) (ds_store s) of
       (None, st) \<Rightarrow> (Some (''Settlement callback delivery is not eligible for replay: '' @ deliveryId), s\<lparr>ds_store := st\<rparr>)
     | (Some _, st) \<Rightarrow> processDelivery sha256 cfg post (\<lambda>j. clk (3 + j)) deliveryId (s\<lparr>ds_store := st\<rparr>))"

section \<open>One attempt\<close>

definition leased :: "dispatcher_config \<Rightarrow> (nat \<Rightarrow> timestamp) \<Rightarrow> delivery \<Rightarrow> delivery" where
  "leased cfg clk d = d\<lparr>cd_status := DS_delivering, cd_attemptCount := cd_attemptCount d + 1,
     cd_lastAttemptedAt := Some (clk 0), cd_leaseOwner := Some (dc_workerId cfg),
     cd_leaseExpiresAt := Some (clk 0 + leaseDurationMs cfg), cd_updatedAt := clk 1\<rparr>"

definition accepts_post :: "post_result \<Rightarrow> bool" where
  "accepts_post r = (case r of Response status \<Rightarrow> ok status | Threw _ \<Rightarrow> False)"

abbreviation delivery_at :: "dispatcher \<Rightarrow> string \<Rightarrow> delivery option" where
  "delivery_at s i \<equiv> map_get (st_deliveries (ds_store s)) i"

lemma update_latest_deliveries [simp]: "st_deliveries (update_latest_handoff d f st) = st_deliveries st"
  by (simp add: update_latest_handoff_def split: option.splits)

lemma delivering_ready:
  assumes "map_get (st_deliveries st) i = Some d" and "delivery_ready (clk 0) d"
  shows "markCallbackDelivering (clk 1) i (dc_workerId cfg) (clk 0) (clk 0 + leaseDurationMs cfg) st =
    (Some (leased cfg clk d), st\<lparr>st_deliveries := map_set i (leased cfg clk d) (st_deliveries st)\<rparr>)"
  using assms by (simp add: markCallbackDelivering_def leased_def Let_def)

lemma delivering_unready:
  assumes "map_get (st_deliveries st) i = Some d" and "\<not> delivery_ready at d"
  shows "markCallbackDelivering now i owner at expires st = (None, st)"
  using assms by (simp add: markCallbackDelivering_def)

text \<open>What a failure does to the delivery: nothing without the lease, else it ends the attempt.\<close>

lemma scheduleFailure_lost:
  assumes "delivery_at s (cd_deliveryId d) = Some c" and "\<not> holds_lease (dc_workerId cfg) c"
  shows "scheduleFailure sha256 cfg clk d message status s = (None, s)"
  using assms by (simp add: scheduleFailure_def markCallbackFailed_def Let_def)

definition failed_attempt :: "dispatcher_config \<Rightarrow> (nat \<Rightarrow> timestamp) \<Rightarrow> delivery \<Rightarrow> string \<Rightarrow> int option \<Rightarrow> delivery \<Rightarrow> delivery" where
  "failed_attempt cfg clk d message status c = c\<lparr>
     cd_status := (if dc_settlementCallbackMaxAttempts cfg \<le> int (cd_attemptCount d) then DS_dead_letter else DS_failed),
     cd_responseStatus := status, cd_lastError := Some message,
     cd_nextAttemptAt := clk 0 + computeBackoffMs (cd_attemptCount d)
       (dc_settlementCallbackInitialBackoffMs cfg) (dc_settlementCallbackMaxBackoffMs cfg),
     cd_leaseOwner := None, cd_leaseExpiresAt := None, cd_updatedAt := clk 2\<rparr>"

lemma or_null_option [simp]: "or_null (case x of None \<Rightarrow> Null | Some n \<Rightarrow> Val n) = x"
  by (cases x) auto

lemma scheduleFailure_owned:
  assumes "delivery_at s (cd_deliveryId d) = Some c" and "holds_lease (dc_workerId cfg) c"
  shows "st_deliveries (ds_store (snd (scheduleFailure sha256 cfg clk d message status s))) =
      map_set (cd_deliveryId d) (failed_attempt cfg clk d message status c) (st_deliveries (ds_store s))"
    and "ds_posted (snd (scheduleFailure sha256 cfg clk d message status s)) = ds_posted s"
  using assms by (auto simp: scheduleFailure_def markCallbackFailed_def Let_def failed_attempt_def getCallbackDelivery_def
    split: option.splits sum.splits)

lemma scheduleFailure_posted: "ds_posted (snd (scheduleFailure sha256 cfg clk d message status s)) = ds_posted s"
  by (auto simp: scheduleFailure_def Let_def split: option.splits sum.splits prod.splits)

lemma leased_fields [simp]:
  "cd_deliveryId (leased cfg clk d) = cd_deliveryId d" "cd_attemptCount (leased cfg clk d) = cd_attemptCount d + 1"
  "cd_requestBody (leased cfg clk d) = cd_requestBody d" "holds_lease (dc_workerId cfg) (leased cfg clk d)"
  by (simp_all add: leased_def holds_lease_def)

lemma failed_attempt_fields [simp]:
  "cd_deliveryId (failed_attempt cfg clk d m st c) = cd_deliveryId c"
  "cd_attemptCount (failed_attempt cfg clk d m st c) = cd_attemptCount c"
  "cd_requestBody (failed_attempt cfg clk d m st c) = cd_requestBody c"
  "\<not> holds_lease w (failed_attempt cfg clk d m st c)"
  "cd_status (failed_attempt cfg clk d m st c) =
    (if dc_settlementCallbackMaxAttempts cfg \<le> int (cd_attemptCount d) then DS_dead_letter else DS_failed)"
  "cd_nextAttemptAt (failed_attempt cfg clk d m st c) = clk 0 + computeBackoffMs (cd_attemptCount d)
     (dc_settlementCallbackInitialBackoffMs cfg) (dc_settlementCallbackMaxBackoffMs cfg)"
  by (simp_all add: failed_attempt_def holds_lease_def)

definition leased_state :: "dispatcher_config \<Rightarrow> (nat \<Rightarrow> timestamp) \<Rightarrow> string \<Rightarrow> delivery \<Rightarrow> dispatcher \<Rightarrow> dispatcher" where
  "leased_state cfg clk i d s =
    s\<lparr>ds_store := (ds_store s)\<lparr>st_deliveries := map_set i (leased cfg clk d) (st_deliveries (ds_store s))\<rparr>,
      ds_posted := ds_posted s @ [leased cfg clk d]\<rparr>"

lemma leased_state_fields [simp]:
  "delivery_at (leased_state cfg clk i d s) i = Some (leased cfg clk d)"
  "ds_posted (leased_state cfg clk i d s) = ds_posted s @ [leased cfg clk d]"
  "st_deliveries (ds_store (leased_state cfg clk i d s)) = map_set i (leased cfg clk d) (st_deliveries (ds_store s))"
  by (simp_all add: leased_state_def)

text \<open>The failures of an attempt, of whichever kind, are one call of \<open>scheduleFailure\<close>.\<close>

lemma attempt_fails:
  assumes get: "delivery_at s i = Some d" and i: "cd_deliveryId d = i" and ready: "delivery_ready (clk 0) d"
    and "\<not> accepts_post (post (leased cfg clk d))"
  obtains m st where "snd (processDelivery sha256 cfg post clk i s) =
    snd (scheduleFailure sha256 cfg (\<lambda>j. clk (2 + j)) (leased cfg clk d) m st (leased_state cfg clk i d s))"
proof -
  let ?l = "leased cfg clk d" and ?s1 = "leased_state cfg clk i d s"
  note step = delivering_ready [of "ds_store s" i d clk cfg, OF get ready]
  show thesis
  proof (cases "post ?l")
    case (Response status)
    let ?m = "''HTTP '' @ int_text status"
    obtain e s2 where sf: "scheduleFailure sha256 cfg (\<lambda>j. clk (2 + j)) ?l ?m (Some status) ?s1 = (e, s2)" by fastforce
    have "delivery_at ?s1 (cd_deliveryId ?l) = Some ?l" using i by simp
    from scheduleFailure_owned(1) [OF this leased_fields(4), of sha256 "\<lambda>j. clk (2 + j)" ?m "Some status"] sf
    have "delivery_at s2 (cd_deliveryId ?l) = Some (failed_attempt cfg (\<lambda>j. clk (2 + j)) ?l ?m (Some status) ?l)"
      by simp
    from scheduleFailure_lost [OF this failed_attempt_fields(4)]
    have lost: "scheduleFailure sha256 cfg (\<lambda>j. clk (7 + j)) ?l err None s2 = (None, s2)" for err .
    have "\<not> ok status" using assms(4) Response by (simp add: accepts_post_def)
    then have "snd (processDelivery sha256 cfg post clk i s) = s2"
      using step sf lost Response by (cases e) (simp_all add: processDelivery_def Let_def leased_state_def)
    then show thesis using sf that [of ?m "Some status"] by simp
  next
    case (Threw err)
    then have "snd (processDelivery sha256 cfg post clk i s) = snd (scheduleFailure sha256 cfg (\<lambda>j. clk (2 + j)) ?l err None ?s1)"
      using step by (simp add: processDelivery_def Let_def leased_state_def)
    then show thesis by (rule that)
  qed
qed

lemma attempt_delivers:
  assumes "delivery_at s i = Some d" and "delivery_ready (clk 0) d" and "accepts_post (post (leased cfg clk d))"
  obtains d' where "st_deliveries (ds_store (snd (processDelivery sha256 cfg post clk i s))) = map_set i d' (map_set i (leased cfg clk d) (st_deliveries (ds_store s)))"
    "cd_status d' = DS_delivered" "cd_attemptCount d' = cd_attemptCount d + 1" "cd_deliveryId d' = cd_deliveryId d"
    "cd_requestBody d' = cd_requestBody d"
    "ds_posted (snd (processDelivery sha256 cfg post clk i s)) = ds_posted s @ [leased cfg clk d]"
proof -
  note step = delivering_ready [of "ds_store s" i d clk cfg, OF assms(1,2)]
  from assms(3) obtain status where r: "post (leased cfg clk d) = Response status" "ok status"
    by (auto simp: accepts_post_def split: post_result.splits)
  show thesis by (rule that [of "(leased cfg clk d)\<lparr>cd_status := DS_delivered, cd_deliveredAt := Some (clk 2),
      cd_responseStatus := Some status, cd_leaseOwner := None, cd_leaseExpiresAt := None, cd_updatedAt := clk 3\<rparr>"])
    (simp_all add: processDelivery_def Let_def step r markCallbackDelivered_def del: One_nat_def)
qed

text \<open>
  One call on a ready delivery is one attempt: its answer delivers it, or it is scheduled again or
  dead-lettered by the attempt number.
\<close>

definition attempt_outcome :: "dispatcher_config \<Rightarrow> (delivery \<Rightarrow> post_result) \<Rightarrow> (nat \<Rightarrow> timestamp) \<Rightarrow> delivery \<Rightarrow> delivery \<Rightarrow> bool" where
  "attempt_outcome cfg post clk d d' =
    (cd_deliveryId d' = cd_deliveryId d \<and> cd_attemptCount d' = cd_attemptCount d + 1 \<and> cd_requestBody d' = cd_requestBody d \<and>
     (if accepts_post (post (leased cfg clk d)) then cd_status d' = DS_delivered
      else if dc_settlementCallbackMaxAttempts cfg \<le> int (cd_attemptCount d + 1) then cd_status d' = DS_dead_letter
      else cd_status d' = DS_failed \<and> cd_nextAttemptAt d' = clk 2 + computeBackoffMs (cd_attemptCount d + 1)
        (dc_settlementCallbackInitialBackoffMs cfg) (dc_settlementCallbackMaxBackoffMs cfg)))"

lemma processDelivery_ready:
  assumes get: "delivery_at s i = Some d" and i: "cd_deliveryId d = i" and ready: "delivery_ready (clk 0) d"
  shows "\<exists>d' l. st_deliveries (ds_store (snd (processDelivery sha256 cfg post clk i s))) = map_set i d' (map_set i l (st_deliveries (ds_store s))) \<and>
      attempt_outcome cfg post clk d d'"
    and "ds_posted (snd (processDelivery sha256 cfg post clk i s)) = ds_posted s @ [leased cfg clk d]"
proof -
  let ?l = "leased cfg clk d"
  have "(\<exists>d' l. st_deliveries (ds_store (snd (processDelivery sha256 cfg post clk i s))) = map_set i d' (map_set i l (st_deliveries (ds_store s))) \<and>
      attempt_outcome cfg post clk d d') \<and> ds_posted (snd (processDelivery sha256 cfg post clk i s)) = ds_posted s @ [?l]"
  proof (cases "accepts_post (post ?l)")
    case True
    with get ready show ?thesis by (rule attempt_delivers) (auto simp: attempt_outcome_def True)
  next
    case False
    from get i ready False obtain m st where r: "snd (processDelivery sha256 cfg post clk i s) =
        snd (scheduleFailure sha256 cfg (\<lambda>j. clk (2 + j)) ?l m st (leased_state cfg clk i d s))" by (rule attempt_fails)
    have l: "delivery_at (leased_state cfg clk i d s) (cd_deliveryId ?l) = Some ?l" using i by simp
    have "attempt_outcome cfg post clk d (failed_attempt cfg (\<lambda>j. clk (2 + j)) ?l m st ?l)"
      using False by (simp add: attempt_outcome_def numeral_2_eq_2)
    then show ?thesis unfolding r scheduleFailure_owned [OF l leased_fields(4)] using i by auto
  qed
  then show "\<exists>d' l. st_deliveries (ds_store (snd (processDelivery sha256 cfg post clk i s))) = map_set i d' (map_set i l (st_deliveries (ds_store s))) \<and>
      attempt_outcome cfg post clk d d'"
    and "ds_posted (snd (processDelivery sha256 cfg post clk i s)) = ds_posted s @ [?l]" by blast+
qed

lemma processDelivery_unready:
  assumes "delivery_at s i = Some d" and "\<not> delivery_ready (clk 0) d"
  shows "processDelivery sha256 cfg post clk i s = (None, s)"
  using delivering_unready [OF assms] by (simp add: processDelivery_def Let_def)

section \<open>Every callback settles\<close>

text \<open>Clocks of successive attempts, each at least \<open>gap\<close> after the failure of the one before.\<close>

fun spaced :: "int \<Rightarrow> timestamp \<Rightarrow> (nat \<Rightarrow> timestamp) list \<Rightarrow> bool" where
  "spaced gap t [] = True"
| "spaced gap t (c # cs) = (t \<le> c 0 \<and> spaced gap (c 2 + gap) cs)"

definition attempts ::
  "(string \<Rightarrow> string) \<Rightarrow> dispatcher_config \<Rightarrow> (delivery \<Rightarrow> post_result) \<Rightarrow> (nat \<Rightarrow> timestamp) list \<Rightarrow> string \<Rightarrow> dispatcher \<Rightarrow> dispatcher" where
  "attempts sha256 cfg post clks i s = foldl (\<lambda>s clk. snd (processDelivery sha256 cfg post clk i s)) s clks"

lemma attempts_settled:
  assumes "delivery_at s i = Some d" and "cd_status d \<in> {DS_delivered, DS_dead_letter}"
  shows "attempts sha256 cfg post clks i s = s"
proof -
  have "processDelivery sha256 cfg post clk i s = (None, s)" for clk
    using assms by (intro processDelivery_unready) (auto simp: delivery_ready_def)
  then show ?thesis unfolding attempts_def by (induction clks) auto
qed

lemma backoff_le: "computeBackoffMs n a b \<le> b"
  by (simp add: computeBackoffMs_def)

lemma attempts_settle:
  assumes "delivery_at s i = Some d" and "cd_deliveryId d = i" and "cd_status d \<in> {DS_pending, DS_failed}"
    and "cd_nextAttemptAt d \<le> t" and "spaced (dc_settlementCallbackMaxBackoffMs cfg) t clks" and "clks \<noteq> []"
    and "dc_settlementCallbackMaxAttempts cfg \<le> int (cd_attemptCount d + length clks)"
  shows "\<exists>d'. delivery_at (attempts sha256 cfg post clks i s) i = Some d' \<and> cd_status d' \<in> {DS_delivered, DS_dead_letter} \<and>
    cd_requestBody d' = cd_requestBody d \<and> cd_attemptCount d < cd_attemptCount d' \<and>
    int (cd_attemptCount d') \<le> max (int (cd_attemptCount d) + 1) (dc_settlementCallbackMaxAttempts cfg)"
  using assms
proof (induction clks arbitrary: s d t)
  case (Cons clk clks)
  let ?s = "snd (processDelivery sha256 cfg post clk i s)"
  have "delivery_ready (clk 0) d" using Cons.prems(3-5) by (auto simp: delivery_ready_def)
  from processDelivery_ready(1) [where clk = clk, OF Cons.prems(1,2) this, of sha256 cfg post]
  obtain d1 l where d1: "delivery_at ?s i = Some d1" "attempt_outcome cfg post clk d d1" by auto
  have run: "attempts sha256 cfg post (clk # clks) i s = attempts sha256 cfg post clks i ?s"
    by (simp add: attempts_def)
  show ?case
  proof (cases "cd_status d1 \<in> {DS_delivered, DS_dead_letter}")
    case True
    then show ?thesis using d1 attempts_settled [OF d1(1) True] unfolding run by (auto simp: attempt_outcome_def)
  next
    case False
    then have f: "cd_status d1 = DS_failed" "cd_nextAttemptAt d1 \<le> clk 2 + dc_settlementCallbackMaxBackoffMs cfg"
      "int (cd_attemptCount d + 1) < dc_settlementCallbackMaxAttempts cfg" "cd_attemptCount d1 = cd_attemptCount d + 1"
      "cd_deliveryId d1 = i" "cd_requestBody d1 = cd_requestBody d"
      using d1(2) Cons.prems(2) backoff_le by (auto simp: attempt_outcome_def split: if_splits)
    then have "clks \<noteq> []" using Cons.prems(7) by auto
    then obtain d' where "delivery_at (attempts sha256 cfg post clks i ?s) i = Some d'" "cd_status d' \<in> {DS_delivered, DS_dead_letter}"
      "cd_requestBody d' = cd_requestBody d1" "cd_attemptCount d1 < cd_attemptCount d'"
      "int (cd_attemptCount d') \<le> max (int (cd_attemptCount d1) + 1) (dc_settlementCallbackMaxAttempts cfg)"
      using Cons.IH [OF d1(1) f(5) _ f(2)] f(1,4) Cons.prems(5,7) by auto
    then show ?thesis using f unfolding run by auto
  qed
qed simp

section \<open>Dead letters\<close>

definition callback_operation :: "string \<Rightarrow> string" where
  "callback_operation i = toScopedKey ''settlement.callback_delivery'' (''delivery:'' @ i)"

text \<open>The records of a delivery, if any, have its payload.\<close>

definition no_conflict :: "(string \<Rightarrow> string) \<Rightarrow> string \<Rightarrow> json \<Rightarrow> failed_op list \<Rightarrow> bool" where
  "no_conflict sha256 i body rs =
    list_all (\<lambda>r. operation_key r = callback_operation i \<longrightarrow> fo_payloadHash r = buildPayloadHash sha256 (Val body)) rs"

lemma dead_letter_input_fields [simp]:
  "toScopedKey (fi_operationType (dead_letter_input t d st m)) (fi_operationKey (dead_letter_input t d st m)) =
     callback_operation (cd_deliveryId d)"
  "fi_requestPayload (dead_letter_input t d st m) = Val (cd_requestBody d)"
  "fi_replayEligible (dead_letter_input t d st m)"
  by (simp_all add: dead_letter_input_def callback_operation_def)

lemma capture_succeeds:
  assumes "no_conflict sha256 (cd_deliveryId d) (cd_requestBody d) rs"
  obtains r rs' where "captureSettlementCallbackDeadLetter sha256 t d st m (rs, a) =
      Inr (r, rs', map_option (\<lambda>es. es @ [dead_letter_audit d r]) a)"
    "r \<in> set rs'" "operation_key r = callback_operation (cd_deliveryId d)" "fo_failureState r = FO_open"
    "fo_replayEligible r" "fo_requestPayload r = Some (cd_requestBody d)"
proof -
  let ?inp = "dead_letter_input t d st m"
  have "\<exists>x. recordFailure sha256 ?inp rs = Inr x"
  proof (cases "find (same_operation ?inp) rs")
    case (Some x)
    then have "x \<in> set rs" "operation_key x = callback_operation (cd_deliveryId d)"
      by (auto simp: find_Some_iff same_operation_key)
    then have "fo_payloadHash x = buildPayloadHash sha256 (fi_requestPayload ?inp)"
      using assms by (simp add: no_conflict_def list_all_iff)
    then show ?thesis using Some by (simp add: recordFailure_def Let_def)
  qed (simp add: recordFailure_def Let_def)
  then obtain r rs' where rec: "recordFailure sha256 ?inp rs = Inr (r, rs')" by auto
  show thesis
  proof (rule that [of r rs'])
    show "captureSettlementCallbackDeadLetter sha256 t d st m (rs, a) =
        Inr (r, rs', map_option (\<lambda>es. es @ [dead_letter_audit d r]) a)"
      using rec by (simp add: captureSettlementCallbackDeadLetter_def)
  qed (use recorded_failure [OF rec] in simp_all)
qed

lemma scheduleFailure_captures:
  assumes "delivery_at s (cd_deliveryId d) = Some c" and "holds_lease (dc_workerId cfg) c" and "cd_deliveryId c = cd_deliveryId d"
    and "dc_settlementCallbackMaxAttempts cfg \<le> int (cd_attemptCount d)" and "dc_failedOperationWorkflow cfg"
    and "no_conflict sha256 (cd_deliveryId d) (cd_requestBody c) (ds_failed s)"
  shows "\<exists>r \<in> set (ds_failed (snd (scheduleFailure sha256 cfg clk d message status s))).
    operation_key r = callback_operation (cd_deliveryId d) \<and> fo_failureState r = FO_open \<and> fo_replayEligible r \<and>
    fo_requestPayload r = Some (cd_requestBody c)"
proof -
  let ?f = "failed_attempt cfg clk d message status c"
  let ?m = "markCallbackFailed (clk 2) (clk 3) (cd_deliveryId d) (dc_workerId cfg)
     \<lparr>fu_responseStatus = (case status of None \<Rightarrow> Null | Some n \<Rightarrow> Val n), fu_errorMessage = message,
      fu_nextAttemptAt = clk 0 + computeBackoffMs (cd_attemptCount d) (dc_settlementCallbackInitialBackoffMs cfg)
        (dc_settlementCallbackMaxBackoffMs cfg), fu_deadLetter = True\<rparr> (ds_store s)"
  obtain st' where m: "?m = (True, st')" "getCallbackDelivery (cd_deliveryId d) st' = Some ?f"
    using assms(1,2,4) by (simp_all add: markCallbackFailed_def getCallbackDelivery_def failed_attempt_def)
  have "no_conflict sha256 (cd_deliveryId ?f) (cd_requestBody ?f) (ds_failed s)" using assms(3,6) by simp
  then obtain r rs' where "captureSettlementCallbackDeadLetter sha256 (clk 4) ?f status message (ds_failed s, ds_audit s) =
      Inr (r, rs', map_option (\<lambda>es. es @ [dead_letter_audit ?f r]) (ds_audit s))"
    "r \<in> set rs'" "operation_key r = callback_operation (cd_deliveryId ?f)" "fo_failureState r = FO_open"
    "fo_replayEligible r" "fo_requestPayload r = Some (cd_requestBody ?f)" by (rule capture_succeeds)
  then show ?thesis using assms(3-5) m by (auto simp: scheduleFailure_def Let_def)
qed

lemma leased_state_failed [simp]: "ds_failed (leased_state cfg clk i d s) = ds_failed s"
  by (simp add: leased_state_def)

text \<open>A dead letter that is requeued is posted once more at once, with the body it had.\<close>

lemma replay_posts:
  assumes "delivery_at s i = Some d" and "cd_deliveryId d = i" and "cd_status d = DS_dead_letter" and "clk 0 \<le> clk 3"
  shows "\<exists>l. ds_posted (snd (replayDeadLetterDelivery sha256 cfg post clk i s)) = ds_posted s @ [l] \<and>
    cd_deliveryId l = i \<and> cd_requestBody l = cd_requestBody d \<and> cd_attemptCount l = cd_attemptCount d + 1"
proof -
  let ?d = "d\<lparr>cd_status := DS_pending, cd_nextAttemptAt := clk 0, cd_leaseOwner := None, cd_leaseExpiresAt := None, cd_updatedAt := clk 1\<rparr>"
  obtain st where q: "requeueCallbackDelivery (clk 1) (clk 2) i (clk 0) (ds_store s) = (Some ?d, st)"
    "map_get (st_deliveries st) i = Some ?d"
    using assms(1,3) by (simp add: requeueCallbackDelivery_def Let_def)
  have "delivery_at (s\<lparr>ds_store := st\<rparr>) i = Some ?d" "cd_deliveryId ?d = i" "delivery_ready (clk (3 + 0)) ?d"
    using q(2) assms(2,4) by (simp_all add: delivery_ready_def)
  from processDelivery_ready(2) [where clk = "\<lambda>j. clk (3 + j)", OF this, of sha256 cfg post] q(1)
  show ?thesis using assms(2) by (simp add: replayDeadLetterDelivery_def del: One_nat_def)
qed

section \<open>Properties\<close>

definition sample_dispatcher_config :: dispatcher_config where
  "sample_dispatcher_config =
    \<lparr>gc_settlementCallbackEnabled = True, gc_settlementCallbackUrl = Some ''https://p'', gc_settlementCallbackApiKey = Some ''k'',
     gc_settlementCallbackApiSecret = Some ''s'', dc_settlementCallbackRequestTimeoutMs = 5000,
     dc_settlementCallbackMaxAttempts = 2, dc_settlementCallbackInitialBackoffMs = 10, dc_settlementCallbackMaxBackoffMs = 60,
     dc_workerId = ''w'', dc_failedOperationWorkflow = True\<rparr>"

definition sample_dispatcher :: dispatcher where
  "sample_dispatcher = \<lparr>ds_store = sample_store, ds_failed = [], ds_audit = Some [], ds_posted = [], ds_running = False,
     ds_timer = False, ds_consecutivePollFailures = 0, ds_pollStallReported = False, ds_errors = []\<rparr>"

lemma sample_delivery:
  "\<exists>d. delivery_at sample_dispatcher ''d1'' = Some d \<and> cd_deliveryId d = ''d1'' \<and> cd_status d = DS_pending \<and>
     cd_nextAttemptAt d = 20 \<and> cd_attemptCount d = 0 \<and> cd_requestBody d = JNull"
proof -
  have "map_option (\<lambda>d. (cd_deliveryId d, cd_status d, cd_nextAttemptAt d, cd_attemptCount d, cd_requestBody d))
      (delivery_at sample_dispatcher ''d1'') = Some (''d1'', DS_pending, 20, 0, JNull)" by code_simp
  then show ?thesis by auto
qed

text \<open>
  C39. The delay between two attempts is bounded: with a non-negative initial delay no greater
  than the maximum, it is between the two, and it never shrinks from one attempt to the next.
\<close>

theorem callback_backoff_bounded:
  assumes "0 \<le> initial" and "initial \<le> maximum"
  shows "initial \<le> computeBackoffMs n initial maximum \<and> computeBackoffMs n initial maximum \<le> maximum \<and>
    computeBackoffMs n initial maximum \<le> computeBackoffMs (n + k) initial maximum"
proof -
  have "initial * 1 \<le> initial * 2 ^ (n - 1)" using assms(1) by (intro mult_left_mono) auto
  moreover have "initial * 2 ^ (n - 1) \<le> initial * 2 ^ (n + k - 1)"
    using assms(1) by (intro mult_left_mono power_increasing) auto
  ultimately show ?thesis using assms(2) by (simp add: computeBackoffMs_def min_le_iff_disj)
qed

theorem callback_backoff_bounded_witness:
  "(10::int) \<le> computeBackoffMs 3 10 60 \<and> computeBackoffMs 3 10 60 \<le> 60 \<and> computeBackoffMs 3 10 60 \<le> computeBackoffMs (3 + 2) 10 60"
  using callback_backoff_bounded [of 10 60 3 2] by simp

text \<open>
  C6. Every queued callback settles: whatever the endpoint answers, once the dispatcher has
  tried a pending callback as often as the configuration allows, each time after the longest delay,
  the callback is delivered or dead-lettered, and it has been posted no more often than allowed.
\<close>

theorem callback_eventually_settles:
  assumes "delivery_at s i = Some d" and "cd_deliveryId d = i" and "cd_status d \<in> {DS_pending, DS_failed}"
    and "spaced (dc_settlementCallbackMaxBackoffMs cfg) (cd_nextAttemptAt d) clks" and "clks \<noteq> []"
    and "dc_settlementCallbackMaxAttempts cfg \<le> int (cd_attemptCount d + length clks)"
  shows "\<exists>d'. delivery_at (attempts sha256 cfg post clks i s) i = Some d' \<and> cd_status d' \<in> {DS_delivered, DS_dead_letter} \<and>
    cd_requestBody d' = cd_requestBody d \<and> cd_attemptCount d < cd_attemptCount d' \<and>
    int (cd_attemptCount d') \<le> max (int (cd_attemptCount d) + 1) (dc_settlementCallbackMaxAttempts cfg)"
  by (rule attempts_settle [OF assms(1-3) order_refl assms(4-6)])

theorem callback_eventually_settles_witness:
  "\<exists>d. delivery_at (attempts (\<lambda>t. t) sample_dispatcher_config (\<lambda>_. Response 503) [\<lambda>_. 100, \<lambda>_. 200] ''d1'' sample_dispatcher) ''d1'' = Some d \<and>
     cd_status d \<in> {DS_delivered, DS_dead_letter} \<and> int (cd_attemptCount d) \<le> 2"
proof -
  obtain d where d: "delivery_at sample_dispatcher ''d1'' = Some d" "cd_deliveryId d = ''d1''" "cd_status d = DS_pending"
    "cd_nextAttemptAt d = 20" "cd_attemptCount d = 0" using sample_delivery by blast
  from callback_eventually_settles [OF d(1,2), of sample_dispatcher_config "[\<lambda>_. 100, \<lambda>_. 200]" "\<lambda>t. t" "\<lambda>_. Response 503"]
  show ?thesis using d(3-5) by (auto simp: sample_dispatcher_config_def)
qed

text \<open>
  C17. A dead letter is never lost: when the last allowed attempt of a callback fails, the store
  of failed operations has an open, replayable record of it with its payload, and replaying the
  delivery posts the same body once more at once.
\<close>

theorem dead_letter_captured_and_replayable:
  assumes "delivery_at s i = Some d" and "cd_deliveryId d = i" and "delivery_ready (clk 0) d"
    and "\<not> accepts_post (post (leased cfg clk d))"
    and "dc_settlementCallbackMaxAttempts cfg \<le> int (cd_attemptCount d + 1)" and "dc_failedOperationWorkflow cfg"
    and "no_conflict sha256 i (cd_requestBody d) (ds_failed s)" and "clk' 0 \<le> clk' 3"
  shows "(\<exists>r. r \<in> set (ds_failed (snd (processDelivery sha256 cfg post clk i s))) \<and> operation_key r = callback_operation i \<and>
      fo_failureState r = FO_open \<and> fo_replayEligible r \<and> fo_requestPayload r = Some (cd_requestBody d)) \<and>
    (\<exists>l. ds_posted (snd (replayDeadLetterDelivery sha256 cfg post' clk' i (snd (processDelivery sha256 cfg post clk i s)))) =
      ds_posted s @ [leased cfg clk d, l] \<and> cd_deliveryId l = i \<and> cd_requestBody l = cd_requestBody d)"
proof -
  let ?s = "snd (processDelivery sha256 cfg post clk i s)"
  obtain m st where r: "?s = snd (scheduleFailure sha256 cfg (\<lambda>j. clk (2 + j)) (leased cfg clk d) m st (leased_state cfg clk i d s))"
    using assms(1-4) by (rule attempt_fails)
  have l: "delivery_at (leased_state cfg clk i d s) (cd_deliveryId (leased cfg clk d)) = Some (leased cfg clk d)" using assms(2) by simp
  have rec: "\<exists>r \<in> set (ds_failed ?s). operation_key r = callback_operation i \<and> fo_failureState r = FO_open \<and> fo_replayEligible r \<and>
      fo_requestPayload r = Some (cd_requestBody d)"
    using scheduleFailure_captures [OF l leased_fields(4) refl, of sha256 "\<lambda>j. clk (2 + j)" m st] assms(2,5-7) r by simp
  note ready = processDelivery_ready [where clk = clk, OF assms(1-3), of sha256 cfg post]
  from ready(1) obtain d1 where d1: "delivery_at ?s i = Some d1" "attempt_outcome cfg post clk d d1" by auto
  then have "cd_deliveryId d1 = i" "cd_status d1 = DS_dead_letter" "cd_requestBody d1 = cd_requestBody d"
    using assms(2,4,5) by (auto simp: attempt_outcome_def)
  with replay_posts [where clk = clk', OF d1(1) _ _ assms(8), of sha256 cfg post'] rec ready(2) show ?thesis by auto
qed

theorem dead_letter_captured_and_replayable_witness:
  "let cfg = sample_dispatcher_config\<lparr>dc_settlementCallbackMaxAttempts := 1\<rparr>;
       s = snd (processDelivery (\<lambda>t. t) cfg (\<lambda>_. Threw ''timeout'') (\<lambda>_. 100) ''d1'' sample_dispatcher)
   in (\<exists>r. r \<in> set (ds_failed s) \<and> operation_key r = callback_operation ''d1'' \<and> fo_failureState r = FO_open) \<and>
      (\<exists>l l'. ds_posted (snd (replayDeadLetterDelivery (\<lambda>t. t) cfg (\<lambda>_. Response 200) (\<lambda>_. 500) ''d1'' s)) = [l, l'] \<and>
         cd_requestBody l' = JNull)"
proof -
  let ?cfg = "sample_dispatcher_config\<lparr>dc_settlementCallbackMaxAttempts := 1\<rparr>"
  obtain d where d: "delivery_at sample_dispatcher ''d1'' = Some d" "cd_deliveryId d = ''d1''" "cd_status d = DS_pending"
    "cd_nextAttemptAt d = 20" "cd_requestBody d = JNull" "cd_attemptCount d = 0" using sample_delivery by blast
  have p: "ds_posted sample_dispatcher = []" "ds_failed sample_dispatcher = []" "dc_failedOperationWorkflow ?cfg"
    "dc_settlementCallbackMaxAttempts ?cfg = 1" by (simp_all add: sample_dispatcher_def sample_dispatcher_config_def)
  from dead_letter_captured_and_replayable [where clk = "\<lambda>_. 100" and clk' = "\<lambda>_. 500" and post = "\<lambda>_. Threw ''timeout''"
      and cfg = ?cfg and ?sha256.0 = "\<lambda>t. t" and post' = "\<lambda>_. Response 200", OF d(1,2)]
  show ?thesis using d p by (auto simp: Let_def delivery_ready_def accepts_post_def no_conflict_def)
qed

end
