(* ===== verification/Dispatcher_Runs.thy ===== *)
theory Dispatcher_Runs
  imports Callback_Dispatcher
begin

text \<open>
  Runs of the callback dispatcher interleaved with the other operations of the settlement store:
  firings of the timer, replays of dead letters and store operations in any order. The dispatcher
  only acts on the store through the store's operations, so the store keeps its invariant, and no
  attempt of a delivery is ever posted twice.
\<close>

section \<open>The machine\<close>

datatype dispatcher_op =
  DO_poll timestamp "nat \<Rightarrow> nat \<Rightarrow> timestamp"
| DO_replay "nat \<Rightarrow> timestamp" string
| DO_store store_op

fun dispatcher_step ::
  "(string \<Rightarrow> string) \<Rightarrow> dispatcher_config \<Rightarrow> (delivery \<Rightarrow> post_result) \<Rightarrow> dispatcher_op \<Rightarrow> dispatcher \<Rightarrow> store_error + dispatcher" where
  "dispatcher_step sha256 cfg post (DO_poll now clks) s = Inr (poll sha256 cfg post now clks s)"
| "dispatcher_step sha256 cfg post (DO_replay clk i) s = Inr (snd (replayDeadLetterDelivery sha256 cfg post clk i s))"
| "dispatcher_step sha256 cfg post (DO_store op) s = rbind (store_step op (ds_store s)) (\<lambda>st. Inr (s\<lparr>ds_store := st\<rparr>))"

definition posted_ok :: "dispatcher \<Rightarrow> bool" where
  "posted_ok s =
    ((\<forall>p \<in> set (ds_posted s). \<exists>d. delivery_at s (cd_deliveryId p) = Some d \<and> cd_attemptCount p \<le> cd_attemptCount d \<and>
        cd_requestBody d = cd_requestBody p) \<and>
     distinct (map (\<lambda>p. (cd_deliveryId p, cd_attemptCount p)) (ds_posted s)))"

definition dispatcher_wf :: "dispatcher \<Rightarrow> bool" where
  "dispatcher_wf s = (store_wf (ds_store s) \<and> posted_ok s)"

section \<open>The dispatcher acts through the operations of the store\<close>

lemma run_op:
  "ids_fresh op st \<Longrightarrow> settlement_store.run [op] st = (case store_step op st of Inl _ \<Rightarrow> st | Inr st' \<Rightarrow> st')"
  by simp

definition by_ops :: "store \<Rightarrow> store \<Rightarrow> bool" where
  "by_ops st st' = (\<exists>ops. st' = settlement_store.run ops st)"

lemma by_ops_refl [simp]: "by_ops st st"
  unfolding by_ops_def by (rule exI [of _ "[]"]) simp

lemma by_ops_trans: "by_ops a b \<Longrightarrow> by_ops b c \<Longrightarrow> by_ops a c"
  unfolding by_ops_def by (metis settlement_store.run_append)

lemma by_ops_wf: "by_ops a b \<Longrightarrow> store_wf a \<Longrightarrow> store_wf b"
  unfolding by_ops_def using settlement_store.inv_run by blast

lemma by_ops_marks:
  "by_ops st (snd (markCallbackDelivering now i owner at exp st))"
  "by_ops st (snd (markCallbackDelivered now now' i owner at code st))"
  "by_ops st (snd (markCallbackFailed now now' i owner upd st))"
  "by_ops st (snd (requeueCallbackDelivery now now' i at st))"
  unfolding by_ops_def
  by (rule exI [of _ "[Op_delivering now i owner at exp]"], simp add: store_step_def)
    (rule exI [of _ "[Op_delivered now now' i owner at code]"], simp add: store_step_def,
     rule exI [of _ "[Op_failed now now' i owner upd]"], simp add: store_step_def,
     rule exI [of _ "[Op_requeue now now' i at]"], simp add: store_step_def)

lemma scheduleFailure_by_ops: "by_ops (ds_store s) (ds_store (snd (scheduleFailure sha256 cfg clk d m r s)))"
proof -
  let ?m = "markCallbackFailed (clk 2) (clk 3) (cd_deliveryId d) (dc_workerId cfg)
     \<lparr>fu_responseStatus = (case r of None \<Rightarrow> Null | Some n \<Rightarrow> Val n), fu_errorMessage = m,
      fu_nextAttemptAt = clk 0 + computeBackoffMs (cd_attemptCount d) (dc_settlementCallbackInitialBackoffMs cfg)
        (dc_settlementCallbackMaxBackoffMs cfg),
      fu_deadLetter = (int (cd_attemptCount d) \<ge> dc_settlementCallbackMaxAttempts cfg)\<rparr> (ds_store s)"
  have "ds_store (snd (scheduleFailure sha256 cfg clk d m r s)) = snd ?m"
    by (cases ?m) (simp add: scheduleFailure_def Let_def split: option.splits sum.splits)
  then show ?thesis by (simp add: by_ops_marks)
qed

lemma processDelivery_by_ops: "by_ops (ds_store s) (ds_store (snd (processDelivery sha256 cfg post clk i s)))"
proof -
  obtain l st where m: "markCallbackDelivering (clk 1) i (dc_workerId cfg) (clk 0) (clk 0 + leaseDurationMs cfg) (ds_store s) = (l, st)"
    by fastforce
  then have lease: "by_ops (ds_store s) st" using by_ops_marks(1) by (metis snd_conv)
  show ?thesis
  proof (cases l)
    case None
    then show ?thesis using m lease by (simp add: processDelivery_def Let_def)
  next
    case (Some d)
    let ?s1 = "s\<lparr>ds_store := st, ds_posted := ds_posted s @ [d]\<rparr>"
    have sf: "by_ops st (ds_store (snd (scheduleFailure sha256 cfg c d m' r ?s1)))" for c m' r
      using scheduleFailure_by_ops [of ?s1] by simp
    have "by_ops st (ds_store (snd (processDelivery sha256 cfg post clk i s)))"
    proof (cases "post d")
      case (Response status)
      obtain e s2 where e: "scheduleFailure sha256 cfg (\<lambda>j. clk (2 + j)) d (''HTTP '' @ int_text status) (Some status) ?s1 = (e, s2)" by fastforce
      have "by_ops st (ds_store s2)" using sf [of "\<lambda>j. clk (2 + j)" "''HTTP '' @ int_text status" "Some status"] e by simp
      moreover from this have "by_ops st (ds_store (snd (scheduleFailure sha256 cfg c d m' r s2)))" for c m' r
        using scheduleFailure_by_ops by_ops_trans by blast
      ultimately show ?thesis using m Some Response e by_ops_marks(2)
        by (cases e) (auto simp: processDelivery_def Let_def)
    next
      case (Threw err)
      then show ?thesis using m Some sf by (simp add: processDelivery_def Let_def)
    qed
    then show ?thesis using lease by_ops_trans by blast
  qed
qed

section \<open>Posted attempts\<close>

text \<open>Deliveries stay, keep their body and never lose an attempt.\<close>

definition grows :: "store \<Rightarrow> store \<Rightarrow> bool" where
  "grows st st' = (\<forall>i d. map_get (st_deliveries st) i = Some d \<longrightarrow>
     (\<exists>d'. map_get (st_deliveries st') i = Some d' \<and> cd_attemptCount d \<le> cd_attemptCount d' \<and> cd_requestBody d' = cd_requestBody d))"

lemma store_step_grows:
  assumes "store_wf st" and "store_step op st = Inr st'"
  shows "grows st st'"
  unfolding grows_def
proof (intro allI impI)
  fix i d assume d: "map_get (st_deliveries st) i = Some d"
  show "\<exists>d'. map_get (st_deliveries st') i = Some d' \<and> cd_attemptCount d \<le> cd_attemptCount d' \<and> cd_requestBody d' = cd_requestBody d"
  proof (cases "touches i d op")
    case False
    then show ?thesis using untouched_step [OF assms d] by auto
  next
    case True
    then show ?thesis using assms(2) d
      by (cases op) (auto simp: store_step_def markCallbackDelivering_def markCallbackDelivered_def markCallbackFailed_def
        requeueCallbackDelivery_def Let_def)
  qed
qed

lemma posted_ok_grows:
  assumes "posted_ok s" and "grows (ds_store s) st" and "ds_posted s' = ds_posted s" and "ds_store s' = st"
  shows "posted_ok s'"
proof -
  have "\<exists>d. map_get (st_deliveries st) (cd_deliveryId p) = Some d \<and> cd_attemptCount p \<le> cd_attemptCount d \<and>
      cd_requestBody d = cd_requestBody p" if p: "p \<in> set (ds_posted s)" for p
  proof -
    from assms(1) p obtain d where d: "delivery_at s (cd_deliveryId p) = Some d" "cd_attemptCount p \<le> cd_attemptCount d"
      "cd_requestBody d = cd_requestBody p" unfolding posted_ok_def by blast
    from assms(2) d(1) obtain d' where "map_get (st_deliveries st) (cd_deliveryId p) = Some d'"
      "cd_attemptCount d \<le> cd_attemptCount d'" "cd_requestBody d' = cd_requestBody d" unfolding grows_def by blast
    then show ?thesis using d by auto
  qed
  then show ?thesis using assms(1) unfolding posted_ok_def assms(3,4) by blast
qed

lemma processDelivery_posted_ok:
  assumes "dispatcher_wf s"
  shows "dispatcher_wf (snd (processDelivery sha256 cfg post clk i s))"
proof -
  let ?s = "snd (processDelivery sha256 cfg post clk i s)"
  have wf: "store_wf (ds_store ?s)"
    using by_ops_wf [OF processDelivery_by_ops] assms by (auto simp: dispatcher_wf_def)
  consider "delivery_at s i = None" | d where "delivery_at s i = Some d" "\<not> delivery_ready (clk 0) d"
    | d where "delivery_at s i = Some d" "delivery_ready (clk 0) d" by (cases "delivery_at s i") auto
  then have "posted_ok ?s"
  proof cases
    case 1
    then have "?s = s" by (simp add: processDelivery_def markCallbackDelivering_def Let_def)
    then show ?thesis using assms by (simp add: dispatcher_wf_def)
  next
    case (2 d)
    then show ?thesis using processDelivery_unready [where clk = clk, OF 2] assms by (simp add: dispatcher_wf_def)
  next
    case (3 d)
    have i: "cd_deliveryId d = i" using store_wfD(8) [OF _ 3(1)] assms by (auto simp: dispatcher_wf_def delivery_ok_def)
    note r = processDelivery_ready [where clk = clk, OF 3(1) i 3(2), of sha256 cfg post]
    from r(1) obtain d' l where d': "st_deliveries (ds_store ?s) = map_set i d' (map_set i l (st_deliveries (ds_store s)))"
      "cd_attemptCount d' = cd_attemptCount d + 1" "cd_requestBody d' = cd_requestBody d" by (auto simp: attempt_outcome_def)
    have old: "\<exists>c. delivery_at s (cd_deliveryId p) = Some c \<and> cd_attemptCount p \<le> cd_attemptCount c \<and> cd_requestBody c = cd_requestBody p"
      if "p \<in> set (ds_posted s)" for p using assms that by (auto simp: dispatcher_wf_def posted_ok_def)
    then have lt: "cd_attemptCount p < cd_attemptCount d'" if "p \<in> set (ds_posted s)" "cd_deliveryId p = i" for p
      using that 3(1) d'(2) by force
    have "\<exists>c. delivery_at ?s (cd_deliveryId p) = Some c \<and> cd_attemptCount p \<le> cd_attemptCount c \<and> cd_requestBody c = cd_requestBody p"
      if "p \<in> set (ds_posted s)" for p
      using old [OF that] 3(1) d' by (cases "cd_deliveryId p = i") (auto simp: js_map.get_put)
    moreover have "(i, cd_attemptCount d') \<notin> (\<lambda>p. (cd_deliveryId p, cd_attemptCount p)) ` set (ds_posted s)" using lt by fastforce
    ultimately show ?thesis using assms i d' unfolding posted_ok_def r(2) by (auto simp: dispatcher_wf_def posted_ok_def js_map.get_put)
  qed
  then show ?thesis using wf by (simp add: dispatcher_wf_def)
qed

lemma process_all_wf: "dispatcher_wf s \<Longrightarrow> dispatcher_wf (snd (process_all sha256 cfg post clks is s))"
proof (induction "is" arbitrary: clks s)
  case (Cons i "is")
  have "dispatcher_wf (snd (processDelivery sha256 cfg post (clks 0) i s))" by (rule processDelivery_posted_ok [OF Cons.prems])
  then show ?case using Cons.IH by (cases "processDelivery sha256 cfg post (clks 0) i s") (auto split: option.splits)
qed simp

lemma dispatcher_wf_flags [simp]:
  "dispatcher_wf (s\<lparr>ds_running := r\<rparr>) = dispatcher_wf s" "dispatcher_wf (s\<lparr>ds_timer := t\<rparr>) = dispatcher_wf s"
  "dispatcher_wf (s\<lparr>ds_consecutivePollFailures := n\<rparr>) = dispatcher_wf s"
  "dispatcher_wf (s\<lparr>ds_pollStallReported := b\<rparr>) = dispatcher_wf s" "dispatcher_wf (s\<lparr>ds_errors := e\<rparr>) = dispatcher_wf s"
  by (simp_all add: dispatcher_wf_def posted_ok_def)

lemma poll_wf:
  assumes "dispatcher_wf s"
  shows "dispatcher_wf (poll sha256 cfg post now clks s)"
proof -
  have "dispatcher_wf (snd (processDueDeliveries sha256 cfg post now clks 25 s))"
    using assms process_all_wf [of "s\<lparr>ds_running := True, ds_consecutivePollFailures := 0, ds_pollStallReported := False\<rparr>"
      sha256 cfg post clks "map cd_deliveryId (getDueCallbackDeliveries 25 now (ds_store s))"]
    by (auto simp: processDueDeliveries_def Let_def split: prod.splits)
  then show ?thesis
    by (cases "processDueDeliveries sha256 cfg post now clks 25 s") (auto simp: poll_def Let_def split: option.splits)
qed

lemma replay_wf:
  assumes "dispatcher_wf s"
  shows "dispatcher_wf (snd (replayDeadLetterDelivery sha256 cfg post clk i s))"
proof -
  obtain r st where q: "requeueCallbackDelivery (clk 1) (clk 2) i (clk 0) (ds_store s) = (r, st)" by fastforce
  have step: "store_step (Op_requeue (clk 1) (clk 2) i (clk 0)) (ds_store s) = Inr st" using q by (simp add: store_step_def)
  have wf: "store_wf (ds_store s)" and ok: "posted_ok s" using assms by (simp_all add: dispatcher_wf_def)
  have "dispatcher_wf (s\<lparr>ds_store := st\<rparr>)" unfolding dispatcher_wf_def
    using store_step_wf [OF wf step] posted_ok_grows [OF ok store_step_grows [OF wf step]] by simp
  then show ?thesis using q processDelivery_posted_ok
    by (cases r) (simp_all add: replayDeadLetterDelivery_def)
qed

lemma dispatcher_step_wf:
  assumes "dispatcher_wf s" and "dispatcher_step sha256 cfg post op s = Inr s'"
  shows "dispatcher_wf s'"
proof (cases op)
  case (DO_poll now clks)
  then show ?thesis using assms poll_wf by auto
next
  case (DO_replay clk i)
  then show ?thesis using assms replay_wf by auto
next
  case (DO_store o')
  then obtain st where st: "store_step o' (ds_store s) = Inr st" "s' = s\<lparr>ds_store := st\<rparr>"
    using assms(2) by (auto simp: rbind_Inr_iff)
  have wf: "store_wf (ds_store s)" and ok: "posted_ok s" using assms(1) by (simp_all add: dispatcher_wf_def)
  show ?thesis unfolding dispatcher_wf_def st(2)
    using store_step_wf [OF wf st(1)] posted_ok_grows [OF ok store_step_grows [OF wf st(1)]] by simp
qed

interpretation dispatcher_machine: machine_invariant "dispatcher_step sha256 cfg post" dispatcher_wf for sha256 cfg post
  by unfold_locales (rule dispatcher_step_wf)

section \<open>Properties\<close>



end
