(* ===== verification/Oracle_Types.thy ===== *)
theory Oracle_Types
  imports Complex_Main Finality Funded_Binding
begin

text \<open>
  The vocabulary of the oracle service (\<open>oracle/src/types/trigger.ts\<close>): a trigger row, its status,
  the errors of \<open>utils/errors.ts\<close> with their classification, and the pure decisions the service takes
  from them: the trade state each trigger needs (\<open>core/state-validator.ts\<close>), the finality position a
  row reports (\<open>core/trigger-finality.ts\<close>), the funded instruction a trigger executes
  (\<open>core/funded-settlement-instruction.ts\<close>) and the action key and backoff of \<open>utils/crypto.ts\<close>.
  \<open>Math.random()\<close> is a rational argument, \<open>getAddress\<close> of ethers a function argument.
\<close>

section \<open>Triggers\<close>

datatype trigger_status =
  PENDING | EXECUTING | SUBMITTED | CONFIRMED | FAILED | EXHAUSTED_NEEDS_REDRIVE | TERMINAL_FAILURE
| PENDING_APPROVAL | REJECTED

datatype trigger_type =
  RELEASE_STAGE_1 | CONFIRM_ARRIVAL | CONFIRM_INSPECTION_AVAILABLE_STANDARD
| CONFIRM_INSPECTION_AVAILABLE_PACKAGED_LOCAL | FINALIZE_AFTER_INSPECTION_ACCEPTANCE | FINALIZE_TRADE

datatype error_type = VALIDATION | NETWORK | CONTRACT | TERMINAL | INDEXER_LAG

fun status_text :: "trigger_status \<Rightarrow> string" where
  "status_text PENDING = ''PENDING''"
| "status_text EXECUTING = ''EXECUTING''"
| "status_text SUBMITTED = ''SUBMITTED''"
| "status_text CONFIRMED = ''CONFIRMED''"
| "status_text FAILED = ''FAILED''"
| "status_text EXHAUSTED_NEEDS_REDRIVE = ''EXHAUSTED_NEEDS_REDRIVE''"
| "status_text TERMINAL_FAILURE = ''TERMINAL_FAILURE''"
| "status_text PENDING_APPROVAL = ''PENDING_APPROVAL''"
| "status_text REJECTED = ''REJECTED''"

fun type_text :: "trigger_type \<Rightarrow> string" where
  "type_text RELEASE_STAGE_1 = ''RELEASE_STAGE_1''"
| "type_text CONFIRM_ARRIVAL = ''CONFIRM_ARRIVAL''"
| "type_text CONFIRM_INSPECTION_AVAILABLE_STANDARD = ''CONFIRM_INSPECTION_AVAILABLE_STANDARD''"
| "type_text CONFIRM_INSPECTION_AVAILABLE_PACKAGED_LOCAL = ''CONFIRM_INSPECTION_AVAILABLE_PACKAGED_LOCAL''"
| "type_text FINALIZE_AFTER_INSPECTION_ACCEPTANCE = ''FINALIZE_AFTER_INSPECTION_ACCEPTANCE''"
| "type_text FINALIZE_TRADE = ''FINALIZE_TRADE''"

fun error_type_text :: "error_type \<Rightarrow> string" where
  "error_type_text VALIDATION = ''VALIDATION''"
| "error_type_text NETWORK = ''NETWORK''"
| "error_type_text CONTRACT = ''CONTRACT''"
| "error_type_text TERMINAL = ''TERMINAL''"
| "error_type_text INDEXER_LAG = ''INDEXER_LAG''"

text \<open>Evidence that a dispatched transaction is final, as \<open>blockchain/dispatch-finality.ts\<close> returns it.\<close>

record dispatch_finality =
  df_policy :: string
  df_signerScope :: string
  df_transactionHash :: string
  df_blockNumber :: int
  df_blockHash :: string
  df_receiptStatus :: int
  df_witnessIds :: "string list"
  df_verifiedAt :: string

text \<open>
  A row of \<open>oracle_triggers\<close>: the interface \<open>Trigger\<close> with the two columns the interface leaves
  out, \<open>dispatch_finality_evidence\<close> and \<open>rejection_reason\<close>.
\<close>

record trigger =
  tg_funded_binding :: "json option"
  tg_dispatch_started_at :: "timestamp option"
  tg_dispatch_signer_scope :: "string option"
  tg_dispatch_finality_evidence :: "dispatch_finality option"
  tg_id :: nat
  tg_action_key :: string
  tg_request_id :: string
  tg_idempotency_key :: string
  tg_trade_id :: string
  tg_trigger_type :: trigger_type
  tg_request_hash :: "string option"
  tg_attempt_count :: nat
  tg_status :: trigger_status
  tg_tx_hash :: "string option"
  tg_block_number :: "int option"
  tg_confirmation_stage :: "confirmation_stage option"
  tg_confirmation_stage_at :: "timestamp option"
  tg_indexer_confirmed :: bool
  tg_indexer_confirmed_at :: "timestamp option"
  tg_indexer_event_id :: "string option"
  tg_last_error :: "string option"
  tg_error_type :: "error_type option"
  tg_on_chain_verified :: bool
  tg_on_chain_verified_at :: "timestamp option"
  tg_created_at :: timestamp
  tg_submitted_at :: "timestamp option"
  tg_confirmed_at :: "timestamp option"
  tg_updated_at :: timestamp
  tg_approved_by :: "string option"
  tg_approved_at :: "timestamp option"
  tg_rejected_by :: "string option"
  tg_rejected_at :: "timestamp option"
  tg_rejection_reason :: "string option"

record create_trigger_data =
  ct_fundedBinding :: binding_row
  ct_actionKey :: string
  ct_requestId :: string
  ct_idempotencyKey :: string
  ct_tradeId :: string
  ct_triggerType :: trigger_type
  ct_requestHash :: "string option"
  ct_status :: trigger_status

text \<open>An update carries the columns it sets; a column that is \<open>None\<close> is \<open>undefined\<close> and is left alone.\<close>

record update_trigger_data =
  ud_status :: "trigger_status option"
  ud_attempt_count :: "nat option"
  ud_tx_hash :: "string option"
  ud_block_number :: "int option"
  ud_confirmation_stage :: "confirmation_stage option"
  ud_confirmation_stage_at :: "timestamp option"
  ud_indexer_confirmed :: "bool option"
  ud_indexer_confirmed_at :: "timestamp option"
  ud_indexer_event_id :: "string option"
  ud_last_error :: "string option"
  ud_error_type :: "error_type option"
  ud_submitted_at :: "timestamp option"
  ud_confirmed_at :: "timestamp option"
  ud_on_chain_verified :: "bool option"
  ud_on_chain_verified_at :: "timestamp option"
  ud_approved_by :: "string option"
  ud_approved_at :: "timestamp option"
  ud_rejected_by :: "string option"
  ud_rejected_at :: "timestamp option"

section \<open>Errors\<close>

text \<open>
  An \<open>OracleError\<close> with the name of its class; \<open>oe_contained\<close> holds the two fields of
  \<open>TradeContainedError\<close>. Any other thrown value is its message and its \<open>code\<close>, if it has one.
\<close>

record oracle_error =
  oe_message :: string
  oe_errorType :: error_type
  oe_isTerminal :: bool
  oe_name :: string
  oe_callerSafe :: bool
  oe_contained :: "(string \<times> string option) option"

datatype failure = Oracle_failure oracle_error | Raw_failure (raw_message: string) (raw_code: "string option")

definition ValidationError :: "string \<Rightarrow> oracle_error" where
  "ValidationError msg = \<lparr>oe_message = msg, oe_errorType = VALIDATION, oe_isTerminal = True,
     oe_name = ''ValidationError'', oe_callerSafe = True, oe_contained = None\<rparr>"

definition NetworkError :: "string \<Rightarrow> oracle_error" where
  "NetworkError msg = \<lparr>oe_message = msg, oe_errorType = NETWORK, oe_isTerminal = False,
     oe_name = ''NetworkError'', oe_callerSafe = True, oe_contained = None\<rparr>"

definition ContractError :: "string \<Rightarrow> bool \<Rightarrow> oracle_error" where
  "ContractError msg terminal = \<lparr>oe_message = msg, oe_errorType = CONTRACT, oe_isTerminal = terminal,
     oe_name = ''ContractError'', oe_callerSafe = True, oe_contained = None\<rparr>"

definition TradeContainedError :: "string \<Rightarrow> string option \<Rightarrow> string \<Rightarrow> oracle_error" where
  "TradeContainedError tradeId incidentReference msg = \<lparr>oe_message = msg, oe_errorType = VALIDATION, oe_isTerminal = False,
     oe_name = ''TradeContainedError'', oe_callerSafe = True, oe_contained = Some (tradeId, incidentReference)\<rparr>"

definition fromRawFailure :: "oracle_error \<Rightarrow> oracle_error" where
  "fromRawFailure e = e\<lparr>oe_callerSafe := False\<rparr>"

abbreviation invalid :: "string \<Rightarrow> failure" where
  "invalid msg \<equiv> Oracle_failure (ValidationError msg)"

abbreviation Error :: "string \<Rightarrow> failure" where
  "Error msg \<equiv> Raw_failure msg None"

definition storedFailureMessage :: "error_type option \<Rightarrow> string" where
  "storedFailureMessage errorType =
    ''Oracle '' @ toLowerCase (case errorType of Some t \<Rightarrow> error_type_text t | None \<Rightarrow> ''unknown'') @
    '' failure; detail is recorded on the trigger''"

definition publicFailureMessage :: "oracle_error \<Rightarrow> string" where
  "publicFailureMessage e = (if oe_callerSafe e then oe_message e else storedFailureMessage (Some (oe_errorType e)))"

fun getErrorMessage :: "failure \<Rightarrow> string" where
  "getErrorMessage (Oracle_failure e) = oe_message e"
| "getErrorMessage (Raw_failure msg _) = msg"

definition mentions :: "string \<Rightarrow> string list \<Rightarrow> bool" where
  "mentions msg ps = list_ex (str_includes msg) ps"

definition classifyError :: "failure \<Rightarrow> oracle_error" where
  "classifyError err =
    (let msg = getErrorMessage err; lowerMessage = toLowerCase msg in
     case err of Oracle_failure e \<Rightarrow> e
     | Raw_failure _ _ \<Rightarrow>
         if mentions msg [''Cannot release stage 1'', ''Cannot confirm arrival'', ''Cannot finalize'', ''Invalid trade ID'',
              ''Dispute window'', ''expected LOCKED'', ''expected IN_TRANSIT'', ''expected ARRIVAL_CONFIRMED'']
         then fromRawFailure (ValidationError msg)
         else if mentions msg [''network'', ''timeout'', ''ECONNREFUSED'', ''ETIMEDOUT'', ''ENOTFOUND'', ''fetch failed'', ''connection'']
         then fromRawFailure (NetworkError msg)
         else if mentions msg [''execution reverted'', ''revert'', ''require'']
         then fromRawFailure (ContractError msg (mentions lowerMessage
              [''invalid state'', ''not authorized'', ''trade does not exist'', ''already executed'', ''paused'',
               ''oracle disabled'', ''only oracle'', ''proposal expired'', ''timelock not elapsed'']))
         else fromRawFailure (NetworkError msg))"

definition determineNextStatus :: "oracle_error \<Rightarrow> nat \<Rightarrow> nat \<Rightarrow> trigger_status" where
  "determineNextStatus e attemptCount maxAttempts =
    (if oe_isTerminal e then TERMINAL_FAILURE
     else if attemptCount \<ge> maxAttempts then EXHAUSTED_NEEDS_REDRIVE
     else FAILED)"

section \<open>The trade state a trigger needs\<close>

fun trade_status_text :: "trade_status \<Rightarrow> string" where
  "trade_status_text LOCKED = ''LOCKED''"
| "trade_status_text IN_TRANSIT = ''IN_TRANSIT''"
| "trade_status_text ARRIVAL_CONFIRMED = ''ARRIVAL_CONFIRMED''"
| "trade_status_text FROZEN = ''FROZEN''"
| "trade_status_text CLOSED = ''CLOSED''"

definition in_status :: "trade \<Rightarrow> string" where
  "in_status tr = ''Trade '' @ tr_tradeId tr @ '' is in status '' @ trade_status_text (tr_status tr)"

definition validateReleaseStage1 :: "trade \<Rightarrow> failure + unit" where
  "validateReleaseStage1 tr =
    require_that (tr_status tr = LOCKED) (invalid (''Cannot release stage 1: '' @ in_status tr @ '', expected LOCKED''))"

definition validateConfirmArrival :: "trade \<Rightarrow> failure + unit" where
  "validateConfirmArrival tr =
    require_that (tr_status tr = IN_TRANSIT) (invalid (''Cannot confirm arrival: '' @ in_status tr @ '', expected IN_TRANSIT''))"

definition validateFinalizeTrade :: "trade \<Rightarrow> failure + unit" where
  "validateFinalizeTrade tr =
    rbind (require_that (tr_status tr = ARRIVAL_CONFIRMED)
      (invalid (''Cannot finalize: '' @ in_status tr @ '', expected ARRIVAL_CONFIRMED''))) (\<lambda>_.
    require_that (tr_arrivalTimestamp tr \<noteq> None)
      (invalid (''Cannot finalize: Trade '' @ tr_tradeId tr @ '' has no arrival timestamp'')))"

fun validateTradeState :: "trade \<Rightarrow> trigger_type \<Rightarrow> failure + unit" where
  "validateTradeState tr RELEASE_STAGE_1 = validateReleaseStage1 tr"
| "validateTradeState tr CONFIRM_ARRIVAL = validateConfirmArrival tr"
| "validateTradeState tr CONFIRM_INSPECTION_AVAILABLE_STANDARD = validateConfirmArrival tr"
| "validateTradeState tr CONFIRM_INSPECTION_AVAILABLE_PACKAGED_LOCAL = validateConfirmArrival tr"
| "validateTradeState tr FINALIZE_AFTER_INSPECTION_ACCEPTANCE = validateFinalizeTrade tr"
| "validateTradeState tr FINALIZE_TRADE = validateFinalizeTrade tr"

definition validateTradeId :: "string \<Rightarrow> failure + unit" where
  "validateTradeId tradeId = require_that (digits_text tradeId) (invalid (''Invalid trade ID format: '' @ tradeId))"

section \<open>The finality a row reports\<close>

record trigger_position = position +
  p_modelVersion :: string

definition TRANSACTION_FINALITY_MODEL_VERSION :: string where
  "TRANSACTION_FINALITY_MODEL_VERSION = ''cotsel.transaction-finality.v1''"

definition at_model_version :: "position \<Rightarrow> trigger_position" where
  "at_model_version p = \<lparr>p_state = p_state p, p_final = p_final p, p_modelVersion = TRANSACTION_FINALITY_MODEL_VERSION\<rparr>"

text \<open>The arguments are the fields the source picks from the row.\<close>

definition triggerFinality ::
  "trigger_status \<Rightarrow> string option \<Rightarrow> confirmation_stage option \<Rightarrow> timestamp option \<Rightarrow> trigger_position option" where
  "triggerFinality status tx_hash confirmation_stage dispatch_started_at =
    (let unknown = \<lparr>p_state = FS_unknown, p_final = False\<rparr> in
     map_option at_model_version
      (case status of
         CONFIRMED \<Rightarrow> (case (truthy tx_hash, confirmation_stage) of
             (True, Some stage) \<Rightarrow> Some (finalityFromConfirmationStage stage)
           | _ \<Rightarrow> Some unknown)
       | SUBMITTED \<Rightarrow> Some (if truthy tx_hash then \<lparr>p_state = FS_submitted, p_final = False\<rparr> else unknown)
       | _ \<Rightarrow> if truthy tx_hash \<or> dispatch_started_at \<noteq> None then Some unknown else None))"

definition row_finality :: "trigger \<Rightarrow> trigger_position option" where
  "row_finality t = triggerFinality (tg_status t) (tg_tx_hash t) (tg_confirmation_stage t) (tg_dispatch_started_at t)"

section \<open>The funded instruction of a trigger\<close>

fun phases :: "trigger_type \<Rightarrow> string list" where
  "phases RELEASE_STAGE_1 = [''initial_release_after_custody_and_documents'']"
| "phases CONFIRM_ARRIVAL = [''inspection_available_standard'']"
| "phases CONFIRM_INSPECTION_AVAILABLE_STANDARD = [''inspection_available_standard'']"
| "phases CONFIRM_INSPECTION_AVAILABLE_PACKAGED_LOCAL = [''inspection_available_packaged_local'']"
| "phases FINALIZE_AFTER_INSPECTION_ACCEPTANCE = [''final_release_after_inspection_acceptance'']"
| "phases FINALIZE_TRADE = [''final_release_after_notice_deadline'']"

definition requireFundedBinding ::
  "(string \<Rightarrow> string option) \<Rightarrow> json option \<Rightarrow> string \<Rightarrow> trigger_type \<Rightarrow> failure + binding_row" where
  "requireFundedBinding getAddress v tradeId triggerType =
    (case parseSettlementFundedBinding getAddress v of
       Inl _ \<Rightarrow> Inl (invalid ''An immutable original funded binding is required for financial execution'')
     | Inr b \<Rightarrow>
         if fld b ''tradeId'' \<noteq> tradeId \<or> fld b ''phase'' \<notin> set (phases triggerType)
         then Inl (invalid ''The progression phase or trade differs from the original funded instruction'')
         else Inr b)"

section \<open>Action keys and backoff\<close>

definition FINAL_RELEASE_OPERATIONS :: "string list" where
  "FINAL_RELEASE_OPERATIONS = [''FINALIZE_AFTER_INSPECTION_ACCEPTANCE'', ''FINALIZE_TRADE'']"

definition generateActionKey :: "string \<Rightarrow> string \<Rightarrow> string" where
  "generateActionKey operation tradeId =
    (let canonicalOperation = if operation \<in> set FINAL_RELEASE_OPERATIONS then ''FINAL_RELEASE'' else operation
     in canonicalOperation @ '':'' @ tradeId)"

definition generateIdempotencyKey :: "string \<Rightarrow> string \<Rightarrow> string" where
  "generateIdempotencyKey actionKey requestId = actionKey @ '':'' @ requestId"

definition generateJitter :: "rat \<Rightarrow> int \<Rightarrow> int" where
  "generateJitter random maxJitterMs = (if maxJitterMs \<le> 0 then 0 else \<lfloor>random * of_int maxJitterMs\<rfloor>)"

definition calculateBackoff :: "rat \<Rightarrow> nat \<Rightarrow> int \<Rightarrow> int \<Rightarrow> int \<Rightarrow> int" where
  "calculateBackoff random attempt baseDelay maxDelayMs maxJitterMs =
    (let exponentialDelay = baseDelay * 2 ^ (attempt - 1);
         cappedExponentialDelay = min exponentialDelay maxDelayMs;
         availableJitterWindow = max 0 (maxDelayMs - cappedExponentialDelay);
         jitter = generateJitter random (min maxJitterMs (availableJitterWindow + 1))
     in cappedExponentialDelay + jitter)"

section \<open>Laws of the pure decisions\<close>

lemma jitter_bounds:
  assumes "0 \<le> r" and "r < 1" and "0 < m"
  shows "0 \<le> generateJitter r m" and "generateJitter r m \<le> m - 1"
proof -
  have "r * of_int m < 1 * of_int m" using assms by (intro mult_strict_right_mono) auto
  then have "\<lfloor>r * of_int m\<rfloor> < m" by (simp add: floor_less_iff)
  then show "generateJitter r m \<le> m - 1" using assms(3) by (simp add: generateJitter_def)
  show "0 \<le> generateJitter r m" using assms by (simp add: generateJitter_def)
qed

lemma backoff_bounds:
  assumes "0 \<le> r" and "r < 1" and "0 \<le> base" and "base \<le> maxDelay" and "0 < maxJitter"
  shows "base \<le> calculateBackoff r attempt base maxDelay maxJitter"
    and "calculateBackoff r attempt base maxDelay maxJitter \<le> maxDelay"
proof -
  define c where "c = min (base * 2 ^ (attempt - 1)) maxDelay"
  define w where "w = min maxJitter (max 0 (maxDelay - c) + 1)"
  have "base * 1 \<le> base * 2 ^ (attempt - 1)" using assms(3) by (intro mult_left_mono) auto
  then have c: "base \<le> c" "c \<le> maxDelay" using assms(4) by (auto simp: c_def)
  have w: "0 < w" "w \<le> maxDelay - c + 1" using assms(5) c(2) by (auto simp: w_def)
  have eq: "calculateBackoff r attempt base maxDelay maxJitter = c + generateJitter r w"
    by (simp add: calculateBackoff_def Let_def c_def w_def)
  show "base \<le> calculateBackoff r attempt base maxDelay maxJitter"
    using jitter_bounds(1) [OF assms(1,2) w(1)] c(1) by (simp add: eq)
  show "calculateBackoff r attempt base maxDelay maxJitter \<le> maxDelay"
    using jitter_bounds(2) [OF assms(1,2) w(1)] w(2) by (simp add: eq)
qed

lemma classify_terminal_iff_status:
  "determineNextStatus e n k = TERMINAL_FAILURE \<longleftrightarrow> oe_isTerminal e"
  "determineNextStatus e n k = EXHAUSTED_NEEDS_REDRIVE \<longleftrightarrow> \<not> oe_isTerminal e \<and> k \<le> n"
  "determineNextStatus e n k = FAILED \<longleftrightarrow> \<not> oe_isTerminal e \<and> n < k"
  by (auto simp: determineNextStatus_def)

lemma requireFundedD:
  assumes "requireFundedBinding ga v tradeId ty = Inr b"
  shows "parseSettlementFundedBinding ga v = Inr b" and "fld b ''tradeId'' = tradeId" and "fld b ''phase'' \<in> set (phases ty)"
  using assms by (auto simp: requireFundedBinding_def split: sum.splits if_splits)

end
