(* ===== verification/Oracle_Evidence.thy ===== *)
theory Oracle_Evidence
  imports Oracle_Types Failed_Operations JS_Time
begin

text \<open>
  What the oracle asks two independent RPC witnesses: that a dispatched transaction is final
  (\<open>oracle/src/blockchain/dispatch-finality.ts\<close>), that its receipt carries out the funded instruction
  (\<open>progression-receipt.ts\<close>) and that the funding it rests on is final and unchanged
  (\<open>funded-settlement-verifier.ts\<close>). The answers of the providers, the event decoder and the call
  encoder of ethers and \<open>keccak256\<close> are arguments. The \<open>i\<close>-th reading of a receipt is its own answer:
  a provider may answer differently when it is asked again. When several requests of a
  \<open>Promise.all\<close> reject, the model reports the first in list order. A timeout of ten seconds is the
  argument \<open>late\<close>.

  The lemmas show what an accepted receipt says: both witnesses saw one token transfer, from the
  escrow to the bound supplier, of the bound amount.
\<close>

section \<open>Answers of a provider\<close>

record chain_log =
  lg_address :: string
  lg_topics :: "string list"
  lg_data :: string
  lg_index :: nat

text \<open>A \<open>status\<close> of \<open>null\<close> and a block number that is not an integer are negative.\<close>

record chain_receipt =
  rx_hash :: string
  rx_sender :: string
  rx_to :: "string option"
  rx_status :: int
  rx_blockNumber :: int
  rx_blockHash :: string
  rx_logs :: "chain_log list"

record chain_block =
  bk_number :: int
  bk_hash :: "string option"

record chain_tx =
  tx_hash :: string
  tx_sender :: string
  tx_to :: "string option"
  tx_chainId :: nat
  tx_data :: string
  tx_value :: nat

record provider =
  pv_network :: "failure + nat"
  pv_receipt :: "nat \<Rightarrow> string \<Rightarrow> failure + chain_receipt option"
  pv_finalized :: "failure + chain_block option"
  pv_block :: "int \<Rightarrow> failure + chain_block option"
  pv_transaction :: "string \<Rightarrow> failure + chain_tx option"

record witness =
  wi_id :: string
  wi_provider :: provider

text \<open>The events the two ABI fragments decode.\<close>

datatype chain_event =
  FundsReleasedStage1 (ev_tradeId: nat) (ev_supplier: string) (ev_tranche: nat) (ev_treasury: string) (ev_logistics: nat)
| FinalTrancheReleased (ev_tradeId: nat) (ev_supplier: string) (ev_tranche: nat)
| InspectionAvailable (ev_tradeId: nat) (ev_availableAt: nat) (ev_window: nat) (ev_deadline: nat)
| SupplierPayoutTransferred (ev_tradeId: nat) (ev_supplier: string) (ev_amount: nat) (ev_claimType: nat) (ev_triggeredBy: string)
| Transfer (ev_from: string) (ev_to: string) (ev_value: nat)
| TradeLocked (ev_tradeId: nat) (ev_buyer: string) (ev_supplier: string) (ev_total: nat) (ev_logistics: nat)
    (ev_fees: nat) (ev_first: nat) (ev_second: nat) (ev_ricardian: string)

datatype escrow_call =
  Release_stage_1 string
| Confirm_inspection string nat
| Finalize_after_window string

type_synonym decoder = "chain_log \<Rightarrow> chain_event option"

section \<open>Reading witnesses\<close>

fun all_results :: "('a \<Rightarrow> 'e + 'b) \<Rightarrow> 'a list \<Rightarrow> 'e + 'b list" where
  "all_results f [] = Inr []"
| "all_results f (x # xs) = rbind (f x) (\<lambda>y. rbind (all_results f xs) (\<lambda>ys. Inr (y # ys)))"

fun validation_failure :: "failure \<Rightarrow> bool" where
  "validation_failure (Oracle_failure e) = (oe_name e = ''ValidationError'')"
| "validation_failure (Raw_failure _ _) = False"

text \<open>The \<open>catch\<close> of the three verifiers: a \<open>ValidationError\<close> passes, anything else is reported as \<open>msg\<close>.\<close>

fun guard_failure :: "string \<Rightarrow> failure + 'a \<Rightarrow> failure + 'a" where
  "guard_failure msg (Inr x) = Inr x"
| "guard_failure msg (Inl e) = Inl (if validation_failure e then e else Error msg)"

fun split_on :: "char \<Rightarrow> string \<Rightarrow> string list" where
  "split_on c [] = [[]]"
| "split_on c (x # s) =
    (if x = c then [] # split_on c s else case split_on c s of [] \<Rightarrow> [[x]] | w # ws \<Rightarrow> (x # w) # ws)"

definition positive_text :: "string \<Rightarrow> bool" where
  "positive_text s = (digits_text s \<and> hd s \<noteq> CHR ''0'')"

text \<open>\<open>getAddress\<close> of ethers throws on a text that is no address.\<close>

definition checksummed :: "(string \<Rightarrow> string option) \<Rightarrow> string \<Rightarrow> failure + string" where
  "checksummed getAddress a =
    (case getAddress a of Some c \<Rightarrow> Inr c | None \<Rightarrow> Inl (Raw_failure ''invalid address'' (Some ''INVALID_ARGUMENT'')))"

text \<open>
  The first two URLs with different hosts, each connected; \<open>hostname\<close> is \<open>new URL(url).hostname\<close>,
  which throws on an invalid URL.
\<close>

fun pick_hosts :: "(string \<Rightarrow> failure + string) \<Rightarrow> string list \<Rightarrow> string list \<Rightarrow> string list \<Rightarrow> failure + string list" where
  "pick_hosts hostname [] hosts picked = Inr picked"
| "pick_hosts hostname (url # urls) hosts picked =
    rbind (hostname url) (\<lambda>host.
      if host \<in> set hosts then pick_hosts hostname urls hosts picked
      else if length (picked @ [url]) = 2 then Inr (picked @ [url])
      else pick_hosts hostname urls (host # hosts) (picked @ [url]))"

definition createOracleDispatchWitnesses ::
  "(string \<Rightarrow> failure + string) \<Rightarrow> (string \<Rightarrow> string) \<Rightarrow> (string \<Rightarrow> provider) \<Rightarrow> string list \<Rightarrow> failure + witness list" where
  "createOracleDispatchWitnesses hostname sha256 connect urls =
    rbind (pick_hosts (\<lambda>url. rbind (hostname url) (\<lambda>h. Inr (toLowerCase h))) urls [] []) (\<lambda>picked.
      Inr (map (\<lambda>url. \<lparr>wi_id = sha256 url, wi_provider = connect url\<rparr>) picked))"

definition createFundedSettlementVerifier ::
  "(string \<Rightarrow> failure + string) \<Rightarrow> (string \<Rightarrow> provider) \<Rightarrow> string list \<Rightarrow> failure + provider list" where
  "createFundedSettlementVerifier hostname connect urls =
    rbind (pick_hosts hostname urls [] []) (\<lambda>picked. Inr (map connect picked))"

definition lower_opt :: "string option \<Rightarrow> string option" where
  "lower_opt s = map_option toLowerCase s"

section \<open>Finality of a dispatched transaction\<close>

record dispatch_observation =
  do_blockNumber :: int
  do_blockHash :: string
  do_receiptStatus :: int

definition scope_chain :: "string \<Rightarrow> string" where
  "scope_chain scope = hd (split_on (CHR '':'') scope)"

definition scope_address :: "string \<Rightarrow> string option" where
  "scope_address scope = (case split_on (CHR '':'') scope of _ # a # _ \<Rightarrow> Some a | _ \<Rightarrow> None)"

definition observe_dispatch :: "string \<Rightarrow> string \<Rightarrow> string \<Rightarrow> witness \<Rightarrow> failure + dispatch_observation" where
  "observe_dispatch chainId address transactionHash w =
    (let pv = wi_provider w in
     rbind (pv_network pv) (\<lambda>network. rbind (pv_receipt pv 0 transactionHash) (\<lambda>rcpt. rbind (pv_finalized pv) (\<lambda>finalized.
     case (rcpt, finalized) of
       (Some r, Some fin) \<Rightarrow>
         if show_nat network \<noteq> chainId \<or> toLowerCase (rx_hash r) \<noteq> transactionHash \<or> toLowerCase (rx_sender r) \<noteq> address \<or>
            (rx_status r \<noteq> 0 \<and> rx_status r \<noteq> 1) \<or> \<not> isSafeInteger (rx_blockNumber r) \<or> rx_blockNumber r < 0 \<or>
            \<not> hex_text 64 (rx_blockHash r) \<or> bk_number fin < rx_blockNumber r
         then Inl (invalid ''Original Oracle dispatch remains unresolved'')
         else rbind (pv_block pv (rx_blockNumber r)) (\<lambda>block. case block of
           None \<Rightarrow> Inl (invalid ''Original Oracle dispatch is not canonical'')
         | Some b \<Rightarrow>
             if bk_number b \<noteq> rx_blockNumber r \<or> lower_opt (bk_hash b) \<noteq> Some (toLowerCase (rx_blockHash r))
             then Inl (invalid ''Original Oracle dispatch is not canonical'')
             else Inr \<lparr>do_blockNumber = rx_blockNumber r, do_blockHash = toLowerCase (rx_blockHash r),
                    do_receiptStatus = rx_status r\<rparr>)
     | _ \<Rightarrow> Inl (invalid ''Original Oracle dispatch remains unresolved'')))))"

definition observation_text :: "dispatch_observation \<Rightarrow> string" where
  "observation_text d = stringify (JObj [(''blockNumber'', JNum (Finite (int_text (do_blockNumber d)))),
     (''blockHash'', JStr (do_blockHash d)), (''receiptStatus'', JNum (Finite (int_text (do_receiptStatus d))))])"

definition verifyOracleDispatchFinality ::
  "(string \<Rightarrow> string option) \<Rightarrow> bool \<Rightarrow> timestamp \<Rightarrow> witness list \<Rightarrow> string \<Rightarrow> string \<Rightarrow> failure + dispatch_finality" where
  "verifyOracleDispatchFinality getAddress late now witnesses signerScope transactionHash =
    (let parts = split_on (CHR '':'') signerScope; chainId = parts ! 0;
         required = Inl (invalid ''Independent Oracle signer evidence is required'') in
     if \<not> positive_text chainId \<or> length parts > 2 \<or> \<not> truthy (scope_address signerScope) then required
     else rbind (checksummed getAddress (parts ! 1)) (\<lambda>checked.
       if toLowerCase checked \<noteq> parts ! 1 \<or> \<not> lower_hex_text 64 transactionHash \<or> length witnesses \<noteq> 2 \<or>
          wi_id (witnesses ! 0) = wi_id (witnesses ! 1)
       then required
       else guard_failure ''Independent Oracle dispatch witnesses are unavailable''
         (if late then Inl (Error []) else
          rbind (all_results (observe_dispatch chainId (parts ! 1) transactionHash) witnesses) (\<lambda>observations.
          if observation_text (observations ! 0) \<noteq> observation_text (observations ! 1)
          then Inl (invalid ''Oracle dispatch witnesses disagree'')
          else Inr \<lparr>df_policy = ''oracle_dispatch_nonce_finality_v1'', df_signerScope = signerScope,
                 df_transactionHash = transactionHash, df_blockNumber = do_blockNumber (observations ! 0),
                 df_blockHash = do_blockHash (observations ! 0), df_receiptStatus = do_receiptStatus (observations ! 0),
                 df_witnessIds = [wi_id (witnesses ! 0), wi_id (witnesses ! 1)], df_verifiedAt = toISOString now\<rparr>))))"

section \<open>The receipt of a progression\<close>

definition first_release :: "binding_row \<Rightarrow> bool" where
  "first_release b = (fld b ''phase'' = ''initial_release_after_custody_and_documents'')"

definition inspection_phase :: "binding_row \<Rightarrow> bool" where
  "inspection_phase b = startsWith (fld b ''phase'') ''inspection_available_''"

definition final_after_notice :: "binding_row \<Rightarrow> bool" where
  "final_after_notice b = (fld b ''phase'' = ''final_release_after_notice_deadline'')"

definition inspection_window :: "binding_row \<Rightarrow> nat" where
  "inspection_window b = (if fld b ''phase'' = ''inspection_available_packaged_local'' then 48 * 3600 else 72 * 3600)"

definition progression_call :: "binding_row \<Rightarrow> escrow_call" where
  "progression_call b =
    (if first_release b then Release_stage_1 (fld b ''tradeId'')
     else if inspection_phase b then Confirm_inspection (fld b ''tradeId'') (inspection_window b)
     else Finalize_after_window (fld b ''tradeId''))"

text \<open>The decoded events of a receipt with the address that emitted each.\<close>

definition parsed_logs :: "decoder \<Rightarrow> chain_log list \<Rightarrow> (string \<times> chain_event) list" where
  "parsed_logs parseLog logs =
    concat (map (\<lambda>l. case parseLog l of None \<Rightarrow> [] | Some e \<Rightarrow> [(toLowerCase (lg_address l), e)]) logs)"

definition semantic_event :: "binding_row \<Rightarrow> chain_event \<Rightarrow> bool" where
  "semantic_event b e =
    (if first_release b then is_FundsReleasedStage1 e
     else if inspection_phase b then is_InspectionAvailable e
     else is_FinalTrancheReleased e)"

definition check_semantic :: "binding_row \<Rightarrow> (string \<times> chain_event) list \<Rightarrow> failure + unit" where
  "check_semantic b parsed =
    (case filter (\<lambda>(a, e). a = fld b ''escrowAddress'' \<and> semantic_event b e) parsed of
       [(_, event)] \<Rightarrow>
         if show_nat (ev_tradeId event) \<noteq> fld b ''tradeId''
         then Inl (invalid ''Oracle semantic event differs from the original trade'')
         else if inspection_phase b then
           require_that (ev_window event = inspection_window b \<and>
               ev_deadline event = ev_availableAt event + inspection_window b)
             (invalid ''Oracle inspection window differs from the approved instruction'')
         else
           require_that (toLowerCase (ev_supplier event) = fld b ''supplierAddress'' \<and>
               show_nat (ev_tranche event) = fld b ''supplierPayoutAmount'' \<and>
               (first_release b \<longrightarrow> show_nat (ev_logistics event) = fld b ''logisticsAmount''))
             (invalid ''Oracle payout recipient or amount differs from original funding'')
     | _ \<Rightarrow> Inl (invalid ''Oracle semantic event differs from the original trade''))"

definition escrow_transfers :: "binding_row \<Rightarrow> (string \<times> chain_event) list \<Rightarrow> chain_event list" where
  "escrow_transfers b parsed = map snd (filter (\<lambda>(a, e). a = fld b ''tokenAddress'' \<and> is_Transfer e \<and>
     (toLowerCase (ev_from e) = fld b ''escrowAddress'' \<or> toLowerCase (ev_to e) = fld b ''escrowAddress'')) parsed)"

definition supplier_payouts :: "binding_row \<Rightarrow> (string \<times> chain_event) list \<Rightarrow> chain_event list" where
  "supplier_payouts b parsed =
    map snd (filter (\<lambda>(a, e). a = fld b ''escrowAddress'' \<and> is_SupplierPayoutTransferred e) parsed)"

definition check_movement :: "binding_row \<Rightarrow> (string \<times> chain_event) list \<Rightarrow> failure + unit" where
  "check_movement b parsed =
    (let transfers = escrow_transfers b parsed; payouts = supplier_payouts b parsed; amount = amt b ''supplierPayoutAmount'' in
     if length transfers \<noteq> (if amount > 0 then 1 else 0) \<or> length payouts \<noteq> (if amount > 0 then 1 else 0)
     then Inl (invalid ''Oracle payout movement is missing or contradictory'')
     else if amount > 0 then
       (let transfer = transfers ! 0; pay = payouts ! 0 in
        require_that (toLowerCase (ev_from transfer) = fld b ''escrowAddress'' \<and>
            toLowerCase (ev_to transfer) = fld b ''supplierAddress'' \<and> int (ev_value transfer) = amount \<and>
            show_nat (ev_tradeId pay) = fld b ''tradeId'' \<and> toLowerCase (ev_supplier pay) = fld b ''supplierAddress'' \<and>
            int (ev_amount pay) = amount \<and> ev_claimType pay = (if first_release b then 0 else 3))
          (invalid ''Oracle token movement differs from original funded supplier''))
     else Inr ())"

definition log_json :: "chain_log \<Rightarrow> json" where
  "log_json l = JArr [JStr (toLowerCase (lg_address l)), JArr (map (JStr \<circ> toLowerCase) (lg_topics l)),
     JStr (toLowerCase (lg_data l)), JNum (Finite (show_nat (lg_index l)))]"

definition logs_text :: "chain_log list \<Rightarrow> string" where
  "logs_text logs = stringify (JArr (map log_json logs))"

definition observe_progression ::
  "decoder \<Rightarrow> (escrow_call \<Rightarrow> string) \<Rightarrow> string \<Rightarrow> string \<Rightarrow> dispatch_finality \<Rightarrow> binding_row \<Rightarrow> witness \<Rightarrow> failure + string" where
  "observe_progression parseLog encode scope hash evi b w =
    (let pv = wi_provider w; escrow = fld b ''escrowAddress'' in
     rbind (pv_transaction pv hash) (\<lambda>tx. rbind (pv_receipt pv 1 hash) (\<lambda>rcpt.
     case (tx, rcpt) of
       (Some t, Some r) \<Rightarrow>
         if toLowerCase (tx_hash t) \<noteq> hash \<or> Some (toLowerCase (tx_sender t)) \<noteq> scope_address scope \<or>
            show_nat (tx_chainId t) \<noteq> fld b ''chainId'' \<or> lower_opt (tx_to t) \<noteq> Some escrow \<or>
            toLowerCase (tx_data t) \<noteq> toLowerCase (encode (progression_call b)) \<or> tx_value t \<noteq> 0 \<or>
            rx_status r \<noteq> 1 \<or> toLowerCase (rx_blockHash r) \<noteq> df_blockHash evi \<or> rx_blockNumber r \<noteq> df_blockNumber evi \<or>
            lower_opt (rx_to r) \<noteq> Some escrow
         then Inl (invalid ''Oracle receipt differs from the original funded instruction'')
         else (let parsed = parsed_logs parseLog (rx_logs r) in
           rbind (check_semantic b parsed) (\<lambda>_. rbind (check_movement b parsed) (\<lambda>_. Inr (logs_text (rx_logs r)))))
     | _ \<Rightarrow> Inl (invalid ''Oracle receipt differs from the original funded instruction''))))"

text \<open>
  \<open>binding\<close> is already a parsed binding; the source parses it again, which \<open>binding_json\<close> feeds.
\<close>

definition verifyOracleProgressionReceipt ::
  "(string \<Rightarrow> string option) \<Rightarrow> decoder \<Rightarrow> (escrow_call \<Rightarrow> string) \<Rightarrow> bool \<Rightarrow> bool \<Rightarrow> timestamp \<Rightarrow>
   witness list \<Rightarrow> string \<Rightarrow> string \<Rightarrow> binding_row \<Rightarrow> failure + dispatch_finality" where
  "verifyOracleProgressionReceipt getAddress parseLog encode late0 late1 now witnesses scope hash bnd =
    rbind (case parseSettlementFundedBinding getAddress (Some (binding_json bnd)) of
             Inl msg \<Rightarrow> Inl (Error msg) | Inr b \<Rightarrow> Inr b) (\<lambda>b.
    rbind (verifyOracleDispatchFinality getAddress late0 now witnesses scope hash) (\<lambda>evi.
    if df_receiptStatus evi \<noteq> 1 \<or> scope_chain scope \<noteq> fld b ''chainId''
    then Inl (invalid ''Original Oracle transaction did not complete successfully'')
    else if \<not> first_release b \<and> \<not> inspection_phase b \<and> \<not> final_after_notice b
    then Inl (invalid ''Unsupported Oracle progression receipt'')
    else guard_failure ''Independent Oracle progression evidence is unavailable''
      (if late1 then Inl (Error []) else
       rbind (all_results (observe_progression parseLog encode scope hash evi b) witnesses) (\<lambda>observations.
       if observations ! 0 \<noteq> observations ! 1
       then Inl (invalid ''Oracle progression receipt witnesses disagree'')
       else Inr evi))))"

section \<open>The original funding\<close>

record deployment =
  dp_chainId :: nat
  dp_escrowAddress :: string
  dp_tokenAddress :: string

definition emitted_by :: "decoder \<Rightarrow> string \<Rightarrow> chain_log list \<Rightarrow> chain_event list" where
  "emitted_by parseLog address logs =
    map snd (filter (\<lambda>(a, _). a = address) (parsed_logs parseLog logs))"

definition lock_matches :: "binding_row \<Rightarrow> chain_event \<Rightarrow> bool" where
  "lock_matches b e =
    (show_nat (ev_tradeId e) = fld b ''tradeId'' \<and> toLowerCase (ev_buyer e) = fld b ''buyerAddress'' \<and>
     toLowerCase (ev_supplier e) = fld b ''supplierAddress'' \<and> toLowerCase (ev_ricardian e) = fld b ''ricardianHash'' \<and>
     show_nat (ev_total e) = fld b ''totalAmount'' \<and> show_nat (ev_logistics e) = fld b ''logisticsAmount'' \<and>
     show_nat (ev_fees e) = fld b ''platformFeesAmount'' \<and> show_nat (ev_first e) = fld b ''supplierFirstTranche'' \<and>
     show_nat (ev_second e) = fld b ''supplierSecondTranche'')"

definition observe_funding ::
  "decoder \<Rightarrow> (string \<Rightarrow> string) \<Rightarrow> binding_row \<Rightarrow> provider \<Rightarrow> failure + string" where
  "observe_funding parseLog keccak256 b pv =
    (let refused = Inl (invalid ''Original funding is not independently finalized and canonical'') in
     rbind (pv_network pv) (\<lambda>network. rbind (pv_receipt pv 0 (fld b ''fundingTransactionHash'')) (\<lambda>rcpt.
     rbind (pv_block pv (BigInt (fld b ''fundingBlockNumber''))) (\<lambda>block. rbind (pv_finalized pv) (\<lambda>finalized.
     case (rcpt, block, finalized) of
       (Some r, Some bk, Some fin) \<Rightarrow>
         if show_nat network \<noteq> fld b ''chainId'' \<or> rx_status r \<noteq> 1 \<or> \<not> truthy (rx_to r) \<or>
            lower_opt (rx_to r) \<noteq> Some (fld b ''escrowAddress'') \<or> toLowerCase (rx_blockHash r) \<noteq> fld b ''fundingBlockHash'' \<or>
            int_text (rx_blockNumber r) \<noteq> fld b ''fundingBlockNumber'' \<or>
            toLowerCase (rx_hash r) \<noteq> fld b ''fundingTransactionHash'' \<or>
            lower_opt (bk_hash bk) \<noteq> Some (fld b ''fundingBlockHash'') \<or> bk_number fin < rx_blockNumber r
         then refused
         else case filter is_TradeLocked (emitted_by parseLog (fld b ''escrowAddress'') (rx_logs r)) of
           [lock] \<Rightarrow>
             if \<not> lock_matches b lock
             then Inl (invalid ''Original funding event differs from the immutable trade binding'')
             else (case filter (\<lambda>e. is_Transfer e \<and> (toLowerCase (ev_from e) = fld b ''escrowAddress'' \<or>
                        toLowerCase (ev_to e) = fld b ''escrowAddress'')) (emitted_by parseLog (fld b ''tokenAddress'') (rx_logs r)) of
               [transfer] \<Rightarrow>
                 if toLowerCase (ev_from transfer) \<noteq> fld b ''buyerAddress'' \<or>
                    toLowerCase (ev_to transfer) \<noteq> fld b ''escrowAddress'' \<or> show_nat (ev_value transfer) \<noteq> fld b ''totalAmount''
                 then Inl (invalid ''Original funding token movement differs from its buyer and amount'')
                 else Inr (keccak256 (logs_text (rx_logs r)))
             | _ \<Rightarrow> Inl (invalid ''Original funding token movement differs from its buyer and amount''))
         | _ \<Rightarrow> Inl (invalid ''Original funding event differs from the immutable trade binding'')
     | _ \<Rightarrow> refused)))))"

definition verifyFundedSettlementBinding ::
  "(string \<Rightarrow> string option) \<Rightarrow> decoder \<Rightarrow> (string \<Rightarrow> string) \<Rightarrow> bool \<Rightarrow> deployment \<Rightarrow> provider list \<Rightarrow> binding_row \<Rightarrow> failure + unit" where
  "verifyFundedSettlementBinding getAddress parseLog keccak256 late dep witnesses bnd =
    rbind (case parseSettlementFundedBinding getAddress (Some (binding_json bnd)) of
             Inl msg \<Rightarrow> Inl (Error msg) | Inr b \<Rightarrow> Inr b) (\<lambda>b.
    if show_nat (dp_chainId dep) \<noteq> fld b ''chainId''
    then Inl (invalid ''The funded trade does not belong to this independently witnessed Oracle deployment'')
    else rbind (checksummed getAddress (dp_escrowAddress dep)) (\<lambda>escrow.
    if toLowerCase escrow \<noteq> fld b ''escrowAddress''
    then Inl (invalid ''The funded trade does not belong to this independently witnessed Oracle deployment'')
    else rbind (checksummed getAddress (dp_tokenAddress dep)) (\<lambda>token.
    if toLowerCase token \<noteq> fld b ''tokenAddress'' \<or> length witnesses \<noteq> 2
    then Inl (invalid ''The funded trade does not belong to this independently witnessed Oracle deployment'')
    else guard_failure ''Independent original funding witness evidence is unavailable''
      (if late then Inl (Error ''Original funding witnesses are unavailable'') else
       rbind (all_results (observe_funding parseLog keccak256 b) witnesses) (\<lambda>observations.
       require_that (observations ! 0 = observations ! 1) (invalid ''Original funding witnesses disagree''))))))"

section \<open>What accepted evidence says\<close>

lemma all_results_Inr:
  "all_results f xs = Inr ys \<longleftrightarrow> length ys = length xs \<and> (\<forall>i < length xs. f (xs ! i) = Inr (ys ! i))"
proof (induction xs arbitrary: ys)
  case Nil
  then show ?case by auto
next
  case (Cons x xs)
  show ?case by (cases ys) (auto simp: rbind_Inr_iff Cons.IH less_Suc_eq_0_disj)
qed

lemma guard_failure_Inr [simp]: "guard_failure msg r = Inr x \<longleftrightarrow> r = Inr x"
  by (cases r) auto

lemma all_results_member:
  assumes "all_results f xs = Inr ys" and "x \<in> set xs"
  shows "\<exists>y \<in> set ys. f x = Inr y"
  using assms by (auto simp: all_results_Inr in_set_conv_nth)

lemma dispatch_finalityD:
  assumes "verifyOracleDispatchFinality ga late now ws scope hash = Inr evi"
  shows "length ws = 2" and "wi_id (ws ! 0) \<noteq> wi_id (ws ! 1)" and "df_signerScope evi = scope"
    and "df_transactionHash evi = hash" and "lower_hex_text 64 hash"
    and "w \<in> set ws \<Longrightarrow> \<exists>d. observe_dispatch (scope_chain scope) (split_on (CHR '':'') scope ! 1) hash w = Inr d"
    and "observe_dispatch (scope_chain scope) (split_on (CHR '':'') scope ! 1) hash (ws ! 0) =
       Inr \<lparr>do_blockNumber = df_blockNumber evi, do_blockHash = df_blockHash evi, do_receiptStatus = df_receiptStatus evi\<rparr>"
proof -
  have chain: "split_on (CHR '':'') scope ! 0 = scope_chain scope"
    by (cases scope) (auto simp: scope_chain_def split: list.splits)
  from assms obtain obs where ws: "length ws = 2" "wi_id (ws ! 0) \<noteq> wi_id (ws ! 1)" "lower_hex_text 64 hash"
    and obs: "all_results (observe_dispatch (scope_chain scope) (split_on (CHR '':'') scope ! 1) hash) ws = Inr obs"
    and evi: "evi = \<lparr>df_policy = ''oracle_dispatch_nonce_finality_v1'', df_signerScope = scope,
       df_transactionHash = hash, df_blockNumber = do_blockNumber (obs ! 0), df_blockHash = do_blockHash (obs ! 0),
       df_receiptStatus = do_receiptStatus (obs ! 0), df_witnessIds = [wi_id (ws ! 0), wi_id (ws ! 1)],
       df_verifiedAt = toISOString now\<rparr>"
    unfolding verifyOracleDispatchFinality_def Let_def chain
    by (auto simp: rbind_Inr_iff split: if_splits)
  show "length ws = 2" "wi_id (ws ! 0) \<noteq> wi_id (ws ! 1)" "lower_hex_text 64 hash" using ws by auto
  show "df_signerScope evi = scope" "df_transactionHash evi = hash" using evi by simp_all
  show "\<exists>d. observe_dispatch (scope_chain scope) (split_on (CHR '':'') scope ! 1) hash w = Inr d" if "w \<in> set ws"
    using all_results_member [OF obs that] by blast
  show "observe_dispatch (scope_chain scope) (split_on (CHR '':'') scope ! 1) hash (ws ! 0) =
     Inr \<lparr>do_blockNumber = df_blockNumber evi, do_blockHash = df_blockHash evi, do_receiptStatus = df_receiptStatus evi\<rparr>"
    using obs ws(1) by (simp add: all_results_Inr evi)
qed

lemma observe_dispatchD:
  assumes "observe_dispatch chainId address hash w = Inr d"
  shows "\<exists>r fin. pv_receipt (wi_provider w) 0 hash = Inr (Some r) \<and> pv_finalized (wi_provider w) = Inr (Some fin) \<and>
    rx_blockNumber r \<le> bk_number fin \<and> 0 \<le> rx_blockNumber r \<and> toLowerCase (rx_hash r) = hash \<and>
    do_blockNumber d = rx_blockNumber r \<and> do_blockHash d = toLowerCase (rx_blockHash r) \<and> do_receiptStatus d = rx_status r"
  using assms unfolding observe_dispatch_def Let_def
  by (auto elim!: rbind_InrE split: option.split_asm if_split_asm)

lemma progression_receiptD:
  assumes "verifyOracleProgressionReceipt ga parseLog encode late0 late1 now ws scope hash bnd = Inr evi"
    and "parseSettlementFundedBinding ga (Some (binding_json bnd)) = Inr b"
  shows "verifyOracleDispatchFinality ga late0 now ws scope hash = Inr evi"
    and "first_release b \<or> inspection_phase b \<or> final_after_notice b"
    and "df_receiptStatus evi = 1"
    and "w \<in> set ws \<Longrightarrow> \<exists>x. observe_progression parseLog encode scope hash evi b w = Inr x"
proof -
  from assms obtain obs where v: "verifyOracleDispatchFinality ga late0 now ws scope hash = Inr evi"
    "first_release b \<or> inspection_phase b \<or> final_after_notice b" "df_receiptStatus evi = 1"
    and obs: "all_results (observe_progression parseLog encode scope hash evi b) ws = Inr obs"
    unfolding verifyOracleProgressionReceipt_def by (auto simp: rbind_Inr_iff split: if_splits)
  show "verifyOracleDispatchFinality ga late0 now ws scope hash = Inr evi"
    "first_release b \<or> inspection_phase b \<or> final_after_notice b" "df_receiptStatus evi = 1" using v by auto
  show "\<exists>x. observe_progression parseLog encode scope hash evi b w = Inr x" if "w \<in> set ws"
    using all_results_member [OF obs that] by blast
qed

lemma observe_progressionD:
  assumes "observe_progression parseLog encode scope hash evi b w = Inr x"
  shows "\<exists>t r. pv_transaction (wi_provider w) hash = Inr (Some t) \<and> pv_receipt (wi_provider w) 1 hash = Inr (Some r) \<and>
    toLowerCase (tx_hash t) = hash \<and> toLowerCase (tx_data t) = toLowerCase (encode (progression_call b)) \<and> tx_value t = 0 \<and>
    lower_opt (tx_to t) = Some (fld b ''escrowAddress'') \<and> rx_status r = 1 \<and> rx_blockNumber r = df_blockNumber evi \<and>
    check_semantic b (parsed_logs parseLog (rx_logs r)) = Inr () \<and> check_movement b (parsed_logs parseLog (rx_logs r)) = Inr ()"
  using assms unfolding observe_progression_def Let_def
  by (auto elim!: rbind_InrE split: option.split_asm if_split_asm)

lemma escrow_transfer_is_transfer: "e \<in> set (escrow_transfers b parsed) \<Longrightarrow> is_Transfer e"
  by (auto simp: escrow_transfers_def)

lemma check_movementD:
  assumes "check_movement b parsed = Inr ()"
  shows "0 < amt b ''supplierPayoutAmount'' \<Longrightarrow> \<exists>src dst v. escrow_transfers b parsed = [Transfer src dst v] \<and>
      toLowerCase src = fld b ''escrowAddress'' \<and> toLowerCase dst = fld b ''supplierAddress'' \<and>
      int v = amt b ''supplierPayoutAmount''"
    and "\<not> 0 < amt b ''supplierPayoutAmount'' \<Longrightarrow> escrow_transfers b parsed = []"
proof -
  show "\<exists>src dst v. escrow_transfers b parsed = [Transfer src dst v] \<and>
      toLowerCase src = fld b ''escrowAddress'' \<and> toLowerCase dst = fld b ''supplierAddress'' \<and>
      int v = amt b ''supplierPayoutAmount''" if "0 < amt b ''supplierPayoutAmount''"
  proof -
    from assms that obtain e where e: "escrow_transfers b parsed = [e]" "toLowerCase (ev_from e) = fld b ''escrowAddress''"
      "toLowerCase (ev_to e) = fld b ''supplierAddress''" "int (ev_value e) = amt b ''supplierPayoutAmount''"
      unfolding check_movement_def Let_def by (auto simp: length_Suc_conv split: if_splits)
    moreover have "is_Transfer e" using e(1) escrow_transfer_is_transfer [of e b parsed] by simp
    ultimately show ?thesis by (cases e) auto
  qed
  show "escrow_transfers b parsed = []" if "\<not> 0 < amt b ''supplierPayoutAmount''"
    using assms that unfolding check_movement_def Let_def by (auto split: if_splits)
qed

end
