(* ===== verification/Programs.thy ===== *)
theory Programs
  imports Contracts
begin

text \<open>
  Programs with effects: an \<open>async\<close> function that reads and changes a state and may throw. A thrown
  error keeps the changes made before it, as a rejected promise does. \<open>triple\<close> is total correctness
  of such a program, with one postcondition for a returned value and one for a thrown error; every
  program of the model is a total function, so it always returns or throws. The locale
  \<open>state_order\<close> is what a component promises of every state change it makes: a reflexive and
  transitive relation; its lemmas lift the promise to composed programs.
\<close>

type_synonym ('s, 'e, 'a) prog = "'s \<Rightarrow> ('e + 'a) \<times> 's"

definition ret :: "'a \<Rightarrow> ('s, 'e, 'a) prog" where
  "ret x s = (Inr x, s)"

definition throw :: "'e \<Rightarrow> ('s, 'e, 'a) prog" where
  "throw e s = (Inl e, s)"

definition lift :: "'e + 'a \<Rightarrow> ('s, 'e, 'a) prog" where
  "lift r s = (r, s)"

definition bind :: "('s, 'e, 'a) prog \<Rightarrow> ('a \<Rightarrow> ('s, 'e, 'b) prog) \<Rightarrow> ('s, 'e, 'b) prog" where
  "bind m f s = (case m s of (Inl e, t) \<Rightarrow> (Inl e, t) | (Inr x, t) \<Rightarrow> f x t)"

definition catch :: "('s, 'e, 'a) prog \<Rightarrow> ('e \<Rightarrow> ('s, 'e, 'a) prog) \<Rightarrow> ('s, 'e, 'a) prog" where
  "catch m h s = (case m s of (Inl e, t) \<Rightarrow> h e t | (Inr x, t) \<Rightarrow> (Inr x, t))"

definition modify :: "('s \<Rightarrow> 's) \<Rightarrow> ('s, 'e, unit) prog" where
  "modify f s = (Inr (), f s)"

definition gets :: "('s \<Rightarrow> 'a) \<Rightarrow> ('s, 'e, 'a) prog" where
  "gets f s = (Inr (f s), s)"

fun each :: "('a \<Rightarrow> ('s, 'e, unit) prog) \<Rightarrow> 'a list \<Rightarrow> ('s, 'e, unit) prog" where
  "each f [] = ret ()"
| "each f (x # xs) = bind (f x) (\<lambda>_. each f xs)"

text \<open>All or nothing: a program that throws leaves the state as it was.\<close>

definition transaction :: "('s, 'e, 'a) prog \<Rightarrow> ('s, 'e, 'a) prog" where
  "transaction m s = (case m s of (Inl e, _) \<Rightarrow> (Inl e, s) | (Inr x, t) \<Rightarrow> (Inr x, t))"

section \<open>Triples\<close>

definition triple :: "('s \<Rightarrow> bool) \<Rightarrow> ('s, 'e, 'a) prog \<Rightarrow> ('a \<Rightarrow> 's \<Rightarrow> bool) \<Rightarrow> ('e \<Rightarrow> 's \<Rightarrow> bool) \<Rightarrow> bool" where
  "triple P m Q E = (\<forall>s. P s \<longrightarrow> (case m s of (Inr x, t) \<Rightarrow> Q x t | (Inl e, t) \<Rightarrow> E e t))"

named_theorems triples \<open>the triples of the operations\<close>

lemma tripleI:
  assumes "\<And>s x t. P s \<Longrightarrow> m s = (Inr x, t) \<Longrightarrow> Q x t" and "\<And>s e t. P s \<Longrightarrow> m s = (Inl e, t) \<Longrightarrow> E e t"
  shows "triple P m Q E"
  using assms by (auto simp: triple_def split: prod.splits sum.splits)

lemma tripleD:
  assumes "triple P m Q E" and "P s"
  shows "m s = (Inr x, t) \<Longrightarrow> Q x t" and "m s = (Inl e, t) \<Longrightarrow> E e t"
  using assms by (auto simp: triple_def split: prod.splits sum.splits)

lemma triple_state:
  assumes "triple P m (\<lambda>_. Q) (\<lambda>_. Q)" and "P s"
  shows "Q (snd (m s))"
  using tripleD [OF assms] by (cases "m s"; cases "fst (m s)") auto

lemma triple_conseq:
  assumes "triple P' m Q' E'" and "\<And>s. P s \<Longrightarrow> P' s" and "\<And>x s. Q' x s \<Longrightarrow> Q x s" and "\<And>e s. E' e s \<Longrightarrow> E e s"
  shows "triple P m Q E"
proof (rule tripleI)
  fix s x t assume "P s" and "m s = (Inr x, t)"
  then show "Q x t" using tripleD(1) [OF assms(1)] assms(2,3) by blast
next
  fix s e t assume "P s" and "m s = (Inl e, t)"
  then show "E e t" using tripleD(2) [OF assms(1)] assms(2,4) by blast
qed

lemma triple_ret: "(\<And>s. P s \<Longrightarrow> Q x s) \<Longrightarrow> triple P (ret x) Q E"
  by (simp add: triple_def ret_def)

lemma triple_throw: "(\<And>s. P s \<Longrightarrow> E e s) \<Longrightarrow> triple P (throw e) Q E"
  by (simp add: triple_def throw_def)

lemma triple_lift:
  "(\<And>x s. r = Inr x \<Longrightarrow> P s \<Longrightarrow> Q x s) \<Longrightarrow> (\<And>e s. r = Inl e \<Longrightarrow> P s \<Longrightarrow> E e s) \<Longrightarrow> triple P (lift r) Q E"
  by (auto simp: triple_def lift_def split: sum.splits)

lemma triple_gets: "(\<And>s. P s \<Longrightarrow> Q (f s) s) \<Longrightarrow> triple P (gets f) Q E"
  by (simp add: triple_def gets_def)

lemma triple_modify: "(\<And>s. P s \<Longrightarrow> Q () (f s)) \<Longrightarrow> triple P (modify f) Q E"
  by (simp add: triple_def modify_def)

lemma triple_if: "(c \<Longrightarrow> triple P m Q E) \<Longrightarrow> (\<not> c \<Longrightarrow> triple P n Q E) \<Longrightarrow> triple P (if c then m else n) Q E"
  by simp

lemma triple_bind:
  assumes "triple P m R E" and "\<And>x. triple (R x) (f x) Q E"
  shows "triple P (bind m f) Q E"
proof (rule tripleI)
  fix s y u assume s: "P s" and run: "bind m f s = (Inr y, u)"
  then obtain x t where "m s = (Inr x, t)" "f x t = (Inr y, u)" by (auto simp: bind_def split: prod.splits sum.splits)
  then show "Q y u" using tripleD(1) [OF assms(1) s] tripleD(1) [OF assms(2)] by blast
next
  fix s e u assume s: "P s" and run: "bind m f s = (Inl e, u)"
  then consider "m s = (Inl e, u)" | x t where "m s = (Inr x, t)" "f x t = (Inl e, u)"
    by (auto simp: bind_def split: prod.splits sum.splits)
  then show "E e u"
  proof cases
    case 1
    then show ?thesis using tripleD(2) [OF assms(1) s] by blast
  next
    case 2
    then show ?thesis using tripleD(1) [OF assms(1) s] tripleD(2) [OF assms(2)] by blast
  qed
qed

lemma triple_catch:
  assumes "triple P m Q R" and "\<And>e. triple (R e) (h e) Q E"
  shows "triple P (catch m h) Q E"
proof (rule tripleI)
  fix s y u assume s: "P s" and run: "catch m h s = (Inr y, u)"
  then consider "m s = (Inr y, u)" | e t where "m s = (Inl e, t)" "h e t = (Inr y, u)"
    by (auto simp: catch_def split: prod.splits sum.splits)
  then show "Q y u"
  proof cases
    case 1
    then show ?thesis using tripleD(1) [OF assms(1) s] by blast
  next
    case 2
    then show ?thesis using tripleD(2) [OF assms(1) s] tripleD(1) [OF assms(2)] by blast
  qed
next
  fix s e u assume s: "P s" and run: "catch m h s = (Inl e, u)"
  then obtain e' t where "m s = (Inl e', t)" "h e' t = (Inl e, u)" by (auto simp: catch_def split: prod.splits sum.splits)
  then show "E e u" using tripleD(2) [OF assms(1) s] tripleD(2) [OF assms(2)] by blast
qed

section \<open>Changes a component may make\<close>

definition obeys :: "('s \<Rightarrow> 's \<Rightarrow> bool) \<Rightarrow> ('s, 'e, 'a) prog \<Rightarrow> bool" where
  "obeys R m = (\<forall>s. R s (snd (m s)))"

named_theorems obeys_intros \<open>programs that make only permitted changes\<close>

locale state_order =
  fixes R :: "'s \<Rightarrow> 's \<Rightarrow> bool"
  assumes order_refl [simp]: "R s s" and order_trans: "R s t \<Longrightarrow> R t u \<Longrightarrow> R s u"
begin

lemma obeys_ret [obeys_intros]: "obeys R (ret x)"
  by (simp add: obeys_def ret_def)

lemma obeys_throw [obeys_intros]: "obeys R (throw e)"
  by (simp add: obeys_def throw_def)

lemma obeys_lift [obeys_intros]: "obeys R (lift r)"
  by (simp add: obeys_def lift_def)

lemma obeys_gets [obeys_intros]: "obeys R (gets f)"
  by (simp add: obeys_def gets_def)

lemma obeys_bind [obeys_intros]:
  assumes "obeys R m" and "\<And>x. obeys R (f x)"
  shows "obeys R (bind m f)"
  unfolding obeys_def
proof
  fix s
  show "R s (snd (bind m f s))"
    using order_trans [of s "snd (m s)"] spec [OF assms(1) [unfolded obeys_def], of s]
      spec [OF assms(2) [unfolded obeys_def], of "snd (m s)" "projr (fst (m s))"] unfolding bind_def
    by (cases "m s"; cases "fst (m s)") auto
qed

lemma obeys_catch [obeys_intros]:
  assumes "obeys R m" and "\<And>e. obeys R (h e)"
  shows "obeys R (catch m h)"
  unfolding obeys_def
proof
  fix s
  show "R s (snd (catch m h s))"
    using order_trans [of s "snd (m s)"] spec [OF assms(1) [unfolded obeys_def], of s]
      spec [OF assms(2) [unfolded obeys_def], of "snd (m s)" "projl (fst (m s))"] unfolding catch_def
    by (cases "m s"; cases "fst (m s)") auto
qed

lemma obeys_transaction [obeys_intros]: "obeys R m \<Longrightarrow> obeys R (transaction m)"
  by (auto simp: obeys_def transaction_def split: prod.splits sum.splits) (metis snd_conv)

lemma obeys_each [obeys_intros]:
  assumes "\<And>x. obeys R (f x)"
  shows "obeys R (each f xs)"
  by (induction xs) (auto intro: obeys_ret obeys_bind assms)

end

lemma obeys_bind_then:
  assumes "obeys R m" and "\<And>x. obeys S (f x)" and "\<And>s t. R s t \<Longrightarrow> T s t" and "\<And>s t u. R s t \<Longrightarrow> S t u \<Longrightarrow> T s u"
  shows "obeys T (bind m f)"
  unfolding obeys_def
proof
  fix s
  show "T s (snd (bind m f s))"
    using assms(3,4) [of s "snd (m s)"] spec [OF assms(1) [unfolded obeys_def], of s]
      spec [OF assms(2) [unfolded obeys_def], of "snd (m s)" "projr (fst (m s))"] unfolding bind_def
    by (cases "m s"; cases "fst (m s)") auto
qed

lemma obeys_catch_then:
  assumes "obeys R m" and "\<And>e. obeys S (h e)" and "\<And>s t. R s t \<Longrightarrow> T s t" and "\<And>s t u. R s t \<Longrightarrow> S t u \<Longrightarrow> T s u"
  shows "obeys T (catch m h)"
  unfolding obeys_def
proof
  fix s
  show "T s (snd (catch m h s))"
    using assms(3,4) [of s "snd (m s)"] spec [OF assms(1) [unfolded obeys_def], of s]
      spec [OF assms(2) [unfolded obeys_def], of "snd (m s)" "projl (fst (m s))"] unfolding catch_def
    by (cases "m s"; cases "fst (m s)") auto
qed

lemma obeys_weaken: "obeys R m \<Longrightarrow> (\<And>s t. R s t \<Longrightarrow> T s t) \<Longrightarrow> obeys T m"
  by (simp add: obeys_def)

lemma obeys_modify: "(\<And>s. R s (f s)) \<Longrightarrow> obeys R (modify f)"
  by (simp add: obeys_def modify_def)

lemma obeys_pair [obeys_intros]: "(\<And>x y. obeys R (f x y)) \<Longrightarrow> obeys R (case p of (x, y) \<Rightarrow> f x y)"
  by (cases p) auto

lemma obeys_list [obeys_intros]:
  "obeys R m \<Longrightarrow> (\<And>x xs. obeys R (f x xs)) \<Longrightarrow> obeys R (case v of [] \<Rightarrow> m | x # xs \<Rightarrow> f x xs)"
  by (cases v) auto

lemma obeys_split [obeys_intros]:
  "(c \<Longrightarrow> obeys R m) \<Longrightarrow> (\<not> c \<Longrightarrow> obeys R n) \<Longrightarrow> obeys R (if c then m else n)"
  by simp

lemma obeys_option [obeys_intros]:
  "obeys R m \<Longrightarrow> (\<And>x. obeys R (f x)) \<Longrightarrow> obeys R (case v of None \<Rightarrow> m | Some x \<Rightarrow> f x)"
  by (cases v) auto

lemma obeys_sum [obeys_intros]:
  "(\<And>x. obeys R (f x)) \<Longrightarrow> (\<And>x. obeys R (g x)) \<Longrightarrow> obeys R (case v of Inl x \<Rightarrow> f x | Inr x \<Rightarrow> g x)"
  by (cases v) auto

section \<open>Taking a run apart\<close>

lemma bind_InrE:
  assumes "bind m f s = (Inr y, u)"
  obtains x t where "m s = (Inr x, t)" and "f x t = (Inr y, u)"
  using assms by (auto simp: bind_def split: prod.splits sum.splits)

lemma bind_cases:
  assumes "bind m f s = r"
  obtains (thrown) e t where "m s = (Inl e, t)" and "r = (Inl e, t)"
  | (returned) x t where "m s = (Inr x, t)" and "f x t = r"
  using assms by (cases "m s"; cases "fst (m s)") (auto simp: bind_def)

lemma transaction_cases:
  assumes "transaction m s = r"
  obtains (thrown) e t where "m s = (Inl e, t)" and "r = (Inl e, s)"
  | (committed) x t where "m s = (Inr x, t)" and "r = (Inr x, t)"
  using assms by (cases "m s"; cases "fst (m s)") (auto simp: transaction_def)

lemma catch_cases:
  assumes "catch m h s = r"
  obtains (caught) e t where "m s = (Inl e, t)" and "h e t = r"
  | (returned) x t where "m s = (Inr x, t)" and "r = (Inr x, t)"
  using assms by (cases "m s"; cases "fst (m s)") (auto simp: catch_def)

end
