(* ===== verification/Oracle_Store.thy ===== *)
theory Oracle_Store
  imports Oracle_Evidence Programs
begin

text \<open>
  The trigger table of the oracle: the statements of \<open>oracle/src/database/queries.ts\<close> and
  \<open>oracle-dispatch-reservation.ts\<close> over the rows, under the unique indexes and row guards of
  \<open>database/schema.sql\<close> and \<open>database/schema/002\<close> to \<open>004\<close>.

  A program runs against an environment. \<open>ov_clock n\<close> is the \<open>n\<close>-th reading of the clock,
  \<open>ov_others n\<close> what other sessions committed before the \<open>n\<close>-th statement, and \<open>ov_fault n\<close> an
  error of the connection at that statement, with whether the statement was committed before the
  connection failed. The claim of a dispatch is one transaction under an advisory lock and is one
  statement here. Gaps in the serial identifiers and log lines are not modelled; among rows created
  at the same instant, the latest is the one inserted first.
\<close>

section \<open>The table, its indexes and its guards\<close>

record hmac_nonce =
  hn_api_key :: string
  hn_nonce :: string
  hn_expires_at :: timestamp

record oracle_db =
  od_rows :: "trigger list"
  od_next_id :: nat
  od_nonces :: "hmac_nonce list"

definition active :: "trigger \<Rightarrow> bool" where
  "active r = (tg_status r \<in> {PENDING, EXECUTING, SUBMITTED, PENDING_APPROVAL})"

definition dispatched :: "trigger \<Rightarrow> bool" where
  "dispatched r = (tg_dispatch_started_at r \<noteq> None)"

definition unresolved :: "trigger \<Rightarrow> bool" where
  "unresolved r = (dispatched r \<and> tg_dispatch_finality_evidence r = None)"

definition violated_index :: "trigger list \<Rightarrow> string option" where
  "violated_index rows =
    (if \<not> distinct (map tg_idempotency_key rows) then Some ''oracle_triggers_pkey''
     else if \<not> distinct (map tg_action_key (filter active rows)) then Some ''idx_active_action_key_unique''
     else if \<not> distinct (map tg_action_key (filter dispatched rows)) then Some ''one_original_oracle_dispatch_per_action''
     else if \<not> distinct (List.map_filter tg_dispatch_signer_scope (filter unresolved rows))
     then Some ''one_unresolved_oracle_dispatch_per_signer''
     else None)"

text \<open>\<open>j ->> k\<close>: the text of a member, \<open>NULL\<close> when it is absent or null.\<close>

definition arrow_text :: "json option \<Rightarrow> string \<Rightarrow> string option" where
  "arrow_text j k = (case j of None \<Rightarrow> None | Some v \<Rightarrow>
    (case member_of v k of None \<Rightarrow> None | Some JNull \<Rightarrow> None | Some (JStr s) \<Rightarrow> Some s | Some x \<Rightarrow> Some (stringify x)))"

definition preserve_oracle_dispatch_claim :: "trigger \<Rightarrow> trigger \<Rightarrow> string option" where
  "preserve_oracle_dispatch_claim old new =
    (if dispatched old \<and> tg_dispatch_started_at new \<noteq> tg_dispatch_started_at old
     then Some ''oracle_dispatch_claim_is_immutable''
     else if tg_tx_hash old \<noteq> None \<and> tg_tx_hash new \<noteq> tg_tx_hash old
     then Some ''oracle_original_transaction_is_immutable''
     else None)"

definition evidence_shape :: "trigger \<Rightarrow> dispatch_finality \<Rightarrow> bool" where
  "evidence_shape new e =
    (df_policy e = ''oracle_dispatch_nonce_finality_v1'' \<and> tg_dispatch_signer_scope new = Some (df_signerScope e) \<and>
     tg_tx_hash new = Some (df_transactionHash e) \<and> lower_hex_text 64 (df_blockHash e) \<and>
     uint_text (int_text (df_blockNumber e)) \<and> int_text (df_receiptStatus e) \<in> {''0'', ''1''} \<and>
     length (df_witnessIds e) = 2 \<and> list_all (bare_hex_text 64) (df_witnessIds e) \<and>
     df_witnessIds e ! 0 \<noteq> df_witnessIds e ! 1)"

definition protect_oracle_dispatch_resolution :: "trigger option \<Rightarrow> trigger \<Rightarrow> string option" where
  "protect_oracle_dispatch_resolution old new =
    (let shape = (case tg_dispatch_finality_evidence new of
           Some e \<Rightarrow> if evidence_shape new e then None else Some ''oracle_original_dispatch_evidence_required''
         | None \<Rightarrow> None) in
     case old of
       None \<Rightarrow> if dispatched new \<or> tg_dispatch_finality_evidence new \<noteq> None
         then Some ''oracle_dispatch_requires_existing_operation'' else shape
     | Some r \<Rightarrow>
         if \<not> dispatched r \<and> tg_dispatch_finality_evidence new \<noteq> None
         then Some ''oracle_original_dispatch_evidence_required''
         else if dispatched r \<and> tg_dispatch_signer_scope new \<noteq> tg_dispatch_signer_scope r
         then Some ''oracle_dispatch_signer_is_immutable''
         else if tg_dispatch_finality_evidence r \<noteq> None \<and> tg_dispatch_finality_evidence new \<noteq> tg_dispatch_finality_evidence r
         then Some ''oracle_dispatch_resolution_is_immutable''
         else if \<not> dispatched r \<and> dispatched new \<and>
            (case tg_dispatch_signer_scope new of None \<Rightarrow> True
             | Some scope \<Rightarrow> Some (scope_chain scope) \<noteq> arrow_text (tg_funded_binding new) ''chainId'')
         then Some ''oracle_dispatch_signer_scope_required''
         else shape)"

definition preserve_oracle_funded_binding :: "trigger option \<Rightarrow> trigger \<Rightarrow> string option" where
  "preserve_oracle_funded_binding old new =
    (case old of
       None \<Rightarrow>
         if (case tg_funded_binding new of Some (JObj fs) \<Rightarrow>
               arrow_text (tg_funded_binding new) ''scopeVersion'' = Some ''agroasys.funded-settlement-binding.v1'' \<and>
               arrow_text (tg_funded_binding new) ''tradeId'' = Some (tg_trade_id new) \<and>
               list_all (\<lambda>k. k \<in> fst ` set fs) (filter (\<lambda>k. k \<noteq> ''scopeVersion'' \<and> k \<noteq> ''tradeId'') funded_fields)
             | _ \<Rightarrow> False)
         then None else Some ''complete_original_funded_binding_required''
     | Some r \<Rightarrow>
         if tg_funded_binding new \<noteq> tg_funded_binding r \<or>
            (tg_funded_binding r \<noteq> None \<and>
             (tg_trade_id new, tg_trigger_type new, tg_action_key new, tg_request_id new, tg_idempotency_key new) \<noteq>
             (tg_trade_id r, tg_trigger_type r, tg_action_key r, tg_request_id r, tg_idempotency_key r))
         then Some ''oracle_funded_binding_is_immutable'' else None)"

text \<open>The guards fire in the order of their names.\<close>

definition row_guard :: "trigger option \<Rightarrow> trigger \<Rightarrow> string option" where
  "row_guard old new =
    (case (case old of Some r \<Rightarrow> preserve_oracle_dispatch_claim r new | None \<Rightarrow> None) of
       Some msg \<Rightarrow> Some msg
     | None \<Rightarrow> (case protect_oracle_dispatch_resolution old new of
         Some msg \<Rightarrow> Some msg
       | None \<Rightarrow> preserve_oracle_funded_binding old new))"

definition duplicate_key :: "string \<Rightarrow> failure" where
  "duplicate_key index =
    Raw_failure (''duplicate key value violates unique constraint '' @ [CHR 0x22] @ index @ [CHR 0x22]) (Some ''23505'')"

section \<open>Statements\<close>

definition with_rows :: "trigger list \<Rightarrow> oracle_db \<Rightarrow> failure + oracle_db" where
  "with_rows rows db = (case violated_index rows of
     Some index \<Rightarrow> Inl (duplicate_key index) | None \<Rightarrow> Inr (db\<lparr>od_rows := rows\<rparr>))"

definition new_row :: "timestamp \<Rightarrow> create_trigger_data \<Rightarrow> nat \<Rightarrow> trigger" where
  "new_row now d i = \<lparr>tg_funded_binding = Some (binding_json (ct_fundedBinding d)), tg_dispatch_started_at = None,
     tg_dispatch_signer_scope = None, tg_dispatch_finality_evidence = None, tg_id = i, tg_action_key = ct_actionKey d,
     tg_request_id = ct_requestId d, tg_idempotency_key = ct_idempotencyKey d, tg_trade_id = ct_tradeId d,
     tg_trigger_type = ct_triggerType d, tg_request_hash = ct_requestHash d, tg_attempt_count = 0, tg_status = ct_status d,
     tg_tx_hash = None, tg_block_number = None, tg_confirmation_stage = None, tg_confirmation_stage_at = None,
     tg_indexer_confirmed = False, tg_indexer_confirmed_at = None, tg_indexer_event_id = None, tg_last_error = None,
     tg_error_type = None, tg_on_chain_verified = False, tg_on_chain_verified_at = None, tg_created_at = now,
     tg_submitted_at = None, tg_confirmed_at = None, tg_updated_at = now, tg_approved_by = None, tg_approved_at = None,
     tg_rejected_by = None, tg_rejected_at = None, tg_rejection_reason = None\<rparr>"

definition insertTrigger :: "timestamp \<Rightarrow> create_trigger_data \<Rightarrow> oracle_db \<Rightarrow> failure + trigger \<times> oracle_db" where
  "insertTrigger now d db =
    (let r = new_row now d (od_next_id db) in
     case row_guard None r of Some msg \<Rightarrow> Inl (Raw_failure msg (Some ''P0001''))
     | None \<Rightarrow> rbind (with_rows (od_rows db @ [r]) (db\<lparr>od_next_id := Suc (od_next_id db)\<rparr>)) (\<lambda>db'. Inr (r, db')))"

definition update_where :: "(trigger \<Rightarrow> bool) \<Rightarrow> (trigger \<Rightarrow> trigger) \<Rightarrow> oracle_db \<Rightarrow> failure + trigger list \<times> oracle_db" where
  "update_where p f db =
    (case List.map_filter (\<lambda>r. row_guard (Some r) (f r)) (filter p (od_rows db)) of
       msg # _ \<Rightarrow> Inl (Raw_failure msg (Some ''P0001''))
     | [] \<Rightarrow> rbind (with_rows (map (\<lambda>r. if p r then f r else r) (od_rows db)) db) (\<lambda>db'.
         Inr (map f (filter p (od_rows db)), db')))"

fun column :: "'a option \<Rightarrow> 'a \<Rightarrow> 'a" where
  "column (Some x) _ = x"
| "column None old = old"

fun nullable :: "'a option \<Rightarrow> 'a option \<Rightarrow> 'a option" where
  "nullable (Some x) _ = Some x"
| "nullable None old = old"

definition no_update :: update_trigger_data where
  "no_update = \<lparr>ud_status = None, ud_attempt_count = None, ud_tx_hash = None, ud_block_number = None,
     ud_confirmation_stage = None, ud_confirmation_stage_at = None, ud_indexer_confirmed = None,
     ud_indexer_confirmed_at = None, ud_indexer_event_id = None, ud_last_error = None, ud_error_type = None,
     ud_submitted_at = None, ud_confirmed_at = None, ud_on_chain_verified = None, ud_on_chain_verified_at = None,
     ud_approved_by = None, ud_approved_at = None, ud_rejected_by = None, ud_rejected_at = None\<rparr>"

definition set_columns :: "timestamp \<Rightarrow> update_trigger_data \<Rightarrow> trigger \<Rightarrow> trigger" where
  "set_columns now u r = r\<lparr>tg_status := column (ud_status u) (tg_status r),
     tg_attempt_count := column (ud_attempt_count u) (tg_attempt_count r), tg_tx_hash := nullable (ud_tx_hash u) (tg_tx_hash r),
     tg_block_number := nullable (ud_block_number u) (tg_block_number r),
     tg_confirmation_stage := nullable (ud_confirmation_stage u) (tg_confirmation_stage r),
     tg_confirmation_stage_at := nullable (ud_confirmation_stage_at u) (tg_confirmation_stage_at r),
     tg_indexer_confirmed := column (ud_indexer_confirmed u) (tg_indexer_confirmed r),
     tg_indexer_confirmed_at := nullable (ud_indexer_confirmed_at u) (tg_indexer_confirmed_at r),
     tg_indexer_event_id := nullable (ud_indexer_event_id u) (tg_indexer_event_id r),
     tg_last_error := nullable (ud_last_error u) (tg_last_error r), tg_error_type := nullable (ud_error_type u) (tg_error_type r),
     tg_on_chain_verified := column (ud_on_chain_verified u) (tg_on_chain_verified r),
     tg_on_chain_verified_at := nullable (ud_on_chain_verified_at u) (tg_on_chain_verified_at r),
     tg_submitted_at := nullable (ud_submitted_at u) (tg_submitted_at r),
     tg_confirmed_at := nullable (ud_confirmed_at u) (tg_confirmed_at r), tg_updated_at := now,
     tg_approved_by := nullable (ud_approved_by u) (tg_approved_by r), tg_approved_at := nullable (ud_approved_at u) (tg_approved_at r),
     tg_rejected_by := nullable (ud_rejected_by u) (tg_rejected_by r), tg_rejected_at := nullable (ud_rejected_at u) (tg_rejected_at r)\<rparr>"

definition with_key :: "string \<Rightarrow> trigger \<Rightarrow> bool" where
  "with_key k r = (tg_idempotency_key r = k)"

definition latest_by_action :: "string \<Rightarrow> oracle_db \<Rightarrow> trigger option" where
  "latest_by_action actionKey db =
    (case sort_desc tg_created_at (filter (\<lambda>r. tg_action_key r = actionKey) (od_rows db)) of [] \<Rightarrow> None | r # _ \<Rightarrow> Some r)"

definition by_status :: "trigger_status \<Rightarrow> nat \<Rightarrow> oracle_db \<Rightarrow> trigger list" where
  "by_status status limit db = take limit (sort_key tg_created_at (filter (\<lambda>r. tg_status r = status) (od_rows db)))"

definition listed :: "trigger_status option \<Rightarrow> string option \<Rightarrow> int option \<Rightarrow> oracle_db \<Rightarrow> trigger list" where
  "listed status tradeId limit db =
    take (nat (min (max (case limit of Some n \<Rightarrow> n | None \<Rightarrow> 100) 1) 200))
      (sort_desc (\<lambda>r. (tg_updated_at r, tg_created_at r))
        (filter (\<lambda>r. (case status of None \<Rightarrow> True | Some s \<Rightarrow> tg_status r = s) \<and>
           (truthy tradeId \<longrightarrow> Some (tg_trade_id r) = tradeId)) (od_rows db)))"

text \<open>
  The two parts of the nonce statement run on one snapshot and PostgreSQL leaves their order open:
  \<open>pruned_first\<close> tells whether expired nonces are gone when the insertion looks for a conflict.
\<close>

definition consume_nonce :: "bool \<Rightarrow> timestamp \<Rightarrow> string \<Rightarrow> string \<Rightarrow> int \<Rightarrow> oracle_db \<Rightarrow> bool \<times> oracle_db" where
  "consume_nonce pruned_first now apiKey nonce ttlSeconds db =
    (let kept = filter (\<lambda>h. \<not> hn_expires_at h \<le> now) (od_nonces db);
         seen = (if pruned_first then kept else od_nonces db);
         accepted = \<not> list_ex (\<lambda>h. hn_api_key h = apiKey \<and> hn_nonce h = nonce) seen;
         fresh = \<lparr>hn_api_key = apiKey, hn_nonce = nonce, hn_expires_at = now + ttlSeconds * 1000\<rparr>
     in (accepted, db\<lparr>od_nonces := kept @ (if accepted then [fresh] else [])\<rparr>))"

definition unresolved_dispatch :: "string \<Rightarrow> oracle_db \<Rightarrow> trigger option" where
  "unresolved_dispatch signerScope db =
    (case sort_key (\<lambda>r. (the (tg_dispatch_started_at r), tg_id r))
       (filter (\<lambda>r. unresolved r \<and> (tg_dispatch_signer_scope r = Some signerScope \<or> tg_dispatch_signer_scope r = None))
         (od_rows db)) of
       [] \<Rightarrow> None | r # _ \<Rightarrow> Some r)"

definition signer_scope_text :: "string \<Rightarrow> bool" where
  "signer_scope_text s = (case split_on (CHR '':'') s of [c, a] \<Rightarrow> positive_text c \<and> lower_hex_text 40 a | _ \<Rightarrow> False)"

definition claimable :: "string \<Rightarrow> string \<Rightarrow> oracle_db \<Rightarrow> trigger \<Rightarrow> bool" where
  "claimable key signerScope db r =
    (tg_idempotency_key r = key \<and> \<not> dispatched r \<and> tg_funded_binding r \<noteq> None \<and>
     arrow_text (tg_funded_binding r) ''chainId'' = Some (scope_chain signerScope) \<and>
     tg_status r \<in> {PENDING, EXECUTING, FAILED, PENDING_APPROVAL} \<and>
     \<not> list_ex (\<lambda>q. unresolved q \<and> (tg_dispatch_signer_scope q = Some signerScope \<or> tg_dispatch_signer_scope q = None))
       (od_rows db))"

section \<open>Programs against the store\<close>

record oracle_notice =
  no_type :: string
  no_dedupKey :: string
  no_message :: string
  no_tradeId :: string
  no_txHash :: "string option"
  no_attempt :: "nat option"

text \<open>
  The state a call reads and changes: the database, the number of external answers used so far, the
  escrow calls handed to the signer (each with the trigger it executes), the notifications, the
  waits between attempts, and the two local variables of the running execution.
\<close>

record oracle_state =
  os_db :: oracle_db
  os_tick :: nat
  os_sends :: "(string \<times> escrow_call) list"
  os_notices :: "oracle_notice list"
  os_waits :: "int list"
  os_dispatchClaimed :: bool
  os_observedHash :: "string option"

type_synonym 'a action = "(oracle_state, failure, 'a) prog"

record db_env =
  ov_clock :: "nat \<Rightarrow> timestamp"
  ov_others :: "nat \<Rightarrow> oracle_db \<Rightarrow> oracle_db"
  ov_fault :: "nat \<Rightarrow> (failure \<times> bool) option"
  ov_dateParse :: "string \<Rightarrow> timestamp option"

definition answer :: "(nat \<Rightarrow> failure + 'a) \<Rightarrow> 'a action" where
  "answer f s = (f (os_tick s), s\<lparr>os_tick := Suc (os_tick s)\<rparr>)"

definition clock :: "'x db_env_scheme \<Rightarrow> timestamp action" where
  "clock ev = answer (\<lambda>n. Inr (ov_clock ev n))"

definition statement :: "'x db_env_scheme \<Rightarrow> (timestamp \<Rightarrow> oracle_db \<Rightarrow> failure + 'a \<times> oracle_db) \<Rightarrow> 'a action" where
  "statement ev q s =
    (let n = os_tick s; db = ov_others ev n (os_db s); s' = s\<lparr>os_tick := Suc n, os_db := db\<rparr> in
     case (ov_fault ev n, q (ov_clock ev n) db) of
       (Some (e, False), _) \<Rightarrow> (Inl e, s')
     | (_, Inl e) \<Rightarrow> (Inl e, s')
     | (Some (e, True), Inr (_, db')) \<Rightarrow> (Inl e, s'\<lparr>os_db := db'\<rparr>)
     | (None, Inr (x, db')) \<Rightarrow> (Inr x, s'\<lparr>os_db := db'\<rparr>))"

definition select :: "'x db_env_scheme \<Rightarrow> (oracle_db \<Rightarrow> 'a) \<Rightarrow> 'a action" where
  "select ev q = statement ev (\<lambda>_ db. Inr (q db, db))"

definition getTriggerByIdempotencyKey :: "'x db_env_scheme \<Rightarrow> string \<Rightarrow> trigger option action" where
  "getTriggerByIdempotencyKey ev k = select ev (\<lambda>db. find (with_key k) (od_rows db))"

definition getLatestTriggerByActionKey :: "'x db_env_scheme \<Rightarrow> string \<Rightarrow> trigger option action" where
  "getLatestTriggerByActionKey ev actionKey = select ev (latest_by_action actionKey)"

definition getTriggersByStatus :: "'x db_env_scheme \<Rightarrow> trigger_status \<Rightarrow> nat \<Rightarrow> trigger list action" where
  "getTriggersByStatus ev status limit = select ev (by_status status limit)"

definition listTriggers :: "'x db_env_scheme \<Rightarrow> trigger_status option \<Rightarrow> string option \<Rightarrow> int option \<Rightarrow> trigger list action" where
  "listTriggers ev status tradeId limit = select ev (listed status tradeId limit)"

definition consumeHmacNonce :: "'x db_env_scheme \<Rightarrow> bool \<Rightarrow> string \<Rightarrow> string \<Rightarrow> int \<Rightarrow> bool action" where
  "consumeHmacNonce ev pruned_first apiKey nonce ttlSeconds =
    statement ev (\<lambda>now db. Inr (consume_nonce pruned_first now apiKey nonce ttlSeconds db))"

fun failure_code :: "failure \<Rightarrow> string option" where
  "failure_code (Oracle_failure _) = None"
| "failure_code (Raw_failure _ code) = code"

definition createTrigger :: "'x db_env_scheme \<Rightarrow> create_trigger_data \<Rightarrow> trigger action" where
  "createTrigger ev d =
    catch (statement ev (\<lambda>now. insertTrigger now d)) (\<lambda>e.
      if failure_code e = Some ''23505'' then
        bind (getLatestTriggerByActionKey ev (ct_actionKey d)) (\<lambda>existing.
          case existing of Some t \<Rightarrow> ret t | None \<Rightarrow> throw e)
      else throw e)"

definition updateTrigger :: "'x db_env_scheme \<Rightarrow> string \<Rightarrow> update_trigger_data \<Rightarrow> unit action" where
  "updateTrigger ev k u =
    (if u = no_update then ret ()
     else bind (statement ev (\<lambda>now. update_where (with_key k) (set_columns now u))) (\<lambda>_. ret ()))"

definition approveTrigger :: "'x db_env_scheme \<Rightarrow> string \<Rightarrow> string \<Rightarrow> trigger option action" where
  "approveTrigger ev k actor =
    bind (statement ev (\<lambda>now. update_where (\<lambda>r. with_key k r \<and> tg_status r = PENDING_APPROVAL)
      (\<lambda>r. r\<lparr>tg_status := PENDING, tg_approved_by := Some actor, tg_approved_at := Some now, tg_updated_at := now\<rparr>)))
    (\<lambda>rows. ret (case rows of [] \<Rightarrow> None | r # _ \<Rightarrow> Some r))"

definition rejectTrigger :: "'x db_env_scheme \<Rightarrow> string \<Rightarrow> string \<Rightarrow> string option \<Rightarrow> trigger option action" where
  "rejectTrigger ev k actor reason =
    bind (statement ev (\<lambda>now. update_where (\<lambda>r. with_key k r \<and> tg_status r = PENDING_APPROVAL)
      (\<lambda>r. r\<lparr>tg_status := REJECTED, tg_rejected_by := Some actor, tg_rejected_at := Some now,
             tg_rejection_reason := reason, tg_updated_at := now\<rparr>)))
    (\<lambda>rows. ret (case rows of [] \<Rightarrow> None | r # _ \<Rightarrow> Some r))"

definition getUnresolvedSignerDispatch :: "'x db_env_scheme \<Rightarrow> string \<Rightarrow> trigger option action" where
  "getUnresolvedSignerDispatch ev signerScope = select ev (unresolved_dispatch signerScope)"

definition claimTriggerDispatch :: "'x db_env_scheme \<Rightarrow> string \<Rightarrow> string \<Rightarrow> bool action" where
  "claimTriggerDispatch ev k signerScope =
    (if \<not> signer_scope_text signerScope then throw (Error ''Invalid Oracle signer scope'')
     else bind (statement ev (\<lambda>now db. update_where (claimable k signerScope db)
         (\<lambda>r. r\<lparr>tg_dispatch_started_at := Some now, tg_dispatch_signer_scope := Some signerScope,
                tg_status := EXECUTING, tg_updated_at := now\<rparr>) db))
       (\<lambda>rows. ret (length rows = 1)))"

definition fresh_evidence :: "timestamp option \<Rightarrow> timestamp \<Rightarrow> timestamp \<Rightarrow> dispatch_finality \<Rightarrow> bool" where
  "fresh_evidence verifiedAt now1 now2 e =
    (df_policy e = ''oracle_dispatch_nonce_finality_v1'' \<and>
     (case verifiedAt of None \<Rightarrow> False | Some v \<Rightarrow> v \<le> now1 \<and> now2 - v \<le> 10000) \<and>
     isSafeInteger (df_blockNumber e) \<and> 0 \<le> df_blockNumber e \<and> lower_hex_text 64 (df_blockHash e) \<and>
     lower_hex_text 64 (df_transactionHash e) \<and> (df_receiptStatus e = 0 \<or> df_receiptStatus e = 1) \<and>
     length (df_witnessIds e) = 2 \<and> list_all (bare_hex_text 64) (df_witnessIds e) \<and>
     df_witnessIds e ! 0 \<noteq> df_witnessIds e ! 1)"

definition same_dispatch :: "string \<Rightarrow> dispatch_finality \<Rightarrow> trigger \<Rightarrow> bool" where
  "same_dispatch k e r = (with_key k r \<and> tg_dispatch_signer_scope r = Some (df_signerScope e) \<and>
     tg_tx_hash r = Some (df_transactionHash e))"

definition same_evidence :: "dispatch_finality \<Rightarrow> dispatch_finality \<Rightarrow> bool" where
  "same_evidence a b = (df_policy a = df_policy b \<and> df_signerScope a = df_signerScope b \<and>
     df_transactionHash a = df_transactionHash b \<and> df_blockNumber a = df_blockNumber b \<and>
     df_blockHash a = df_blockHash b \<and> df_receiptStatus a = df_receiptStatus b)"

definition resolveSignerDispatch :: "'x db_env_scheme \<Rightarrow> string \<Rightarrow> dispatch_finality \<Rightarrow> unit action" where
  "resolveSignerDispatch ev k e =
    bind (clock ev) (\<lambda>now1. bind (clock ev) (\<lambda>now2.
    if \<not> fresh_evidence (ov_dateParse ev (df_verifiedAt e)) now1 now2 e
    then throw (Error ''Fresh independent original dispatch evidence is required'')
    else bind (statement ev (\<lambda>now. update_where (\<lambda>r. same_dispatch k e r \<and> unresolved r)
        (\<lambda>r. r\<lparr>tg_dispatch_finality_evidence := Some e, tg_updated_at := now\<rparr>))) (\<lambda>rows.
      if length rows = 1 then ret ()
      else bind (select ev (\<lambda>db. find (same_dispatch k e) (od_rows db))) (\<lambda>existing.
        case Option.bind existing tg_dispatch_finality_evidence of
          Some retained \<Rightarrow> if same_evidence retained e then ret ()
            else throw (Error ''Original Oracle dispatch evidence changed'')
        | None \<Rightarrow> throw (Error ''Original Oracle dispatch evidence changed'')))))"

end
