(* ===== verification/Oracle_Execution.thy ===== *)
theory Oracle_Execution
  imports Oracle_Store
begin

text \<open>
  How the oracle carries out one trigger: the chain client (\<open>oracle/src/blockchain/sdk-client.ts\<close>
  over \<open>sdk/src/modules/oracleSDK.ts\<close>), the containment guard (\<open>core/containment-guard.ts\<close>), the
  escrow call of each trigger type (\<open>core/blockchain-actions.ts\<close>) and the retry loop
  (\<open>core/trigger-execution.ts\<close>). What the chain, the signer, the RPC witnesses, the reconciliation
  database, the indexer and the notifier answer is part of the environment: the \<open>n\<close>-th external
  question of a run gets the answer at \<open>n\<close>. Handing a call to the signer is logged in \<open>os_sends\<close>
  whether or not the signer accepts it.
\<close>

section \<open>Environment and configuration\<close>

text \<open>A trade as the contract returns it; times are in seconds, zero when unset.\<close>

record contract_trade =
  ch_tradeId :: nat
  ch_buyerAddress :: string
  ch_supplierAddress :: string
  ch_status :: trade_status
  ch_totalAmountLocked :: nat
  ch_logisticsAmount :: nat
  ch_platformFeesAmount :: nat
  ch_supplierFirstTranche :: nat
  ch_supplierSecondTranche :: nat
  ch_ricardianHash :: string
  ch_createdAt :: int
  ch_arrivalTimestamp :: int

record containment =
  cn_trade_id :: string
  cn_incident_reference :: string
  cn_state :: string

record indexer_event =
  ie_id :: string
  ie_tradeId :: string
  ie_eventName :: string
  ie_txHash :: string
  ie_blockNumber :: int

record oracle_env = db_env +
  ov_getAddress :: "string \<Rightarrow> string option"
  ov_parseLog :: decoder
  ov_encode :: "escrow_call \<Rightarrow> string"
  ov_keccak256 :: "string \<Rightarrow> string"
  ov_chainTrade :: "nat \<Rightarrow> string \<Rightarrow> failure + contract_trade"
  ov_tradePaused :: "nat \<Rightarrow> string \<Rightarrow> failure + bool"
  ov_signerNetwork :: "nat \<Rightarrow> failure + nat option"
  ov_signerAddress :: "nat \<Rightarrow> failure + string"
  ov_oracleAddress :: "nat \<Rightarrow> failure + string"
  ov_dispatchWitnesses :: "nat \<Rightarrow> witness list"
  ov_fundingWitnesses :: "nat \<Rightarrow> provider list"
  ov_late :: "nat \<Rightarrow> bool"
  ov_broadcast :: "nat \<Rightarrow> escrow_call \<Rightarrow> failure + string"
  ov_wait :: "nat \<Rightarrow> string \<Rightarrow> failure + (string \<times> int) option"
  ov_containments :: "nat \<Rightarrow> failure + containment list"
  ov_indexer :: "nat \<Rightarrow> string \<Rightarrow> string \<Rightarrow> failure + indexer_event list"
  ov_notify :: "nat \<Rightarrow> failure + unit"
  ov_random :: "nat \<Rightarrow> rat"
  ov_randomHex :: "nat \<Rightarrow> string"

record oracle_config =
  oc_deployment :: deployment
  oc_maxAttempts :: nat
  oc_baseDelayMs :: int
  oc_notifier :: bool
  oc_manualApprovalEnabled :: bool
  oc_cotselEnvironment :: string
  oc_reconciliationDbName :: "string option"
  oc_reconciliationDbUser :: "string option"
  oc_reconciliationDbPassword :: "string option"

section \<open>The chain client\<close>

definition sdk_error :: "string \<Rightarrow> 'a action \<Rightarrow> 'a action" where
  "sdk_error pfx m = catch m (\<lambda>e. throw (Raw_failure (pfx @ getErrorMessage e) (Some ''CONTRACT_ERROR'')))"

definition decoded_trade :: "contract_trade \<Rightarrow> trade" where
  "decoded_trade c = \<lparr>tr_tradeId = show_nat (ch_tradeId c), tr_buyer = ch_buyerAddress c, tr_supplier = ch_supplierAddress c,
     tr_status = ch_status c, tr_totalAmountLocked = ch_totalAmountLocked c, tr_logisticsAmount = ch_logisticsAmount c,
     tr_platformFeesAmount = ch_platformFeesAmount c, tr_supplierFirstTranche = ch_supplierFirstTranche c,
     tr_supplierSecondTranche = ch_supplierSecondTranche c, tr_ricardianHash = ch_ricardianHash c,
     tr_createdAt = ch_createdAt c * 1000,
     tr_arrivalTimestamp = (if 0 < ch_arrivalTimestamp c then Some (ch_arrivalTimestamp c * 1000) else None)\<rparr>"

definition sdk_getTrade :: "oracle_env \<Rightarrow> string \<Rightarrow> trade action" where
  "sdk_getTrade ev tradeId = sdk_error ''Failed to get trade: ''
    (bind (answer (\<lambda>n. ov_chainTrade ev n tradeId)) (\<lambda>c. ret (decoded_trade c)))"

definition getTrade :: "oracle_env \<Rightarrow> string \<Rightarrow> trade action" where
  "getTrade ev tradeId = bind (sdk_getTrade ev tradeId) (\<lambda>tr.
    if tr_tradeId tr = ''0'' \<or> tr_buyer tr = ''0x'' @ replicate 40 (CHR ''0'')
    then throw (invalid (''Trade '' @ tradeId @ '' does not exist on-chain''))
    else ret tr)"

definition isTradePaused :: "oracle_env \<Rightarrow> string \<Rightarrow> bool action" where
  "isTradePaused ev tradeId = sdk_error ''Failed to check tradePaused state: '' (answer (\<lambda>n. ov_tradePaused ev n tradeId))"

definition plain_error :: "string + 'a \<Rightarrow> failure + 'a" where
  "plain_error r = (case r of Inl msg \<Rightarrow> Inl (Error msg) | Inr x \<Rightarrow> Inr x)"

definition assertFundedBinding :: "oracle_env \<Rightarrow> oracle_config \<Rightarrow> binding_row \<Rightarrow> unit action" where
  "assertFundedBinding ev cfg v =
    bind (lift (plain_error (parseSettlementFundedBinding (ov_getAddress ev) (Some (binding_json v))))) (\<lambda>b.
    bind (answer (\<lambda>n. verifyFundedSettlementBinding (ov_getAddress ev) (ov_parseLog ev) (ov_keccak256 ev) (ov_late ev n)
        (oc_deployment cfg) (ov_fundingWitnesses ev n) b)) (\<lambda>_.
    bind (getTrade ev (fld b ''tradeId'')) (\<lambda>tr.
    lift (plain_error (assertFundedTradeMatchesBinding (ov_getAddress ev) tr (Some (binding_json b)))))))"

definition getDispatchSignerScope :: "oracle_env \<Rightarrow> oracle_config \<Rightarrow> string action" where
  "getDispatchSignerScope ev cfg = bind (answer (ov_signerAddress ev)) (\<lambda>a.
    ret (show_nat (dp_chainId (oc_deployment cfg)) @ '':'' @ toLowerCase a))"

definition verifyDispatchFinality :: "oracle_env \<Rightarrow> string \<Rightarrow> string \<Rightarrow> dispatch_finality action" where
  "verifyDispatchFinality ev scope hash = answer (\<lambda>n.
    verifyOracleDispatchFinality (ov_getAddress ev) (ov_late ev n) (ov_clock ev n) (ov_dispatchWitnesses ev n) scope hash)"

definition verifyProgressionReceipt ::
  "oracle_env \<Rightarrow> oracle_config \<Rightarrow> string \<Rightarrow> string \<Rightarrow> binding_row \<Rightarrow> dispatch_finality action" where
  "verifyProgressionReceipt ev cfg scope hash b =
    bind (assertFundedBinding ev cfg b) (\<lambda>_. answer (\<lambda>n.
      verifyOracleProgressionReceipt (ov_getAddress ev) (ov_parseLog ev) (ov_encode ev) (ov_late ev n) (ov_late ev (Suc n))
        (ov_clock ev n) (ov_dispatchWitnesses ev n) scope hash b))"

definition assertSignerCompatibility :: "oracle_env \<Rightarrow> oracle_config \<Rightarrow> string \<Rightarrow> unit action" where
  "assertSignerCompatibility ev cfg label = bind (answer (ov_signerNetwork ev)) (\<lambda>network.
    case network of
      None \<Rightarrow> throw (Raw_failure (label @ '' is missing a connected provider'') (Some ''CONTRACT_ERROR''))
    | Some chainId \<Rightarrow>
        if chainId \<noteq> dp_chainId (oc_deployment cfg)
        then throw (Raw_failure (label @ '' is connected to the wrong network for this settlement target'') (Some ''CONTRACT_ERROR''))
        else ret ())"

definition verifyOracle :: "oracle_env \<Rightarrow> oracle_config \<Rightarrow> unit action" where
  "verifyOracle ev cfg =
    bind (assertSignerCompatibility ev cfg ''Oracle signer'') (\<lambda>_.
    bind (answer (ov_signerAddress ev)) (\<lambda>oracleAddress.
    bind (sdk_error ''Failed to get oracle address: '' (answer (ov_oracleAddress ev))) (\<lambda>authorizedOracle.
    if toLowerCase oracleAddress \<noteq> toLowerCase authorizedOracle
    then throw (Raw_failure ''Caller is not the authorized oracle'' (Some ''AUTHORIZATION_ERROR''))
    else ret ())))"

text \<open>The part the three escrow calls share: send, report the hash, wait for the receipt.\<close>

definition transact ::
  "oracle_env \<Rightarrow> string \<Rightarrow> escrow_call \<Rightarrow> (string \<Rightarrow> unit action) \<Rightarrow> string \<Rightarrow> (string \<times> int) action" where
  "transact ev key call onSubmitted pfx = sdk_error pfx
    (bind (modify (\<lambda>s. s\<lparr>os_sends := os_sends s @ [(key, call)]\<rparr>)) (\<lambda>_.
     bind (answer (\<lambda>n. ov_broadcast ev n call)) (\<lambda>hash.
     bind (onSubmitted hash) (\<lambda>_.
     bind (answer (\<lambda>n. ov_wait ev n hash)) (\<lambda>rcpt.
     case rcpt of
       None \<Rightarrow> throw (Raw_failure ''Transaction receipt not available'' (Some ''CONTRACT_ERROR''))
     | Some r \<Rightarrow> ret r)))))"

definition releaseFundsStage1 ::
  "oracle_env \<Rightarrow> oracle_config \<Rightarrow> string \<Rightarrow> string \<Rightarrow> (string \<Rightarrow> unit action) \<Rightarrow> (string \<times> int) action" where
  "releaseFundsStage1 ev cfg key tradeId onSubmitted =
    bind (verifyOracle ev cfg) (\<lambda>_.
      transact ev key (Release_stage_1 tradeId) onSubmitted ''Failed to release stage 1 funds: '')"

definition confirmInspectionAvailable ::
  "oracle_env \<Rightarrow> oracle_config \<Rightarrow> string \<Rightarrow> string \<Rightarrow> nat \<Rightarrow> (string \<Rightarrow> unit action) \<Rightarrow> (string \<times> int) action" where
  "confirmInspectionAvailable ev cfg key tradeId windowSeconds onSubmitted =
    bind (verifyOracle ev cfg) (\<lambda>_.
      if windowSeconds \<noteq> 72 * 60 * 60 \<and> windowSeconds \<noteq> 48 * 60 * 60
      then throw (Raw_failure ''Inspection window must be the approved 48-hour or 72-hour policy'' (Some ''CONTRACT_ERROR''))
      else transact ev key (Confirm_inspection tradeId windowSeconds) onSubmitted
        ''Failed to confirm inspection availability: '')"

definition finalizeAfterDisputeWindow ::
  "oracle_env \<Rightarrow> oracle_config \<Rightarrow> string \<Rightarrow> string \<Rightarrow> (string \<Rightarrow> unit action) \<Rightarrow> (string \<times> int) action" where
  "finalizeAfterDisputeWindow ev cfg key tradeId onSubmitted =
    bind (assertSignerCompatibility ev cfg ''Signer'') (\<lambda>_.
      transact ev key (Finalize_after_window tradeId) onSubmitted ''Failed to finalize trade: '')"

definition buyer_authorization_required :: string where
  "buyer_authorization_required =
    ''Buyer authorization is required; submit inspection acceptance through the gateway user-action route''"

fun submitTriggerAction ::
  "oracle_env \<Rightarrow> oracle_config \<Rightarrow> string \<Rightarrow> trigger_type \<Rightarrow> string \<Rightarrow> (string \<Rightarrow> unit action) \<Rightarrow> (string \<times> int) action" where
  "submitTriggerAction ev cfg key RELEASE_STAGE_1 tradeId cb = releaseFundsStage1 ev cfg key tradeId cb"
| "submitTriggerAction ev cfg key CONFIRM_ARRIVAL tradeId cb = confirmInspectionAvailable ev cfg key tradeId (72 * 60 * 60) cb"
| "submitTriggerAction ev cfg key CONFIRM_INSPECTION_AVAILABLE_STANDARD tradeId cb =
     confirmInspectionAvailable ev cfg key tradeId (72 * 60 * 60) cb"
| "submitTriggerAction ev cfg key CONFIRM_INSPECTION_AVAILABLE_PACKAGED_LOCAL tradeId cb =
     confirmInspectionAvailable ev cfg key tradeId (48 * 60 * 60) cb"
| "submitTriggerAction ev cfg key FINALIZE_AFTER_INSPECTION_ACCEPTANCE tradeId cb = throw (invalid buyer_authorization_required)"
| "submitTriggerAction ev cfg key FINALIZE_TRADE tradeId cb = finalizeAfterDisputeWindow ev cfg key tradeId cb"

section \<open>The containment guard\<close>

definition isContainmentConfigured :: "oracle_config \<Rightarrow> bool" where
  "isContainmentConfigured cfg = (truthy (oc_reconciliationDbName cfg) \<and> truthy (oc_reconciliationDbUser cfg) \<and>
     truthy (oc_reconciliationDbPassword cfg))"

definition isContainmentRequired :: "oracle_config \<Rightarrow> bool" where
  "isContainmentRequired cfg = (oc_cotselEnvironment cfg = ''staging'' \<or> oc_cotselEnvironment cfg = ''production'')"

definition guard_assertMayProgress :: "oracle_env \<Rightarrow> string \<Rightarrow> unit action" where
  "guard_assertMayProgress ev tradeId =
    bind (catch (answer (ov_containments ev)) (\<lambda>_. throw (Oracle_failure (TradeContainedError tradeId None
        (''Cannot confirm trade '' @ tradeId @ '' is clear of a reconciliation containment''))))) (\<lambda>rows.
    case filter (\<lambda>c. cn_trade_id c = tradeId \<and> cn_state c \<noteq> ''RELEASED'') rows of
      [] \<Rightarrow> ret ()
    | row # _ \<Rightarrow> throw (Oracle_failure (TradeContainedError tradeId (Some (cn_incident_reference row))
        (''Trade '' @ tradeId @ '' is under reconciliation containment '' @ cn_incident_reference row @ '' ('' @ cn_state row @
         '') and must not progress until it is released''))))"

text \<open>The guard the configuration selects: without a reconciliation reader everything may progress.\<close>

definition assertMayProgress :: "oracle_env \<Rightarrow> oracle_config \<Rightarrow> string \<Rightarrow> unit action" where
  "assertMayProgress ev cfg tradeId = (if isContainmentConfigured cfg then guard_assertMayProgress ev tradeId else ret ())"

section \<open>Responses\<close>

record trigger_response =
  rs_idempotencyKey :: string
  rs_actionKey :: string
  rs_requestId :: string
  rs_status :: trigger_status
  rs_txHash :: "string option"
  rs_blockNumber :: "int option"
  rs_idempotent :: bool
  rs_message :: string
  rs_finality :: "trigger_position option"

definition response :: "trigger \<Rightarrow> string \<Rightarrow> trigger_status \<Rightarrow> string \<Rightarrow> trigger_response" where
  "response t actionKey status msg = \<lparr>rs_idempotencyKey = tg_idempotency_key t, rs_actionKey = actionKey,
     rs_requestId = tg_request_id t, rs_status = status, rs_txHash = None, rs_blockNumber = None,
     rs_idempotent = False, rs_message = msg, rs_finality = None\<rparr>"

definition or_undefined :: "string option \<Rightarrow> string option" where
  "or_undefined s = (if truthy s then s else None)"

definition block_or_undefined :: "int option \<Rightarrow> int option" where
  "block_or_undefined n = (if n = Some 0 then None else n)"

definition executed_response :: "trigger \<Rightarrow> string \<Rightarrow> string \<Rightarrow> trigger_response" where
  "executed_response t actionKey msg = (response t actionKey (tg_status t) msg)\<lparr>rs_txHash := or_undefined (tg_tx_hash t),
     rs_blockNumber := block_or_undefined (tg_block_number t), rs_idempotent := True, rs_finality := row_finality t\<rparr>"

definition handleExistingTrigger :: "trigger \<Rightarrow> string \<Rightarrow> trigger_response" where
  "handleExistingTrigger t actionKey =
    (if tg_status t = CONFIRMED \<or> tg_status t = SUBMITTED
     then executed_response t actionKey ''Trigger already executed for this request (idempotent)''
     else if tg_status t = TERMINAL_FAILURE
     then response t actionKey (tg_status t) (storedFailureMessage (tg_error_type t))
     else if tg_status t = EXHAUSTED_NEEDS_REDRIVE
     then response t actionKey (tg_status t)
       ''Trigger exhausted retries. Use re-drive endpoint to retry with on-chain verification.''
     else (response t actionKey (tg_status t) ''Trigger in progress'')\<lparr>rs_finality := row_finality t\<rparr>)"

definition notifyTerminalStatus ::
  "oracle_env \<Rightarrow> oracle_config \<Rightarrow> trigger \<Rightarrow> string \<Rightarrow> trigger_status \<Rightarrow> string \<Rightarrow> nat \<Rightarrow> unit action" where
  "notifyTerminalStatus ev cfg t actionKey status msg attempt =
    (if \<not> oc_notifier cfg then ret ()
     else bind (modify (\<lambda>s. s\<lparr>os_notices := os_notices s @ [\<lparr>
         no_type = (if status = TERMINAL_FAILURE then ''ORACLE_TRIGGER_TERMINAL_FAILURE'' else ''ORACLE_TRIGGER_EXHAUSTED_NEEDS_REDRIVE''),
         no_dedupKey = ''oracle:'' @ status_text status @ '':'' @ actionKey, no_message = msg, no_tradeId = tg_trade_id t,
         no_txHash = or_undefined (tg_tx_hash t), no_attempt = Some attempt\<rparr>]\<rparr>)) (\<lambda>_.
       answer (ov_notify ev)))"

section \<open>The retry loop\<close>

datatype attempt_result = Finished trigger_response | Again

text \<open>The checks before the claim. They end with the signer whose nonce the call would use.\<close>

definition preflight :: "oracle_env \<Rightarrow> oracle_config \<Rightarrow> trigger \<Rightarrow> nat \<Rightarrow> string action" where
  "preflight ev cfg t attempt =
    bind (getTrade ev (tg_trade_id t)) (\<lambda>tr.
    bind (lift (validateTradeState tr (tg_trigger_type t))) (\<lambda>_.
    bind (updateTrigger ev (tg_idempotency_key t) (no_update\<lparr>ud_status := Some EXECUTING, ud_attempt_count := Some attempt\<rparr>)) (\<lambda>_.
    if tg_trigger_type t = FINALIZE_AFTER_INSPECTION_ACCEPTANCE then throw (invalid buyer_authorization_required)
    else bind (lift (requireFundedBinding (ov_getAddress ev) (tg_funded_binding t) (tg_trade_id t) (tg_trigger_type t))) (\<lambda>b.
      bind (assertFundedBinding ev cfg b) (\<lambda>_.
      bind (assertMayProgress ev cfg (tg_trade_id t)) (\<lambda>_.
      getDispatchSignerScope ev cfg))))))"

text \<open>Another trigger's unresolved dispatch must be resolved by fresh evidence first.\<close>

definition release_signer :: "oracle_env \<Rightarrow> string \<Rightarrow> string \<Rightarrow> unit action" where
  "release_signer ev key signerScope =
    bind (getUnresolvedSignerDispatch ev signerScope) (\<lambda>u.
    case u of
      None \<Rightarrow> ret ()
    | Some r \<Rightarrow>
        if tg_idempotency_key r = key then ret ()
        else if \<not> truthy (tg_tx_hash r) \<or> tg_dispatch_signer_scope r \<noteq> Some signerScope
        then throw (invalid ''Oracle signer has an unresolved original dispatch; new sends are blocked'')
        else bind (verifyDispatchFinality ev signerScope (the (tg_tx_hash r))) (\<lambda>e.
          resolveSignerDispatch ev (tg_idempotency_key r) e))"

definition on_submitted :: "oracle_env \<Rightarrow> string \<Rightarrow> string \<Rightarrow> unit action" where
  "on_submitted ev key hash =
    (if \<not> hex_text 64 hash then throw (invalid ''Oracle broadcast returned an invalid transaction identity'')
     else bind (modify (\<lambda>s. s\<lparr>os_observedHash := Some (toLowerCase hash)\<rparr>)) (\<lambda>_.
       bind (clock ev) (\<lambda>now.
       updateTrigger ev key (no_update\<lparr>ud_status := Some SUBMITTED, ud_tx_hash := Some (toLowerCase hash),
         ud_submitted_at := Some now\<rparr>))))"

text \<open>Everything after a successful claim.\<close>

definition dispatch :: "oracle_env \<Rightarrow> oracle_config \<Rightarrow> trigger \<Rightarrow> string \<Rightarrow> trigger_response action" where
  "dispatch ev cfg t actionKey =
    bind (modify (\<lambda>s. s\<lparr>os_dispatchClaimed := True\<rparr>)) (\<lambda>_.
    bind (submitTriggerAction ev cfg (tg_idempotency_key t) (tg_trigger_type t) (tg_trade_id t)
      (on_submitted ev (tg_idempotency_key t))) (\<lambda>(txHash, blockNumber).
    bind (clock ev) (\<lambda>now.
    bind (updateTrigger ev (tg_idempotency_key t) (no_update\<lparr>ud_status := Some SUBMITTED, ud_tx_hash := Some txHash,
      ud_block_number := Some blockNumber, ud_submitted_at := Some now\<rparr>)) (\<lambda>_.
    ret ((response t actionKey SUBMITTED ''Transaction submitted, awaiting confirmation'')\<lparr>rs_txHash := Some txHash,
      rs_blockNumber := Some blockNumber, rs_finality := triggerFinality SUBMITTED (Some txHash) None None\<rparr>)))))"

definition attempt_once :: "oracle_env \<Rightarrow> oracle_config \<Rightarrow> trigger \<Rightarrow> string \<Rightarrow> nat \<Rightarrow> trigger_response action" where
  "attempt_once ev cfg t actionKey attempt =
    bind (preflight ev cfg t attempt) (\<lambda>signerScope.
    bind (release_signer ev (tg_idempotency_key t) signerScope) (\<lambda>_.
    bind (claimTriggerDispatch ev (tg_idempotency_key t) signerScope) (\<lambda>claimed.
    if claimed then dispatch ev cfg t actionKey
    else bind (getTriggerByIdempotencyKey ev (tg_idempotency_key t)) (\<lambda>original.
      case original of
        Some r \<Rightarrow> if dispatched r then ret (handleExistingTrigger r actionKey)
          else throw (invalid ''Oracle signer dispatch is reserved; new sends are blocked'')
      | None \<Rightarrow> throw (invalid ''Oracle signer dispatch is reserved; new sends are blocked'')))))"

text \<open>The \<open>catch\<close> block after a claim: the outcome is unknown and nothing is sent again.\<close>

definition unresolved_outcome :: "oracle_env \<Rightarrow> trigger \<Rightarrow> string \<Rightarrow> trigger_response action" where
  "unresolved_outcome ev t actionKey =
    bind (gets os_observedHash) (\<lambda>observedHash.
    let status = (if observedHash \<noteq> None then SUBMITTED else EXECUTING) in
    bind (updateTrigger ev (tg_idempotency_key t) (no_update\<lparr>ud_status := Some status,
      ud_last_error := Some ''Original dispatch outcome requires independent reconciliation. Resubmission is blocked.'',
      ud_error_type := Some NETWORK\<rparr>)) (\<lambda>_.
    bind (clock ev) (\<lambda>now.
    ret ((response t actionKey status
        ''Original dispatch outcome is unresolved; observation continues without another submission.'')\<lparr>
      rs_txHash := observedHash, rs_finality := triggerFinality status observedHash None (Some now)\<rparr>))))"

text \<open>The \<open>catch\<close> block before a claim.\<close>

definition failed_attempt ::
  "oracle_env \<Rightarrow> oracle_config \<Rightarrow> trigger \<Rightarrow> string \<Rightarrow> nat \<Rightarrow> failure \<Rightarrow> attempt_result action" where
  "failed_attempt ev cfg t actionKey attempt err =
    (let oracleError = classifyError err; msg = publicFailureMessage oracleError;
         nextStatus = determineNextStatus oracleError attempt (oc_maxAttempts cfg) in
     bind (updateTrigger ev (tg_idempotency_key t) (no_update\<lparr>ud_status := Some nextStatus, ud_attempt_count := Some attempt,
       ud_last_error := Some msg, ud_error_type := Some (oe_errorType oracleError)\<rparr>)) (\<lambda>_.
     if nextStatus = TERMINAL_FAILURE then
       bind (notifyTerminalStatus ev cfg t actionKey nextStatus msg attempt) (\<lambda>_.
         ret (Finished (response t actionKey nextStatus msg)))
     else if nextStatus = EXHAUSTED_NEEDS_REDRIVE then
       (let exhausted = ''Exhausted '' @ show_nat (oc_maxAttempts cfg) @ '' attempts: '' @ msg @ ''. Use re-drive endpoint to retry.'' in
        bind (notifyTerminalStatus ev cfg t actionKey nextStatus exhausted attempt) (\<lambda>_.
          ret (Finished (response t actionKey nextStatus exhausted))))
     else if attempt < oc_maxAttempts cfg \<and> \<not> oe_isTerminal oracleError then
       bind (answer (\<lambda>n. Inr (ov_random ev n))) (\<lambda>r.
       bind (modify (\<lambda>s. s\<lparr>os_waits := os_waits s @ [calculateBackoff r attempt (oc_baseDelayMs cfg) 30000 1000]\<rparr>)) (\<lambda>_.
       ret Again))
     else throw err))"

definition attempt_step :: "oracle_env \<Rightarrow> oracle_config \<Rightarrow> trigger \<Rightarrow> string \<Rightarrow> nat \<Rightarrow> attempt_result action" where
  "attempt_step ev cfg t actionKey attempt =
    catch (bind (attempt_once ev cfg t actionKey attempt) (\<lambda>r. ret (Finished r))) (\<lambda>err.
      bind (gets os_dispatchClaimed) (\<lambda>claimed.
      if claimed then bind (unresolved_outcome ev t actionKey) (\<lambda>r. ret (Finished r))
      else failed_attempt ev cfg t actionKey attempt err))"

function execute_from :: "oracle_env \<Rightarrow> oracle_config \<Rightarrow> trigger \<Rightarrow> string \<Rightarrow> nat \<Rightarrow> trigger_response action" where
  "execute_from ev cfg t actionKey attempt =
    (if attempt \<le> oc_maxAttempts cfg then
       bind (attempt_step ev cfg t actionKey attempt) (\<lambda>r.
         case r of Finished resp \<Rightarrow> ret resp | Again \<Rightarrow> execute_from ev cfg t actionKey (attempt + 1))
     else throw (Error (''Retry loop exited without terminal status for action '' @ actionKey @ '' after '' @
       show_nat (oc_maxAttempts cfg) @ '' attempts'')))"
  by pat_completeness auto

termination
  by (relation "measure (\<lambda>(ev, cfg, t, actionKey, attempt). Suc (oc_maxAttempts cfg) - attempt)") auto

declare execute_from.simps [simp del]

definition executeTriggerWithRetry :: "oracle_env \<Rightarrow> oracle_config \<Rightarrow> trigger \<Rightarrow> string \<Rightarrow> trigger_response action" where
  "executeTriggerWithRetry ev cfg t actionKey =
    bind (modify (\<lambda>s. s\<lparr>os_dispatchClaimed := False, os_observedHash := None\<rparr>)) (\<lambda>_. execute_from ev cfg t actionKey 1)"

end
