(* ===== verification/Oracle_Manager.thy ===== *)
theory Oracle_Manager
  imports Oracle_Execution
begin

text \<open>
  The operations of the oracle: a trigger request, a re-drive, an approval and a rejection
  (\<open>oracle/src/core/trigger-manager.ts\<close>), and the observer that confirms submitted triggers
  (\<open>worker/confirmation-worker.ts\<close> with \<open>blockchain/indexer-client.ts\<close>). The action lock
  (\<open>core/oracle-action-lock.ts\<close>) runs its work unchanged; what sessions that do not hold it may commit
  in between is \<open>ov_others\<close>. Prometheus counters and log lines are not modelled.
\<close>

section \<open>Requests\<close>

record trigger_request =
  rq_fundedBinding :: "json option"
  rq_tradeId :: string
  rq_requestId :: string
  rq_triggerType :: trigger_type
  rq_requestHash :: "string option"
  rq_isRedrive :: bool

definition isActionAlreadyCompleted :: "trigger \<Rightarrow> bool" where
  "isActionAlreadyCompleted t = (tg_status t = CONFIRMED \<or> tg_status t = SUBMITTED)"

definition assertTradeMayProgress :: "oracle_env \<Rightarrow> oracle_config \<Rightarrow> string \<Rightarrow> unit action" where
  "assertTradeMayProgress ev cfg tradeId =
    bind (isTradePaused ev tradeId) (\<lambda>paused.
    if paused then throw (invalid (''Trade '' @ tradeId @ '' is paused; oracle actions are blocked until an admin resumes it''))
    else assertMayProgress ev cfg tradeId)"

definition row_binding :: "oracle_env \<Rightarrow> trigger \<Rightarrow> failure + binding_row" where
  "row_binding ev t = requireFundedBinding (ov_getAddress ev) (tg_funded_binding t) (tg_trade_id t) (tg_trigger_type t)"

definition request_binding :: "oracle_env \<Rightarrow> trigger_request \<Rightarrow> failure + binding_row" where
  "request_binding ev rq = requireFundedBinding (ov_getAddress ev) (rq_fundedBinding rq) (rq_tradeId rq) (rq_triggerType rq)"

definition createNewTrigger :: "oracle_env \<Rightarrow> trigger_request \<Rightarrow> string \<Rightarrow> trigger action" where
  "createNewTrigger ev rq actionKey =
    bind (lift (request_binding ev rq)) (\<lambda>b.
      createTrigger ev \<lparr>ct_fundedBinding = b, ct_actionKey = actionKey, ct_requestId = rq_requestId rq,
        ct_idempotencyKey = actionKey @ '':'' @ rq_requestId rq, ct_tradeId = rq_tradeId rq,
        ct_triggerType = rq_triggerType rq, ct_requestHash = or_undefined (rq_requestHash rq), ct_status = PENDING\<rparr>)"

definition handleRedrive :: "oracle_env \<Rightarrow> oracle_config \<Rightarrow> trigger \<Rightarrow> trigger_request \<Rightarrow> trigger_response action" where
  "handleRedrive ev cfg exhausted rq =
    bind (bind (lift (row_binding ev exhausted)) (assertFundedBinding ev cfg)) (\<lambda>_.
    bind (assertTradeMayProgress ev cfg (tg_trade_id exhausted)) (\<lambda>_.
    if dispatched exhausted \<or> truthy (tg_tx_hash exhausted) \<or> tg_submitted_at exhausted \<noteq> None
    then throw (invalid ''Original execution requires independent reconciliation; re-drive cannot create another transaction'')
    else bind (getTrade ev (tg_trade_id exhausted)) (\<lambda>tr.
      bind (lift (validateTradeState tr (tg_trigger_type exhausted))) (\<lambda>_.
      bind (answer (\<lambda>n. Inr (ov_randomHex ev n))) (\<lambda>newRequestId.
      bind (answer (\<lambda>n. Inr (ov_randomHex ev n))) (\<lambda>keyId.
      bind (lift (row_binding ev exhausted)) (\<lambda>b.
      bind (createTrigger ev \<lparr>ct_fundedBinding = b, ct_actionKey = tg_action_key exhausted, ct_requestId = newRequestId,
          ct_idempotencyKey = generateIdempotencyKey (tg_action_key exhausted) keyId, ct_tradeId = tg_trade_id exhausted,
          ct_triggerType = tg_trigger_type exhausted, ct_requestHash = or_undefined (rq_requestHash rq), ct_status = PENDING\<rparr>) (\<lambda>t.
      if tg_request_id t \<noteq> newRequestId then ret (handleExistingTrigger t (tg_action_key exhausted))
      else executeTriggerWithRetry ev cfg t (tg_action_key exhausted)))))))))"

text \<open>The original binding of an action cannot be replaced by another request.\<close>

definition same_instruction :: "oracle_env \<Rightarrow> trigger_request \<Rightarrow> trigger option \<Rightarrow> unit action" where
  "same_instruction ev rq latest =
    (case (rq_fundedBinding rq, latest) of
       (Some _, Some t) \<Rightarrow>
         bind (lift (request_binding ev rq)) (\<lambda>a. bind (lift (row_binding ev t)) (\<lambda>b.
           if stringify (binding_json a) \<noteq> stringify (binding_json b)
           then throw (invalid ''The original funded progression instruction cannot be replaced'')
           else ret ()))
     | _ \<Rightarrow> ret ())"

definition pending_approval :: "oracle_env \<Rightarrow> trigger_request \<Rightarrow> string \<Rightarrow> trigger_response action" where
  "pending_approval ev rq actionKey =
    bind (createNewTrigger ev rq actionKey) (\<lambda>t.
    if tg_request_id t \<noteq> rq_requestId rq then ret (handleExistingTrigger t actionKey)
    else bind (updateTrigger ev (tg_idempotency_key t) (no_update\<lparr>ud_status := Some PENDING_APPROVAL\<rparr>)) (\<lambda>_.
      ret (response t actionKey PENDING_APPROVAL ''Trigger created and awaiting manual approval'')))"

text \<open>The \<open>try\<close> block of a new request, and its \<open>catch\<close>.\<close>

definition new_request :: "oracle_env \<Rightarrow> oracle_config \<Rightarrow> trigger_request \<Rightarrow> string \<Rightarrow> trigger_response action" where
  "new_request ev cfg rq actionKey =
    bind (getTrade ev (rq_tradeId rq)) (\<lambda>tr.
    bind (lift (validateTradeState tr (rq_triggerType rq))) (\<lambda>_.
    bind (assertTradeMayProgress ev cfg (rq_tradeId rq)) (\<lambda>_.
    if oc_manualApprovalEnabled cfg \<and> \<not> rq_isRedrive rq then pending_approval ev rq actionKey
    else bind (createNewTrigger ev rq actionKey) (\<lambda>t.
      if tg_request_id t \<noteq> rq_requestId rq then ret (handleExistingTrigger t actionKey)
      else executeTriggerWithRetry ev cfg t actionKey))))"

definition refused_on_chain :: "failure \<Rightarrow> bool" where
  "refused_on_chain e = (failure_code e = Some ''CALL_EXCEPTION'' \<or> str_includes (getErrorMessage e) ''trade not found'' \<or>
     str_includes (getErrorMessage e) ''execution reverted'')"

definition executeTriggerWithActionLock ::
  "oracle_env \<Rightarrow> oracle_config \<Rightarrow> trigger_request \<Rightarrow> string \<Rightarrow> trigger_response action" where
  "executeTriggerWithActionLock ev cfg rq actionKey =
    bind (getLatestTriggerByActionKey ev actionKey) (\<lambda>latest.
    bind (same_instruction ev rq latest) (\<lambda>_.
    let proceed =
      bind (getTriggerByIdempotencyKey ev (actionKey @ '':'' @ rq_requestId rq)) (\<lambda>existing.
      case existing of
        Some t \<Rightarrow> ret (handleExistingTrigger t actionKey)
      | None \<Rightarrow>
          bind (bind (lift (request_binding ev rq)) (assertFundedBinding ev cfg)) (\<lambda>_.
          catch (new_request ev cfg rq actionKey) (\<lambda>e.
            if refused_on_chain e then throw (invalid (''Trade '' @ rq_tradeId rq @ '' does not exist on-chain''))
            else throw e)))
    in case latest of
      None \<Rightarrow> proceed
    | Some t \<Rightarrow>
        if dispatched t \<and> \<not> isActionAlreadyCompleted t then ret (handleExistingTrigger t actionKey)
        else if isActionAlreadyCompleted t then ret (executed_response t actionKey ''Action already completed (idempotent)'')
        else if rq_isRedrive rq \<and> tg_status t = EXHAUSTED_NEEDS_REDRIVE then handleRedrive ev cfg t rq
        else proceed))"

definition executeTrigger :: "oracle_env \<Rightarrow> oracle_config \<Rightarrow> trigger_request \<Rightarrow> trigger_response action" where
  "executeTrigger ev cfg rq =
    bind (lift (validateTradeId (rq_tradeId rq))) (\<lambda>_.
      executeTriggerWithActionLock ev cfg rq (generateActionKey (type_text (rq_triggerType rq)) (rq_tradeId rq)))"

section \<open>Manual approval\<close>

definition buildResponseFromTrigger :: "trigger \<Rightarrow> string \<Rightarrow> trigger_response" where
  "buildResponseFromTrigger t msg = (response t (tg_action_key t) (tg_status t) msg)\<lparr>rs_txHash := tg_tx_hash t,
     rs_blockNumber := block_or_undefined (tg_block_number t), rs_idempotent := isActionAlreadyCompleted t,
     rs_finality := row_finality t\<rparr>"

definition already_processed :: "oracle_env \<Rightarrow> string \<Rightarrow> trigger_response action" where
  "already_processed ev key =
    bind (getTriggerByIdempotencyKey ev key) (\<lambda>existing.
    case existing of
      None \<Rightarrow> throw (invalid (''Trigger not found: '' @ key))
    | Some t \<Rightarrow> ret (buildResponseFromTrigger t ''Trigger already processed''))"

definition resumeAfterApproval :: "oracle_env \<Rightarrow> oracle_config \<Rightarrow> string \<Rightarrow> string \<Rightarrow> trigger_response action" where
  "resumeAfterApproval ev cfg key actor =
    bind (approveTrigger ev key actor) (\<lambda>updated.
    case updated of
      None \<Rightarrow> already_processed ev key
    | Some t \<Rightarrow>
        bind (getTriggerByIdempotencyKey ev key) (\<lambda>current.
        let resume = bind (assertTradeMayProgress ev cfg (tg_trade_id t)) (\<lambda>_.
          executeTriggerWithRetry ev cfg t (tg_action_key t))
        in case current of
          None \<Rightarrow> resume
        | Some c \<Rightarrow> if isActionAlreadyCompleted c then ret (handleExistingTrigger c (tg_action_key c)) else resume))"

definition rejectPendingTrigger :: "oracle_env \<Rightarrow> string \<Rightarrow> string \<Rightarrow> string option \<Rightarrow> trigger_response action" where
  "rejectPendingTrigger ev key actor reason =
    bind (rejectTrigger ev key actor reason) (\<lambda>updated.
    case updated of
      None \<Rightarrow> already_processed ev key
    | Some t \<Rightarrow> ret (buildResponseFromTrigger t (''Trigger rejected by '' @ actor)))"

section \<open>Confirmation\<close>

definition findConfirmationEvent :: "oracle_env \<Rightarrow> string \<Rightarrow> string \<Rightarrow> string \<Rightarrow> indexer_event option action" where
  "findConfirmationEvent ev txHash tradeId expectedEventName =
    catch (bind (answer (\<lambda>n. ov_indexer ev n txHash expectedEventName)) (\<lambda>events.
      ret (case events of
        [] \<Rightarrow> None
      | e # _ \<Rightarrow>
          if ie_tradeId e \<noteq> tradeId \<or> ie_eventName e \<noteq> expectedEventName \<or> toLowerCase (ie_txHash e) \<noteq> toLowerCase txHash
          then None else Some e))) (\<lambda>_. ret None)"

definition CONFIRMATION_TIMEOUT_MS :: int where
  "CONFIRMATION_TIMEOUT_MS = 30 * 60 * 1000"

definition expected_event :: "binding_row \<Rightarrow> string" where
  "expected_event b =
    (if fld b ''phase'' = ''initial_release_after_custody_and_documents'' then ''FundsReleasedStage1''
     else if startsWith (fld b ''phase'') ''inspection_available_'' then ''InspectionAvailable''
     else ''FinalTrancheReleased'')"

definition confirm_with ::
  "oracle_env \<Rightarrow> oracle_config \<Rightarrow> trigger \<Rightarrow> string \<Rightarrow> string \<Rightarrow> unit action" where
  "confirm_with ev cfg t txHash scope =
    bind (lift (row_binding ev t)) (\<lambda>b.
    bind (verifyProgressionReceipt ev cfg scope txHash b) (\<lambda>evi.
    bind (findConfirmationEvent ev txHash (tg_trade_id t) (expected_event b)) (\<lambda>found.
    case found of
      None \<Rightarrow> ret ()
    | Some e \<Rightarrow>
        if toLowerCase (ie_txHash e) \<noteq> toLowerCase txHash \<or> ie_tradeId e \<noteq> tg_trade_id t \<or>
           ie_blockNumber e \<noteq> df_blockNumber evi \<or> ie_eventName e \<noteq> expected_event b
        then ret ()
        else
          bind (resolveSignerDispatch ev (tg_idempotency_key t) evi) (\<lambda>_.
          bind (clock ev) (\<lambda>now1. bind (clock ev) (\<lambda>now2. bind (clock ev) (\<lambda>now3. bind (clock ev) (\<lambda>now4.
          updateTrigger ev (tg_idempotency_key t) (no_update\<lparr>ud_status := Some CONFIRMED,
            ud_block_number := Some (df_blockNumber evi), ud_confirmation_stage := Some FINALIZED,
            ud_confirmation_stage_at := Some now1, ud_indexer_confirmed := Some True, ud_indexer_confirmed_at := Some now2,
            ud_indexer_event_id := Some (ie_id e), ud_on_chain_verified := Some True, ud_on_chain_verified_at := Some now3,
            ud_confirmed_at := Some now4\<rparr>)))))))))"

definition unconfirmed :: "oracle_env \<Rightarrow> oracle_config \<Rightarrow> trigger \<Rightarrow> unit action" where
  "unconfirmed ev cfg t =
    (case tg_submitted_at t of
       None \<Rightarrow> ret ()
     | Some submitted \<Rightarrow>
         bind (clock ev) (\<lambda>now.
         if now - submitted > CONFIRMATION_TIMEOUT_MS \<and> oc_notifier cfg then
           catch (bind (modify (\<lambda>s. s\<lparr>os_notices := os_notices s @ [\<lparr>no_type = ''ORACLE_CONFIRMATION_TIMEOUT'',
               no_dedupKey = ''oracle:confirmation-timeout:'' @ tg_action_key t,
               no_message = ''Original Oracle transaction remains unresolved. New sends stay blocked.'',
               no_tradeId = tg_trade_id t, no_txHash = tg_tx_hash t, no_attempt = None\<rparr>]\<rparr>)) (\<lambda>_. answer (ov_notify ev)))
             (\<lambda>_. ret ())
         else ret ()))"

definition checkConfirmation :: "oracle_env \<Rightarrow> oracle_config \<Rightarrow> trigger \<Rightarrow> unit action" where
  "checkConfirmation ev cfg t =
    catch
      (if \<not> truthy (tg_tx_hash t) \<or> tg_submitted_at t = None \<or> \<not> truthy (tg_dispatch_signer_scope t) \<or> \<not> dispatched t
       then ret ()
       else confirm_with ev cfg t (the (tg_tx_hash t)) (the (tg_dispatch_signer_scope t)))
      (\<lambda>_. unconfirmed ev cfg t)"

definition pollConfirmations :: "oracle_env \<Rightarrow> oracle_config \<Rightarrow> unit action" where
  "pollConfirmations ev cfg =
    catch (bind (getTriggersByStatus ev SUBMITTED 100) (each (checkConfirmation ev cfg))) (\<lambda>_. ret ())"

section \<open>Runs of the service\<close>

datatype oracle_event =
  Request trigger_request
| Approve string string
| Reject string string "string option"
| Poll_confirmations

fun oracle_op :: "oracle_env \<Rightarrow> oracle_config \<Rightarrow> oracle_event \<Rightarrow> unit action" where
  "oracle_op ev cfg (Request rq) = bind (executeTrigger ev cfg rq) (\<lambda>_. ret ())"
| "oracle_op ev cfg (Approve key actor) = bind (resumeAfterApproval ev cfg key actor) (\<lambda>_. ret ())"
| "oracle_op ev cfg (Reject key actor reason) = bind (rejectPendingTrigger ev key actor reason) (\<lambda>_. ret ())"
| "oracle_op ev cfg Poll_confirmations = pollConfirmations ev cfg"

text \<open>An operation that throws has still changed the state.\<close>

definition oracle_step :: "oracle_env \<Rightarrow> oracle_config \<Rightarrow> oracle_event \<Rightarrow> oracle_state \<Rightarrow> failure + oracle_state" where
  "oracle_step ev cfg e s = Inr (snd (oracle_op ev cfg e s))"

end
