(* ===== verification/Oracle_Claims.thy ===== *)
theory Oracle_Claims
  imports Oracle_Manager
begin

text \<open>
  What every operation of the oracle keeps. The table never loses a row, a dispatch claim, a
  transaction hash or finality evidence (\<open>db_kept\<close>), and its unique indexes hold (\<open>db_ok\<close>). On top of
  that, \<open>service_step\<close> says that a call is handed to the signer only for a trigger whose claim was
  taken in the same operation; it is an instance of \<open>state_order\<close>, so it holds of every operation
  composed from the statements. Other sessions are assumed to change the table only through its
  guards and indexes (\<open>fair\<close>).
\<close>

section \<open>What the table keeps\<close>

definition identity_of :: "trigger \<Rightarrow> json option \<times> nat \<times> string \<times> string \<times> string \<times> string \<times> trigger_type \<times> timestamp" where
  "identity_of r = (tg_funded_binding r, tg_id r, tg_action_key r, tg_request_id r, tg_idempotency_key r, tg_trade_id r,
     tg_trigger_type r, tg_created_at r)"

definition row_kept :: "trigger \<Rightarrow> trigger \<Rightarrow> bool" where
  "row_kept r r' =
    (identity_of r' = identity_of r \<and>
     (dispatched r \<longrightarrow> tg_dispatch_started_at r' = tg_dispatch_started_at r \<and> tg_dispatch_signer_scope r' = tg_dispatch_signer_scope r) \<and>
     (tg_tx_hash r \<noteq> None \<longrightarrow> tg_tx_hash r' = tg_tx_hash r) \<and>
     (tg_dispatch_finality_evidence r \<noteq> None \<longrightarrow> tg_dispatch_finality_evidence r' = tg_dispatch_finality_evidence r))"

definition db_kept :: "oracle_db \<Rightarrow> oracle_db \<Rightarrow> bool" where
  "db_kept db db' = (\<forall>r \<in> set (od_rows db). \<exists>r' \<in> set (od_rows db'). row_kept r r')"

text \<open>
  A row is well typed when its evidence belongs to its own dispatch and the signer of a dispatch is
  on the chain of the funded binding.
\<close>

definition row_ok :: "trigger \<Rightarrow> bool" where
  "row_ok r =
    ((case tg_dispatch_finality_evidence r of None \<Rightarrow> True | Some e \<Rightarrow> dispatched r \<and> evidence_shape r e) \<and>
     (dispatched r \<longrightarrow> (case tg_dispatch_signer_scope r of None \<Rightarrow> False
        | Some scope \<Rightarrow> arrow_text (tg_funded_binding r) ''chainId'' = Some (scope_chain scope))))"

definition db_ok :: "oracle_db \<Rightarrow> bool" where
  "db_ok db = (violated_index (od_rows db) = None \<and> list_all row_ok (od_rows db))"

definition claimed :: "string \<Rightarrow> oracle_db \<Rightarrow> bool" where
  "claimed k db = list_ex (\<lambda>r. with_key k r \<and> dispatched r) (od_rows db)"

lemma row_kept_refl [simp]: "row_kept r r"
  by (simp add: row_kept_def)

lemma row_kept_trans: "row_kept a b \<Longrightarrow> row_kept b c \<Longrightarrow> row_kept a c"
  by (auto simp: row_kept_def dispatched_def)

lemma db_kept_refl [simp]: "db_kept db db"
  unfolding db_kept_def by (meson row_kept_refl)

lemma db_kept_trans: "db_kept a b \<Longrightarrow> db_kept b c \<Longrightarrow> db_kept a c"
  unfolding db_kept_def by (meson row_kept_trans)

lemma row_kept_claim: "row_kept r r' \<Longrightarrow> with_key k r \<and> dispatched r \<Longrightarrow> with_key k r' \<and> dispatched r'"
  by (auto simp: row_kept_def identity_of_def with_key_def dispatched_def)

lemma claimed_kept: "claimed k db \<Longrightarrow> db_kept db db' \<Longrightarrow> claimed k db'"
  unfolding claimed_def db_kept_def list_ex_iff by (meson row_kept_claim)

lemma db_ok_distinct:
  assumes "db_ok db"
  shows "distinct (map tg_idempotency_key (od_rows db))" and "distinct (map tg_action_key (filter dispatched (od_rows db)))"
    and "distinct (List.map_filter tg_dispatch_signer_scope (filter unresolved (od_rows db)))"
  using assms by (auto simp: db_ok_def violated_index_def split: if_splits)

lemma same_key_same_row:
  assumes "db_ok db" and "r \<in> set (od_rows db)" and "q \<in> set (od_rows db)" and "tg_idempotency_key r = tg_idempotency_key q"
  shows "r = q"
  using db_ok_distinct(1) [OF assms(1)] assms(2-) by (auto simp: distinct_map dest: inj_onD)

section \<open>Statements keep it\<close>

lemma guard_kept:
  assumes "row_guard (Some r) r' = None" and "identity_of r' = identity_of r"
  shows "row_kept r r'"
  using assms unfolding row_guard_def preserve_oracle_dispatch_claim_def protect_oracle_dispatch_resolution_def Let_def row_kept_def
  by (auto split: option.splits if_splits)

lemma guard_row_ok:
  assumes "row_guard (Some r) r' = None" and "identity_of r' = identity_of r" and "row_ok r"
  shows "row_ok r'"
proof -
  from assms(1) have g: "preserve_oracle_dispatch_claim r r' = None" "protect_oracle_dispatch_resolution (Some r) r' = None"
    by (auto simp: row_guard_def split: option.splits)
  have "tg_funded_binding r' = tg_funded_binding r" using assms(2) by (simp add: identity_of_def)
  with g assms(3) show ?thesis
    by (auto simp: row_ok_def preserve_oracle_dispatch_claim_def protect_oracle_dispatch_resolution_def Let_def dispatched_def
        split: option.splits if_splits)
qed

definition keeps :: "(timestamp \<Rightarrow> oracle_db \<Rightarrow> failure + 'a \<times> oracle_db) \<Rightarrow> bool" where
  "keeps q = (\<forall>now db x db'. q now db = Inr (x, db') \<longrightarrow> db_kept db db' \<and> (db_ok db \<longrightarrow> db_ok db'))"

lemma map_filter_Nil: "List.map_filter f xs = [] \<longleftrightarrow> (\<forall>x \<in> set xs. f x = None)"
  by (induction xs) (auto simp: List.map_filter_simps split: option.splits)

lemma update_whereD:
  assumes "update_where p f db = Inr (rows, db')"
  shows "od_rows db' = map (\<lambda>r. if p r then f r else r) (od_rows db)" and "rows = map f (filter p (od_rows db))"
    and "violated_index (od_rows db') = None" and "r \<in> set (od_rows db) \<Longrightarrow> p r \<Longrightarrow> row_guard (Some r) (f r) = None"
proof -
  from assms have g: "\<forall>r \<in> set (filter p (od_rows db)). row_guard (Some r) (f r) = None"
    unfolding update_where_def map_filter_Nil [symmetric] by (auto split: list.splits)
  from assms have w: "with_rows (map (\<lambda>r. if p r then f r else r) (od_rows db)) db = Inr db'" "rows = map f (filter p (od_rows db))"
    unfolding update_where_def by (auto elim!: rbind_InrE split: list.splits)
  show "od_rows db' = map (\<lambda>r. if p r then f r else r) (od_rows db)" "violated_index (od_rows db') = None"
    using w(1) by (auto simp: with_rows_def split: option.splits)
  show "rows = map f (filter p (od_rows db))" by (rule w(2))
  show "row_guard (Some r) (f r) = None" if "r \<in> set (od_rows db)" "p r" using g that by simp
qed

lemma update_kept:
  assumes "update_where p f db = Inr (rows, db')" and "\<And>r. identity_of (f r) = identity_of r"
  shows "db_kept db db'"
  unfolding db_kept_def
proof
  fix r assume r: "r \<in> set (od_rows db)"
  note u = update_whereD [OF assms(1)]
  have "row_kept r (if p r then f r else r)" using guard_kept [OF u(4) [OF r] assms(2)] by simp
  moreover have "(if p r then f r else r) \<in> set (od_rows db')" using r unfolding u(1) set_map by (rule imageI)
  ultimately show "\<exists>r' \<in> set (od_rows db'). row_kept r r'" by blast
qed

lemma update_ok:
  assumes "update_where p f db = Inr (rows, db')" and "\<And>r. identity_of (f r) = identity_of r" and "db_ok db"
  shows "db_ok db'"
proof -
  note u = update_whereD [OF assms(1)]
  have "row_ok (if p r then f r else r)" if "r \<in> set (od_rows db)" for r
    using guard_row_ok [OF u(4) [OF that] assms(2)] that assms(3) by (auto simp: db_ok_def list_all_iff)
  then have "list_all row_ok (od_rows db')" unfolding u(1) list_all_iff set_map by blast
  then show ?thesis using u(3) by (simp add: db_ok_def)
qed

lemma keeps_update: "(\<And>now r. identity_of (f now r) = identity_of r) \<Longrightarrow> keeps (\<lambda>now. update_where p (f now))"
  using update_kept update_ok unfolding keeps_def by blast

lemma keeps_select: "keeps (\<lambda>_ db. Inr (q db, db))"
  by (simp add: keeps_def)

lemma keeps_insert: "keeps (\<lambda>now. insertTrigger now d)"
  by (auto simp: keeps_def insertTrigger_def with_rows_def Let_def db_kept_def db_ok_def row_ok_def new_row_def dispatched_def
      elim!: rbind_InrE split: option.splits intro: row_kept_refl)

lemma keeps_nonce: "keeps (\<lambda>now db. Inr (consume_nonce pf now a n ttl db))"
  by (auto simp: keeps_def consume_nonce_def Let_def db_kept_def db_ok_def intro: row_kept_refl)

section \<open>The order every operation obeys\<close>

definition fair :: "'x db_env_scheme \<Rightarrow> bool" where
  "fair ev = (\<forall>n db. db_kept db (ov_others ev n db) \<and> (db_ok db \<longrightarrow> db_ok (ov_others ev n db)))"

text \<open>\<open>new\<close> lists the calls handed to the signer between two states.\<close>

definition service_step :: "oracle_state \<Rightarrow> oracle_state \<Rightarrow> bool" where
  "service_step s t = (db_ok (os_db s) \<longrightarrow> db_ok (os_db t) \<and> db_kept (os_db s) (os_db t) \<and>
     (\<exists>new. os_sends t = os_sends s @ new \<and> distinct (map fst new) \<and>
       (\<forall>k \<in> fst ` set new. claimed k (os_db t) \<and> \<not> claimed k (os_db s))))"

definition quiet_step :: "oracle_state \<Rightarrow> oracle_state \<Rightarrow> bool" where
  "quiet_step s t = (db_kept (os_db s) (os_db t) \<and> (db_ok (os_db s) \<longrightarrow> db_ok (os_db t)) \<and>
     os_sends t = os_sends s \<and> os_dispatchClaimed t = os_dispatchClaimed s)"

lemma quiet_is_service: "quiet_step s t \<Longrightarrow> service_step s t"
  by (auto simp: quiet_step_def service_step_def)

interpretation quiet: state_order quiet_step
  by unfold_locales (auto simp: quiet_step_def intro: db_kept_trans)

interpretation service: state_order service_step
proof
  fix s t u :: oracle_state
  show "service_step s s" by (simp add: service_step_def)
  assume st: "service_step s t" and tu: "service_step t u"
  show "service_step s u"
    unfolding service_step_def
  proof
    assume "db_ok (os_db s)"
    with st obtain new1 where t: "db_ok (os_db t)" "db_kept (os_db s) (os_db t)" "os_sends t = os_sends s @ new1"
      "distinct (map fst new1)" "\<forall>k \<in> fst ` set new1. claimed k (os_db t) \<and> \<not> claimed k (os_db s)"
      unfolding service_step_def by blast
    with tu obtain new2 where u: "db_ok (os_db u)" "db_kept (os_db t) (os_db u)" "os_sends u = os_sends t @ new2"
      "distinct (map fst new2)" "\<forall>k \<in> fst ` set new2. claimed k (os_db u) \<and> \<not> claimed k (os_db t)"
      unfolding service_step_def by blast
    have "fst ` set new1 \<inter> fst ` set new2 = {}" using t(5) u(5) by blast
    then have "distinct (map fst (new1 @ new2))" using t(4) u(4) by simp
    moreover have "\<forall>k \<in> fst ` set (new1 @ new2). claimed k (os_db u) \<and> \<not> claimed k (os_db s)"
      using t(2,5) u(2,5) claimed_kept by (auto simp: image_Un)
    ultimately show "db_ok (os_db u) \<and> db_kept (os_db s) (os_db u) \<and>
       (\<exists>new. os_sends u = os_sends s @ new \<and> distinct (map fst new) \<and>
         (\<forall>k \<in> fst ` set new. claimed k (os_db u) \<and> \<not> claimed k (os_db s)))"
      using t(3) u(1,3) db_kept_trans [OF t(2) u(2)] by (intro conjI exI [of _ "new1 @ new2"]) auto
  qed
qed

section \<open>Quiet operations\<close>

lemma quiet_answer [obeys_intros]: "obeys quiet_step (answer f)"
  by (simp add: obeys_def answer_def quiet_step_def)

lemma quiet_clock [obeys_intros]: "obeys quiet_step (clock ev)"
  unfolding clock_def by (rule quiet_answer)

lemma quiet_local:
  "(\<And>s. os_db (f s) = os_db s \<and> os_sends (f s) = os_sends s \<and> os_dispatchClaimed (f s) = os_dispatchClaimed s) \<Longrightarrow>
   obeys quiet_step (modify f)"
  by (simp add: obeys_def modify_def quiet_step_def)

lemma quiet_statement:
  assumes "fair ev" and "keeps q"
  shows "obeys quiet_step (statement ev q)"
  unfolding obeys_def
proof
  fix s :: oracle_state
  let ?db = "ov_others ev (os_tick s) (os_db s)"
  have o: "db_kept (os_db s) ?db" "db_ok (os_db s) \<longrightarrow> db_ok ?db" using assms(1) by (auto simp: fair_def)
  have "db_kept ?db db' \<and> (db_ok ?db \<longrightarrow> db_ok db')" if "q (ov_clock ev (os_tick s)) ?db = Inr (x, db')" for x db'
    using assms(2) that by (auto simp: keeps_def)
  then show "quiet_step s (snd (statement ev q s))"
    using o db_kept_trans [OF o(1)] unfolding statement_def Let_def quiet_step_def
    by (auto split: option.splits sum.splits prod.splits bool.splits)
qed

lemma quiet_select [obeys_intros]: "fair ev \<Longrightarrow> obeys quiet_step (select ev q)"
  unfolding select_def by (intro quiet_statement keeps_select)

lemma quiet_update_statement [obeys_intros]:
  "fair ev \<Longrightarrow> (\<And>now r. identity_of (f now r) = identity_of r) \<Longrightarrow> obeys quiet_step (statement ev (\<lambda>now. update_where p (f now)))"
  by (intro quiet_statement keeps_update)

lemma identity_set_columns [simp]: "identity_of (set_columns now u r) = identity_of r"
  by (simp add: identity_of_def set_columns_def)

lemma quiet_updateTrigger [obeys_intros]: "fair ev \<Longrightarrow> obeys quiet_step (updateTrigger ev k u)"
  unfolding updateTrigger_def by (intro obeys_intros) simp_all

lemma quiet_queries [obeys_intros]:
  assumes "fair ev"
  shows "obeys quiet_step (getTriggerByIdempotencyKey ev k)" and "obeys quiet_step (getLatestTriggerByActionKey ev k)"
    and "obeys quiet_step (getTriggersByStatus ev st n)" and "obeys quiet_step (getUnresolvedSignerDispatch ev k)"
    and "obeys quiet_step (approveTrigger ev k actor)" and "obeys quiet_step (rejectTrigger ev k actor reason)"
    and "obeys quiet_step (resolveSignerDispatch ev k e)"
  unfolding getTriggerByIdempotencyKey_def getLatestTriggerByActionKey_def getTriggersByStatus_def
    getUnresolvedSignerDispatch_def approveTrigger_def rejectTrigger_def resolveSignerDispatch_def
  by (intro obeys_intros assms; simp add: identity_of_def)+

lemma quiet_createTrigger [obeys_intros]: "fair ev \<Longrightarrow> obeys quiet_step (createTrigger ev d)"
  unfolding createTrigger_def by (intro obeys_intros quiet_statement keeps_insert) auto

lemma quiet_sdk_error [obeys_intros]: "obeys quiet_step m \<Longrightarrow> obeys quiet_step (sdk_error pfx m)"
  unfolding sdk_error_def by (intro obeys_intros)

lemma quiet_chain [obeys_intros]:
  "obeys quiet_step (getTrade ev tradeId)" "obeys quiet_step (isTradePaused ev tradeId)"
  "obeys quiet_step (assertSignerCompatibility ev cfg label)" "obeys quiet_step (getDispatchSignerScope ev cfg)"
  "obeys quiet_step (verifyDispatchFinality ev scope hash)" "obeys quiet_step (assertMayProgress ev cfg tradeId)"
  unfolding getTrade_def sdk_getTrade_def isTradePaused_def assertSignerCompatibility_def getDispatchSignerScope_def
    verifyDispatchFinality_def assertMayProgress_def guard_assertMayProgress_def
  by (intro obeys_intros)+

lemma quiet_assertFundedBinding [obeys_intros]: "obeys quiet_step (assertFundedBinding ev cfg b)"
  unfolding assertFundedBinding_def by (intro obeys_intros)

lemma quiet_verify [obeys_intros]:
  "obeys quiet_step (verifyOracle ev cfg)" "obeys quiet_step (verifyProgressionReceipt ev cfg scope hash b)"
  "obeys quiet_step (assertTradeMayProgress ev cfg tradeId)" "obeys quiet_step (findConfirmationEvent ev h tradeId n)"
  unfolding verifyOracle_def verifyProgressionReceipt_def assertTradeMayProgress_def findConfirmationEvent_def
  by (intro obeys_intros)+

lemma quiet_notify [obeys_intros]: "obeys quiet_step (notifyTerminalStatus ev cfg t ak st msg n)"
  unfolding notifyTerminalStatus_def by (intro obeys_intros quiet_local) auto

lemma quiet_execution_parts [obeys_intros]:
  assumes "fair ev"
  shows "obeys quiet_step (preflight ev cfg t n)" and "obeys quiet_step (release_signer ev k scope)"
    and "obeys quiet_step (on_submitted ev k h)" and "obeys quiet_step (unresolved_outcome ev t ak)"
    and "obeys quiet_step (failed_attempt ev cfg t ak n err)"
  unfolding preflight_def release_signer_def on_submitted_def unresolved_outcome_def failed_attempt_def Let_def
  by (intro obeys_intros quiet_local assms; simp)+

section \<open>Claiming and sending\<close>

lemma statement_returned:
  assumes "statement ev q s = (Inr x, t)"
  shows "\<exists>db'. q (ov_clock ev (os_tick s)) (ov_others ev (os_tick s) (os_db s)) = Inr (x, db') \<and>
    t = s\<lparr>os_tick := Suc (os_tick s), os_db := db'\<rparr>"
  using assms unfolding statement_def Let_def
  by (auto split: option.splits sum.splits prod.splits bool.splits)

lemma claim_taken:
  assumes "fair ev" and "db_ok (os_db s)" and "claimTriggerDispatch ev k scope s = (Inr True, t)"
  shows "quiet_step s t" and "claimed k (os_db t)" and "\<not> claimed k (os_db s)"
proof -
  let ?db = "ov_others ev (os_tick s) (os_db s)"
  define f where "f now r = r\<lparr>tg_dispatch_started_at := Some now, tg_dispatch_signer_scope := Some scope,
    tg_status := EXECUTING, tg_updated_at := now\<rparr>" for now and r :: trigger
  from assms(3) obtain rows where rows: "length rows = 1" and
    st: "statement ev (\<lambda>now db. update_where (claimable k scope db) (f now) db) s = (Inr rows, t)"
    unfolding claimTriggerDispatch_def f_def by (auto simp: throw_def ret_def elim!: bind_InrE split: if_splits)
  from statement_returned [OF st] obtain db' where
    up: "update_where (claimable k scope ?db) (f (ov_clock ev (os_tick s))) ?db = Inr (rows, db')"
    and t: "t = s\<lparr>os_tick := Suc (os_tick s), os_db := db'\<rparr>" by blast
  note u = update_whereD [OF up]
  have o: "db_kept (os_db s) ?db" "db_ok ?db" using assms(1,2) by (auto simp: fair_def)
  have "length (filter (claimable k scope ?db) (od_rows ?db)) = 1" using rows unfolding u(2) length_map .
  then have "filter (claimable k scope ?db) (od_rows ?db) \<noteq> []" by auto
  then obtain r where r: "r \<in> set (od_rows ?db)" "claimable k scope ?db r" by (auto simp: filter_empty_conv)
  have "f (ov_clock ev (os_tick s)) r \<in> set (od_rows db')"
    using imageI [OF r(1), of "\<lambda>r. if claimable k scope ?db r then f (ov_clock ev (os_tick s)) r else r"] r(2)
    unfolding u(1) set_map by simp
  moreover have "with_key k (f (ov_clock ev (os_tick s)) r) \<and> dispatched (f (ov_clock ev (os_tick s)) r)"
    using r(2) by (simp add: f_def with_key_def dispatched_def claimable_def)
  ultimately show "claimed k (os_db t)" unfolding t claimed_def list_ex_iff by auto
  have "tg_idempotency_key r = k" "\<not> dispatched r" using r(2) by (simp_all add: claimable_def)
  then have "\<not> claimed k ?db"
    using same_key_same_row [OF o(2) r(1)] unfolding claimed_def list_ex_iff with_key_def by metis
  then show "\<not> claimed k (os_db s)" using claimed_kept o(1) by blast
  have "db_kept ?db db'" "db_ok db'"
    by (rule update_kept [OF up], simp add: f_def identity_of_def) (rule update_ok [OF up _ o(2)], simp add: f_def identity_of_def)
  then show "quiet_step s t" using db_kept_trans [OF o(1)] by (simp add: quiet_step_def t)
qed

lemma quiet_claim [obeys_intros]: "fair ev \<Longrightarrow> obeys quiet_step (claimTriggerDispatch ev k scope)"
  unfolding claimTriggerDispatch_def
  by (intro obeys_intros quiet_statement) (auto simp: keeps_def identity_of_def dest: update_kept update_ok)

definition one_send :: "string \<Rightarrow> oracle_state \<Rightarrow> oracle_state \<Rightarrow> bool" where
  "one_send k s t = (db_kept (os_db s) (os_db t) \<and> (db_ok (os_db s) \<longrightarrow> db_ok (os_db t)) \<and>
     (\<exists>new. os_sends t = os_sends s @ new \<and> length new \<le> 1 \<and> fst ` set new \<subseteq> {k}))"

lemma quiet_one_send:
  "quiet_step s t \<Longrightarrow> one_send k s t"
  "one_send k s t \<Longrightarrow> quiet_step t u \<Longrightarrow> one_send k s u"
  "quiet_step s t \<Longrightarrow> one_send k t u \<Longrightarrow> one_send k s u"
  by (auto simp: quiet_step_def one_send_def intro: db_kept_trans)

lemma one_send_after: "obeys quiet_step m \<Longrightarrow> (\<And>x. obeys (one_send k) (f x)) \<Longrightarrow> obeys (one_send k) (bind m f)"
  by (rule obeys_bind_then [where R = quiet_step and S = "one_send k"]) (auto intro: quiet_one_send)

lemma one_send_before: "obeys (one_send k) m \<Longrightarrow> (\<And>x. obeys quiet_step (f x)) \<Longrightarrow> obeys (one_send k) (bind m f)"
  by (rule obeys_bind_then [where R = "one_send k" and S = quiet_step]) (auto intro: quiet_one_send)

lemma one_send_catch: "obeys (one_send k) m \<Longrightarrow> (\<And>e. obeys quiet_step (h e)) \<Longrightarrow> obeys (one_send k) (catch m h)"
  by (rule obeys_catch_then [where R = "one_send k" and S = quiet_step]) (auto intro: quiet_one_send)

lemma transact_sends_once:
  assumes "\<And>h. obeys quiet_step (cb h)"
  shows "obeys (one_send k) (transact ev k call cb pfx)"
proof -
  have "obeys (one_send k) (modify (\<lambda>s. s\<lparr>os_sends := os_sends s @ [(k, call)]\<rparr>))"
    by (intro obeys_modify) (simp add: one_send_def)
  then show ?thesis unfolding transact_def sdk_error_def
    by (intro one_send_catch one_send_before obeys_intros assms)
qed

lemma submit_sends_once:
  assumes "\<And>h. obeys quiet_step (cb h)"
  shows "obeys (one_send k) (submitTriggerAction ev cfg k ty tradeId cb)"
  using assms by (cases ty) (auto simp: releaseFundsStage1_def confirmInspectionAvailable_def finalizeAfterDisputeWindow_def
      intro!: one_send_after transact_sends_once obeys_intros obeys_weaken [OF quiet.obeys_throw quiet_one_send(1)])

lemma dispatch_sends_once: "fair ev \<Longrightarrow> obeys (one_send (tg_idempotency_key t)) (dispatch ev cfg t ak)"
  unfolding dispatch_def
  by (rule obeys_bind_then [where R = "\<lambda>s t. os_db t = os_db s \<and> os_sends t = os_sends s" and S = "one_send (tg_idempotency_key t)"],
      (rule obeys_modify, simp), rule one_send_before, rule submit_sends_once) (intro obeys_intros | simp add: one_send_def)+

lemma claim_then_dispatch:
  assumes "fair ev" and "obeys quiet_step m" and "obeys (one_send k) d"
  shows "obeys service_step (bind (claimTriggerDispatch ev k scope) (\<lambda>c. if c then d else m))"
  unfolding obeys_def
proof
  fix s
  show "service_step s (snd (bind (claimTriggerDispatch ev k scope) (\<lambda>c. if c then d else m) s))" (is "service_step s ?u")
  proof (cases "fst (claimTriggerDispatch ev k scope s) = Inr True")
    case False
    have "obeys quiet_step (bind (claimTriggerDispatch ev k scope) (\<lambda>c. m))" by (intro obeys_intros assms)
    moreover have "bind (claimTriggerDispatch ev k scope) (\<lambda>c. if c then d else m) s =
      bind (claimTriggerDispatch ev k scope) (\<lambda>c. m) s" using False by (auto simp: bind_def split: prod.splits sum.splits)
    ultimately show ?thesis by (simp add: obeys_def quiet_is_service)
  next
    case True
    then obtain t where t: "claimTriggerDispatch ev k scope s = (Inr True, t)" by (cases "claimTriggerDispatch ev k scope s") auto
    then have u: "?u = snd (d t)" by (simp add: bind_def)
    have one: "one_send k t (snd (d t))" using assms(3) by (simp add: obeys_def)
    show ?thesis unfolding service_step_def
    proof
      assume ok: "db_ok (os_db s)"
      note c = claim_taken [OF assms(1) ok t]
      from one obtain new where new: "os_sends ?u = os_sends s @ new" "length new \<le> 1" "fst ` set new \<subseteq> {k}"
        using c(1) by (auto simp: one_send_def quiet_step_def u)
      have kept: "db_kept (os_db t) (os_db ?u)" "db_ok (os_db ?u)" "db_kept (os_db s) (os_db ?u)"
        using one c(1) ok by (auto simp: one_send_def quiet_step_def u intro: db_kept_trans)
      have "distinct (map fst new)" using new(2) by (cases new) auto
      moreover have "\<forall>k \<in> fst ` set new. claimed k (os_db ?u) \<and> \<not> claimed k (os_db s)"
        using new(3) claimed_kept [OF c(2) kept(1)] c(3) by auto
      ultimately show "db_ok (os_db ?u) \<and> db_kept (os_db s) (os_db ?u) \<and> (\<exists>new. os_sends ?u = os_sends s @ new \<and>
          distinct (map fst new) \<and> (\<forall>k \<in> fst ` set new. claimed k (os_db ?u) \<and> \<not> claimed k (os_db s)))"
        using new(1) kept by blast
    qed
  qed
qed

section \<open>Whole operations\<close>

lemma service_quiet: "obeys quiet_step m \<Longrightarrow> obeys service_step m"
  by (auto simp: obeys_def intro: quiet_is_service)

lemma service_attempt: "fair ev \<Longrightarrow> obeys service_step (attempt_once ev cfg t ak n)"
  unfolding attempt_once_def
  by (intro service.obeys_bind claim_then_dispatch dispatch_sends_once service_quiet; (intro obeys_intros)?) simp_all

lemma service_attempt_step: "fair ev \<Longrightarrow> obeys service_step (attempt_step ev cfg t ak n)"
  unfolding attempt_step_def
  by (intro service.obeys_catch service.obeys_bind service_attempt service.obeys_ret service_quiet
      obeys_split quiet.obeys_bind obeys_intros; simp)

lemma service_execute_from: "fair ev \<Longrightarrow> obeys service_step (execute_from ev cfg t ak n)"
proof (induction ev cfg t ak n rule: execute_from.induct)
  case (1 ev cfg t ak n)
  show ?case
  proof (cases "n \<le> oc_maxAttempts cfg")
    case True
    have "obeys service_step (case r of Finished resp \<Rightarrow> ret resp | Again \<Rightarrow> execute_from ev cfg t ak (n + 1))" for r
      using 1 True by (cases r) (auto intro: service.obeys_ret)
    then have "obeys service_step (bind (attempt_step ev cfg t ak n) (\<lambda>r.
        case r of Finished resp \<Rightarrow> ret resp | Again \<Rightarrow> execute_from ev cfg t ak (n + 1)))"
      by (intro service.obeys_bind service_attempt_step "1.prems")
    then show ?thesis using True by (simp only: execute_from.simps [of ev cfg t ak n] if_True)
  next
    case False
    then show ?thesis by (simp add: execute_from.simps [of ev cfg t ak n] service.obeys_throw)
  qed
qed

lemma service_execute: "fair ev \<Longrightarrow> obeys service_step (executeTriggerWithRetry ev cfg t ak)"
  unfolding executeTriggerWithRetry_def
  by (intro service.obeys_bind service_execute_from obeys_modify) (simp add: service_step_def)

lemma service_redrive: "fair ev \<Longrightarrow> obeys service_step (handleRedrive ev cfg t rq)"
  unfolding handleRedrive_def
  by (intro service.obeys_bind obeys_split service_execute service.obeys_ret service.obeys_throw service_quiet obeys_intros)

lemma service_createNew: "fair ev \<Longrightarrow> obeys service_step (createNewTrigger ev rq ak)"
  unfolding createNewTrigger_def by (intro service_quiet obeys_intros)

lemma service_new_request: "fair ev \<Longrightarrow> obeys service_step (new_request ev cfg rq ak)"
  unfolding new_request_def pending_approval_def
  by (intro service.obeys_bind obeys_split service_execute service_createNew service.obeys_ret service.obeys_lift
      service_quiet [OF quiet_updateTrigger] service_quiet [OF quiet_chain(1)] service_quiet [OF quiet_verify(3)])

lemma service_same_instruction: "obeys service_step (same_instruction ev rq latest)"
  unfolding same_instruction_def
  by (intro service.obeys_bind obeys_split obeys_option service.obeys_ret service.obeys_lift service.obeys_throw obeys_pair)

lemma service_request: "fair ev \<Longrightarrow> obeys service_step (executeTrigger ev cfg rq)"
  unfolding executeTrigger_def executeTriggerWithActionLock_def Let_def
  by (intro service.obeys_bind service.obeys_catch obeys_split obeys_option service.obeys_ret service.obeys_lift
      service.obeys_throw service_redrive service_new_request service_same_instruction
      service_quiet [OF quiet_queries(1)] service_quiet [OF quiet_queries(2)] service_quiet [OF quiet_assertFundedBinding])

lemma service_approval: "fair ev \<Longrightarrow> obeys service_step (resumeAfterApproval ev cfg k actor)"
  unfolding resumeAfterApproval_def already_processed_def Let_def
  by (intro service.obeys_bind obeys_split obeys_option service.obeys_ret service.obeys_throw service_execute
      service_quiet [OF quiet_queries(1)] service_quiet [OF quiet_queries(5)] service_quiet [OF quiet_verify(3)])

lemma quiet_rejection: "fair ev \<Longrightarrow> obeys quiet_step (rejectPendingTrigger ev k actor reason)"
  unfolding rejectPendingTrigger_def already_processed_def by (intro obeys_intros)

lemma quiet_confirmation: "fair ev \<Longrightarrow> obeys quiet_step (checkConfirmation ev cfg t)"
  unfolding checkConfirmation_def confirm_with_def unconfirmed_def by (intro obeys_intros quiet_local; simp)

lemma quiet_poll: "fair ev \<Longrightarrow> obeys quiet_step (pollConfirmations ev cfg)"
  unfolding pollConfirmations_def by (intro obeys_intros quiet_confirmation)

lemma service_op: "fair ev \<Longrightarrow> obeys service_step (oracle_op ev cfg e)"
  by (cases e) (auto intro!: service.obeys_bind service.obeys_ret service_request service_approval
      service_quiet [OF quiet_rejection] service_quiet [OF quiet_poll])

section \<open>Runs\<close>

definition sends_claimed :: "oracle_state \<Rightarrow> bool" where
  "sends_claimed s = (db_ok (os_db s) \<and> distinct (map fst (os_sends s)) \<and> list_all (\<lambda>(k, _). claimed k (os_db s)) (os_sends s))"

lemma service_keeps_claims:
  assumes "sends_claimed s" and "service_step s t"
  shows "sends_claimed t"
proof -
  from assms obtain new where t: "db_ok (os_db t)" "db_kept (os_db s) (os_db t)" "os_sends t = os_sends s @ new"
    "distinct (map fst new)" "\<forall>k \<in> fst ` set new. claimed k (os_db t) \<and> \<not> claimed k (os_db s)"
    by (auto simp: sends_claimed_def service_step_def)
  have old: "\<forall>k \<in> fst ` set (os_sends s). claimed k (os_db s)" "distinct (map fst (os_sends s))"
    using assms(1) by (auto simp: sends_claimed_def list_all_iff)
  then have "fst ` set (os_sends s) \<inter> fst ` set new = {}" using t(5) by blast
  then have "distinct (map fst (os_sends t))" using old(2) t(3,4) by simp
  moreover have "list_all (\<lambda>(k, _). claimed k (os_db t)) (os_sends t)"
    using old(1) t(2,3,5) claimed_kept by (fastforce simp: list_all_iff)
  ultimately show ?thesis using t(1) by (simp add: sends_claimed_def)
qed

text \<open>The environment is part of the state, so that one machine covers every environment.\<close>

type_synonym oracle_system = "(oracle_env \<times> oracle_config) \<times> oracle_state"

definition system_step :: "oracle_event \<Rightarrow> oracle_system \<Rightarrow> failure + oracle_system" where
  "system_step e sys = rbind (oracle_step (fst (fst sys)) (snd (fst sys)) e (snd sys)) (\<lambda>s. Inr (fst sys, s))"

definition system_ok :: "oracle_system \<Rightarrow> bool" where
  "system_ok sys = (fair (fst (fst sys)) \<and> sends_claimed (snd sys))"

interpretation oracle_service: machine_invariant system_step system_ok
proof
  fix s s' e assume "system_ok s" and "system_step e s = Inr s'"
  then show "system_ok s'"
    using service_keeps_claims service_op [of "fst (fst s)" "snd (fst s)" e]
    by (auto simp: system_ok_def system_step_def oracle_step_def obeys_def)
qed

definition oracle_run :: "oracle_env \<Rightarrow> oracle_config \<Rightarrow> oracle_event list \<Rightarrow> oracle_state \<Rightarrow> oracle_state" where
  "oracle_run ev cfg es s = snd (oracle_service.run es ((ev, cfg), s))"

lemma run_environment: "fst (oracle_service.run es sys) = fst sys"
  by (induction es arbitrary: sys) (auto simp: system_step_def oracle_step_def)

lemma oracle_run_simps [simp]:
  "oracle_run ev cfg [] s = s"
  "oracle_run ev cfg (e # es) s = oracle_run ev cfg es (snd (oracle_op ev cfg e s))"
  by (simp_all add: oracle_run_def system_step_def oracle_step_def)

lemma oracle_run_ok: "fair ev \<Longrightarrow> sends_claimed s \<Longrightarrow> sends_claimed (oracle_run ev cfg es s)"
  using oracle_service.inv_run [of "((ev, cfg), s)" es] by (simp add: system_ok_def oracle_run_def)

lemma service_run: "fair ev \<Longrightarrow> service_step s (oracle_run ev cfg es s)"
proof (induction es arbitrary: s)
  case Nil
  then show ?case by simp
next
  case (Cons e es)
  then show ?case using service_op [of ev cfg e] service.order_trans by (force simp: obeys_def)
qed

end
