(* ===== verification/Oracle_Answers.thy ===== *)
theory Oracle_Answers
  imports Oracle_Claims
begin

text \<open>
  The retry loop answers: when the database and the notifier can be reached and no other session
  interferes (\<open>calm\<close>), an execution always returns a response, whatever the chain, the signer and
  the witnesses answer. The lemmas follow the two \<open>catch\<close> blocks of \<open>trigger-execution.ts\<close>: each of
  their updates is accepted by the guards and the indexes of the table.
\<close>

definition calm :: "oracle_env \<Rightarrow> bool" where
  "calm ev = ((\<forall>n db. ov_others ev n db = db) \<and> (\<forall>n. ov_fault ev n = None) \<and> (\<forall>n. ov_notify ev n = Inr ()))"

lemma calm_fair: "calm ev \<Longrightarrow> fair ev"
  by (simp add: calm_def fair_def)

definition active_key :: "string \<Rightarrow> oracle_db \<Rightarrow> bool" where
  "active_key k db = list_ex (\<lambda>r. with_key k r \<and> active r) (od_rows db)"

section \<open>Updates the table accepts\<close>

lemma columns_unchanged [simp]:
  "tg_idempotency_key (set_columns now u r) = tg_idempotency_key r" "tg_action_key (set_columns now u r) = tg_action_key r"
  "tg_dispatch_started_at (set_columns now u r) = tg_dispatch_started_at r"
  "tg_dispatch_signer_scope (set_columns now u r) = tg_dispatch_signer_scope r"
  "tg_dispatch_finality_evidence (set_columns now u r) = tg_dispatch_finality_evidence r"
  "tg_funded_binding (set_columns now u r) = tg_funded_binding r"
  "tg_trade_id (set_columns now u r) = tg_trade_id r" "tg_trigger_type (set_columns now u r) = tg_trigger_type r"
  "tg_request_id (set_columns now u r) = tg_request_id r"
  "tg_tx_hash (set_columns now u r) = nullable (ud_tx_hash u) (tg_tx_hash r)"
  "tg_status (set_columns now u r) = column (ud_status u) (tg_status r)"
  "dispatched (set_columns now u r) = dispatched r" "unresolved (set_columns now u r) = unresolved r"
  "with_key k (set_columns now u r) = with_key k r"
  by (simp_all add: set_columns_def dispatched_def unresolved_def with_key_def)

lemma guard_accepts:
  assumes "row_ok r" and "ud_tx_hash u = None"
  shows "row_guard (Some r) (set_columns now u r) = None"
proof -
  have "evidence_shape (set_columns now u r) e = evidence_shape r e" for e
    using assms(2) by (simp add: evidence_shape_def)
  then show ?thesis using assms
    by (auto simp: row_guard_def preserve_oracle_dispatch_claim_def protect_oracle_dispatch_resolution_def Let_def
        preserve_oracle_funded_binding_def row_ok_def split: option.splits)
qed

lemma distinct_filter_less:
  assumes "distinct (map f (filter P xs))" and "\<And>x. x \<in> set xs \<Longrightarrow> Q x \<Longrightarrow> P x"
  shows "distinct (map f (filter Q xs))"
proof -
  have "filter Q xs = filter Q (filter P xs)" using assms(2) by (auto simp: filter_filter intro: filter_cong)
  then show ?thesis using assms(1) by (metis distinct_map_filter)
qed

lemma filter_map_same:
  assumes "\<And>r. P (g r) = P r" and "\<And>r. f (g r) = f r"
  shows "map f (filter P (map g xs)) = map f (filter P xs)"
  by (induction xs) (auto simp: assms)

lemma map_filter_same:
  assumes "\<And>r. P (g r) = P r" and "\<And>r. f (g r) = f r"
  shows "List.map_filter f (filter P (map g xs)) = List.map_filter f (filter P xs)"
  by (induction xs) (simp_all add: assms List.map_filter_simps split: option.split)

lemma index_accepts:
  assumes "db_ok db" and "\<And>r. r \<in> set (od_rows db) \<Longrightarrow> with_key k r \<Longrightarrow> active (set_columns now u r) \<Longrightarrow> active r"
  shows "violated_index (map (\<lambda>r. if with_key k r then set_columns now u r else r) (od_rows db)) = None"
proof -
  let ?g = "\<lambda>r. if with_key k r then set_columns now u r else r"
  have ok: "violated_index (od_rows db) = None" using assms(1) by (simp add: db_ok_def)
  have "distinct (map tg_action_key (filter active (od_rows db)))" using ok by (auto simp: violated_index_def split: if_splits)
  then have "distinct (map tg_action_key (filter (active \<circ> ?g) (od_rows db)))"
    by (rule distinct_filter_less) (use assms(2) in \<open>auto split: if_splits\<close>)
  then have "distinct (map tg_action_key (filter active (map ?g (od_rows db))))"
    by (simp add: filter_map o_def if_distrib cong: if_cong)
  moreover have "map tg_idempotency_key (map ?g (od_rows db)) = map tg_idempotency_key (od_rows db)" by simp
  moreover have "map tg_action_key (filter dispatched (map ?g (od_rows db))) = map tg_action_key (filter dispatched (od_rows db))"
    by (rule filter_map_same) auto
  moreover have "List.map_filter tg_dispatch_signer_scope (filter unresolved (map ?g (od_rows db))) =
      List.map_filter tg_dispatch_signer_scope (filter unresolved (od_rows db))"
    by (rule map_filter_same) auto
  ultimately show ?thesis using ok unfolding violated_index_def by (auto split: if_splits simp del: map_map)
qed

lemma update_accepted:
  assumes "calm ev" and "db_ok (os_db s)" and "ud_tx_hash u = None" and "ud_status u = Some st"
    and "st \<in> {PENDING, EXECUTING, SUBMITTED, PENDING_APPROVAL} \<Longrightarrow> active_key k (os_db s)"
  shows "\<exists>t. updateTrigger ev k u s = (Inr (), t)"
proof -
  have calm: "ov_others ev n db = db" "ov_fault ev n = None" for n db using assms(1) by (simp_all add: calm_def)
  have "active r" if r: "r \<in> set (od_rows (os_db s))" "with_key k r" "active (set_columns now u r)" for r now
  proof -
    have "active_key k (os_db s)" using assms(4,5) r(3) by (simp add: active_def)
    then obtain q where q: "q \<in> set (od_rows (os_db s))" "with_key k q" "active q" by (auto simp: active_key_def list_ex_iff)
    then have "r = q" using same_key_same_row [OF assms(2) r(1) q(1)] r(2) by (simp add: with_key_def)
    then show ?thesis using q(3) by simp
  qed
  note idx = index_accepts [OF assms(2) this]
  have "List.map_filter (\<lambda>r. row_guard (Some r) (set_columns now u r)) (filter (with_key k) (od_rows (os_db s))) = []" for now
    using assms(2,3) guard_accepts by (auto simp: map_filter_Nil db_ok_def list_all_iff)
  then obtain rows db' where
    "update_where (with_key k) (set_columns (ov_clock ev (os_tick s)) u) (os_db s) = Inr (rows, db')"
    using idx by (simp add: update_where_def with_rows_def)
  then show ?thesis
    by (cases "u = no_update") (auto simp: updateTrigger_def ret_def bind_def statement_def calm Let_def split: sum.splits prod.splits)
qed

section \<open>The two catch blocks\<close>

definition ready :: "oracle_state \<Rightarrow> bool" where
  "ready s = (db_ok (os_db s) \<and> \<not> os_dispatchClaimed s)"

definition recoverable :: "string \<Rightarrow> oracle_state \<Rightarrow> bool" where
  "recoverable k s = (db_ok (os_db s) \<and> (os_dispatchClaimed s \<longrightarrow> active_key k (os_db s)))"

lemma quiet_ready: "obeys quiet_step m \<Longrightarrow> triple ready m (\<lambda>_. ready) (\<lambda>_. ready)"
  by (rule tripleI) (force simp: obeys_def quiet_step_def ready_def)+

lemma update_answers:
  assumes "calm ev" and "ud_tx_hash u = None" and "ud_status u = Some st"
    and "st \<notin> {PENDING, EXECUTING, SUBMITTED, PENDING_APPROVAL}"
  shows "triple ready (updateTrigger ev k u) (\<lambda>_. ready) (\<lambda>_ _. False)"
proof (rule tripleI)
  fix s x t assume "ready s" and "updateTrigger ev k u s = (Inr x, t)"
  then show "ready t"
    using tripleD(1) [OF quiet_ready [OF quiet_updateTrigger [OF calm_fair [OF assms(1)]]]] by blast
next
  fix s e t assume "ready s" and "updateTrigger ev k u s = (Inl e, t)"
  moreover have "db_ok (os_db s)" using \<open>ready s\<close> by (simp add: ready_def)
  ultimately show False using update_accepted [OF assms(1) _ assms(2,3), of s k] assms(4) by auto
qed

lemma notify_answers:
  assumes "calm ev"
  shows "triple ready (notifyTerminalStatus ev cfg t ak st msg n) (\<lambda>_. ready) (\<lambda>_ _. False)"
  using assms by (auto simp: triple_def notifyTerminalStatus_def ret_def bind_def modify_def answer_def calm_def ready_def)

lemma failed_attempt_answers:
  assumes "calm ev" and "n \<le> oc_maxAttempts cfg"
  shows "triple ready (failed_attempt ev cfg t ak n err) (\<lambda>r s. ready s \<and> (r = Again \<longrightarrow> n < oc_maxAttempts cfg)) (\<lambda>_ _. False)"
proof -
  let ?e = "classifyError err"
  let ?st = "determineNextStatus ?e n (oc_maxAttempts cfg)"
  have st: "?st \<notin> {PENDING, EXECUTING, SUBMITTED, PENDING_APPROVAL}" by (simp add: determineNextStatus_def)
  have up: "triple ready (updateTrigger ev (tg_idempotency_key t) (no_update\<lparr>ud_status := Some ?st, ud_attempt_count := Some n,
      ud_last_error := Some (publicFailureMessage ?e), ud_error_type := Some (oe_errorType ?e)\<rparr>)) (\<lambda>_. ready) (\<lambda>_ _. False)"
    by (rule update_answers [OF assms(1) _ _ st]) (simp_all add: no_update_def)
  have again: "triple ready (bind (answer (\<lambda>n. Inr (ov_random ev n))) (\<lambda>r. bind (modify (f r)) (\<lambda>_. ret Again)))
      (\<lambda>r s. ready s \<and> (r = Again \<longrightarrow> n < oc_maxAttempts cfg)) (\<lambda>_ _. False)"
    if "n < oc_maxAttempts cfg" "\<And>r s. os_db (f r s) = os_db s \<and> os_dispatchClaimed (f r s) = os_dispatchClaimed s" for f
    using that by (simp add: triple_def bind_def answer_def modify_def ret_def ready_def)
  have fin: "triple ready (bind (notifyTerminalStatus ev cfg t ak st msg n) (\<lambda>_. ret (Finished resp)))
      (\<lambda>r s. ready s \<and> (r = Again \<longrightarrow> n < oc_maxAttempts cfg)) (\<lambda>_ _. False)" for st msg resp
    by (rule triple_bind [OF notify_answers [OF assms(1)]]) (simp add: triple_ret)
  show ?thesis unfolding failed_attempt_def Let_def
    by (rule triple_bind [OF up], intro triple_if fin again) (auto simp: determineNextStatus_def split: if_splits)
qed

lemma unresolved_answers:
  assumes "calm ev"
  shows "triple (\<lambda>s. recoverable (tg_idempotency_key t) s \<and> os_dispatchClaimed s) (unresolved_outcome ev t ak) (\<lambda>_ _. True) (\<lambda>_ _. False)"
proof -
  have "\<exists>r u. unresolved_outcome ev t ak s = (Inr r, u)"
    if "recoverable (tg_idempotency_key t) s" "os_dispatchClaimed s" for s
    using update_accepted [OF assms, of s "no_update\<lparr>ud_status := Some (if os_observedHash s \<noteq> None then SUBMITTED else EXECUTING),
        ud_last_error := Some ''Original dispatch outcome requires independent reconciliation. Resubmission is blocked.'',
        ud_error_type := Some NETWORK\<rparr>" "if os_observedHash s \<noteq> None then SUBMITTED else EXECUTING" "tg_idempotency_key t"] that
    by (auto simp: unresolved_outcome_def Let_def gets_def bind_def clock_def answer_def ret_def recoverable_def no_update_def)
  then show ?thesis by (fastforce simp: triple_def)
qed

section \<open>After the claim\<close>

definition live_step :: "string \<Rightarrow> oracle_state \<Rightarrow> oracle_state \<Rightarrow> bool" where
  "live_step k s t = (db_ok (os_db s) \<and> active_key k (os_db s) \<longrightarrow> db_ok (os_db t) \<and> active_key k (os_db t))"

interpretation live: state_order "live_step k" for k
  by unfold_locales (auto simp: live_step_def)

lemma live_local: "(\<And>s. os_db (f s) = os_db s) \<Longrightarrow> obeys (live_step k) (modify f)"
  by (simp add: obeys_def modify_def live_step_def)

lemma live_answer [obeys_intros]: "obeys (live_step k) (answer f)"
  by (simp add: obeys_def answer_def live_step_def)

lemma live_clock [obeys_intros]: "obeys (live_step k) (clock ev)"
  unfolding clock_def by (rule live_answer)

lemma live_update:
  assumes "calm ev" and "ud_status u = Some SUBMITTED"
  shows "obeys (live_step k) (updateTrigger ev k u)"
  unfolding obeys_def
proof
  fix s
  have calm: "ov_others ev n db = db" "ov_fault ev n = None" for n db using assms(1) by (simp_all add: calm_def)
  have u: "u \<noteq> no_update" using assms(2) by (auto simp: no_update_def)
  show "live_step k s (snd (updateTrigger ev k u s))"
  proof (cases "update_where (with_key k) (set_columns (ov_clock ev (os_tick s)) u) (os_db s)")
    case (Inl e)
    then show ?thesis using u by (simp add: updateTrigger_def bind_def statement_def calm Let_def live_step_def)
  next
    case (Inr p)
    obtain rows db' where "p = (rows, db')" by (cases p)
    with Inr have up: "update_where (with_key k) (set_columns (ov_clock ev (os_tick s)) u) (os_db s) = Inr (rows, db')" by simp
    have "active_key k db'" if "active_key k (os_db s)"
    proof -
      from that obtain r where r: "r \<in> set (od_rows (os_db s))" "with_key k r" by (auto simp: active_key_def list_ex_iff)
      let ?r = "set_columns (ov_clock ev (os_tick s)) u r"
      have "?r \<in> set (od_rows db')" using imageI [OF r(1), of "\<lambda>r. if with_key k r then set_columns (ov_clock ev (os_tick s)) u r else r"] r(2)
        unfolding update_whereD(1) [OF up] set_map by simp
      moreover have "with_key k ?r \<and> active ?r" using r(2) assms(2) by (simp add: active_def)
      ultimately show ?thesis unfolding active_key_def list_ex_iff by blast
    qed
    then show ?thesis using u update_ok [OF up] up
      by (simp add: updateTrigger_def bind_def statement_def calm Let_def live_step_def ret_def)
  qed
qed

lemma live_dispatch:
  assumes "calm ev"
  shows "obeys (live_step (tg_idempotency_key t)) (dispatch ev cfg t ak)"
proof -
  let ?k = "tg_idempotency_key t"
  have cb: "obeys (live_step ?k) (on_submitted ev ?k h)" for h
    unfolding on_submitted_def by (intro obeys_intros live_local live_update assms; simp)
  have tx: "obeys (live_step ?k) (transact ev ?k call (on_submitted ev ?k) pfx)" for call pfx
    unfolding transact_def sdk_error_def by (intro obeys_intros live_local cb; simp)
  have "obeys (live_step ?k) (submitTriggerAction ev cfg ?k (tg_trigger_type t) (tg_trade_id t) (on_submitted ev ?k))"
    by (cases "tg_trigger_type t") (auto simp: releaseFundsStage1_def confirmInspectionAvailable_def
        finalizeAfterDisputeWindow_def verifyOracle_def assertSignerCompatibility_def sdk_error_def intro!: obeys_intros tx)
  then show ?thesis unfolding dispatch_def by (intro obeys_intros live_local live_update assms; simp)
qed

lemma claim_makes_active:
  assumes "calm ev" and "claimTriggerDispatch ev k scope s = (Inr True, t)"
  shows "active_key k (os_db t)"
proof -
  have calm: "ov_others ev n db = db" for n db using assms(1) by (simp add: calm_def)
  define f where "f now r = r\<lparr>tg_dispatch_started_at := Some now, tg_dispatch_signer_scope := Some scope,
    tg_status := EXECUTING, tg_updated_at := now\<rparr>" for now and r :: trigger
  let ?p = "claimable k scope (os_db s)"
  from assms(2) obtain rows where rows: "length rows = 1" and
    st: "statement ev (\<lambda>now db. update_where (claimable k scope db) (f now) db) s = (Inr rows, t)"
    unfolding claimTriggerDispatch_def f_def by (auto simp: throw_def ret_def elim!: bind_InrE split: if_splits)
  from statement_returned [OF st] obtain db' where
    up: "update_where ?p (f (ov_clock ev (os_tick s))) (os_db s) = Inr (rows, db')"
    and t: "t = s\<lparr>os_tick := Suc (os_tick s), os_db := db'\<rparr>" by (auto simp: calm)
  note u = update_whereD [OF up]
  have "length (filter ?p (od_rows (os_db s))) = 1" using rows unfolding u(2) length_map .
  then have "filter ?p (od_rows (os_db s)) \<noteq> []" by auto
  then obtain r where r: "r \<in> set (od_rows (os_db s))" "?p r" by (auto simp: filter_empty_conv)
  have "f (ov_clock ev (os_tick s)) r \<in> set (od_rows db')"
    using imageI [OF r(1), of "\<lambda>r. if ?p r then f (ov_clock ev (os_tick s)) r else r"] r(2) unfolding u(1) set_map by simp
  moreover have "with_key k (f (ov_clock ev (os_tick s)) r) \<and> active (f (ov_clock ev (os_tick s)) r)"
    using r(2) by (simp add: f_def with_key_def active_def claimable_def)
  ultimately show ?thesis unfolding t active_key_def list_ex_iff by auto
qed

lemma claim_ready:
  assumes "calm ev"
  shows "triple ready (claimTriggerDispatch ev k scope) (\<lambda>c s. ready s \<and> (c \<longrightarrow> active_key k (os_db s))) (\<lambda>_. ready)"
proof (rule tripleI)
  note q = tripleD [OF quiet_ready [OF quiet_claim [OF calm_fair [OF assms], of k scope]]]
  fix s assume s: "ready s"
  show "ready t \<and> (c \<longrightarrow> active_key k (os_db t))" if "claimTriggerDispatch ev k scope s = (Inr c, t)" for c t
    using q(1) [OF s that] claim_makes_active [OF assms, of k scope s t] that by (cases c) simp_all
  show "ready t" if "claimTriggerDispatch ev k scope s = (Inl e, t)" for e t
    by (rule q(2) [OF s that])
qed

lemma dispatch_recoverable:
  assumes "calm ev"
  shows "triple (\<lambda>s. ready s \<and> active_key (tg_idempotency_key t) (os_db s)) (dispatch ev cfg t ak) (\<lambda>_ _. True)
    (\<lambda>_. recoverable (tg_idempotency_key t))"
proof (rule tripleI)
  fix s e u assume "ready s \<and> active_key (tg_idempotency_key t) (os_db s)" and "dispatch ev cfg t ak s = (Inl e, u)"
  then show "recoverable (tg_idempotency_key t) u"
    using live_dispatch [OF assms, of t cfg ak] unfolding obeys_def live_step_def recoverable_def ready_def by (metis snd_conv)
qed simp

lemma attempt_recoverable:
  assumes "calm ev"
  shows "triple ready (attempt_once ev cfg t ak n) (\<lambda>_ _. True) (\<lambda>_. recoverable (tg_idempotency_key t))"
proof -
  let ?E = "\<lambda>_. recoverable (tg_idempotency_key t)"
  have weak: "ready s \<Longrightarrow> recoverable (tg_idempotency_key t) s" for s by (simp add: ready_def recoverable_def)
  have pre: "triple ready m (\<lambda>_. ready) ?E" if "obeys quiet_step m" for m :: "'a action"
    by (rule triple_conseq [OF quiet_ready [OF that]]) (auto intro: weak)
  have fair: "fair ev" by (rule calm_fair [OF assms])
  have claim: "triple ready (claimTriggerDispatch ev (tg_idempotency_key t) scope)
      (\<lambda>c s. ready s \<and> (c \<longrightarrow> active_key (tg_idempotency_key t) (os_db s))) ?E" for scope
    by (rule triple_conseq [OF claim_ready [OF assms]]) (auto intro: weak)
  have rest: "triple (\<lambda>s. ready s \<and> (c \<longrightarrow> active_key (tg_idempotency_key t) (os_db s)))
      (if c then dispatch ev cfg t ak else m) (\<lambda>_ _. True) ?E" if "obeys quiet_step m" for c m
    by (rule triple_if; rule triple_conseq [OF dispatch_recoverable [OF assms]] triple_conseq [OF pre [OF that]]) auto
  show ?thesis unfolding attempt_once_def
    by (rule triple_bind [OF pre], rule quiet_execution_parts [OF fair], rule triple_bind [OF pre],
        rule quiet_execution_parts [OF fair], rule triple_bind [OF claim], rule rest) (intro obeys_intros fair)
qed

lemma attempt_step_answers:
  assumes "calm ev" and "n \<le> oc_maxAttempts cfg"
  shows "triple ready (attempt_step ev cfg t ak n) (\<lambda>r s. r = Again \<longrightarrow> ready s \<and> n < oc_maxAttempts cfg) (\<lambda>_ _. False)"
  unfolding attempt_step_def
proof (rule triple_catch)
  show "triple ready (bind (attempt_once ev cfg t ak n) (\<lambda>r. ret (Finished r)))
     (\<lambda>r s. r = Again \<longrightarrow> ready s \<and> n < oc_maxAttempts cfg) (\<lambda>_. recoverable (tg_idempotency_key t))"
    by (rule triple_bind [OF attempt_recoverable [OF assms(1)]]) (simp add: triple_ret)
  show "triple (recoverable (tg_idempotency_key t)) (bind (gets os_dispatchClaimed) (\<lambda>claimed.
      if claimed then bind (unresolved_outcome ev t ak) (\<lambda>r. ret (Finished r)) else failed_attempt ev cfg t ak n err))
     (\<lambda>r s. r = Again \<longrightarrow> ready s \<and> n < oc_maxAttempts cfg) (\<lambda>_ _. False)" for err
  proof (rule triple_bind [where R = "\<lambda>c s. recoverable (tg_idempotency_key t) s \<and> os_dispatchClaimed s = c"])
    show "triple (recoverable (tg_idempotency_key t)) (gets os_dispatchClaimed)
       (\<lambda>c s. recoverable (tg_idempotency_key t) s \<and> os_dispatchClaimed s = c) (\<lambda>_ _. False)" by (simp add: triple_gets)
    have "triple (\<lambda>s. recoverable (tg_idempotency_key t) s \<and> os_dispatchClaimed s)
        (bind (unresolved_outcome ev t ak) (\<lambda>r. ret (Finished r))) (\<lambda>r s. r = Again \<longrightarrow> ready s \<and> n < oc_maxAttempts cfg) (\<lambda>_ _. False)"
      by (rule triple_bind [OF unresolved_answers [OF assms(1)]]) (simp add: triple_ret)
    then show "triple (\<lambda>s. recoverable (tg_idempotency_key t) s \<and> os_dispatchClaimed s = c)
       (if c then bind (unresolved_outcome ev t ak) (\<lambda>r. ret (Finished r)) else failed_attempt ev cfg t ak n err)
       (\<lambda>r s. r = Again \<longrightarrow> ready s \<and> n < oc_maxAttempts cfg) (\<lambda>_ _. False)" for c
      by (cases c) (auto intro!: triple_conseq [OF failed_attempt_answers [OF assms]] simp: ready_def recoverable_def)
  qed
qed

lemma execute_from_answers:
  "calm ev \<Longrightarrow> n \<le> oc_maxAttempts cfg \<Longrightarrow> triple ready (execute_from ev cfg t ak n) (\<lambda>_ _. True) (\<lambda>_ _. False)"
proof (induction ev cfg t ak n rule: execute_from.induct)
  case (1 ev cfg t ak n)
  have "triple (\<lambda>s. r = Again \<longrightarrow> ready s \<and> n < oc_maxAttempts cfg)
      (case r of Finished resp \<Rightarrow> ret resp | Again \<Rightarrow> execute_from ev cfg t ak (n + 1)) (\<lambda>_ _. True) (\<lambda>_ _. False)" for r
  proof (cases r)
    case (Finished resp)
    then show ?thesis by (simp add: triple_ret)
  next
    case Again
    then show ?thesis using 1 by (cases "n < oc_maxAttempts cfg") (auto simp: triple_def)
  qed
  then have "triple ready (bind (attempt_step ev cfg t ak n) (\<lambda>r.
      case r of Finished resp \<Rightarrow> ret resp | Again \<Rightarrow> execute_from ev cfg t ak (n + 1))) (\<lambda>_ _. True) (\<lambda>_ _. False)"
    by (rule triple_bind [OF attempt_step_answers [OF "1.prems"]])
  then show ?case using "1.prems"(2) by (simp only: execute_from.simps [of ev cfg t ak n] if_True)
qed

lemma execution_answers:
  assumes "calm ev" and "1 \<le> oc_maxAttempts cfg" and "db_ok (os_db s)"
  shows "\<exists>resp u. executeTriggerWithRetry ev cfg t ak s = (Inr resp, u)"
proof -
  let ?s = "s\<lparr>os_dispatchClaimed := False, os_observedHash := None\<rparr>"
  have "ready ?s" using assms(3) by (simp add: ready_def)
  from tripleD(2) [OF execute_from_answers [OF assms(1,2)] this]
  have "\<exists>resp u. execute_from ev cfg t ak 1 ?s = (Inr resp, u)"
    by (cases "execute_from ev cfg t ak 1 ?s"; cases "fst (execute_from ev cfg t ak 1 ?s)") auto
  then show ?thesis by (simp add: executeTriggerWithRetry_def bind_def modify_def)
qed

end
