(* ===== verification/Oracle_Samples.thy ===== *)
theory Oracle_Samples
  imports Oracle_Answers
begin

text \<open>
  A concrete oracle: one funded trade, two RPC witnesses that agree, a signer that broadcasts, no
  faults and no other sessions. The examples of the oracle's properties run in it.
\<close>

definition hash_of :: "char \<Rightarrow> string" where
  "hash_of c = ''0x'' @ replicate 64 c"

definition addr_of :: "char \<Rightarrow> string" where
  "addr_of c = ''0x'' @ replicate 40 c"

definition demo_binding :: json where
  "demo_binding = JObj
    [(''scopeVersion'', JStr ''agroasys.funded-settlement-binding.v1''), (''ownerServiceId'', JStr ''svc''),
     (''sourceOperationId'', JStr ''op''), (''phase'', JStr ''initial_release_after_custody_and_documents''), (''chainId'', JStr ''8''),
     (''escrowAddress'', JStr (addr_of (CHR ''a''))), (''tokenAddress'', JStr (addr_of (CHR ''b''))),
     (''tradeId'', JStr ''7''), (''buyerAddress'', JStr (addr_of (CHR ''c''))),
     (''supplierAddress'', JStr (addr_of (CHR ''d''))), (''ricardianHash'', JStr (hash_of (CHR ''e''))),
     (''totalAmount'', JStr ''10''), (''logisticsAmount'', JStr ''1''), (''platformFeesAmount'', JStr ''1''),
     (''supplierFirstTranche'', JStr ''4''), (''supplierSecondTranche'', JStr ''4''), (''supplierPayoutAmount'', JStr ''4''),
     (''treasuryAccrualAmount'', JStr ''2''), (''buyerRefundAmount'', JStr ''0''),
     (''fundingTransactionHash'', JStr (hash_of (CHR ''1''))), (''fundingBlockNumber'', JStr ''9''),
     (''fundingBlockHash'', JStr (hash_of (CHR ''2''))), (''originalFundingFingerprint'', JStr (replicate 64 (CHR ''3'')))]"

definition demo_log :: "char \<Rightarrow> string \<Rightarrow> nat \<Rightarrow> chain_log" where
  "demo_log address content i = \<lparr>lg_address = addr_of address, lg_topics = [], lg_data = content, lg_index = i\<rparr>"

definition demo_parse :: decoder where
  "demo_parse l =
    (if lg_data l = ''lock'' then Some (TradeLocked 7 (addr_of (CHR ''c'')) (addr_of (CHR ''d'')) 10 1 1 4 4 (hash_of (CHR ''e'')))
     else if lg_data l = ''fund'' then Some (Transfer (addr_of (CHR ''c'')) (addr_of (CHR ''a'')) 10)
     else if lg_data l = ''pay'' then Some (Transfer (addr_of (CHR ''a'')) (addr_of (CHR ''d'')) 4)
     else if lg_data l = ''release'' then Some (FundsReleasedStage1 7 (addr_of (CHR ''d'')) 4 (addr_of (CHR ''9'')) 1)
     else if lg_data l = ''payout'' then Some (SupplierPayoutTransferred 7 (addr_of (CHR ''d'')) 4 0 (addr_of (CHR ''f'')))
     else None)"

definition demo_provider :: provider where
  "demo_provider = \<lparr>pv_network = Inr 8,
     pv_receipt = (\<lambda>_ h. Inr (
       if h = hash_of (CHR ''1'') then Some \<lparr>rx_hash = h, rx_sender = addr_of (CHR ''c''), rx_to = Some (addr_of (CHR ''a'')), rx_status = 1,
         rx_blockNumber = 9, rx_blockHash = hash_of (CHR ''2''), rx_logs = [demo_log (CHR ''a'') ''lock'' 0, demo_log (CHR ''b'') ''fund'' 1]\<rparr>
       else if h = hash_of (CHR ''5'') then Some \<lparr>rx_hash = h, rx_sender = addr_of (CHR ''f''), rx_to = Some (addr_of (CHR ''a'')), rx_status = 1,
         rx_blockNumber = 12, rx_blockHash = hash_of (CHR ''6''),
         rx_logs = [demo_log (CHR ''b'') ''pay'' 0, demo_log (CHR ''a'') ''payout'' 1, demo_log (CHR ''a'') ''release'' 2]\<rparr>
       else None)),
     pv_finalized = Inr (Some \<lparr>bk_number = 20, bk_hash = None\<rparr>),
     pv_block = (\<lambda>n. Inr (Some \<lparr>bk_number = n, bk_hash = Some (hash_of (if n = 9 then CHR ''2'' else CHR ''6''))\<rparr>)),
     pv_transaction = (\<lambda>h. Inr (Some \<lparr>tx_hash = h, tx_sender = addr_of (CHR ''f''), tx_to = Some (addr_of (CHR ''a'')), tx_chainId = 8,
       tx_data = ''call'', tx_value = 0\<rparr>))\<rparr>"

definition demo_trade :: contract_trade where
  "demo_trade = \<lparr>ch_tradeId = 7, ch_buyerAddress = addr_of (CHR ''c''), ch_supplierAddress = addr_of (CHR ''d''), ch_status = LOCKED,
     ch_totalAmountLocked = 10, ch_logisticsAmount = 1, ch_platformFeesAmount = 1, ch_supplierFirstTranche = 4,
     ch_supplierSecondTranche = 4, ch_ricardianHash = hash_of (CHR ''e''), ch_createdAt = 1, ch_arrivalTimestamp = 0\<rparr>"

definition demo_env :: oracle_env where
  "demo_env = \<lparr>ov_clock = (\<lambda>n. int n), ov_others = (\<lambda>_ db. db), ov_fault = (\<lambda>_. None), ov_dateParse = iso_ms,
     ov_getAddress = lower_address, ov_parseLog = demo_parse, ov_encode = (\<lambda>_. ''call''), ov_keccak256 = id,
     ov_chainTrade = (\<lambda>_ _. Inr demo_trade), ov_tradePaused = (\<lambda>_ _. Inr False), ov_signerNetwork = (\<lambda>_. Inr (Some 8)),
     ov_signerAddress = (\<lambda>_. Inr (addr_of (CHR ''f''))), ov_oracleAddress = (\<lambda>_. Inr (addr_of (CHR ''F''))),
     ov_dispatchWitnesses = (\<lambda>_. [\<lparr>wi_id = replicate 64 (CHR ''a''), wi_provider = demo_provider\<rparr>,
       \<lparr>wi_id = replicate 64 (CHR ''b''), wi_provider = demo_provider\<rparr>]),
     ov_fundingWitnesses = (\<lambda>_. [demo_provider, demo_provider]), ov_late = (\<lambda>_. False),
     ov_broadcast = (\<lambda>_ _. Inr (hash_of (CHR ''5''))), ov_wait = (\<lambda>_ h. Inr (Some (h, 12))), ov_containments = (\<lambda>_. Inr []),
     ov_indexer = (\<lambda>_ h name. Inr [\<lparr>ie_id = ''event'', ie_tradeId = ''7'', ie_eventName = name, ie_txHash = h, ie_blockNumber = 12\<rparr>]),
     ov_notify = (\<lambda>_. Inr ()), ov_random = (\<lambda>_. 0), ov_randomHex = (\<lambda>_. ''aa'')\<rparr>"

definition demo_config :: oracle_config where
  "demo_config = \<lparr>oc_deployment = \<lparr>dp_chainId = 8, dp_escrowAddress = addr_of (CHR ''a''), dp_tokenAddress = addr_of (CHR ''b'')\<rparr>,
     oc_maxAttempts = 3, oc_baseDelayMs = 1000, oc_notifier = True, oc_manualApprovalEnabled = False,
     oc_cotselEnvironment = ''production'', oc_reconciliationDbName = Some ''reconciliation'',
     oc_reconciliationDbUser = Some ''reader'', oc_reconciliationDbPassword = Some ''secret''\<rparr>"

definition demo_start :: oracle_state where
  "demo_start = \<lparr>os_db = \<lparr>od_rows = [], od_next_id = 1, od_nonces = []\<rparr>, os_tick = 0, os_sends = [], os_notices = [], os_waits = [],
     os_dispatchClaimed = False, os_observedHash = None\<rparr>"

definition demo_request :: "string \<Rightarrow> trigger_request" where
  "demo_request i = \<lparr>rq_fundedBinding = Some demo_binding, rq_tradeId = ''7'', rq_requestId = i, rq_triggerType = RELEASE_STAGE_1,
     rq_requestHash = None, rq_isRedrive = False\<rparr>"

lemma demo_calm: "calm demo_env"
  by (simp add: calm_def demo_env_def)

lemma demo_fair: "fair demo_env"
  by (rule calm_fair [OF demo_calm])

text \<open>The binding as the parser returns it.\<close>

definition demo_row :: binding_row where
  "demo_row =
    [(''scopeVersion'', ''agroasys.funded-settlement-binding.v1''), (''ownerServiceId'', ''svc''),
     (''sourceOperationId'', ''op''), (''phase'', ''initial_release_after_custody_and_documents''), (''chainId'', ''8''),
     (''escrowAddress'', addr_of (CHR ''a'')), (''tokenAddress'', addr_of (CHR ''b'')),
     (''tradeId'', ''7''), (''buyerAddress'', addr_of (CHR ''c'')),
     (''supplierAddress'', addr_of (CHR ''d'')), (''ricardianHash'', hash_of (CHR ''e'')),
     (''totalAmount'', ''10''), (''logisticsAmount'', ''1''), (''platformFeesAmount'', ''1''),
     (''supplierFirstTranche'', ''4''), (''supplierSecondTranche'', ''4''), (''supplierPayoutAmount'', ''4''),
     (''treasuryAccrualAmount'', ''2''), (''buyerRefundAmount'', ''0''),
     (''fundingTransactionHash'', hash_of (CHR ''1'')), (''fundingBlockNumber'', ''9''),
     (''fundingBlockHash'', hash_of (CHR ''2'')), (''originalFundingFingerprint'', replicate 64 (CHR ''3''))]"

lemma demo_row_parses: "parseSettlementFundedBinding lower_address (Some (binding_json demo_row)) = Inr demo_row"
  by code_simp

lemma demo_row_required: "requireFundedBinding lower_address (Some (binding_json demo_row)) ''7'' RELEASE_STAGE_1 = Inr demo_row"
  unfolding requireFundedBinding_def demo_row_parses sum.case by code_simp

text \<open>A submitted trigger, and the state that holds it alone.\<close>

definition demo_submitted :: trigger where
  "demo_submitted = (new_row 0 \<lparr>ct_fundedBinding = demo_row, ct_actionKey = ''RELEASE_STAGE_1:7'', ct_requestId = ''r1'',
     ct_idempotencyKey = ''RELEASE_STAGE_1:7:r1'', ct_tradeId = ''7'', ct_triggerType = RELEASE_STAGE_1, ct_requestHash = None,
     ct_status = SUBMITTED\<rparr> 1)\<lparr>tg_dispatch_started_at := Some 0, tg_dispatch_signer_scope := Some (''8:'' @ addr_of (CHR ''f'')),
     tg_tx_hash := Some (hash_of (CHR ''5'')), tg_submitted_at := Some 0\<rparr>"

definition demo_observing :: oracle_state where
  "demo_observing = demo_start\<lparr>os_db := \<lparr>od_rows = [demo_submitted], od_next_id = 2, od_nonces = []\<rparr>\<rparr>"

lemma demo_observing_ok: "db_ok (os_db demo_observing)"
  by code_simp

end
