(* ===== verification/Oracle_Properties.thy ===== *)
theory Oracle_Properties
  imports Oracle_Samples
begin

text \<open>
  The properties of the oracle service: what is sent and how often, what the trigger table keeps,
  that an execution answers, which trades it may touch, what a confirmation rests on and what its
  failures reveal.
\<close>

section \<open>Reading a run\<close>

lemma claimed_row: "claimed k db \<longleftrightarrow> (\<exists>r \<in> set (od_rows db). tg_idempotency_key r = k \<and> dispatched r)"
  by (auto simp: claimed_def list_ex_iff with_key_def)

lemma dispatched_once:
  assumes "db_ok db" and "r \<in> set (od_rows db)" and "q \<in> set (od_rows db)" and "dispatched r" and "dispatched q"
    and "tg_action_key r = tg_action_key q"
  shows "r = q"
  using db_ok_distinct(2) [OF assms(1)] assms(2-) by (auto simp: distinct_map dest: inj_onD)

lemma map_filter_member: "f z = Some v \<Longrightarrow> z \<in> set xs \<Longrightarrow> v \<in> set (List.map_filter f xs)"
  by (induction xs) (auto simp: List.map_filter_simps split: option.splits)

lemma map_filter_distinct:
  assumes "f x = Some v" and "f y = Some v"
  shows "distinct (List.map_filter f xs) \<Longrightarrow> x \<in> set xs \<Longrightarrow> y \<in> set xs \<Longrightarrow> x = y"
proof (induction xs)
  case (Cons a xs)
  show ?case
  proof (cases "f a = Some v")
    case True
    then have "v \<notin> set (List.map_filter f xs)" using Cons.prems(1) by (simp add: List.map_filter_simps)
    then show ?thesis using map_filter_member assms Cons.prems(2,3) by (metis set_ConsD)
  next
    case False
    then have "x \<in> set xs" "y \<in> set xs" using assms Cons.prems(2,3) by auto
    moreover have "distinct (List.map_filter f xs)"
      using Cons.prems(1) by (simp add: List.map_filter_simps split: option.splits)
    ultimately show ?thesis using Cons.IH by simp
  qed
qed simp

lemma unresolved_once:
  assumes "db_ok db" and "r \<in> set (od_rows db)" and "q \<in> set (od_rows db)" and "unresolved r" and "unresolved q"
    and "tg_dispatch_signer_scope r = tg_dispatch_signer_scope q"
  shows "r = q"
proof -
  have "row_ok r" "dispatched r" using assms(1,2,4) by (simp_all add: db_ok_def list_all_iff unresolved_def)
  then obtain scope where scope: "tg_dispatch_signer_scope r = Some scope"
    by (auto simp: row_ok_def split: option.splits)
  show ?thesis
    using map_filter_distinct [OF scope scope [unfolded assms(6)] db_ok_distinct(3) [OF assms(1)]] assms(2-5) by simp
qed

lemma demo_submitted_fields:
  "dispatched demo_submitted = True" "tg_tx_hash demo_submitted = Some (hash_of (CHR ''5''))"
  "tg_dispatch_started_at demo_submitted = Some 0"
  by (simp_all add: demo_submitted_def dispatched_def)

lemma row_okD:
  assumes "row_ok r"
  shows "tg_dispatch_finality_evidence r = Some e \<Longrightarrow> dispatched r \<and> tg_tx_hash r = Some (df_transactionHash e) \<and>
      tg_dispatch_signer_scope r = Some (df_signerScope e)"
    and "dispatched r \<Longrightarrow> \<exists>scope. tg_dispatch_signer_scope r = Some scope \<and>
      arrow_text (tg_funded_binding r) ''chainId'' = Some (scope_chain scope)"
  using assms by (simp_all add: row_ok_def evidence_shape_def split: option.splits)

section \<open>Sending\<close>

text \<open>
  C1. A trigger is handed to the signer at most once, and only for the one trigger of its action
  that holds the dispatch claim: over any sequence of requests, approvals, rejections and polls,
  with any answers of the chain, faults of the database and interleaved sessions.
\<close>

theorem trigger_sent_once:
  assumes "fair ev" and "db_ok (os_db s)" and "os_sends s = []" and "u = oracle_run ev cfg es s"
  shows "distinct (map fst (os_sends u)) \<and>
    (\<forall>(k, call) \<in> set (os_sends u). \<exists>r \<in> set (od_rows (os_db u)). tg_idempotency_key r = k \<and> dispatched r \<and>
      (\<forall>q \<in> set (od_rows (os_db u)). dispatched q \<longrightarrow> tg_action_key q = tg_action_key r \<longrightarrow> q = r))"
proof -
  have "sends_claimed u" using oracle_run_ok [OF assms(1)] assms(2-) by (simp add: sends_claimed_def)
  then have u: "db_ok (os_db u)" "distinct (map fst (os_sends u))" "\<forall>(k, call) \<in> set (os_sends u). claimed k (os_db u)"
    by (auto simp: sends_claimed_def list_all_iff)
  have "\<exists>r \<in> set (od_rows (os_db u)). tg_idempotency_key r = k \<and> dispatched r \<and>
      (\<forall>q \<in> set (od_rows (os_db u)). dispatched q \<longrightarrow> tg_action_key q = tg_action_key r \<longrightarrow> q = r)"
    if "claimed k (os_db u)" for k
    using that dispatched_once [OF u(1)] unfolding claimed_row by blast
  with u(2,3) show ?thesis by blast
qed

theorem trigger_sent_once_witness:
  "distinct (map fst (os_sends (oracle_run demo_env demo_config [Request (demo_request ''r1''), Request (demo_request ''r2'')] demo_start)))"
  using trigger_sent_once [OF demo_fair _ _ refl, of demo_start demo_config "[Request (demo_request ''r1''), Request (demo_request ''r2'')]"]
  by (simp add: demo_start_def db_ok_def violated_index_def List.map_filter_simps)

text \<open>
  C3. No operation loses or rewrites the record of a dispatch: the identity of a trigger, its
  claim and signer, its transaction hash and its finality evidence stay as they were written.
\<close>

theorem dispatch_record_permanent:
  assumes "fair ev" and "db_ok (os_db s)" and "r \<in> set (od_rows (os_db s))"
  shows "\<exists>r' \<in> set (od_rows (os_db (oracle_run ev cfg es s))).
    tg_idempotency_key r' = tg_idempotency_key r \<and> tg_action_key r' = tg_action_key r \<and>
    tg_funded_binding r' = tg_funded_binding r \<and>
    (dispatched r \<longrightarrow> tg_dispatch_started_at r' = tg_dispatch_started_at r \<and>
       tg_dispatch_signer_scope r' = tg_dispatch_signer_scope r) \<and>
    (tg_tx_hash r \<noteq> None \<longrightarrow> tg_tx_hash r' = tg_tx_hash r) \<and>
    (tg_dispatch_finality_evidence r \<noteq> None \<longrightarrow> tg_dispatch_finality_evidence r' = tg_dispatch_finality_evidence r)"
proof -
  have "db_kept (os_db s) (os_db (oracle_run ev cfg es s))"
    using service_run [OF assms(1)] assms(2) by (auto simp: service_step_def)
  with assms(3) obtain r' where "r' \<in> set (od_rows (os_db (oracle_run ev cfg es s)))" "row_kept r r'"
    by (auto simp: db_kept_def)
  then show ?thesis unfolding row_kept_def identity_of_def prod.inject by blast
qed

theorem dispatch_record_permanent_witness:
  "\<exists>r' \<in> set (od_rows (os_db (oracle_run demo_env demo_config [Poll_confirmations, Request (demo_request ''r2'')] demo_observing))).
    tg_tx_hash r' = Some (hash_of (CHR ''5'')) \<and> tg_dispatch_started_at r' = Some 0"
proof -
  have "demo_submitted \<in> set (od_rows (os_db demo_observing))" by (simp add: demo_observing_def)
  from dispatch_record_permanent [OF demo_fair demo_observing_ok this,
      of demo_config "[Poll_confirmations, Request (demo_request ''r2'')]"]
  show ?thesis unfolding demo_submitted_fields by blast
qed

text \<open>
  C14. Every reachable table is well typed: finality evidence belongs to the dispatch of its own row,
  the signer of a dispatch is on the chain of the funded binding, and a signer has at most one
  dispatch whose outcome is open.
\<close>

theorem trigger_table_well_typed:
  assumes "fair ev" and "db_ok (os_db s)" and "db = os_db (oracle_run ev cfg es s)"
  shows "\<forall>r \<in> set (od_rows db).
    (\<forall>e. tg_dispatch_finality_evidence r = Some e \<longrightarrow> dispatched r \<and> tg_tx_hash r = Some (df_transactionHash e) \<and>
      tg_dispatch_signer_scope r = Some (df_signerScope e)) \<and>
    (dispatched r \<longrightarrow> (\<exists>scope. tg_dispatch_signer_scope r = Some scope \<and>
      arrow_text (tg_funded_binding r) ''chainId'' = Some (scope_chain scope))) \<and>
    (\<forall>q \<in> set (od_rows db). unresolved r \<longrightarrow> unresolved q \<longrightarrow>
      tg_dispatch_signer_scope q = tg_dispatch_signer_scope r \<longrightarrow> q = r)"
proof -
  have ok: "db_ok db" using service_run [OF assms(1)] assms(2,3) by (auto simp: service_step_def)
  have "row_ok r" if "r \<in> set (od_rows db)" for r using ok that by (simp add: db_ok_def list_all_iff)
  then show ?thesis using row_okD unresolved_once [OF ok] by blast
qed

theorem trigger_table_well_typed_witness:
  "let db = os_db (oracle_run demo_env demo_config [Poll_confirmations] demo_observing) in
   list_all (\<lambda>r. list_all (\<lambda>q. \<not> (unresolved r \<and> unresolved q \<and> tg_dispatch_signer_scope q = tg_dispatch_signer_scope r \<and> q \<noteq> r))
     (od_rows db)) (od_rows db)"
  using trigger_table_well_typed [OF demo_fair demo_observing_ok refl, of demo_config "[Poll_confirmations]"]
  unfolding Let_def list_all_iff by blast

section \<open>Answering\<close>



section \<open>Containment\<close>

text \<open>The guard is configured and either cannot be read or shows a containment that is not released.\<close>

definition held :: "oracle_env \<Rightarrow> oracle_config \<Rightarrow> string \<Rightarrow> bool" where
  "held ev cfg tradeId = (isContainmentConfigured cfg \<and>
    (\<forall>n. case ov_containments ev n of Inl _ \<Rightarrow> True
       | Inr rows \<Rightarrow> \<exists>c \<in> set rows. cn_trade_id c = tradeId \<and> cn_state c \<noteq> ''RELEASED''))"

lemma held_refused:
  assumes "held ev cfg tradeId"
  shows "triple P (assertMayProgress ev cfg tradeId) (\<lambda>_ _. False) (\<lambda>_ _. True)"
proof (rule tripleI)
  fix s x t assume run: "assertMayProgress ev cfg tradeId s = (Inr x, t)"
  have cfg: "isContainmentConfigured cfg" using assms by (simp add: held_def)
  from run cfg obtain rows where rows: "ov_containments ev (os_tick s) = Inr rows"
    "filter (\<lambda>c. cn_trade_id c = tradeId \<and> cn_state c \<noteq> ''RELEASED'') rows = []"
    by (auto simp: assertMayProgress_def guard_assertMayProgress_def bind_def catch_def answer_def throw_def ret_def
        split: sum.splits list.splits)
  have "case ov_containments ev (os_tick s) of Inl _ \<Rightarrow> True
      | Inr rows \<Rightarrow> \<exists>c \<in> set rows. cn_trade_id c = tradeId \<and> cn_state c \<noteq> ''RELEASED''"
    using assms unfolding held_def by blast
  with rows show False by (auto simp: filter_empty_conv)
qed simp

lemma triple_any: "triple P m (\<lambda>_ _. True) (\<lambda>_ _. True)"
  by (rule tripleI) auto

lemma held_preflight:
  assumes "held ev cfg (tg_trade_id t)"
  shows "triple P (preflight ev cfg t n) (\<lambda>_ _. False) (\<lambda>_ _. True)"
  unfolding preflight_def
  by (rule triple_bind [OF triple_any], rule triple_bind [OF triple_any], rule triple_bind [OF triple_any], rule triple_if,
      (rule triple_throw, simp), rule triple_bind [OF triple_any], rule triple_bind [OF triple_any],
      rule triple_bind [OF held_refused [OF assms]]) (simp add: triple_def)

definition unsent :: "oracle_state \<Rightarrow> oracle_state \<Rightarrow> bool" where
  "unsent s t = (\<not> os_dispatchClaimed s \<longrightarrow> quiet_step s t)"

interpretation unsent: state_order unsent
  by unfold_locales (auto simp: unsent_def quiet_step_def intro: db_kept_trans)

lemma held_attempt:
  assumes "fair ev" and "held ev cfg (tg_trade_id t)"
  shows "obeys unsent (attempt_step ev cfg t ak n)"
  unfolding obeys_def unsent_def
proof (intro allI impI)
  fix s :: oracle_state assume s: "\<not> os_dispatchClaimed s"
  have "\<exists>e u. preflight ev cfg t n s = (Inl e, u)"
    using tripleD(1) [OF held_preflight [OF assms(2), where P = "\<lambda>_. True" and n = n], of s]
    by (cases "preflight ev cfg t n s"; cases "fst (preflight ev cfg t n s)") auto
  then obtain e u where pre: "preflight ev cfg t n s = (Inl e, u)" by blast
  have su: "quiet_step s u" using quiet_execution_parts(1) [OF assms(1), of cfg t n] pre unfolding obeys_def by (metis snd_conv)
  have "attempt_step ev cfg t ak n s = failed_attempt ev cfg t ak n e u"
    using pre s su by (simp add: attempt_step_def attempt_once_def bind_def catch_def gets_def quiet_step_def)
  moreover have "quiet_step u (snd (failed_attempt ev cfg t ak n e u))"
    using quiet_execution_parts(5) [OF assms(1)] unfolding obeys_def by blast
  ultimately show "quiet_step s (snd (attempt_step ev cfg t ak n s))" using quiet.order_trans [OF su] by simp
qed

lemma held_execute_from:
  "fair ev \<Longrightarrow> held ev cfg (tg_trade_id t) \<Longrightarrow> obeys unsent (execute_from ev cfg t ak n)"
proof (induction ev cfg t ak n rule: execute_from.induct)
  case (1 ev cfg t ak n)
  have "obeys unsent (case r of Finished resp \<Rightarrow> ret resp | Again \<Rightarrow> execute_from ev cfg t ak (n + 1))"
    if "n \<le> oc_maxAttempts cfg" for r
    using 1 that by (cases r) (auto intro: unsent.obeys_ret)
  then have "n \<le> oc_maxAttempts cfg \<Longrightarrow> obeys unsent (bind (attempt_step ev cfg t ak n) (\<lambda>r.
      case r of Finished resp \<Rightarrow> ret resp | Again \<Rightarrow> execute_from ev cfg t ak (n + 1)))"
    by (intro unsent.obeys_bind held_attempt "1.prems")
  then show ?case unfolding execute_from.simps [of ev cfg t ak n] by (intro obeys_split unsent.obeys_throw)
qed

text \<open>
  C8. A trade under reconciliation containment does not move: while the guard shows a containment
  that is not released, or cannot be read at all, executing a trigger of that trade hands nothing to
  the signer.
\<close>

theorem contained_trade_not_sent:
  assumes "fair ev" and "held ev cfg (tg_trade_id t)"
  shows "os_sends (snd (executeTriggerWithRetry ev cfg t actionKey s)) = os_sends s"
proof -
  let ?s = "s\<lparr>os_dispatchClaimed := False, os_observedHash := None\<rparr>"
  have "unsent ?s (snd (execute_from ev cfg t actionKey 1 ?s))"
    using held_execute_from [OF assms] by (simp add: obeys_def)
  then show ?thesis by (simp add: executeTriggerWithRetry_def bind_def modify_def unsent_def quiet_step_def)
qed

theorem contained_trade_not_sent_witness:
  "os_sends (snd (executeTriggerWithRetry (demo_env\<lparr>ov_containments := (\<lambda>n. if n = 9 then Inl (Error ''timeout'') else
       Inr [\<lparr>cn_trade_id = ''7'', cn_incident_reference = ''INC-1'', cn_state = ''PAUSE_REQUIRED''\<rparr>])\<rparr>)
     demo_config demo_submitted ''RELEASE_STAGE_1:7'' demo_observing)) = []"
proof -
  let ?ev = "demo_env\<lparr>ov_containments := (\<lambda>n. if n = 9 then Inl (Error ''timeout'') else
       Inr [\<lparr>cn_trade_id = ''7'', cn_incident_reference = ''INC-1'', cn_state = ''PAUSE_REQUIRED''\<rparr>])\<rparr>"
  have "fair ?ev" using demo_fair by (simp add: fair_def)
  moreover have "held ?ev demo_config (tg_trade_id demo_submitted)"
    by (simp add: held_def isContainmentConfigured_def truthy_def demo_config_def demo_submitted_def new_row_def)
  ultimately show ?thesis using contained_trade_not_sent [of ?ev demo_config demo_submitted "''RELEASE_STAGE_1:7''" demo_observing]
    by (simp add: demo_observing_def demo_start_def)
qed

section \<open>What failures reveal\<close>

lemma raw_message: "publicFailureMessage (classifyError (Raw_failure m c)) = storedFailureMessage (Some (oe_errorType (classifyError (Raw_failure m c))))"
  by (simp add: classifyError_def publicFailureMessage_def fromRawFailure_def Let_def)



end
