(* ===== verification/Oracle_Confirmation.thy ===== *)
theory Oracle_Confirmation
  imports Oracle_Properties
begin

text \<open>
  What a confirmation rests on. \<open>status_step\<close> says that no trigger changed its status; every part of
  \<open>checkConfirmation\<close> obeys it except the last update, which is reached only with a verified receipt
  and a matching indexer event.
\<close>

section \<open>Parts that change no status\<close>

definition solo :: "'x db_env_scheme \<Rightarrow> bool" where
  "solo ev = (\<forall>n db. ov_others ev n db = db)"

definition statuses :: "oracle_db \<Rightarrow> (string \<times> trigger_status) list" where
  "statuses db = map (\<lambda>r. (tg_idempotency_key r, tg_status r)) (od_rows db)"

definition status_step :: "oracle_state \<Rightarrow> oracle_state \<Rightarrow> bool" where
  "status_step s t = (statuses (os_db t) = statuses (os_db s))"

interpretation status: state_order status_step
  by unfold_locales (auto simp: status_step_def)

lemma status_answer [obeys_intros]: "obeys status_step (answer f)"
  by (simp add: obeys_def answer_def status_step_def)

lemma status_clock [obeys_intros]: "obeys status_step (clock ev)"
  unfolding clock_def by (rule status_answer)

lemma status_local: "(\<And>s. os_db (f s) = os_db s) \<Longrightarrow> obeys status_step (modify f)"
  by (simp add: obeys_def modify_def status_step_def)

lemma status_statement:
  assumes "solo ev" and "\<And>now db x db'. q now db = Inr (x, db') \<Longrightarrow> statuses db' = statuses db"
  shows "obeys status_step (statement ev q)"
  unfolding obeys_def
proof
  fix s :: oracle_state
  have o: "ov_others ev n db = db" for n db using assms(1) by (simp add: solo_def)
  show "status_step s (snd (statement ev q s))"
    using assms(2) [of "ov_clock ev (os_tick s)" "os_db s"] unfolding statement_def Let_def status_step_def o
    by (auto split: option.splits sum.splits prod.splits bool.splits)
qed

lemma status_update:
  assumes "solo ev" and "\<And>now r. tg_status (f now r) = tg_status r \<and> tg_idempotency_key (f now r) = tg_idempotency_key r"
  shows "obeys status_step (statement ev (\<lambda>now. update_where p (f now)))"
  by (rule status_statement [OF assms(1)]) (auto simp: statuses_def assms(2) update_whereD(1))

lemma status_select [obeys_intros]: "solo ev \<Longrightarrow> obeys status_step (select ev q)"
  unfolding select_def by (rule status_statement) auto

lemma status_resolve [obeys_intros]: "solo ev \<Longrightarrow> obeys status_step (resolveSignerDispatch ev k e)"
  unfolding resolveSignerDispatch_def by (intro obeys_intros status_update) auto

lemma status_chain [obeys_intros]:
  "obeys status_step (getTrade ev tradeId)" "obeys status_step (assertFundedBinding ev cfg b)"
  "obeys status_step (verifyProgressionReceipt ev cfg scope hash b)" "obeys status_step (findConfirmationEvent ev h tradeId n)"
  unfolding getTrade_def sdk_getTrade_def sdk_error_def assertFundedBinding_def verifyProgressionReceipt_def findConfirmationEvent_def
  by (intro obeys_intros)+

lemma status_unconfirmed [obeys_intros]: "obeys status_step (unconfirmed ev cfg t)"
  unfolding unconfirmed_def by (intro obeys_intros status_local) auto

section \<open>Reaching the last update\<close>

text \<open>
  \<open>verified ev cfg t\<close>: at some point of the run both witnesses were asked about the transaction of the
  row, and their answers were accepted for its funded instruction.
\<close>

definition verified :: "oracle_env \<Rightarrow> trigger \<Rightarrow> bool" where
  "verified ev t = (\<exists>b n evi. row_binding ev t = Inr b \<and>
     verifyOracleProgressionReceipt (ov_getAddress ev) (ov_parseLog ev) (ov_encode ev) (ov_late ev n) (ov_late ev (Suc n))
       (ov_clock ev n) (ov_dispatchWitnesses ev n) (the (tg_dispatch_signer_scope t)) (the (tg_tx_hash t)) b = Inr evi)"

definition confirm_step :: "oracle_env \<Rightarrow> trigger \<Rightarrow> oracle_state \<Rightarrow> oracle_state \<Rightarrow> bool" where
  "confirm_step ev t s u = (status_step s u \<or> verified ev t \<and>
     (\<forall>k st. (k, st) \<in> set (statuses (os_db u)) \<longrightarrow> (k, st) \<in> set (statuses (os_db s)) \<or> k = tg_idempotency_key t))"

interpretation confirm: state_order "confirm_step ev t" for ev t
proof
  fix a b c :: oracle_state
  show "confirm_step ev t a a" by (simp add: confirm_step_def)
  assume "confirm_step ev t a b" and "confirm_step ev t b c"
  then show "confirm_step ev t a c" unfolding confirm_step_def status_step_def by metis
qed

lemma status_is_confirm: "obeys status_step m \<Longrightarrow> obeys (confirm_step ev t) m"
  by (auto simp: obeys_def confirm_step_def)

lemma confirm_update:
  assumes "solo ev" and "verified ev t"
  shows "obeys (confirm_step ev t) (updateTrigger ev (tg_idempotency_key t) u)"
  unfolding obeys_def
proof
  fix s :: oracle_state
  let ?k = "tg_idempotency_key t" and ?f = "set_columns (ov_clock ev (os_tick s)) u"
  have o: "ov_others ev n db = db" for n db using assms(1) by (simp add: solo_def)
  have "(k, st) \<in> set (statuses (os_db s)) \<or> k = ?k"
    if up: "update_where (with_key ?k) ?f (os_db s) = Inr (rows, db')" and m: "(k, st) \<in> set (statuses db')" for k st rows db'
    using m by (auto simp: statuses_def update_whereD(1) [OF up] with_key_def split: if_splits)
  then show "confirm_step ev t s (snd (updateTrigger ev ?k u s))"
    using assms(2) unfolding confirm_step_def status_step_def updateTrigger_def bind_def statement_def Let_def o ret_def
    by (auto split: option.splits sum.splits prod.splits bool.splits)
qed

lemma bind_verified:
  assumes "row_binding ev t = Inr b" and "\<And>evi. verified ev t \<Longrightarrow> obeys (confirm_step ev t) (f evi)"
  shows "obeys (confirm_step ev t)
    (bind (verifyProgressionReceipt ev cfg (the (tg_dispatch_signer_scope t)) (the (tg_tx_hash t)) b) f)" (is "obeys _ (bind ?m f)")
  unfolding obeys_def
proof
  fix s :: oracle_state
  have st: "confirm_step ev t s (snd (?m s))"
    using status_chain(3) unfolding obeys_def confirm_step_def by blast
  have "confirm_step ev t (snd (?m s)) (snd (f evi (snd (?m s))))" if "?m s = (Inr evi, u)" for evi u
  proof -
    from that have "verified ev t"
      unfolding verifyProgressionReceipt_def verified_def answer_def using assms(1) by (auto elim!: bind_InrE)
    then show ?thesis using assms(2) by (simp add: obeys_def)
  qed
  then show "confirm_step ev t s (snd (bind ?m f s))"
    using st confirm.order_trans [OF st] by (cases "?m s"; cases "fst (?m s)") (auto simp: bind_def)
qed

lemma checkConfirmation_step:
  assumes "solo ev"
  shows "obeys (confirm_step ev t) (checkConfirmation ev cfg t)"
proof -
  have "obeys (confirm_step ev t) (confirm_with ev cfg t (the (tg_tx_hash t)) (the (tg_dispatch_signer_scope t)))"
  proof (cases "row_binding ev t")
    case (Inl e)
    then show ?thesis by (simp add: confirm_with_def bind_def lift_def obeys_def)
  next
    case (Inr b)
    have "bind (lift (Inr b)) g = g b" for g :: "binding_row \<Rightarrow> unit action" by (rule ext) (simp add: bind_def lift_def)
    then show ?thesis unfolding confirm_with_def Inr
      by (simp only:) (intro bind_verified [OF Inr] confirm.obeys_bind obeys_option obeys_split confirm.obeys_ret
          confirm_update assms status_is_confirm [OF status_chain(4)] status_is_confirm [OF status_resolve]
          status_is_confirm [OF status_clock])
  qed
  then show ?thesis unfolding checkConfirmation_def
    by (intro confirm.obeys_catch obeys_split confirm.obeys_ret status_is_confirm [OF status_unconfirmed])
qed

section \<open>What the receipt shows\<close>

text \<open>The only movement between the escrow and anyone is the bound payout to the bound supplier.\<close>

definition pays_bound_amount :: "binding_row \<Rightarrow> (string \<times> chain_event) list \<Rightarrow> bool" where
  "pays_bound_amount b parsed =
    (case escrow_transfers b parsed of
       [] \<Rightarrow> \<not> 0 < amt b ''supplierPayoutAmount''
     | [Transfer src dst v] \<Rightarrow> toLowerCase src = fld b ''escrowAddress'' \<and> toLowerCase dst = fld b ''supplierAddress'' \<and>
         int v = amt b ''supplierPayoutAmount''
     | _ \<Rightarrow> False)"

lemma movement_pays: "check_movement b parsed = Inr () \<Longrightarrow> pays_bound_amount b parsed"
  using check_movementD [of b parsed] by (cases "0 < amt b ''supplierPayoutAmount''") (auto simp: pays_bound_amount_def)

lemma verified_receipt:
  assumes "verified ev t"
  shows "\<exists>b b' n. row_binding ev t = Inr b \<and>
    parseSettlementFundedBinding (ov_getAddress ev) (Some (binding_json b)) = Inr b' \<and> length (ov_dispatchWitnesses ev n) = 2 \<and>
    (\<forall>w \<in> set (ov_dispatchWitnesses ev n). \<exists>tx r. pv_transaction (wi_provider w) (the (tg_tx_hash t)) = Inr (Some tx) \<and>
       toLowerCase (tx_data tx) = toLowerCase (ov_encode ev (progression_call b')) \<and>
       pv_receipt (wi_provider w) 1 (the (tg_tx_hash t)) = Inr (Some r) \<and> rx_status r = 1 \<and>
       pays_bound_amount b' (parsed_logs (ov_parseLog ev) (rx_logs r)))"
proof -
  from assms obtain b n evi where b: "row_binding ev t = Inr b" and
    v: "verifyOracleProgressionReceipt (ov_getAddress ev) (ov_parseLog ev) (ov_encode ev) (ov_late ev n) (ov_late ev (Suc n))
       (ov_clock ev n) (ov_dispatchWitnesses ev n) (the (tg_dispatch_signer_scope t)) (the (tg_tx_hash t)) b = Inr evi"
    unfolding verified_def by blast
  from v obtain b' where b': "parseSettlementFundedBinding (ov_getAddress ev) (Some (binding_json b)) = Inr b'"
    unfolding verifyOracleProgressionReceipt_def by (auto elim!: rbind_InrE split: sum.splits)
  note d = progression_receiptD [OF v b']
  have "\<exists>tx r. pv_transaction (wi_provider w) (the (tg_tx_hash t)) = Inr (Some tx) \<and>
       toLowerCase (tx_data tx) = toLowerCase (ov_encode ev (progression_call b')) \<and>
       pv_receipt (wi_provider w) 1 (the (tg_tx_hash t)) = Inr (Some r) \<and> rx_status r = 1 \<and>
       pays_bound_amount b' (parsed_logs (ov_parseLog ev) (rx_logs r))" if "w \<in> set (ov_dispatchWitnesses ev n)" for w
    using d(4) [OF that] observe_progressionD movement_pays by blast
  then show ?thesis using b b' dispatch_finalityD(1) [OF d(1)] by blast
qed

text \<open>
  C2. A trigger is confirmed only on evidence: if the observer turns a trigger \<open>CONFIRMED\<close>, it is the
  trigger it was checking, and each of two witnesses returned that trigger's transaction, calling
  the escrow as the funded instruction says, with a successful receipt whose only escrow transfer
  pays the bound amount to the bound supplier.
\<close>

theorem confirmation_needs_paid_receipt:
  assumes "solo ev" and "u = snd (checkConfirmation ev cfg t s)"
    and "(k, CONFIRMED) \<in> set (statuses (os_db u))" and "(k, CONFIRMED) \<notin> set (statuses (os_db s))"
  shows "k = tg_idempotency_key t \<and> (\<exists>b b' n. row_binding ev t = Inr b \<and>
    parseSettlementFundedBinding (ov_getAddress ev) (Some (binding_json b)) = Inr b' \<and> length (ov_dispatchWitnesses ev n) = 2 \<and>
    (\<forall>w \<in> set (ov_dispatchWitnesses ev n). \<exists>tx r. pv_transaction (wi_provider w) (the (tg_tx_hash t)) = Inr (Some tx) \<and>
       toLowerCase (tx_data tx) = toLowerCase (ov_encode ev (progression_call b')) \<and>
       pv_receipt (wi_provider w) 1 (the (tg_tx_hash t)) = Inr (Some r) \<and> rx_status r = 1 \<and>
       pays_bound_amount b' (parsed_logs (ov_parseLog ev) (rx_logs r))))"
proof -
  have "confirm_step ev t s u" using checkConfirmation_step [OF assms(1)] assms(2) by (simp add: obeys_def)
  with assms(3,4) have "verified ev t" "k = tg_idempotency_key t" by (auto simp: confirm_step_def status_step_def)
  then show ?thesis using verified_receipt by blast
qed

section \<open>An example\<close>

definition demo_evidence :: dispatch_finality where
  "demo_evidence = \<lparr>df_policy = ''oracle_dispatch_nonce_finality_v1'', df_signerScope = ''8:'' @ addr_of (CHR ''f''),
     df_transactionHash = hash_of (CHR ''5''), df_blockNumber = 12, df_blockHash = hash_of (CHR ''6''), df_receiptStatus = 1,
     df_witnessIds = [replicate 64 (CHR ''a''), replicate 64 (CHR ''b'')], df_verifiedAt = toISOString 2\<rparr>"

lemma demo_funding_verified:
  "verifyFundedSettlementBinding lower_address demo_parse id False (oc_deployment demo_config) [demo_provider, demo_provider] demo_row = Inr ()"
  unfolding verifyFundedSettlementBinding_def demo_row_parses sum.case rbind.simps by code_simp

lemma demo_trade_matches:
  "assertFundedTradeMatchesBinding lower_address (decoded_trade demo_trade) (Some (binding_json demo_row)) = Inr ()"
  unfolding assertFundedTradeMatchesBinding_def demo_row_parses rbind.simps by code_simp

lemma demo_receipt_verified:
  "verifyOracleProgressionReceipt lower_address demo_parse (\<lambda>_. ''call'') False False 2 (ov_dispatchWitnesses demo_env 2)
     (''8:'' @ addr_of (CHR ''f'')) (hash_of (CHR ''5'')) demo_row = Inr demo_evidence"
  unfolding verifyOracleProgressionReceipt_def demo_row_parses sum.case rbind.simps by code_simp

lemma demo_env_fields [simp]:
  "ov_getAddress demo_env = lower_address" "ov_parseLog demo_env = demo_parse" "ov_encode demo_env = (\<lambda>_. ''call'')"
  "ov_keccak256 demo_env = id" "ov_late demo_env n = False" "ov_clock demo_env n = int n"
  "ov_fundingWitnesses demo_env n = [demo_provider, demo_provider]" "ov_chainTrade demo_env n tid = Inr demo_trade"
  by (simp_all add: demo_env_def)

lemma demo_getTrade: "getTrade demo_env tid s = (Inr (decoded_trade demo_trade), s\<lparr>os_tick := Suc (os_tick s)\<rparr>)"
proof -
  have "tr_tradeId (decoded_trade demo_trade) \<noteq> ''0''" "tr_buyer (decoded_trade demo_trade) \<noteq> ''0x'' @ replicate 40 (CHR ''0'')"
    by code_simp+
  then show ?thesis by (simp add: getTrade_def sdk_getTrade_def sdk_error_def catch_def bind_def answer_def ret_def)
qed

lemma demo_assertFunded:
  "assertFundedBinding demo_env demo_config demo_row s = (Inr (), s\<lparr>os_tick := Suc (Suc (os_tick s))\<rparr>)"
  by (simp add: assertFundedBinding_def bind_def lift_def plain_error_def answer_def demo_row_parses demo_funding_verified
      demo_getTrade demo_trade_matches)

definition demo_event :: indexer_event where
  "demo_event = \<lparr>ie_id = ''event'', ie_tradeId = ''7'', ie_eventName = ''FundsReleasedStage1'', ie_txHash = hash_of (CHR ''5''),
     ie_blockNumber = 12\<rparr>"

lemma demo_head:
  "row_binding demo_env demo_submitted = Inr demo_row"
  "verifyProgressionReceipt demo_env demo_config (''8:'' @ addr_of (CHR ''f'')) (hash_of (CHR ''5'')) demo_row demo_observing =
     (Inr demo_evidence, demo_observing\<lparr>os_tick := 3\<rparr>)"
  "findConfirmationEvent demo_env (hash_of (CHR ''5'')) ''7'' (expected_event demo_row) (demo_observing\<lparr>os_tick := 3\<rparr>) =
     (Inr (Some demo_event), demo_observing\<lparr>os_tick := 4\<rparr>)"
proof -
  show "row_binding demo_env demo_submitted = Inr demo_row"
    using demo_row_required by (simp add: row_binding_def demo_submitted_def new_row_def)
  have "os_tick demo_observing = 0" by (simp add: demo_observing_def demo_start_def)
  then show "verifyProgressionReceipt demo_env demo_config (''8:'' @ addr_of (CHR ''f'')) (hash_of (CHR ''5'')) demo_row demo_observing =
     (Inr demo_evidence, demo_observing\<lparr>os_tick := 3\<rparr>)"
    using demo_receipt_verified
    by (simp add: verifyProgressionReceipt_def bind_def demo_assertFunded answer_def numeral_2_eq_2 numeral_3_eq_3)
  have "expected_event demo_row = ''FundsReleasedStage1''" by code_simp
  then show "findConfirmationEvent demo_env (hash_of (CHR ''5'')) ''7'' (expected_event demo_row) (demo_observing\<lparr>os_tick := 3\<rparr>) =
     (Inr (Some demo_event), demo_observing\<lparr>os_tick := 4\<rparr>)"
    by (simp add: findConfirmationEvent_def catch_def bind_def answer_def ret_def demo_event_def demo_env_def)
qed

text \<open>The rest of the check, from the state in which the event has been found.\<close>

definition demo_rest :: "unit action" where
  "demo_rest =
    (case Some demo_event of
       None \<Rightarrow> ret ()
     | Some e \<Rightarrow>
        if toLowerCase (ie_txHash e) \<noteq> toLowerCase (hash_of (CHR ''5'')) \<or> ie_tradeId e \<noteq> tg_trade_id demo_submitted \<or>
           ie_blockNumber e \<noteq> df_blockNumber demo_evidence \<or> ie_eventName e \<noteq> expected_event demo_row
        then ret ()
        else
          bind (resolveSignerDispatch demo_env (tg_idempotency_key demo_submitted) demo_evidence) (\<lambda>_.
          bind (clock demo_env) (\<lambda>now1. bind (clock demo_env) (\<lambda>now2. bind (clock demo_env) (\<lambda>now3. bind (clock demo_env) (\<lambda>now4.
          updateTrigger demo_env (tg_idempotency_key demo_submitted) (no_update\<lparr>ud_status := Some CONFIRMED,
            ud_block_number := Some (df_blockNumber demo_evidence), ud_confirmation_stage := Some FINALIZED,
            ud_confirmation_stage_at := Some now1, ud_indexer_confirmed := Some True, ud_indexer_confirmed_at := Some now2,
            ud_indexer_event_id := Some (ie_id e), ud_on_chain_verified := Some True, ud_on_chain_verified_at := Some now3,
            ud_confirmed_at := Some now4\<rparr>)))))))"

lemma demo_rest_confirms:
  "(case demo_rest (demo_observing\<lparr>os_tick := 4\<rparr>) of (Inr _, u) \<Rightarrow> statuses (os_db u) | (Inl _, u) \<Rightarrow> []) =
     [(''RELEASE_STAGE_1:7:r1'', CONFIRMED)]"
  by code_simp

lemma demo_confirmed:
  "statuses (os_db (snd (checkConfirmation demo_env demo_config demo_submitted demo_observing))) = [(''RELEASE_STAGE_1:7:r1'', CONFIRMED)]"
proof -
  have "confirm_with demo_env demo_config demo_submitted (hash_of (CHR ''5'')) (''8:'' @ addr_of (CHR ''f'')) demo_observing =
      demo_rest (demo_observing\<lparr>os_tick := 4\<rparr>)"
  proof -
    have lift: "lift (row_binding demo_env demo_submitted) demo_observing = (Inr demo_row, demo_observing)"
      by (simp only: demo_head(1)) (simp add: lift_def)
    have tid: "tg_trade_id demo_submitted = ''7''" by (simp add: demo_submitted_def new_row_def)
    show ?thesis unfolding confirm_with_def demo_rest_def tid
      by (simp only: bind_def lift demo_head(2,3) prod.case sum.case)
  qed
  moreover have "the (tg_tx_hash demo_submitted) = hash_of (CHR ''5'')"
    "the (tg_dispatch_signer_scope demo_submitted) = ''8:'' @ addr_of (CHR ''f'')"
    "truthy (tg_tx_hash demo_submitted)" "tg_submitted_at demo_submitted \<noteq> None"
    "truthy (tg_dispatch_signer_scope demo_submitted)" "dispatched demo_submitted"
    by (simp_all add: demo_submitted_def dispatched_def truthy_def hash_of_def)
  ultimately show ?thesis using demo_rest_confirms
    by (simp add: checkConfirmation_def catch_def split: prod.splits sum.splits)
qed

theorem confirmation_needs_paid_receipt_witness:
  "\<exists>b b' n. row_binding demo_env demo_submitted = Inr b \<and> length (ov_dispatchWitnesses demo_env n) = 2 \<and>
    parseSettlementFundedBinding lower_address (Some (binding_json b)) = Inr b'"
proof -
  have k: "(''RELEASE_STAGE_1:7:r1'', CONFIRMED) \<in> set (statuses (os_db (snd (checkConfirmation demo_env demo_config demo_submitted demo_observing))))"
    unfolding demo_confirmed by simp
  have "(''RELEASE_STAGE_1:7:r1'', CONFIRMED) \<notin> set (statuses (os_db demo_observing))"
    by (simp add: statuses_def demo_observing_def demo_submitted_def new_row_def)
  moreover have "solo demo_env" by (simp add: solo_def demo_env_def)
  ultimately show ?thesis
    using confirmation_needs_paid_receipt [OF _ refl k] unfolding demo_env_fields(1) by blast
qed

end
