(* ===== verification/Oracle_Auth.thy ===== *)
theory Oracle_Auth
  imports Oracle_Confirmation
begin

text \<open>
  How the oracle authenticates a request: the bearer token and the HMAC middleware
  (\<open>oracle/src/middleware/middleware.ts\<close>) over the digests and the signature check of
  \<open>utils/crypto.ts\<close>. A body is its bytes. The HMAC and hash functions of the platform and the text
  \<open>toFixed(1)\<close> gives an age in milliseconds are arguments (\<open>auth_env\<close>). The lemmas show that a nonce
  that let a request through stays in the store until it expires.
\<close>

section \<open>Digests and timestamps\<close>

record auth_env =
  ae_hmac :: "string \<Rightarrow> string \<Rightarrow> string"
  ae_sha256 :: "string \<Rightarrow> string"
  ae_ageText :: "int \<Rightarrow> string"

record auth_config =
  ac_apiKey :: string
  ac_hmacSecret :: string
  ac_hmacNonceTtlSeconds :: int

text \<open>The UTF-8 bytes of a text of code units up to 255.\<close>

definition utf8 :: "string \<Rightarrow> string" where
  "utf8 s = concat (map (\<lambda>c. let n = (of_char c :: nat) in
     if n < 128 then [c] else [char_of (192 + n div 64), char_of (128 + n mod 64)]) s)"

definition generateRequestHash :: "auth_env \<Rightarrow> string \<Rightarrow> string \<Rightarrow> string \<Rightarrow> string" where
  "generateRequestHash ae timestamp body secret = ae_hmac ae secret (utf8 timestamp @ body)"

definition deriveRequestNonce :: "auth_env \<Rightarrow> string \<Rightarrow> string \<Rightarrow> string \<Rightarrow> string" where
  "deriveRequestNonce ae timestamp body signature = ae_sha256 ae (utf8 timestamp @ '':'' @ body @ '':'' @ utf8 signature)"

text \<open>\<open>parseInt(s)\<close>: white space, a sign, an optional \<open>0x\<close>, then as many digits as there are.\<close>

definition parseInt :: "string \<Rightarrow> int option" where
  "parseInt s =
    (let t = dropWhile is_space s;
         (neg, u) = (case t of c # r \<Rightarrow> if c = CHR ''-'' then (True, r) else if c = CHR ''+'' then (False, r) else (False, t)
           | [] \<Rightarrow> (False, t));
         hex = (take 2 u = ''0x'' \<or> take 2 u = ''0X'');
         ds = (if hex then takeWhile is_hex (drop 2 u) else takeWhile is_digit u);
         n = foldl (\<lambda>n c. (if hex then 16 else 10) * n + hex_val c) 0 ds
     in if ds = [] then None else Some (if neg then - n else n))"

text \<open>The time value of \<open>new Date(n)\<close>; \<open>None\<close> is an invalid date, whose comparisons are all false.\<close>

definition date_time :: "int option \<Rightarrow> int option" where
  "date_time n = (case n of Some i \<Rightarrow> if \<bar>i\<bar> \<le> 8640000000000000 then Some i else None | None \<Rightarrow> None)"

text \<open>\<open>Buffer.from(s, 'hex')\<close> stops at the first pair that is not hexadecimal.\<close>

fun hex_bytes :: "string \<Rightarrow> int list" where
  "hex_bytes (a # b # s) = (if is_hex a \<and> is_hex b then (16 * hex_val a + hex_val b) # hex_bytes s else [])"
| "hex_bytes _ = []"

definition timingSafeEqual :: "int list \<Rightarrow> int list \<Rightarrow> failure + bool" where
  "timingSafeEqual a b = (if length a \<noteq> length b
     then Inl (Raw_failure ''Input buffers must have the same byte length'' (Some ''ERR_CRYPTO_TIMING_SAFE_EQUAL_LENGTH''))
     else Inr (a = b))"

definition too_old :: "auth_env \<Rightarrow> int \<Rightarrow> failure" where
  "too_old ae age = Error (''Request timestamp too old: '' @ ae_ageText ae age @ '' minutes'')"

definition verifyRequestSignature ::
  "auth_env \<Rightarrow> timestamp \<Rightarrow> string \<Rightarrow> string \<Rightarrow> string \<Rightarrow> string \<Rightarrow> int \<Rightarrow> failure + bool" where
  "verifyRequestSignature ae now timestamp body signature secret maxAgeMinutes =
    (let age = map_option (\<lambda>t. now - t) (date_time (parseInt timestamp));
         expectedHash = generateRequestHash ae timestamp body secret in
     if (case age of Some a \<Rightarrow> a > maxAgeMinutes * 60000 | None \<Rightarrow> False) then Inl (too_old ae (the age))
     else if (case age of Some a \<Rightarrow> a < - 60000 | None \<Rightarrow> False) then Inl (Error ''Request timestamp is in the future'')
     else if length signature \<noteq> length expectedHash then Inl (Error ''Invalid HMAC signature'')
     else rbind (timingSafeEqual (hex_bytes signature) (hex_bytes expectedHash)) (\<lambda>isValid.
       if isValid then Inr True else Inl (Error ''Invalid HMAC signature'')))"

section \<open>The middleware\<close>

record http_request =
  hq_timestamp :: "string option"
  hq_signature :: "string option"
  hq_nonce :: "string option"
  hq_authorization :: "string option"
  hq_transferEncoding :: "string option"
  hq_contentLength :: "string option"
  hq_rawBody :: "string option"
  hq_apiKeyToken :: "string option"

datatype reply = Refuse nat string string | Next http_request (next_signature: string) (next_nonce: string)

definition declaresNoBody :: "http_request \<Rightarrow> bool" where
  "declaresNoBody rq = (hq_transferEncoding rq = None \<and>
     (case hq_contentLength rq of None \<Rightarrow> True | Some l \<Rightarrow> trim l = ''0''))"

definition extractBearerToken :: "string option \<Rightarrow> string option" where
  "extractBearerToken authHeader =
    (if \<not> truthy authHeader then None
     else if \<not> startsWith (the authHeader) ''Bearer '' then None
     else Some (drop 7 (the authHeader)))"

definition authMiddleware :: "auth_config \<Rightarrow> http_request \<Rightarrow> reply" where
  "authMiddleware cfg rq =
    (let token = extractBearerToken (hq_authorization rq) in
     if \<not> truthy token then Refuse 401 ''Unauthorized'' ''Missing authorization header''
     else if token \<noteq> Some (ac_apiKey cfg) then Refuse 401 ''Unauthorized'' ''Invalid API key''
     else Next (rq\<lparr>hq_apiKeyToken := token\<rparr>) [] [])"

definition isInvalidSignatureError :: "failure \<Rightarrow> bool" where
  "isInvalidSignatureError e = (getErrorMessage e = ''Invalid HMAC signature'')"

definition verify_now :: "'x db_env_scheme \<Rightarrow> auth_env \<Rightarrow> auth_config \<Rightarrow> string \<Rightarrow> string \<Rightarrow> string \<Rightarrow> string action" where
  "verify_now ev ae cfg timestamp body signature =
    bind (clock ev) (\<lambda>now. bind (lift (verifyRequestSignature ae now timestamp body signature (ac_hmacSecret cfg) 5)) (\<lambda>_. ret body))"

definition verifyReceivedBody ::
  "'x db_env_scheme \<Rightarrow> auth_env \<Rightarrow> auth_config \<Rightarrow> http_request \<Rightarrow> string \<Rightarrow> string \<Rightarrow> string action" where
  "verifyReceivedBody ev ae cfg rq timestamp signature =
    (let received = (case hq_rawBody rq of Some b \<Rightarrow> b | None \<Rightarrow> []) in
     if length received > 0 \<or> \<not> declaresNoBody rq then verify_now ev ae cfg timestamp received signature
     else catch (verify_now ev ae cfg timestamp received signature) (\<lambda>e.
       if \<not> isInvalidSignatureError e then throw e
       else verify_now ev ae cfg timestamp ''{}'' signature))"

definition api_key_token :: "http_request \<Rightarrow> string" where
  "api_key_token rq = (if truthy (hq_apiKeyToken rq) then the (hq_apiKeyToken rq)
     else if truthy (extractBearerToken (hq_authorization rq)) then the (extractBearerToken (hq_authorization rq))
     else ''oracle-service'')"

definition auth_failure :: "failure \<Rightarrow> reply" where
  "auth_failure e =
    (let errorMessage = getErrorMessage e in
     if \<not> (str_includes errorMessage ''Request timestamp'' \<or> str_includes errorMessage ''Invalid HMAC signature'')
     then Refuse 503 ''ServiceUnavailable'' ''Authentication nonce store unavailable''
     else Refuse 401 ''Unauthorized'' errorMessage)"

definition hmacMiddleware :: "'x db_env_scheme \<Rightarrow> auth_env \<Rightarrow> auth_config \<Rightarrow> bool \<Rightarrow> http_request \<Rightarrow> reply action" where
  "hmacMiddleware ev ae cfg pruned_first rq =
    (if \<not> truthy (hq_timestamp rq) \<or> \<not> truthy (hq_signature rq)
     then ret (Refuse 401 ''Unauthorized'' ''Missing X-Timestamp or X-Signature headers'')
     else if hq_rawBody rq = None \<and> \<not> declaresNoBody rq
     then ret (Refuse 401 ''Unauthorized'' ''Request body could not be verified'')
     else let timestamp = the (hq_timestamp rq); signature = the (hq_signature rq); providedNonce = map_option trim (hq_nonce rq) in
       catch (bind (verifyReceivedBody ev ae cfg rq timestamp signature) (\<lambda>body.
         let nonce = (if truthy providedNonce then the providedNonce else deriveRequestNonce ae timestamp body signature) in
         if nonce = [] \<or> length nonce > 255 then ret (Refuse 401 ''Unauthorized'' ''Invalid X-Nonce header'')
         else bind (consumeHmacNonce ev pruned_first (api_key_token rq) nonce (ac_hmacNonceTtlSeconds cfg)) (\<lambda>accepted.
           if \<not> accepted then ret (Refuse 401 ''Unauthorized'' ''Replay detected for nonce'')
           else ret (Next rq signature nonce))))
       (\<lambda>e. ret (auth_failure e)))"

section \<open>Nonces stay until they expire\<close>

definition nonce_held :: "string \<Rightarrow> string \<Rightarrow> timestamp \<Rightarrow> oracle_db \<Rightarrow> bool" where
  "nonce_held a n expires db = list_ex (\<lambda>h. hn_api_key h = a \<and> hn_nonce h = n \<and> hn_expires_at h = expires) (od_nonces db)"

lemma consume_held:
  assumes "nonce_held a n expires db" and "now < expires"
  shows "nonce_held a n expires (snd (consume_nonce pf now a' n' ttl db))" and "\<not> fst (consume_nonce pf now a n ttl db)"
  using assms by (auto simp: nonce_held_def consume_nonce_def Let_def list_ex_iff)

lemma consume_accepted:
  "fst (consume_nonce pf now a n ttl db) \<Longrightarrow> nonce_held a n (now + ttl * 1000) (snd (consume_nonce pf now a n ttl db))"
  by (auto simp: nonce_held_def consume_nonce_def Let_def)

text \<open>From the clock reading \<open>T\<close> on, nothing the middleware does forgets the nonce.\<close>

definition holds_nonce :: "nat \<Rightarrow> (oracle_db \<Rightarrow> bool) \<Rightarrow> oracle_state \<Rightarrow> oracle_state \<Rightarrow> bool" where
  "holds_nonce T hold s t = (T \<le> os_tick s \<longrightarrow> T \<le> os_tick t \<and> (hold (os_db s) \<longrightarrow> hold (os_db t)))"

interpretation nonces: state_order "holds_nonce T hold" for T hold
  by unfold_locales (auto simp: holds_nonce_def)

lemma nonces_clock [obeys_intros]: "obeys (holds_nonce T hold) (clock ev)"
  by (simp add: obeys_def clock_def answer_def holds_nonce_def)

lemma nonces_verify [obeys_intros]:
  "obeys (holds_nonce T hold) (verify_now ev ae cfg ts body sig)"
  "obeys (holds_nonce T hold) (verifyReceivedBody ev ae cfg rq ts sig)"
  unfolding verifyReceivedBody_def verify_now_def Let_def by (intro obeys_intros)+

lemma nonces_consume:
  assumes "solo ev" and "\<And>m. T \<le> m \<Longrightarrow> ov_clock ev m < expires"
  shows "obeys (holds_nonce T (nonce_held a n expires)) (consumeHmacNonce ev pf a' n' ttl)"
  unfolding obeys_def
proof
  fix s :: oracle_state
  have o: "ov_others ev m db = db" for m db using assms(1) by (simp add: solo_def)
  show "holds_nonce T (nonce_held a n expires) s (snd (consumeHmacNonce ev pf a' n' ttl s))"
    using consume_held(1) [of a n expires "os_db s" "ov_clock ev (os_tick s)" pf a' n' ttl] assms(2) [of "os_tick s"]
    unfolding consumeHmacNonce_def statement_def Let_def o holds_nonce_def
    by (cases "consume_nonce pf (ov_clock ev (os_tick s)) a' n' ttl (os_db s)") (auto split: option.splits bool.splits)
qed

lemma nonces_middleware:
  assumes "solo ev" and "\<And>m. T \<le> m \<Longrightarrow> ov_clock ev m < expires"
  shows "obeys (holds_nonce T (nonce_held a n expires)) (hmacMiddleware ev ae cfg pf rq)"
  unfolding hmacMiddleware_def Let_def by (intro obeys_intros nonces_consume assms)

text \<open>A request is let through only by a statement that accepted its nonce.\<close>

lemma middleware_next:
  assumes "hmacMiddleware ev ae cfg pf rq s = (Inr (Next rq' sig nonce), t)"
  shows "\<exists>body u. verifyReceivedBody ev ae cfg rq (the (hq_timestamp rq)) (the (hq_signature rq)) s = (Inr body, u) \<and>
    consumeHmacNonce ev pf (api_key_token rq) nonce (ac_hmacNonceTtlSeconds cfg) u = (Inr True, t)"
  using assms unfolding hmacMiddleware_def Let_def
  by (auto simp: ret_def auth_failure_def Let_def elim!: catch_cases bind_InrE split: if_splits)

lemma consume_returned:
  assumes "solo ev" and "consumeHmacNonce ev pf a n ttl s = (Inr c, t)"
  shows "c = fst (consume_nonce pf (ov_clock ev (os_tick s)) a n ttl (os_db s))"
    and "os_db t = snd (consume_nonce pf (ov_clock ev (os_tick s)) a n ttl (os_db s))" and "os_tick t = Suc (os_tick s)"
  using statement_returned [OF assms(2) [unfolded consumeHmacNonce_def]] assms(1) by (auto simp: solo_def)

text \<open>
  C11. A signed request cannot be replayed: once a nonce has let a request of an API key through,
  no later request with that key passes with that nonce before it expires, however many other
  requests arrive in between.
\<close>

theorem nonce_accepted_once:
  assumes "solo ev" and "hmacMiddleware ev ae cfg pf rq s = (Inr (Next rq1 sig nonce), s1)"
    and "\<forall>n \<ge> os_tick s1. ov_clock ev n < ov_clock ev (os_tick s1 - 1) + ac_hmacNonceTtlSeconds cfg * 1000"
    and "s2 = snd (each (\<lambda>(p, q). bind (hmacMiddleware ev ae cfg p q) (\<lambda>_. ret ())) qs s1)"
    and "api_key_token rq' = api_key_token rq"
  shows "fst (hmacMiddleware ev ae cfg pf' rq' s2) \<noteq> Inr (Next rq2 sig' nonce)"
proof
  let ?e = "ov_clock ev (os_tick s1 - 1) + ac_hmacNonceTtlSeconds cfg * 1000"
  let ?R = "holds_nonce (os_tick s1) (nonce_held (api_key_token rq) nonce ?e)"
  have clk: "ov_clock ev m < ?e" if "os_tick s1 \<le> m" for m using assms(3) that by blast
  note R = nonces_middleware [OF assms(1) clk]
  from middleware_next [OF assms(2)] obtain u where
    u: "consumeHmacNonce ev pf (api_key_token rq) nonce (ac_hmacNonceTtlSeconds cfg) u = (Inr True, s1)" by blast
  note c = consume_returned [OF assms(1) u]
  have s1: "nonce_held (api_key_token rq) nonce ?e (os_db s1)"
    using consume_accepted [OF c(1) [symmetric, unfolded eq_True]] c(2,3) by simp
  have "obeys ?R (each (\<lambda>(p, q). bind (hmacMiddleware ev ae cfg p q) (\<lambda>_. ret ())) qs)"
    by (intro nonces.obeys_each obeys_pair nonces.obeys_bind R nonces.obeys_ret)
  then have "?R s1 s2" using assms(4) by (simp add: obeys_def)
  then have s2: "os_tick s1 \<le> os_tick s2" "nonce_held (api_key_token rq) nonce ?e (os_db s2)" using s1 by (auto simp: holds_nonce_def)
  assume "fst (hmacMiddleware ev ae cfg pf' rq' s2) = Inr (Next rq2 sig' nonce)"
  then obtain t where "hmacMiddleware ev ae cfg pf' rq' s2 = (Inr (Next rq2 sig' nonce), t)" by (metis prod.collapse)
  from middleware_next [OF this] obtain body v where
    v: "verifyReceivedBody ev ae cfg rq' (the (hq_timestamp rq')) (the (hq_signature rq')) s2 = (Inr body, v)"
      "consumeHmacNonce ev pf' (api_key_token rq) nonce (ac_hmacNonceTtlSeconds cfg) v = (Inr True, t)" unfolding assms(5) by blast
  have "?R s2 v" using nonces_verify(2) [of "os_tick s1" _ ev ae cfg rq'] v(1) unfolding obeys_def by (metis snd_conv)
  then have "os_tick s1 \<le> os_tick v" "nonce_held (api_key_token rq) nonce ?e (os_db v)" using s2 by (auto simp: holds_nonce_def)
  then show False using consume_held(2) [OF _ clk] consume_returned(1) [OF assms(1) v(2)] by blast
qed

section \<open>Malformed signatures\<close>

lemma hex_bytes_length:
  "even (length s) \<Longrightarrow> length (hex_bytes s) \<le> length s div 2 \<and> (length (hex_bytes s) = length s div 2 \<longleftrightarrow> list_all is_hex s)"
proof (induction s rule: hex_bytes.induct)
  case (1 a b s)
  then show ?case by (cases "is_hex a \<and> is_hex b") auto
qed auto


section \<open>Examples\<close>

definition demo_auth :: auth_env where
  "demo_auth = \<lparr>ae_hmac = (\<lambda>secret text. replicate 64 (CHR ''a'')), ae_sha256 = (\<lambda>text. replicate 64 (CHR ''c'')), ae_ageText = show_int\<rparr>"

definition demo_auth_config :: auth_config where
  "demo_auth_config = \<lparr>ac_apiKey = ''key'', ac_hmacSecret = ''secret'', ac_hmacNonceTtlSeconds = 600\<rparr>"

definition demo_http :: "string \<Rightarrow> http_request" where
  "demo_http sig = \<lparr>hq_timestamp = Some ''1000'', hq_signature = Some sig, hq_nonce = Some '' n1'', hq_authorization = Some ''Bearer key'',
     hq_transferEncoding = None, hq_contentLength = Some ''2'', hq_rawBody = Some ''{}'', hq_apiKeyToken = None\<rparr>"

definition demo_clock :: oracle_env where
  "demo_clock = demo_env\<lparr>ov_clock := (\<lambda>n. int (min n 500))\<rparr>"

definition demo_passed :: oracle_state where
  "demo_passed = demo_start\<lparr>os_tick := 2, os_db := \<lparr>od_rows = [], od_next_id = 1,
     od_nonces = [\<lparr>hn_api_key = ''key'', hn_nonce = ''n1'', hn_expires_at = 600001\<rparr>]\<rparr>\<rparr>"

lemma demo_passes:
  "hmacMiddleware demo_clock demo_auth demo_auth_config True (demo_http (replicate 64 (CHR ''a''))) demo_start =
     (Inr (Next (demo_http (replicate 64 (CHR ''a''))) (replicate 64 (CHR ''a'')) ''n1''),
      demo_passed)"
  by code_simp

theorem nonce_accepted_once_witness:
  "fst (hmacMiddleware demo_clock demo_auth demo_auth_config False (demo_http (replicate 64 (CHR ''a'')))
     (snd (each (\<lambda>(p, q). bind (hmacMiddleware demo_clock demo_auth demo_auth_config p q) (\<lambda>_. ret ()))
        [(True, demo_http ''x'')] demo_passed))) \<noteq> Inr (Next (demo_http (replicate 64 (CHR ''a''))) (replicate 64 (CHR ''a'')) ''n1'')"
proof (rule nonce_accepted_once [OF _ demo_passes _ refl refl])
  show "solo demo_clock" by (simp add: solo_def demo_clock_def demo_env_def)
  show "\<forall>n \<ge> os_tick demo_passed. ov_clock demo_clock n <
      ov_clock demo_clock (os_tick demo_passed - 1) + ac_hmacNonceTtlSeconds demo_auth_config * 1000"
    by (auto simp: demo_clock_def demo_auth_config_def demo_passed_def min_def)
qed


end
