(* ===== verification/Recon_Drift.thy ===== *)
theory Recon_Drift
  imports Failed_Operations
begin

text \<open>
  What the reconciliation service compares: the indexer's record of a trade with the trade on chain.
  The types of \<open>reconciliation/src/types.ts\<close>, the fee split of the SDK, the classifier
  (\<open>classifier.ts\<close>, \<open>utils/address.ts\<close>) and the qualification of findings for containment
  (\<open>containment.ts\<close>). \<open>ga\<close> is \<open>ethers.getAddress\<close>: \<open>None\<close> where it throws, which is where
  \<open>ethers.isAddress\<close> answers false. A \<open>Date\<close> is the time value given to its constructor; it is
  invalid beyond \<open>8.64e15\<close> milliseconds, where \<open>toISOString\<close> throws.
\<close>

section \<open>Types\<close>

datatype drift_severity = CRITICAL | HIGH | MEDIUM | LOW

datatype drift_code =
  ONCHAIN_READ_ERROR | ONCHAIN_TRADE_MISSING | STATUS_MISMATCH | PARTICIPANT_MISMATCH | AMOUNT_MISMATCH
| FEE_COMPONENT_MISMATCH | HASH_MISMATCH | ARRIVAL_TIMESTAMP_MISMATCH | INDEXED_INVALID_ADDRESS
| ONCHAIN_INVALID_ADDRESS | INDEXER_TRADE_MISSING | INDEXER_DUPLICATE_TRADE | INDEXER_SURPLUS_RECORDS

fun drift_code_text :: "drift_code \<Rightarrow> string" where
  "drift_code_text ONCHAIN_READ_ERROR = ''ONCHAIN_READ_ERROR''"
| "drift_code_text ONCHAIN_TRADE_MISSING = ''ONCHAIN_TRADE_MISSING''"
| "drift_code_text STATUS_MISMATCH = ''STATUS_MISMATCH''"
| "drift_code_text PARTICIPANT_MISMATCH = ''PARTICIPANT_MISMATCH''"
| "drift_code_text AMOUNT_MISMATCH = ''AMOUNT_MISMATCH''"
| "drift_code_text FEE_COMPONENT_MISMATCH = ''FEE_COMPONENT_MISMATCH''"
| "drift_code_text HASH_MISMATCH = ''HASH_MISMATCH''"
| "drift_code_text ARRIVAL_TIMESTAMP_MISMATCH = ''ARRIVAL_TIMESTAMP_MISMATCH''"
| "drift_code_text INDEXED_INVALID_ADDRESS = ''INDEXED_INVALID_ADDRESS''"
| "drift_code_text ONCHAIN_INVALID_ADDRESS = ''ONCHAIN_INVALID_ADDRESS''"
| "drift_code_text INDEXER_TRADE_MISSING = ''INDEXER_TRADE_MISSING''"
| "drift_code_text INDEXER_DUPLICATE_TRADE = ''INDEXER_DUPLICATE_TRADE''"
| "drift_code_text INDEXER_SURPLUS_RECORDS = ''INDEXER_SURPLUS_RECORDS''"

fun drift_severity_text :: "drift_severity \<Rightarrow> string" where
  "drift_severity_text CRITICAL = ''CRITICAL''"
| "drift_severity_text HIGH = ''HIGH''"
| "drift_severity_text MEDIUM = ''MEDIUM''"
| "drift_severity_text LOW = ''LOW''"

record indexed_trade =
  ix_tradeId :: string
  ix_buyer :: string
  ix_supplier :: string
  ix_status :: string
  ix_totalAmountLocked :: int
  ix_logisticsAmount :: int
  ix_platformFeesAmount :: int
  ix_platformFeeNetAmount :: int
  ix_settlementSupportFeeAmount :: int
  ix_supplierFirstTranche :: int
  ix_supplierSecondTranche :: int
  ix_ricardianHash :: string
  ix_createdAt :: timestamp
  ix_arrivalTimestamp :: "timestamp option"

record finding =
  fd_tradeId :: string
  fd_severity :: drift_severity
  fd_mismatchCode :: drift_code
  fd_comparedField :: string
  fd_onchainValue :: "string option"
  fd_indexedValue :: "string option"
  fd_details :: "(string \<times> json) list"

record compare_input =
  ci_indexedTrade :: indexed_trade
  ci_onchainTrade :: "trade option"
  ci_onchainReadError :: "string option"

definition jint :: "int \<Rightarrow> json" where
  "jint n = JNum (Finite (int_text n))"

section \<open>Dates, addresses and fees\<close>

definition valid_date :: "timestamp \<Rightarrow> bool" where
  "valid_date t = (\<bar>t\<bar> \<le> 8640000000000000)"

definition date_iso :: "timestamp option \<Rightarrow> string + string option" where
  "date_iso d = (case d of None \<Rightarrow> Inr None
     | Some t \<Rightarrow> if valid_date t then Inr (Some (toISOString t)) else Inl ''RangeError: Invalid time value'')"

definition ZERO_ADDRESS :: string where
  "ZERO_ADDRESS = ''0x'' @ replicate 40 (CHR ''0'')"

definition normalizeAddressOrNull :: "(string \<Rightarrow> string option) \<Rightarrow> string \<Rightarrow> string option" where
  "normalizeAddressOrNull ga v = ga v"

definition isZeroAddress :: "(string \<Rightarrow> string option) \<Rightarrow> string \<Rightarrow> bool" where
  "isZeroAddress ga v = (normalizeAddressOrNull ga v = Some ZERO_ADDRESS)"

text \<open>A zero-filled struct is what the contract returns for an id it never allocated.\<close>

definition isAbsentChainTrade :: "trade \<Rightarrow> bool" where
  "isAbsentChainTrade t =
    (toLowerCase (trim (tr_buyer t)) = ZERO_ADDRESS \<or> \<not> valid_date (tr_createdAt t) \<or> tr_createdAt t = 0)"

definition SETTLEMENT_SUPPORT_FEE_BASE_UNITS :: int where
  "SETTLEMENT_SUPPORT_FEE_BASE_UNITS = 4000000"

record fee_split =
  fs_platformFeeNetAmount :: int
  fs_settlementSupportFeeAmount :: int

definition splitPlatformFeeComponents :: "int \<Rightarrow> string + fee_split" where
  "splitPlatformFeeComponents fees =
    (if fees < 0 then Inl ''platformFeesAmount cannot be negative''
     else let support = (if fees < SETTLEMENT_SUPPORT_FEE_BASE_UNITS then fees else SETTLEMENT_SUPPORT_FEE_BASE_UNITS)
       in Inr \<lparr>fs_platformFeeNetAmount = fees - support, fs_settlementSupportFeeAmount = support\<rparr>)"

section \<open>The classifier\<close>

fun statusLabel :: "trade_status \<Rightarrow> string" where
  "statusLabel LOCKED = ''LOCKED''"
| "statusLabel IN_TRANSIT = ''IN_TRANSIT''"
| "statusLabel ARRIVAL_CONFIRMED = ''ARRIVAL_CONFIRMED''"
| "statusLabel FROZEN = ''FROZEN''"
| "statusLabel CLOSED = ''CLOSED''"

definition amount_fields :: "indexed_trade \<Rightarrow> trade \<Rightarrow> (string \<times> int \<times> int) list" where
  "amount_fields ix t =
    [(''totalAmountLocked'', int (tr_totalAmountLocked t), ix_totalAmountLocked ix),
     (''logisticsAmount'', int (tr_logisticsAmount t), ix_logisticsAmount ix),
     (''platformFeesAmount'', int (tr_platformFeesAmount t), ix_platformFeesAmount ix),
     (''supplierFirstTranche'', int (tr_supplierFirstTranche t), ix_supplierFirstTranche ix),
     (''supplierSecondTranche'', int (tr_supplierSecondTranche t), ix_supplierSecondTranche ix)]"

definition compareAmounts :: "indexed_trade \<Rightarrow> trade \<Rightarrow> finding list" where
  "compareAmounts ix t =
    [\<lparr>fd_tradeId = ix_tradeId ix, fd_severity = CRITICAL, fd_mismatchCode = AMOUNT_MISMATCH, fd_comparedField = f,
      fd_onchainValue = Some (int_text onchain), fd_indexedValue = Some (int_text indexed),
      fd_details = [(''field'', JStr f), (''impact'', JStr ''financial'')]\<rparr>.
     (f, onchain, indexed) \<leftarrow> amount_fields ix t, onchain \<noteq> indexed]"

definition compareFeeComponents :: "indexed_trade \<Rightarrow> string + finding list" where
  "compareFeeComponents ix =
    rbind (splitPlatformFeeComponents (ix_platformFeesAmount ix)) (\<lambda>expected.
      if ix_platformFeeNetAmount ix = fs_platformFeeNetAmount expected \<and>
         ix_settlementSupportFeeAmount ix = fs_settlementSupportFeeAmount expected then Inr []
      else Inr [\<lparr>fd_tradeId = ix_tradeId ix, fd_severity = HIGH, fd_mismatchCode = FEE_COMPONENT_MISMATCH,
        fd_comparedField = ''platformFeeComponents'', fd_onchainValue = Some (int_text (ix_platformFeesAmount ix)),
        fd_indexedValue = Some (stringify (JObj [(''platformFeeNetAmount'', JStr (int_text (ix_platformFeeNetAmount ix))),
          (''settlementSupportFeeAmount'', JStr (int_text (ix_settlementSupportFeeAmount ix)))])),
        fd_details = [(''grossPlatformFeesAmount'', JStr (int_text (ix_platformFeesAmount ix))),
          (''expectedPlatformFeeNetAmount'', JStr (int_text (fs_platformFeeNetAmount expected))),
          (''expectedSettlementSupportFeeAmount'', JStr (int_text (fs_settlementSupportFeeAmount expected))),
          (''configuredSettlementSupportFeeBaseUnits'', JStr (int_text SETTLEMENT_SUPPORT_FEE_BASE_UNITS)),
          (''impact'', JStr ''fee component accounting'')]\<rparr>])"

definition invalidAddressFinding :: "string \<Rightarrow> bool \<Rightarrow> string \<Rightarrow> string \<Rightarrow> finding" where
  "invalidAddressFinding tradeId indexed field v =
    \<lparr>fd_tradeId = tradeId, fd_severity = CRITICAL,
     fd_mismatchCode = (if indexed then INDEXED_INVALID_ADDRESS else ONCHAIN_INVALID_ADDRESS), fd_comparedField = field,
     fd_onchainValue = (if indexed then None else Some v), fd_indexedValue = (if indexed then Some v else None),
     fd_details = [(''source'', JStr (if indexed then ''indexed'' else ''onchain'')), (''field'', JStr field),
       (''reason'', JStr ''address is not a valid hex EVM address'')]\<rparr>"

definition compareStatus :: "indexed_trade \<Rightarrow> trade \<Rightarrow> finding list" where
  "compareStatus ix t =
    (if statusLabel (tr_status t) \<noteq> ix_status ix
     then [\<lparr>fd_tradeId = ix_tradeId ix, fd_severity = HIGH, fd_mismatchCode = STATUS_MISMATCH, fd_comparedField = ''status'',
       fd_onchainValue = Some (statusLabel (tr_status t)), fd_indexedValue = Some (ix_status ix),
       fd_details = [(''impact'', JStr ''workflow divergence'')]\<rparr>]
     else [])"

definition validAddresses :: "(string \<Rightarrow> string option) \<Rightarrow> indexed_trade \<Rightarrow> trade \<Rightarrow> finding list" where
  "validAddresses ga ix t =
    [invalidAddressFinding (ix_tradeId ix) indexed field v.
     (indexed, field, v) \<leftarrow> [(True, ''buyer'', ix_buyer ix), (True, ''supplier'', ix_supplier ix),
       (False, ''buyer'', tr_buyer t), (False, ''supplier'', tr_supplier t)],
     \<not> truthy (normalizeAddressOrNull ga v)]"

definition compareParty :: "(string \<Rightarrow> string option) \<Rightarrow> string \<Rightarrow> string \<Rightarrow> string \<Rightarrow> string \<Rightarrow> finding list" where
  "compareParty ga tradeId field indexed onchain =
    (let i = normalizeAddressOrNull ga indexed; c = normalizeAddressOrNull ga onchain in
     if truthy i \<and> truthy c \<and> c \<noteq> i
     then [\<lparr>fd_tradeId = tradeId, fd_severity = CRITICAL, fd_mismatchCode = PARTICIPANT_MISMATCH, fd_comparedField = field,
       fd_onchainValue = Some onchain, fd_indexedValue = Some indexed, fd_details = [(''field'', JStr field)]\<rparr>]
     else [])"

definition compareHash :: "indexed_trade \<Rightarrow> trade \<Rightarrow> finding list" where
  "compareHash ix t =
    (if toLowerCase (tr_ricardianHash t) \<noteq> toLowerCase (ix_ricardianHash ix)
     then [\<lparr>fd_tradeId = ix_tradeId ix, fd_severity = CRITICAL, fd_mismatchCode = HASH_MISMATCH,
       fd_comparedField = ''ricardianHash'', fd_onchainValue = Some (tr_ricardianHash t),
       fd_indexedValue = Some (ix_ricardianHash ix), fd_details = [(''impact'', JStr ''legal linkage divergence'')]\<rparr>]
     else [])"

definition compareArrival :: "indexed_trade \<Rightarrow> trade \<Rightarrow> string + finding list" where
  "compareArrival ix t =
    rbind (date_iso (tr_arrivalTimestamp t)) (\<lambda>onchain.
    rbind (date_iso (ix_arrivalTimestamp ix)) (\<lambda>indexed.
      if onchain \<noteq> indexed
      then Inr [\<lparr>fd_tradeId = ix_tradeId ix, fd_severity = MEDIUM, fd_mismatchCode = ARRIVAL_TIMESTAMP_MISMATCH,
        fd_comparedField = ''arrivalTimestamp'', fd_onchainValue = onchain, fd_indexedValue = indexed,
        fd_details = [(''impact'', JStr ''timeline divergence'')]\<rparr>]
      else Inr []))"

definition classifyDrifts :: "(string \<Rightarrow> string option) \<Rightarrow> compare_input \<Rightarrow> string + finding list" where
  "classifyDrifts ga inp =
    (let ix = ci_indexedTrade inp in
     if truthy (ci_onchainReadError inp)
     then Inr [\<lparr>fd_tradeId = ix_tradeId ix, fd_severity = CRITICAL, fd_mismatchCode = ONCHAIN_READ_ERROR,
       fd_comparedField = ''tradeLookup'', fd_onchainValue = None, fd_indexedValue = Some (ix_status ix),
       fd_details = [(''error'', JStr (the (ci_onchainReadError inp)))]\<rparr>]
     else case (case ci_onchainTrade inp of None \<Rightarrow> None
         | Some t \<Rightarrow> if isZeroAddress ga (tr_buyer t) then None else Some t) of
       None \<Rightarrow> Inr [\<lparr>fd_tradeId = ix_tradeId ix, fd_severity = CRITICAL, fd_mismatchCode = ONCHAIN_TRADE_MISSING,
         fd_comparedField = ''tradePresence'', fd_onchainValue = None, fd_indexedValue = Some (ix_tradeId ix),
         fd_details = [(''reason'', JStr ''trade not found on-chain'')]\<rparr>]
     | Some t \<Rightarrow>
         rbind (compareFeeComponents ix) (\<lambda>fees.
         rbind (compareArrival ix t) (\<lambda>arrival.
           Inr (compareStatus ix t @ validAddresses ga ix t @
             compareParty ga (ix_tradeId ix) ''buyer'' (ix_buyer ix) (tr_buyer t) @
             compareParty ga (ix_tradeId ix) ''supplier'' (ix_supplier ix) (tr_supplier t) @
             compareAmounts ix t @ fees @ compareHash ix t @ arrival))))"

section \<open>Qualification for containment\<close>

definition QUALIFYING_DISCREPANCY_CODES :: "drift_code list" where
  "QUALIFYING_DISCREPANCY_CODES = [AMOUNT_MISMATCH, FEE_COMPONENT_MISMATCH, PARTICIPANT_MISMATCH, HASH_MISMATCH,
     ONCHAIN_TRADE_MISSING, INDEXER_TRADE_MISSING]"

definition isQualifyingDiscrepancy :: "finding \<Rightarrow> bool" where
  "isQualifyingDiscrepancy f = (fd_mismatchCode f \<in> set QUALIFYING_DISCREPANCY_CODES)"

record discrepancy =
  dy_tradeId :: string
  dy_codes :: "drift_code list"
  dy_findings :: "finding list"

definition qualify_one :: "finding \<Rightarrow> (string, discrepancy) jsmap \<Rightarrow> (string, discrepancy) jsmap" where
  "qualify_one f grouped =
    (if \<not> isQualifyingDiscrepancy f then grouped
     else case map_get grouped (fd_tradeId f) of
       Some e \<Rightarrow> map_set (fd_tradeId f) (e\<lparr>dy_codes := (if fd_mismatchCode f \<in> set (dy_codes e) then dy_codes e
           else dy_codes e @ [fd_mismatchCode f]), dy_findings := dy_findings e @ [f]\<rparr>) grouped
     | None \<Rightarrow> map_set (fd_tradeId f)
         \<lparr>dy_tradeId = fd_tradeId f, dy_codes = [fd_mismatchCode f], dy_findings = [f]\<rparr> grouped)"

definition qualifyDiscrepancies :: "finding list \<Rightarrow> discrepancy list" where
  "qualifyDiscrepancies fs = map_values (fold qualify_one fs [])"

text \<open>The set as the list of its elements in order of insertion.\<close>

definition cleanlyReconciledTradeIds :: "string list \<Rightarrow> finding list \<Rightarrow> string list" where
  "cleanlyReconciledTradeIds compared fs = filter (\<lambda>i. i \<notin> fd_tradeId ` set fs) (first_occurrences compared)"

text \<open>\<open>random\<close> is the upper-case hexadecimal text of four random bytes.\<close>

definition generateIncidentReference :: "string \<Rightarrow> timestamp \<Rightarrow> string" where
  "generateIncidentReference random now =
    (case civil_from_days (now div 86400000) of (y, m, d) \<Rightarrow>
       ''RECON-'' @ int_text y @ pad_int 2 m @ pad_int 2 d @ ''-'' @ random)"

definition opt_text :: "string option \<Rightarrow> json" where
  "opt_text s = (case s of None \<Rightarrow> JNull | Some t \<Rightarrow> JStr t)"

definition finding_evidence :: "finding \<Rightarrow> json" where
  "finding_evidence f = JObj [(''mismatchCode'', JStr (drift_code_text (fd_mismatchCode f))),
     (''comparedField'', JStr (fd_comparedField f)), (''severity'', JStr (drift_severity_text (fd_severity f))),
     (''onchainValue'', opt_text (fd_onchainValue f)), (''indexedValue'', opt_text (fd_indexedValue f)),
     (''details'', JObj (fd_details f))]"

definition buildContainmentEvidence :: "string \<Rightarrow> int \<Rightarrow> string \<Rightarrow> discrepancy \<Rightarrow> json" where
  "buildContainmentEvidence runKey boundaryBlock boundaryBlockHash d =
    JObj [(''runKey'', JStr runKey), (''boundaryBlock'', jint boundaryBlock), (''boundaryBlockHash'', JStr boundaryBlockHash),
      (''findings'', JArr (map finding_evidence (dy_findings d)))]"

section \<open>What a clean comparison means\<close>

text \<open>The two records describe the same trade; the second predicate is the part that money follows.\<close>

definition same_party :: "(string \<Rightarrow> string option) \<Rightarrow> string \<Rightarrow> string \<Rightarrow> bool" where
  "same_party ga a b = (\<exists>x. x \<noteq> [] \<and> ga a = Some x \<and> ga b = Some x)"

definition same_amounts :: "indexed_trade \<Rightarrow> trade \<Rightarrow> bool" where
  "same_amounts ix t = (ix_totalAmountLocked ix = int (tr_totalAmountLocked t) \<and>
     ix_logisticsAmount ix = int (tr_logisticsAmount t) \<and> ix_platformFeesAmount ix = int (tr_platformFeesAmount t) \<and>
     ix_supplierFirstTranche ix = int (tr_supplierFirstTranche t) \<and>
     ix_supplierSecondTranche ix = int (tr_supplierSecondTranche t))"

definition fees_split :: "indexed_trade \<Rightarrow> bool" where
  "fees_split ix = (ix_settlementSupportFeeAmount ix = min (ix_platformFeesAmount ix) 4000000 \<and>
     ix_platformFeeNetAmount ix + ix_settlementSupportFeeAmount ix = ix_platformFeesAmount ix)"

lemma compareAmounts_Nil [simp]: "compareAmounts ix t = [] \<longleftrightarrow> same_amounts ix t"
  by (auto simp: compareAmounts_def amount_fields_def same_amounts_def)

lemma compareFeeComponents_cases:
  assumes "compareFeeComponents ix = Inr fs"
  shows "0 \<le> ix_platformFeesAmount ix \<and> (fs = [] \<longleftrightarrow> fees_split ix)"
  using assms
  by (auto simp: compareFeeComponents_def splitPlatformFeeComponents_def SETTLEMENT_SUPPORT_FEE_BASE_UNITS_def Let_def
      fees_split_def min_def rbind_Inr_iff split: if_splits)

lemma compareArrival_cases:
  assumes "compareArrival ix t = Inr fs"
  shows "date_iso (tr_arrivalTimestamp t) \<noteq> date_iso (ix_arrivalTimestamp ix) \<longleftrightarrow> fs \<noteq> []"
  using assms by (auto simp: compareArrival_def rbind_Inr_iff split: if_splits)

lemma validAddresses_Nil:
  "validAddresses ga ix t = [] \<longleftrightarrow>
    (\<forall>v \<in> {ix_buyer ix, ix_supplier ix, tr_buyer t, tr_supplier t}. \<exists>x. x \<noteq> [] \<and> ga v = Some x)"
  by (auto simp: validAddresses_def normalizeAddressOrNull_def truthy_def split: option.splits)

lemma compareParty_Nil:
  assumes "\<exists>x. x \<noteq> [] \<and> ga a = Some x" and "\<exists>x. x \<noteq> [] \<and> ga b = Some x"
  shows "compareParty ga i f a b = [] \<longleftrightarrow> same_party ga a b"
  using assms by (auto simp: compareParty_def normalizeAddressOrNull_def same_party_def Let_def truthy_def)

lemma same_partyD: "same_party ga a b \<Longrightarrow> (\<exists>x. x \<noteq> [] \<and> ga a = Some x) \<and> (\<exists>x. x \<noteq> [] \<and> ga b = Some x)"
  by (auto simp: same_party_def)

lemma compareStatus_Nil [simp]: "compareStatus ix t = [] \<longleftrightarrow> statusLabel (tr_status t) = ix_status ix"
  by (simp add: compareStatus_def)

lemma compareHash_Nil [simp]:
  "compareHash ix t = [] \<longleftrightarrow> toLowerCase (tr_ricardianHash t) = toLowerCase (ix_ricardianHash ix)"
  by (simp add: compareHash_def)

lemma classify_present:
  assumes "classifyDrifts ga \<lparr>ci_indexedTrade = ix, ci_onchainTrade = Some t, ci_onchainReadError = None\<rparr> = Inr fs"
    and "ga (tr_buyer t) \<noteq> Some ZERO_ADDRESS"
  obtains fees arrival where "compareFeeComponents ix = Inr fees" and "compareArrival ix t = Inr arrival"
    and "fs = compareStatus ix t @ validAddresses ga ix t @
      compareParty ga (ix_tradeId ix) ''buyer'' (ix_buyer ix) (tr_buyer t) @
      compareParty ga (ix_tradeId ix) ''supplier'' (ix_supplier ix) (tr_supplier t) @
      compareAmounts ix t @ fees @ compareHash ix t @ arrival"
  using assms by (auto simp: classifyDrifts_def truthy_def isZeroAddress_def normalizeAddressOrNull_def rbind_Inr_iff)

text \<open>What each group of findings carries.\<close>

lemma finding_of:
  shows "f \<in> set (compareStatus ix t) \<Longrightarrow> fd_tradeId f = ix_tradeId ix \<and> fd_mismatchCode f = STATUS_MISMATCH"
    and "f \<in> set (compareHash ix t) \<Longrightarrow> fd_tradeId f = ix_tradeId ix \<and> fd_mismatchCode f = HASH_MISMATCH"
    and "f \<in> set (compareParty ga i field a b) \<Longrightarrow> fd_tradeId f = i \<and> fd_mismatchCode f = PARTICIPANT_MISMATCH"
    and "f \<in> set (compareAmounts ix t) \<Longrightarrow> fd_tradeId f = ix_tradeId ix \<and> fd_mismatchCode f = AMOUNT_MISMATCH"
  by (auto simp: compareStatus_def compareHash_def compareParty_def compareAmounts_def Let_def split: if_splits)

lemma invalid_address_of:
  "f \<in> set (validAddresses ga ix t) \<Longrightarrow> fd_tradeId f = ix_tradeId ix \<and>
     fd_mismatchCode f \<in> {INDEXED_INVALID_ADDRESS, ONCHAIN_INVALID_ADDRESS}"
  by (auto simp: validAddresses_def invalidAddressFinding_def)

lemma fee_finding_of:
  assumes "compareFeeComponents ix = Inr fs" and "f \<in> set fs"
  shows "fd_tradeId f = ix_tradeId ix \<and> fd_mismatchCode f = FEE_COMPONENT_MISMATCH"
  using assms by (cases "splitPlatformFeeComponents (ix_platformFeesAmount ix)")
    (auto simp: compareFeeComponents_def split: if_splits)

lemma arrival_finding_of:
  assumes "compareArrival ix t = Inr fs" and "f \<in> set fs"
  shows "fd_tradeId f = ix_tradeId ix \<and> fd_mismatchCode f = ARRIVAL_TIMESTAMP_MISMATCH"
  using assms by (auto simp: compareArrival_def rbind_Inr_iff split: if_splits)

text \<open>The qualifying findings of one comparison are the disagreements on parties, amounts, fees and agreement.\<close>

lemma all_or_none:
  assumes "\<And>f. f \<in> set gs \<Longrightarrow> isQualifyingDiscrepancy f = b"
  shows "(\<exists>f \<in> set gs. isQualifyingDiscrepancy f) \<longleftrightarrow> b \<and> gs \<noteq> []"
  using assms by (cases gs) auto

lemma classify_qualifying:
  assumes "classifyDrifts ga \<lparr>ci_indexedTrade = ix, ci_onchainTrade = Some t, ci_onchainReadError = None\<rparr> = Inr fs"
    and "ga (tr_buyer t) \<noteq> Some ZERO_ADDRESS"
  shows "(\<exists>f \<in> set fs. isQualifyingDiscrepancy f) \<longleftrightarrow>
    \<not> (same_amounts ix t \<and> fees_split ix \<and> toLowerCase (tr_ricardianHash t) = toLowerCase (ix_ricardianHash ix) \<and>
       compareParty ga (ix_tradeId ix) ''buyer'' (ix_buyer ix) (tr_buyer t) = [] \<and>
       compareParty ga (ix_tradeId ix) ''supplier'' (ix_supplier ix) (tr_supplier t) = [])"
proof -
  from assms obtain fees arrival where p: "compareFeeComponents ix = Inr fees" "compareArrival ix t = Inr arrival"
    "fs = compareStatus ix t @ validAddresses ga ix t @
      compareParty ga (ix_tradeId ix) ''buyer'' (ix_buyer ix) (tr_buyer t) @
      compareParty ga (ix_tradeId ix) ''supplier'' (ix_supplier ix) (tr_supplier t) @
      compareAmounts ix t @ fees @ compareHash ix t @ arrival"
    by (rule classify_present)
  note q = isQualifyingDiscrepancy_def QUALIFYING_DISCREPANCY_CODES_def
  have no: "(\<exists>f \<in> set (compareStatus ix t). isQualifyingDiscrepancy f) \<longleftrightarrow> False"
    using finding_of(1) [of _ ix t] by (auto simp: q)
  have no': "(\<exists>f \<in> set (validAddresses ga ix t). isQualifyingDiscrepancy f) \<longleftrightarrow> False"
    by (auto simp: q dest!: invalid_address_of)
  have no'': "(\<exists>f \<in> set arrival. isQualifyingDiscrepancy f) \<longleftrightarrow> False"
    using arrival_finding_of [OF p(2)] by (auto simp: q)
  have party: "(\<exists>f \<in> set (compareParty ga i fld a b). isQualifyingDiscrepancy f) \<longleftrightarrow> compareParty ga i fld a b \<noteq> []" for i fld a b
    using all_or_none [of "compareParty ga i fld a b" True] finding_of(3) by (simp add: q)
  have amounts: "(\<exists>f \<in> set (compareAmounts ix t). isQualifyingDiscrepancy f) \<longleftrightarrow> \<not> same_amounts ix t"
    using all_or_none [of "compareAmounts ix t" True] finding_of(4) by (simp add: q)
  have fee: "(\<exists>f \<in> set fees. isQualifyingDiscrepancy f) \<longleftrightarrow> \<not> fees_split ix"
    using all_or_none [of fees True] fee_finding_of [OF p(1)] compareFeeComponents_cases [OF p(1)] by (simp add: q)
  have hash: "(\<exists>f \<in> set (compareHash ix t). isQualifyingDiscrepancy f) \<longleftrightarrow>
      toLowerCase (tr_ricardianHash t) \<noteq> toLowerCase (ix_ricardianHash ix)"
    using all_or_none [of "compareHash ix t" True] finding_of(2) by (simp add: q)
  show ?thesis unfolding p(3) set_append bex_Un no no' no'' party amounts fee hash by blast
qed

end
