(* ===== verification/Recon_Coverage.thy ===== *)
theory Recon_Coverage
  imports Recon_Drift
begin

text \<open>
  Complete-range accounting of a reconciliation run (\<open>reconciliation/src/core/coverage.ts\<close>): the window
  of trade ids a run compares, the two-sided comparison of one window, the independent enumeration
  of the indexer's ids, what holds the cursor, and the age limit on the uncovered tail. Chain ids run
  from 0 up to, but excluding, the contract's trade counter. \<open>sweep\<close> iterates the window plan; its
  lemmas show that the windows of a sweep list every allocated id exactly once.
\<close>

section \<open>Records\<close>

record coverage_boundary =
  cb_blockNumber :: int
  cb_blockHash :: string
  cb_tag :: string
  cb_chainTradeCounter :: int
  cb_indexerProcessedBlock :: int
  cb_finalityBlockNumber :: int
  cb_indexerAhead :: bool

record coverage_window =
  cw_fromTradeId :: int
  cw_toTradeId :: int
  cw_nextCursor :: int
  cw_uncoveredTail :: int
  cw_complete :: bool

record coverage_sla =
  sl_breached :: bool
  sl_uncoveredTail :: int
  sl_oldestUncoveredAgeMs :: "int option"
  sl_reason :: "string option"

record chain_trade_record =
  cr_tradeId :: string
  cr_trade :: "trade option"
  cr_readError :: "string option"

record coverage_pair =
  pr_indexed :: indexed_trade
  pr_onchain :: "trade option"
  pr_readError :: "string option"

record coverage_comparison =
  cc_missingFromIndexer :: "finding list"
  cc_paired :: "coverage_pair list"
  cc_indexerOnly :: "indexed_trade list"
  cc_chainTradeCount :: nat

section \<open>The cursor\<close>

definition CURSOR_HOLDING_CODES :: "drift_code list" where
  "CURSOR_HOLDING_CODES = [INDEXER_TRADE_MISSING, INDEXER_DUPLICATE_TRADE, INDEXER_SURPLUS_RECORDS, ONCHAIN_TRADE_MISSING,
     ONCHAIN_READ_ERROR]"

definition holdsCursor :: "drift_code \<Rightarrow> bool" where
  "holdsCursor c = (c \<in> set CURSOR_HOLDING_CODES)"

definition evaluateCursorHold :: "nat \<Rightarrow> bool \<Rightarrow> bool \<times> string list" where
  "evaluateCursorHold holdingFindingCount enumerationTruncated =
    (let reasons = (if holdingFindingCount > 0 then [show_nat holdingFindingCount @ '' unreconciled finding(s)''] else []) @
       (if enumerationTruncated then [''indexer id enumeration truncated before completing''] else [])
     in (reasons \<noteq> [], reasons))"

definition no_anchor :: string where
  "no_anchor = ''indexer processed block unavailable; nothing to anchor the chain reads to''"

definition evaluateIndexerAnchor :: "int option \<Rightarrow> string + int" where
  "evaluateIndexerAnchor processed = (case processed of None \<Rightarrow> Inl no_anchor | Some b \<Rightarrow> Inr b)"

text \<open>\<open>None\<close> when the indexer held still, otherwise the reason.\<close>

definition evaluateIndexerSnapshot :: "int option \<Rightarrow> int option \<Rightarrow> string option" where
  "evaluateIndexerSnapshot anchorBlock endBlock =
    (case (anchorBlock, endBlock) of
       (Some a, Some e) \<Rightarrow> if a \<noteq> e
         then Some (''indexer advanced from block '' @ int_text a @ '' to '' @ int_text e @ '' during the run'') else None
     | _ \<Rightarrow> Some no_anchor)"

definition isCoverageComplete :: "bool \<Rightarrow> bool \<Rightarrow> bool" where
  "isCoverageComplete windowComplete enumerationTruncated = (windowComplete \<and> \<not> enumerationTruncated)"

definition anchorBoundaryBlock :: "int \<Rightarrow> int \<Rightarrow> int \<times> bool" where
  "anchorBoundaryBlock finalityBlockNumber indexerProcessedBlock =
    (indexerProcessedBlock, indexerProcessedBlock > finalityBlockNumber)"

definition planNextCursor :: "coverage_window \<Rightarrow> bool \<Rightarrow> int \<Rightarrow> int" where
  "planNextCursor w cursorHeld previousCursor =
    (if cursorHeld then previousCursor else if cw_complete w then 0 else cw_nextCursor w)"

definition planCoverageWindow :: "int \<Rightarrow> int \<Rightarrow> int \<Rightarrow> string + coverage_window" where
  "planCoverageWindow cur counter budget =
    (if budget \<le> 0 then Inl ''Coverage budget must be greater than zero''
     else let c = (if cur < 0 then 0 else cur) in
       if c \<ge> counter then
         Inr \<lparr>cw_fromTradeId = counter + 1, cw_toTradeId = counter, cw_nextCursor = counter, cw_uncoveredTail = 0,
           cw_complete = True\<rparr>
       else let remaining = counter - c; covered = (if remaining < budget then remaining else budget) in
         Inr \<lparr>cw_fromTradeId = c, cw_toTradeId = c + covered - 1, cw_nextCursor = c + covered,
           cw_uncoveredTail = counter - c - covered, cw_complete = (c + covered = counter)\<rparr>)"

definition tradeIdsInWindow :: "coverage_window \<Rightarrow> string list" where
  "tradeIdsInWindow w = map int_text [cw_fromTradeId w..cw_toTradeId w]"

function batches :: "nat \<Rightarrow> 'a list \<Rightarrow> 'a list list" where
  "batches n xs = (if n = 0 \<or> xs = [] then [] else take n xs # batches n (drop n xs))"
  by pat_completeness auto
termination by (relation "measure (\<lambda>(n, xs). length xs)") auto

declare batches.simps [simp del]

definition batchTradeIds :: "string list \<Rightarrow> int \<Rightarrow> string + string list list" where
  "batchTradeIds ids batchSize =
    (if batchSize \<le> 0 then Inl ''Batch size must be greater than zero'' else Inr (batches (nat batchSize) ids))"

section \<open>Comparing a window\<close>

definition read_failed_finding :: "coverage_boundary \<Rightarrow> chain_trade_record \<Rightarrow> finding" where
  "read_failed_finding b r =
    \<lparr>fd_tradeId = cr_tradeId r, fd_severity = HIGH, fd_mismatchCode = ONCHAIN_READ_ERROR, fd_comparedField = ''tradePresence'',
     fd_onchainValue = None, fd_indexedValue = None,
     fd_details = [(''reason'', JStr ''chain read failed while checking indexer coverage''),
       (''error'', JStr (the (cr_readError r))), (''boundaryBlock'', jint (cb_blockNumber b))]\<rparr>"

definition not_projected_finding :: "coverage_boundary \<Rightarrow> chain_trade_record \<Rightarrow> finding" where
  "not_projected_finding b r =
    \<lparr>fd_tradeId = cr_tradeId r, fd_severity = CRITICAL, fd_mismatchCode = INDEXER_TRADE_MISSING,
     fd_comparedField = ''tradePresence'', fd_onchainValue = Some (cr_tradeId r), fd_indexedValue = None,
     fd_details = [(''reason'', JStr ''chain trade absent from the indexer projection''),
       (''boundaryBlock'', jint (cb_blockNumber b)), (''boundaryTag'', JStr (cb_tag b)),
       (''impact'', JStr ''settlement projection incomplete'')]\<rparr>"

definition existsOnChain :: "chain_trade_record \<Rightarrow> bool" where
  "existsOnChain r = (case cr_trade r of None \<Rightarrow> False | Some t \<Rightarrow> \<not> isAbsentChainTrade t)"

text \<open>\<open>new Map(entries)\<close>: the last record of an id wins.\<close>

definition indexed_by_id :: "indexed_trade list \<Rightarrow> string \<Rightarrow> indexed_trade option" where
  "indexed_by_id ixs i = find (\<lambda>ix. ix_tradeId ix = i) (rev ixs)"

definition compare_record :: "coverage_boundary \<Rightarrow> indexed_trade list \<Rightarrow> chain_trade_record \<Rightarrow> finding list \<times> coverage_pair list" where
  "compare_record b ixs r =
    (case indexed_by_id ixs (cr_tradeId r) of
       Some ix \<Rightarrow> ([], [\<lparr>pr_indexed = ix, pr_onchain = cr_trade r, pr_readError = cr_readError r\<rparr>])
     | None \<Rightarrow>
         if truthy (cr_readError r) then ([read_failed_finding b r], [])
         else if \<not> existsOnChain r then ([], [])
         else ([not_projected_finding b r], []))"

definition compareCoverage :: "coverage_boundary \<Rightarrow> chain_trade_record list \<Rightarrow> indexed_trade list \<Rightarrow> coverage_comparison" where
  "compareCoverage b rs ixs =
    \<lparr>cc_missingFromIndexer = concat (map (fst \<circ> compare_record b ixs) rs),
     cc_paired = concat (map (snd \<circ> compare_record b ixs) rs),
     cc_indexerOnly = filter (\<lambda>ix. ix_tradeId ix \<notin> cr_tradeId ` set rs) ixs,
     cc_chainTradeCount = length (filter existsOnChain rs)\<rparr>"

definition checkIndexerSurplus :: "int option \<Rightarrow> coverage_boundary \<Rightarrow> finding option" where
  "checkIndexerSurplus indexerTradeCount b =
    (case indexerTradeCount of None \<Rightarrow> None
     | Some n \<Rightarrow> if n \<le> cb_chainTradeCounter b then None
         else Some \<lparr>fd_tradeId = ''coverage'', fd_severity = CRITICAL, fd_mismatchCode = INDEXER_SURPLUS_RECORDS,
           fd_comparedField = ''tradeCount'', fd_onchainValue = Some (int_text (cb_chainTradeCounter b)),
           fd_indexedValue = Some (int_text n),
           fd_details = [(''reason'', JStr ''indexer holds more trades than the chain has allocated ids''),
             (''boundaryBlock'', jint (cb_blockNumber b)), (''boundaryTag'', JStr (cb_tag b))]\<rparr>)"

text \<open>\<open>BigInt(text)\<close>: white space around it is ignored, the empty text is 0, and only a decimal may be signed.\<close>

definition radix_value :: "int \<Rightarrow> string \<Rightarrow> int" where
  "radix_value base s = foldl (\<lambda>n c. base * n + hex_val c) 0 s"

definition parse_bigint :: "string \<Rightarrow> int option" where
  "parse_bigint raw =
    (let s = trim raw; pfx = toLowerCase (take 2 s); rest = drop 2 s in
     if s = [] then Some 0
     else if pfx = ''0x'' then (if rest \<noteq> [] \<and> list_all is_hex rest then Some (radix_value 16 rest) else None)
     else if pfx = ''0o'' then (if rest \<noteq> [] \<and> list_all (\<lambda>c. c \<in> set ''01234567'') rest then Some (radix_value 8 rest) else None)
     else if pfx = ''0b'' then (if rest \<noteq> [] \<and> list_all (\<lambda>c. c \<in> set ''01'') rest then Some (radix_value 2 rest) else None)
     else if hd s = CHR ''-'' then (if digits_text (tl s) then Some (- BigInt (tl s)) else None)
     else if hd s = CHR ''+'' then (if digits_text (tl s) then Some (BigInt (tl s)) else None)
     else if digits_text s then Some (BigInt s) else None)"

definition indexerOnlyFinding :: "string \<Rightarrow> coverage_boundary \<Rightarrow> string \<Rightarrow> finding" where
  "indexerOnlyFinding tradeId b reason =
    \<lparr>fd_tradeId = tradeId, fd_severity = CRITICAL, fd_mismatchCode = ONCHAIN_TRADE_MISSING, fd_comparedField = ''tradePresence'',
     fd_onchainValue = None, fd_indexedValue = Some tradeId,
     fd_details = [(''reason'', JStr reason), (''chainTradeCounter'', JStr (int_text (cb_chainTradeCounter b))),
       (''boundaryBlock'', jint (cb_blockNumber b)), (''boundaryTag'', JStr (cb_tag b))]\<rparr>"

definition detectIndexerOnlyTradeIds :: "string list \<Rightarrow> coverage_boundary \<Rightarrow> finding list" where
  "detectIndexerOnlyTradeIds ids b = List.map_filter (\<lambda>raw.
    case parse_bigint raw of
      None \<Rightarrow> Some (indexerOnlyFinding raw b ''indexer trade id is not numeric'')
    | Some n \<Rightarrow> if n < 0 \<or> n \<ge> cb_chainTradeCounter b
        then Some (indexerOnlyFinding raw b ''indexer holds a trade id the chain never allocated'') else None) ids"

definition evaluateCoverageSla :: "int \<Rightarrow> timestamp option \<Rightarrow> timestamp \<Rightarrow> int \<Rightarrow> coverage_sla" where
  "evaluateCoverageSla tail tailFirstSeenAt now maxAgeMs =
    (if tail = 0 then \<lparr>sl_breached = False, sl_uncoveredTail = 0, sl_oldestUncoveredAgeMs = None, sl_reason = None\<rparr>
     else case tailFirstSeenAt of
       None \<Rightarrow> \<lparr>sl_breached = False, sl_uncoveredTail = tail, sl_oldestUncoveredAgeMs = Some 0, sl_reason = None\<rparr>
     | Some t \<Rightarrow>
         if now - t < maxAgeMs
         then \<lparr>sl_breached = False, sl_uncoveredTail = tail, sl_oldestUncoveredAgeMs = Some (now - t), sl_reason = None\<rparr>
         else \<lparr>sl_breached = True, sl_uncoveredTail = tail, sl_oldestUncoveredAgeMs = Some (now - t),
           sl_reason = Some (''uncovered tail of '' @ int_text tail @ '' trade(s) has exceeded the '' @ int_text maxAgeMs @
             ''ms coverage SLA'')\<rparr>)"

section \<open>A sweep lists every trade once\<close>

lemma concat_batches [simp]: "0 < n \<Longrightarrow> concat (batches n xs) = xs"
proof (induction n xs rule: batches.induct)
  case (1 n xs)
  then show ?case by (subst batches.simps) (cases "xs = []"; simp)
qed

text \<open>The ids the next \<open>k\<close> runs compare from a cursor while nothing holds it, and the cursor they leave.\<close>

fun sweep :: "nat \<Rightarrow> int \<Rightarrow> int \<Rightarrow> int \<Rightarrow> string list \<times> int" where
  "sweep 0 cur counter budget = ([], cur)"
| "sweep (Suc k) cur counter budget =
    (case planCoverageWindow cur counter budget of
       Inl _ \<Rightarrow> ([], cur)
     | Inr w \<Rightarrow> (case sweep k (planNextCursor w False cur) counter budget of
         (ids, c) \<Rightarrow> (tradeIdsInWindow w @ ids, c)))"

lemma upto_append: "a \<le> b + 1 \<Longrightarrow> b \<le> c \<Longrightarrow> [a..b] @ [b + 1..c] = [a..c :: int]"
proof -
  assume "a \<le> b + 1" and "b \<le> c"
  then show ?thesis
  proof (cases "b = c")
    case False
    with \<open>a \<le> b + 1\<close> \<open>b \<le> c\<close> show ?thesis using upto_split1 [of a "b + 1" c] by simp
  qed simp
qed

text \<open>From a cursor below the counter, the runs needed to reach it.\<close>

definition runs_needed :: "int \<Rightarrow> int \<Rightarrow> int \<Rightarrow> nat" where
  "runs_needed cur counter budget = nat ((counter - cur + budget - 1) div budget)"

lemma runs_needed_step:
  assumes "0 < b" and "c + b < n"
  shows "runs_needed c n b = Suc (runs_needed (c + b) n b)"
proof -
  have "n - c + b - 1 = n - (c + b) + b - 1 + b" by simp
  then have "(n - c + b - 1) div b = (n - (c + b) + b - 1) div b + 1" using assms(1) by (metis div_add_self2 less_irrefl)
  moreover have "0 \<le> (n - (c + b) + b - 1) div b" using assms by (intro pos_imp_zdiv_nonneg_iff [THEN iffD2]) auto
  ultimately show ?thesis unfolding runs_needed_def by linarith
qed

lemma runs_needed_last:
  assumes "0 < b" and "c < n" and "n \<le> c + b"
  shows "runs_needed c n b = Suc 0"
proof -
  have "(n - c + b - 1) div b = 1" using assms by (intro div_pos_geq [THEN trans]) (auto simp: div_pos_pos_trivial)
  then show ?thesis by (simp add: runs_needed_def)
qed

lemma sweep_from:
  assumes "0 < b" and "0 \<le> c" and "c < n"
  shows "sweep (runs_needed c n b) c n b = (map int_text [c..n - 1], 0)"
  using assms(2,3)
proof (induction "nat (n - c)" arbitrary: c rule: less_induct)
  case less
  show ?case
  proof (cases "n \<le> c + b")
    case True
    then have "(if n - c < b then n - c else b) = n - c" by auto
    then show ?thesis using less.prems assms(1) True runs_needed_last [of b c n]
      by (simp add: planCoverageWindow_def planNextCursor_def tradeIdsInWindow_def Let_def)
  next
    case False
    then have "sweep (runs_needed (c + b) n b) (c + b) n b = (map int_text [c + b..n - 1], 0)"
      using less.prems assms(1) by (intro less.hyps) auto
    moreover have "[c..c + b - 1] @ [c + b..n - 1] = [c..n - 1]"
      using upto_append [of c "c + b - 1" "n - 1"] assms(1) False by simp
    ultimately show ?thesis using less.prems assms(1) False runs_needed_step [of b c n]
      by (simp add: planCoverageWindow_def planNextCursor_def tradeIdsInWindow_def Let_def flip: map_append)
  qed
qed

lemma distinct_trade_ids: "distinct (map int_text [0..n - 1])"
  by (auto simp: distinct_map inj_on_def int_text_inject)

section \<open>What the window comparison finds\<close>

lemma compare_record_missing:
  assumes "f \<in> set (fst (compare_record b ixs r))"
  shows "fd_tradeId f = cr_tradeId r \<and> indexed_by_id ixs (cr_tradeId r) = None \<and>
    (fd_mismatchCode f = INDEXER_TRADE_MISSING \<and> existsOnChain r \<or> fd_mismatchCode f = ONCHAIN_READ_ERROR \<and> truthy (cr_readError r))"
  using assms by (auto simp: compare_record_def read_failed_finding_def not_projected_finding_def split: option.splits if_splits)

text \<open>A trade on chain that the indexer does not project qualifies for containment.\<close>

lemma unprojected_trade_qualifies:
  assumes "r \<in> set rs" and "existsOnChain r" and "\<not> truthy (cr_readError r)" and "indexed_by_id ixs (cr_tradeId r) = None"
  shows "\<exists>f \<in> set (cc_missingFromIndexer (compareCoverage b rs ixs)). isQualifyingDiscrepancy f \<and> fd_tradeId f = cr_tradeId r"
proof -
  have "not_projected_finding b r \<in> set (fst (compare_record b ixs r))" using assms by (simp add: compare_record_def)
  then have "not_projected_finding b r \<in> set (cc_missingFromIndexer (compareCoverage b rs ixs))"
    using assms(1) by (auto simp: compareCoverage_def)
  then show ?thesis
    by (intro bexI) (auto simp: not_projected_finding_def isQualifyingDiscrepancy_def QUALIFYING_DISCREPANCY_CODES_def)
qed

end
