(* ===== verification/Recon_Store.thy ===== *)
theory Recon_Store
  imports Recon_Coverage Programs
begin

text \<open>
  The database of the reconciliation service: the tables of \<open>reconciliation/src/database/*.sql\<close> with
  their unique keys and row guards, and every statement of \<open>leases.ts\<close>, \<open>queries.ts\<close>,
  \<open>containments.ts\<close>, \<open>alertOutbox.ts\<close> and \<open>enumerationCycles.ts\<close> as a program over the tables. A
  program that throws inside \<open>transaction\<close> leaves the tables as they were. \<open>now\<close> is \<open>NOW()\<close>, the start
  of the enclosing transaction, in milliseconds. Column lengths, row-level security, and the times a
  drift, a cycle or a ledger entry was written are left out, and \<open>ORDER BY\<close> on text compares code points.
\<close>

section \<open>Tables\<close>

datatype reconcile_mode = ONCE | DAEMON

datatype run_status = RUN_RUNNING | RUN_COMPLETED | RUN_FAILED | RUN_SKIPPED | RUN_ABANDONED

record run_row =
  rr_id :: int
  rr_run_key :: string
  rr_mode :: reconcile_mode
  rr_status :: run_status
  rr_started_at :: timestamp
  rr_completed_at :: "timestamp option"
  rr_total_trades :: int
  rr_drift_count :: int
  rr_critical_count :: int
  rr_high_count :: int
  rr_medium_count :: int
  rr_low_count :: int
  rr_error_message :: "string option"
  rr_lease_owner :: "string option"
  rr_lease_epoch :: nat
  rr_lease_acquired_at :: "timestamp option"
  rr_lease_heartbeat_at :: "timestamp option"
  rr_lease_expires_at :: "timestamp option"
  rr_abandoned_at :: "timestamp option"
  rr_abandoned_owner :: "string option"
  rr_takeover_count :: nat
  rr_coverage_from_trade_id :: "int option"
  rr_coverage_to_trade_id :: "int option"
  rr_coverage_from_block :: "int option"
  rr_coverage_to_block :: "int option"
  rr_chain_trade_counter :: "int option"
  rr_next_cursor :: "int option"
  rr_uncovered_tail :: "int option"
  rr_coverage_complete :: "bool option"
  rr_indexer_enumeration_truncated :: "bool option"
  rr_indexer_enumeration_walked :: "int option"
  rr_chain_evidence :: "json option"
  rr_export_evidence_version :: "nat option"
  rr_coverage_cycle_id :: "string option"

record lease_identity =
  ls_runKey :: string
  ls_owner :: string
  ls_epoch :: nat

datatype lease_event = ACQUIRED | RECLAIMED | ABANDONED | LEASE_RELEASED | LEASE_LOST

record lease_event_row =
  le_run_id :: int
  le_run_key :: string
  le_event :: lease_event
  le_owner :: "string option"
  le_epoch :: nat
  le_previous_owner :: "string option"
  le_detail :: json
  le_created_at :: timestamp

record drift_row =
  dr_run_id :: int
  dr_run_key :: string
  dr_trade_id :: string
  dr_severity :: drift_severity
  dr_mismatch_code :: drift_code
  dr_compared_field :: string
  dr_onchain_value :: "string option"
  dr_indexed_value :: "string option"
  dr_details :: "(string \<times> json) list"
  dr_occurrences :: nat

record scope_row =
  sc_run_id :: int
  sc_run_key :: string
  sc_trade_id :: string

datatype containment_state = CONTAINED | RECONCILED_PENDING_APPROVAL | RELEASED

fun containment_state_text :: "containment_state \<Rightarrow> string" where
  "containment_state_text CONTAINED = ''CONTAINED''"
| "containment_state_text RECONCILED_PENDING_APPROVAL = ''RECONCILED_PENDING_APPROVAL''"
| "containment_state_text RELEASED = ''RELEASED''"

record unpause_evidence =
  gu_txHash :: string
  gu_chainId :: int
  gu_contractAddress :: string
  gu_tradeId :: string
  gu_blockNumber :: int
  gu_blockHash :: string
  gu_logIndex :: int
  gu_incidentRef :: string
  gu_approvers :: "string list"
  gu_approvalCount :: int
  gu_requiredApprovals :: int
  gu_executedAt :: timestamp

text \<open>The approval columns are written and cleared together; \<open>tc_approval\<close> is the receipt they hold.\<close>

record containment_row =
  tc_trade_id :: string
  tc_incident_reference :: string
  tc_state :: containment_state
  tc_opened_run_key :: string
  tc_opened_at :: timestamp
  tc_qualifying_codes :: "string list"
  tc_evidence :: json
  tc_observation_count :: nat
  tc_last_observed_run_key :: "string option"
  tc_last_observed_at :: "timestamp option"
  tc_pause_observed_at :: "timestamp option"
  tc_pause_observed_block :: "int option"
  tc_pause_last_checked_at :: "timestamp option"
  tc_cleared_run_key :: "string option"
  tc_cleared_at :: "timestamp option"
  tc_approval :: "unpause_evidence option"
  tc_released_at :: "timestamp option"
  tc_updated_at :: timestamp

record spent_approval =
  su_tx_hash :: string
  su_trade_id :: string
  su_incident_reference :: string
  su_chain_id :: int
  su_block_number :: int
  su_log_index :: int

datatype alert_kind = CRITICAL_DRIFT | COVERAGE_BACKLOG | TRADE_CONTAINED | TRADE_PAUSE_UNCONFIRMED

record alert_row =
  al_run_id :: int
  al_run_key :: string
  al_kind :: alert_kind
  al_payload :: json
  al_dispatched_at :: "timestamp option"
  al_dispatch_attempts :: nat
  al_last_error :: "string option"

record cursor_row =
  cu_last_trade_id :: int
  cu_boundary_block_number :: int
  cu_boundary_block_hash :: string
  cu_tail_first_seen_at :: "timestamp option"

record enumeration_cycle =
  ec_id :: string
  ec_source_identity :: string
  ec_anchor_block :: int
  ec_anchor_hash :: string
  ec_chain_counter :: int
  ec_expected_count :: int
  ec_start_cursor :: int
  ec_chain_cursor :: int
  ec_upper_id :: "string option"
  ec_after_id :: "string option"
  ec_walked :: int
  ec_generation :: nat
  ec_exhausted :: bool
  ec_coherent :: bool
  ec_finished :: bool

record cycle_member =
  em_cycle_id :: string
  em_physical_id :: string
  em_trade_id :: string

record identity_page =
  ip_records :: "(string \<times> string) list"
  ip_nextId :: "string option"
  ip_exhausted :: bool

text \<open>\<open>rd_seq\<close> is the sequence of \<open>reconcile_runs.id\<close>; an insert that conflicts consumes a value too.\<close>

record recon_db =
  rd_runs :: "run_row list"
  rd_events :: "lease_event_row list"
  rd_drifts :: "drift_row list"
  rd_scope :: "scope_row list"
  rd_containments :: "containment_row list"
  rd_spent :: "spent_approval list"
  rd_alerts :: "alert_row list"
  rd_cursor :: "cursor_row option"
  rd_cycles :: "enumeration_cycle list"
  rd_members :: "cycle_member list"
  rd_seq :: int

datatype recon_error =
  Recon_error string
| Sql_exception string
| Unique_violation string
| Lease_lost lease_identity
| Replayed_approval string
| Governed_approval string

type_synonym 'a tx = "(recon_db, recon_error, 'a) prog"

section \<open>Row guards\<close>

text \<open>
  \<open>UPDATE ... WHERE p RETURNING *\<close>: the guard of a table sees the old and the new row of every match and
  gives the row that is stored, or raises. The result is the table and the rows returned.
\<close>

fun update_rows :: "('r \<Rightarrow> 'r \<Rightarrow> string + 'r) \<Rightarrow> ('r \<Rightarrow> bool) \<Rightarrow> ('r \<Rightarrow> 'r) \<Rightarrow> 'r list \<Rightarrow> string + 'r list \<times> 'r list" where
  "update_rows g p f [] = Inr ([], [])"
| "update_rows g p f (r # rs) =
    rbind (if p r then g r (f r) else Inr r) (\<lambda>r'.
    rbind (update_rows g p f rs) (\<lambda>(rows, hits). Inr (r' # rows, (if p r then [r'] else []) @ hits)))"

definition protect_reconcile_chain_evidence :: "run_row \<Rightarrow> run_row \<Rightarrow> string + run_row" where
  "protect_reconcile_chain_evidence old new =
    (if rr_chain_evidence old \<noteq> None \<and> rr_chain_evidence new \<noteq> rr_chain_evidence old
     then Inl ''reconcile_chain_evidence_is_immutable'' else Inr new)"

definition protect_reconcile_published_run :: "run_row \<Rightarrow> run_row \<Rightarrow> string + run_row" where
  "protect_reconcile_published_run old new =
    (if rr_export_evidence_version old = Some 1 then
       (if rr_lease_owner new = None \<and> rr_lease_expires_at new = None \<and>
           new\<lparr>rr_lease_owner := None, rr_lease_expires_at := None\<rparr> = old\<lparr>rr_lease_owner := None, rr_lease_expires_at := None\<rparr>
        then Inr new else Inl ''reconcile_published_evidence_is_immutable'')
     else if rr_export_evidence_version new \<noteq> rr_export_evidence_version old
     then Inl ''reconcile_evidence_version_is_server_assigned''
     else if rr_status old = RUN_RUNNING \<and> rr_status new = RUN_COMPLETED
     then Inr (new\<lparr>rr_export_evidence_version := Some 1\<rparr>)
     else Inr new)"

definition run_guard :: "run_row \<Rightarrow> run_row \<Rightarrow> string + run_row" where
  "run_guard old new = rbind (protect_reconcile_chain_evidence old new) (protect_reconcile_published_run old)"

definition update_runs :: "(run_row \<Rightarrow> bool) \<Rightarrow> (run_row \<Rightarrow> run_row) \<Rightarrow> run_row list tx" where
  "update_runs p f db =
    (case update_rows run_guard p f (rd_runs db) of
       Inl e \<Rightarrow> (Inl (Sql_exception e), db)
     | Inr (rows, hits) \<Rightarrow> (Inr hits, db\<lparr>rd_runs := rows\<rparr>))"

text \<open>A scope or drift row can only be written under a run that is there and not published.\<close>

definition protect_reconcile_published_child :: "recon_db \<Rightarrow> int \<Rightarrow> string \<Rightarrow> string option" where
  "protect_reconcile_published_child db runId runKey =
    (case find (\<lambda>r. rr_id r = runId \<and> rr_run_key r = runKey) (rd_runs db) of
       None \<Rightarrow> Some ''reconcile_evidence_parent_mismatch''
     | Some r \<Rightarrow> if rr_export_evidence_version r = Some 1 then Some ''reconcile_published_evidence_is_immutable'' else None)"

definition ck_release_evidence :: "containment_row \<Rightarrow> bool" where
  "ck_release_evidence r = (tc_state r \<noteq> RELEASED \<or> tc_approval r \<noteq> None \<and> tc_pause_observed_at r \<noteq> None)"

definition containment_guard :: "containment_row \<Rightarrow> containment_row \<Rightarrow> string + containment_row" where
  "containment_guard old new =
    (if ck_release_evidence new then Inr new else Inl ''ck_reconcile_trade_containments_release_evidence'')"

definition update_containments ::
  "(containment_row \<Rightarrow> bool) \<Rightarrow> (containment_row \<Rightarrow> containment_row) \<Rightarrow> containment_row list tx" where
  "update_containments p f db =
    (case update_rows containment_guard p f (rd_containments db) of
       Inl e \<Rightarrow> (Inl (Sql_exception e), db)
     | Inr (rows, hits) \<Rightarrow> (Inr hits, db\<lparr>rd_containments := rows\<rparr>))"

definition cycle_identity :: "enumeration_cycle \<Rightarrow> string \<times> string \<times> int \<times> string \<times> int \<times> int \<times> int \<times> string option" where
  "cycle_identity c = (ec_id c, ec_source_identity c, ec_anchor_block c, ec_anchor_hash c, ec_chain_counter c,
     ec_expected_count c, ec_start_cursor c, ec_upper_id c)"

definition protect_reconcile_enumeration_cycle :: "enumeration_cycle \<Rightarrow> enumeration_cycle \<Rightarrow> string + enumeration_cycle" where
  "protect_reconcile_enumeration_cycle old new =
    (if ec_finished old then Inl ''reconcile_enumeration_cycle_is_retained''
     else if cycle_identity new \<noteq> cycle_identity old \<or> ec_chain_cursor new < ec_chain_cursor old \<or>
        ec_generation new \<noteq> ec_generation old + 1 \<or> ec_walked new < ec_walked old \<or>
        (ec_exhausted old \<and> \<not> ec_exhausted new) \<or> (\<not> ec_coherent old \<and> ec_coherent new) \<or>
        (case ec_after_id old of None \<Rightarrow> False | Some a \<Rightarrow> (case ec_after_id new of None \<Rightarrow> True | Some b \<Rightarrow> b < a))
     then Inl ''reconcile_enumeration_progress_is_invalid''
     else Inr new)"

definition update_cycles :: "(enumeration_cycle \<Rightarrow> bool) \<Rightarrow> (enumeration_cycle \<Rightarrow> enumeration_cycle) \<Rightarrow> enumeration_cycle list tx" where
  "update_cycles p f db =
    (case update_rows protect_reconcile_enumeration_cycle p f (rd_cycles db) of
       Inl e \<Rightarrow> (Inl (Sql_exception e), db)
     | Inr (rows, hits) \<Rightarrow> (Inr hits, db\<lparr>rd_cycles := rows\<rparr>))"

section \<open>Run leases\<close>

definition lease_expired :: "int \<Rightarrow> timestamp \<Rightarrow> run_row \<Rightarrow> bool" where
  "lease_expired ttl now r =
    ((case rr_lease_expires_at r of Some t \<Rightarrow> t | None \<Rightarrow> rr_started_at r + ttl) \<le> now)"

definition live_lease :: "timestamp \<Rightarrow> run_row \<Rightarrow> bool" where
  "live_lease now r = (case rr_lease_expires_at r of None \<Rightarrow> False | Some t \<Rightarrow> t > now)"

definition leased_to :: "lease_identity \<Rightarrow> run_row \<Rightarrow> bool" where
  "leased_to l r = (rr_run_key r = ls_runKey l \<and> rr_lease_owner r = Some (ls_owner l) \<and> rr_lease_epoch r = ls_epoch l)"

definition appendLeaseEvent :: 
  "timestamp \<Rightarrow> int \<Rightarrow> string \<Rightarrow> lease_event \<Rightarrow> string option \<Rightarrow> nat \<Rightarrow> string option \<Rightarrow> json \<Rightarrow> unit tx" where
  "appendLeaseEvent now runId runKey event owner epoch previousOwner detail =
    modify (\<lambda>db. db\<lparr>rd_events := rd_events db @ [\<lparr>le_run_id = runId, le_run_key = runKey, le_event = event,
      le_owner = owner, le_epoch = epoch, le_previous_owner = previousOwner, le_detail = detail, le_created_at = now\<rparr>]\<rparr>)"

definition new_run :: "int \<Rightarrow> timestamp \<Rightarrow> string \<Rightarrow> reconcile_mode \<Rightarrow> string \<Rightarrow> int \<Rightarrow> run_row" where
  "new_run i now runKey mode owner ttl =
    \<lparr>rr_id = i, rr_run_key = runKey, rr_mode = mode, rr_status = RUN_RUNNING, rr_started_at = now, rr_completed_at = None,
     rr_total_trades = 0, rr_drift_count = 0, rr_critical_count = 0, rr_high_count = 0, rr_medium_count = 0,
     rr_low_count = 0, rr_error_message = None, rr_lease_owner = Some owner, rr_lease_epoch = 1,
     rr_lease_acquired_at = Some now, rr_lease_heartbeat_at = Some now, rr_lease_expires_at = Some (now + ttl),
     rr_abandoned_at = None, rr_abandoned_owner = None, rr_takeover_count = 0, rr_coverage_from_trade_id = None,
     rr_coverage_to_trade_id = None, rr_coverage_from_block = None, rr_coverage_to_block = None,
     rr_chain_trade_counter = None, rr_next_cursor = None, rr_uncovered_tail = None, rr_coverage_complete = None,
     rr_indexer_enumeration_truncated = None, rr_indexer_enumeration_walked = None, rr_chain_evidence = None,
     rr_export_evidence_version = None, rr_coverage_cycle_id = None\<rparr>"

text \<open>The insert and the conditional update of a claim, two statements of their own.\<close>

definition claim_insert :: "timestamp \<Rightarrow> string \<Rightarrow> reconcile_mode \<Rightarrow> string \<Rightarrow> int \<Rightarrow> run_row option tx" where
  "claim_insert now runKey mode owner ttl db =
    (let db' = db\<lparr>rd_seq := rd_seq db + 1\<rparr> in
     if runKey \<in> rr_run_key ` set (rd_runs db) then (Inr None, db')
     else let r = new_run (rd_seq db) now runKey mode owner ttl in (Inr (Some r), db'\<lparr>rd_runs := rd_runs db @ [r]\<rparr>))"

definition claim_takeover :: "timestamp \<Rightarrow> string \<Rightarrow> string \<Rightarrow> int \<Rightarrow> run_row list tx" where
  "claim_takeover now runKey owner ttl =
    update_runs (\<lambda>r. rr_run_key r = runKey \<and> rr_status r \<noteq> RUN_COMPLETED \<and> (rr_status r \<noteq> RUN_RUNNING \<or> lease_expired ttl now r))
      (\<lambda>r. r\<lparr>rr_status := RUN_RUNNING, rr_lease_owner := Some owner, rr_lease_epoch := rr_lease_epoch r + 1,
        rr_lease_acquired_at := Some now, rr_lease_heartbeat_at := Some now, rr_lease_expires_at := Some (now + ttl),
        rr_takeover_count := rr_takeover_count r + 1,
        rr_abandoned_owner := (case rr_lease_owner r of Some o' \<Rightarrow> Some o' | None \<Rightarrow> rr_abandoned_owner r),
        rr_abandoned_at := (if rr_status r = RUN_RUNNING then Some now else rr_abandoned_at r),
        rr_completed_at := None, rr_error_message := None\<rparr>)"

definition select_run :: "string \<Rightarrow> run_row option tx" where
  "select_run runKey = gets (\<lambda>db. find (\<lambda>r. rr_run_key r = runKey) (rd_runs db))"

definition heartbeatLease :: "timestamp \<Rightarrow> lease_identity \<Rightarrow> int \<Rightarrow> bool tx" where
  "heartbeatLease now l ttl =
    bind (update_runs (\<lambda>r. leased_to l r \<and> rr_status r = RUN_RUNNING \<and> live_lease now r)
      (\<lambda>r. r\<lparr>rr_lease_heartbeat_at := Some now, rr_lease_expires_at := Some (now + ttl)\<rparr>))
    (\<lambda>hits. ret (length hits = 1))"

definition assertLeaseHeld :: "timestamp \<Rightarrow> lease_identity \<Rightarrow> unit tx" where
  "assertLeaseHeld now l =
    bind (gets (\<lambda>db. filter (\<lambda>r. leased_to l r \<and> live_lease now r) (rd_runs db)))
    (\<lambda>hits. if length hits \<noteq> 1 then throw (Lease_lost l) else ret ())"

definition releaseLease :: "lease_identity \<Rightarrow> bool tx" where
  "releaseLease l =
    bind (update_runs (\<lambda>r. leased_to l r \<and> rr_status r \<noteq> RUN_RUNNING)
      (\<lambda>r. r\<lparr>rr_lease_owner := None, rr_lease_expires_at := None\<rparr>))
    (\<lambda>hits. ret (length hits = 1))"

definition mark_abandoned :: "timestamp \<Rightarrow> int \<Rightarrow> run_row list tx" where
  "mark_abandoned now ttl =
    update_runs (\<lambda>r. rr_status r = RUN_RUNNING \<and> lease_expired ttl now r)
      (\<lambda>r. r\<lparr>rr_status := RUN_ABANDONED, rr_abandoned_at := Some now, rr_abandoned_owner := rr_lease_owner r,
        rr_lease_owner := None\<rparr>)"

section \<open>Runs, drifts and the cursor\<close>

record severity_counts =
  sv_critical :: int
  sv_high :: int
  sv_medium :: int
  sv_low :: int

record run_coverage =
  rg_boundary :: coverage_boundary
  rg_window :: coverage_window
  rg_fromBlock :: int
  rg_indexerTradeCount :: "int option"
  rg_sla :: coverage_sla
  rg_cursorAdvanced :: bool
  rg_nextCursor :: int
  rg_sweepReset :: bool
  rg_indexerEnumerationTruncated :: bool
  rg_indexerEnumerationWalked :: int
  rg_enumerationCycleId :: string
  rg_indexerSourceCoherent :: bool
  rg_indexerEnumerationExpected :: int
  rg_complete :: bool
  rg_indexerProcessedBlock :: int

record run_stats =
  ru_runKey :: string
  ru_mode :: reconcile_mode
  ru_totalTrades :: int
  ru_driftCount :: int
  ru_severityCounts :: severity_counts
  ru_status :: run_status
  ru_skippedReason :: "string option"
  ru_containedTradeIds :: "string list option"
  ru_coverage :: "run_coverage option"

definition readCoverageCursor :: "cursor_row tx" where
  "readCoverageCursor = gets (\<lambda>db. case rd_cursor db of
     Some c \<Rightarrow> c
   | None \<Rightarrow> \<lparr>cu_last_trade_id = 0, cu_boundary_block_number = 0, cu_boundary_block_hash = [], cu_tail_first_seen_at = None\<rparr>)"

definition advanceCoverageCursor :: "int \<Rightarrow> int \<Rightarrow> string \<Rightarrow> timestamp option \<Rightarrow> unit tx" where
  "advanceCoverageCursor lastTradeId blockNumber blockHash tail db =
    (if lastTradeId < 0 then (Inl (Sql_exception ''ck_reconcile_cursors_trade_id_non_negative''), db)
     else (Inr (), db\<lparr>rd_cursor := Some \<lparr>cu_last_trade_id = lastTradeId, cu_boundary_block_number = blockNumber,
       cu_boundary_block_hash = blockHash, cu_tail_first_seen_at = tail\<rparr>\<rparr>))"

definition recordCoverageTailSighting :: "timestamp option \<Rightarrow> unit tx" where
  "recordCoverageTailSighting tail = modify (\<lambda>db. db\<lparr>rd_cursor := Some (case rd_cursor db of
     Some c \<Rightarrow> c\<lparr>cu_tail_first_seen_at := tail\<rparr>
   | None \<Rightarrow> \<lparr>cu_last_trade_id = 0, cu_boundary_block_number = 0, cu_boundary_block_hash = [], cu_tail_first_seen_at = tail\<rparr>)\<rparr>)"

definition same_drift :: "string \<Rightarrow> string \<Rightarrow> drift_code \<Rightarrow> string \<Rightarrow> drift_row \<Rightarrow> bool" where
  "same_drift runKey tradeId code field d =
    (dr_run_key d = runKey \<and> dr_trade_id d = tradeId \<and> dr_mismatch_code d = code \<and> dr_compared_field d = field)"

definition upsertDrift :: "int \<Rightarrow> string \<Rightarrow> finding \<Rightarrow> unit tx" where
  "upsertDrift runId runKey f db =
    (let hit = same_drift runKey (fd_tradeId f) (fd_mismatchCode f) (fd_comparedField f) in
     case protect_reconcile_published_child db runId runKey of
       Some e \<Rightarrow> (Inl (Sql_exception e), db)
     | None \<Rightarrow>
         (case find hit (rd_drifts db) of
            None \<Rightarrow> (Inr (), db\<lparr>rd_drifts := rd_drifts db @ [\<lparr>dr_run_id = runId, dr_run_key = runKey, dr_trade_id = fd_tradeId f,
              dr_severity = fd_severity f, dr_mismatch_code = fd_mismatchCode f, dr_compared_field = fd_comparedField f,
              dr_onchain_value = fd_onchainValue f, dr_indexed_value = fd_indexedValue f, dr_details = fd_details f,
              dr_occurrences = 1\<rparr>]\<rparr>)
          | Some d \<Rightarrow>
              (case protect_reconcile_published_child db (dr_run_id d) (dr_run_key d) of
                 Some e \<Rightarrow> (Inl (Sql_exception e), db)
               | None \<Rightarrow> (Inr (), db\<lparr>rd_drifts := map (\<lambda>d. if hit d then d\<lparr>dr_run_id := runId, dr_severity := fd_severity f,
                   dr_onchain_value := fd_onchainValue f, dr_indexed_value := fd_indexedValue f, dr_details := fd_details f,
                   dr_occurrences := dr_occurrences d + 1\<rparr> else d) (rd_drifts db)\<rparr>))))"

definition upsertRunTradeScope :: "int \<Rightarrow> string \<Rightarrow> string \<Rightarrow> unit tx" where
  "upsertRunTradeScope runId runKey tradeId db =
    (case protect_reconcile_published_child db runId runKey of
       Some e \<Rightarrow> (Inl (Sql_exception e), db)
     | None \<Rightarrow> (Inr (), if \<exists>s \<in> set (rd_scope db). sc_run_key s = runKey \<and> sc_trade_id s = tradeId then db
         else db\<lparr>rd_scope := rd_scope db @ [\<lparr>sc_run_id = runId, sc_run_key = runKey, sc_trade_id = tradeId\<rparr>]\<rparr>))"

definition coverage_evidence :: "int \<Rightarrow> string \<Rightarrow> run_coverage \<Rightarrow> json" where
  "coverage_evidence chainId escrow g =
    JObj [(''version'', JStr ''cotsel.reconciliation-coverage.v1''), (''enumerationCycleId'', JStr (rg_enumerationCycleId g)),
      (''indexerSourceCoherent'', JBool (rg_indexerSourceCoherent g)),
      (''indexerEnumerationExpected'', jint (rg_indexerEnumerationExpected g)), (''chainId'', JStr (int_text chainId)),
      (''escrowAddress'', JStr (toLowerCase escrow)), (''blockNumber'', JStr (int_text (cb_blockNumber (rg_boundary g)))),
      (''blockHash'', JStr (toLowerCase (cb_blockHash (rg_boundary g)))), (''tag'', JStr (cb_tag (rg_boundary g))),
      (''finalizedBlockNumber'', JStr (int_text (cb_finalityBlockNumber (rg_boundary g)))),
      (''indexerProcessedBlock'', JStr (int_text (rg_indexerProcessedBlock g)))]"

definition completeRun :: "int \<Rightarrow> string \<Rightarrow> timestamp \<Rightarrow> run_stats \<Rightarrow> unit tx" where
  "completeRun chainId escrow now stats =
    (let g = ru_coverage stats in
     bind (update_runs (\<lambda>r. rr_run_key r = ru_runKey stats)
       (\<lambda>r. r\<lparr>rr_status := ru_status stats, rr_completed_at := Some now, rr_total_trades := ru_totalTrades stats,
         rr_drift_count := ru_driftCount stats, rr_critical_count := sv_critical (ru_severityCounts stats),
         rr_high_count := sv_high (ru_severityCounts stats), rr_medium_count := sv_medium (ru_severityCounts stats),
         rr_low_count := sv_low (ru_severityCounts stats),
         rr_coverage_from_trade_id := map_option (cw_fromTradeId \<circ> rg_window) g,
         rr_coverage_to_trade_id := map_option (cw_toTradeId \<circ> rg_window) g,
         rr_coverage_from_block := map_option rg_fromBlock g,
         rr_coverage_to_block := map_option (cb_blockNumber \<circ> rg_boundary) g,
         rr_chain_trade_counter := map_option (cb_chainTradeCounter \<circ> rg_boundary) g,
         rr_next_cursor := map_option rg_nextCursor g, rr_uncovered_tail := map_option (cw_uncoveredTail \<circ> rg_window) g,
         rr_coverage_complete := map_option rg_complete g,
         rr_indexer_enumeration_truncated := map_option rg_indexerEnumerationTruncated g,
         rr_indexer_enumeration_walked := map_option rg_indexerEnumerationWalked g,
         rr_chain_evidence := map_option (coverage_evidence chainId escrow) g\<rparr>))
     (\<lambda>_. ret ()))"

datatype cursor_move = Advance int int string "timestamp option" | Hold_cursor "timestamp option"

fun move_cursor :: "cursor_move \<Rightarrow> unit tx" where
  "move_cursor (Advance lastTradeId blockNumber blockHash tail) = advanceCoverageCursor lastTradeId blockNumber blockHash tail"
| "move_cursor (Hold_cursor tail) = recordCoverageTailSighting tail"

text \<open>The publishing callback receives the statistics and returns them with its tallies.\<close>

definition finalizeRun ::
  "int \<Rightarrow> string \<Rightarrow> timestamp \<Rightarrow> run_stats \<Rightarrow> lease_identity \<Rightarrow> (run_stats \<Rightarrow> run_stats tx) \<Rightarrow> cursor_move \<Rightarrow> run_stats tx" where
  "finalizeRun chainId escrow now stats l publish cursor =
    transaction
      (bind (assertLeaseHeld now l) (\<lambda>_.
       bind (publish stats) (\<lambda>stats'.
       bind (completeRun chainId escrow now stats') (\<lambda>_.
       bind (releaseLease l) (\<lambda>_.
       bind (move_cursor cursor) (\<lambda>_. ret stats'))))))"

definition failRun :: "timestamp \<Rightarrow> lease_identity \<Rightarrow> string \<Rightarrow> bool tx" where
  "failRun now l msg =
    bind (update_runs (\<lambda>r. leased_to l r \<and> live_lease now r)
      (\<lambda>r. r\<lparr>rr_status := RUN_FAILED, rr_completed_at := Some now, rr_error_message := Some msg, rr_lease_owner := None,
        rr_lease_expires_at := None\<rparr>))
    (\<lambda>hits. ret (length hits = 1))"

section \<open>Containments\<close>

definition openContainment :: "timestamp \<Rightarrow> string \<Rightarrow> string \<Rightarrow> string \<Rightarrow> string list \<Rightarrow> json \<Rightarrow> (containment_row \<times> bool) tx" where
  "openContainment now tradeId incidentReference runKey codes shown db =
    (case find (\<lambda>r. tc_trade_id r = tradeId) (rd_containments db) of
       None \<Rightarrow>
         if incidentReference \<in> tc_incident_reference ` set (rd_containments db)
         then (Inl (Unique_violation ''reconcile_trade_containments_incident_reference_key''), db)
         else let r = \<lparr>tc_trade_id = tradeId, tc_incident_reference = incidentReference, tc_state = CONTAINED,
             tc_opened_run_key = runKey, tc_opened_at = now, tc_qualifying_codes = codes, tc_evidence = shown,
             tc_observation_count = 1, tc_last_observed_run_key = Some runKey, tc_last_observed_at = Some now,
             tc_pause_observed_at = None, tc_pause_observed_block = None, tc_pause_last_checked_at = None,
             tc_cleared_run_key = None, tc_cleared_at = None, tc_approval = None, tc_released_at = None, tc_updated_at = now\<rparr>
           in (Inr (r, True), db\<lparr>rd_containments := rd_containments db @ [r]\<rparr>)
     | Some _ \<Rightarrow>
         bind (update_containments (\<lambda>r. tc_trade_id r = tradeId)
           (\<lambda>r. r\<lparr>tc_state := CONTAINED, tc_qualifying_codes := sort (remdups (tc_qualifying_codes r @ codes)),
             tc_evidence := shown, tc_observation_count := tc_observation_count r + 1,
             tc_last_observed_run_key := Some runKey, tc_last_observed_at := Some now, tc_cleared_run_key := None,
             tc_cleared_at := None, tc_pause_observed_at := None, tc_pause_observed_block := None, tc_approval := None,
             tc_released_at := None, tc_updated_at := now\<rparr>))
         (\<lambda>hits. ret (hd hits, False)) db)"

definition recordCleanReconciliation :: "timestamp \<Rightarrow> string \<Rightarrow> string \<Rightarrow> containment_row option tx" where
  "recordCleanReconciliation now tradeId runKey =
    bind (update_containments (\<lambda>r. tc_trade_id r = tradeId \<and> tc_state r = CONTAINED \<and> tc_opened_run_key r \<noteq> runKey)
      (\<lambda>r. r\<lparr>tc_state := RECONCILED_PENDING_APPROVAL, tc_cleared_run_key := Some runKey, tc_cleared_at := Some now,
        tc_last_observed_run_key := Some runKey, tc_last_observed_at := Some now, tc_updated_at := now\<rparr>))
    (\<lambda>hits. ret (case hits of [] \<Rightarrow> None | r # _ \<Rightarrow> Some r))"

record pause_observation =
  po_tradeId :: string
  po_paused :: bool
  po_blockNumber :: int
  po_readError :: "string option"

definition recordPauseObservation :: "timestamp \<Rightarrow> pause_observation \<Rightarrow> unit tx" where
  "recordPauseObservation now p =
    bind (update_containments (\<lambda>r. tc_trade_id r = po_tradeId p \<and> tc_state r \<noteq> RELEASED)
      (\<lambda>r. r\<lparr>tc_pause_last_checked_at := Some now,
        tc_pause_observed_at := (if po_paused p then Some now else tc_pause_observed_at r),
        tc_pause_observed_block := (if po_paused p then Some (po_blockNumber p) else tc_pause_observed_block r),
        tc_updated_at := now\<rparr>))
    (\<lambda>_. ret ())"

text \<open>
  One statement: the receipt goes into the spent ledger for a row that may be released, and that row
  is released. A receipt that is already in the ledger violates its primary key.
\<close>

definition releasable :: "string \<Rightarrow> containment_row \<Rightarrow> bool" where
  "releasable tradeId r = (tc_trade_id r = tradeId \<and> tc_state r = RECONCILED_PENDING_APPROVAL \<and> tc_pause_observed_at r \<noteq> None)"

definition releaseContainment :: "timestamp \<Rightarrow> string \<Rightarrow> unpause_evidence \<Rightarrow> containment_row option tx" where
  "releaseContainment now tradeId e db =
    (case find (releasable tradeId) (rd_containments db) of
       None \<Rightarrow> (Inr None, db)
     | Some c \<Rightarrow>
         if gu_txHash e \<in> su_tx_hash ` set (rd_spent db) then (Inl (Replayed_approval (gu_txHash e)), db)
         else bind (update_containments (\<lambda>r. tc_trade_id r = tradeId)
             (\<lambda>r. r\<lparr>tc_state := RELEASED, tc_approval := Some e, tc_released_at := Some now, tc_updated_at := now\<rparr>))
           (\<lambda>hits. ret (case hits of [] \<Rightarrow> None | r # _ \<Rightarrow> Some r))
           (db\<lparr>rd_spent := rd_spent db @ [\<lparr>su_tx_hash = gu_txHash e, su_trade_id = tc_trade_id c,
              su_incident_reference = tc_incident_reference c, su_chain_id = gu_chainId e, su_block_number = gu_blockNumber e,
              su_log_index = gu_logIndex e\<rparr>]\<rparr>))"

definition isTradeContained :: "string \<Rightarrow> recon_db \<Rightarrow> containment_row option" where
  "isTradeContained tradeId db = find (\<lambda>r. tc_trade_id r = tradeId \<and> tc_state r \<noteq> RELEASED) (rd_containments db)"

definition listBlockingContainments :: "recon_db \<Rightarrow> containment_row list" where
  "listBlockingContainments db = sort_key tc_opened_at (filter (\<lambda>r. tc_state r \<noteq> RELEASED) (rd_containments db))"

definition getContainment :: "string \<Rightarrow> recon_db \<Rightarrow> containment_row option" where
  "getContainment tradeId db = find (\<lambda>r. tc_trade_id r = tradeId) (rd_containments db)"

section \<open>Alerts\<close>

definition enqueueRunAlert :: "int \<Rightarrow> string \<Rightarrow> alert_kind \<Rightarrow> json \<Rightarrow> unit tx" where
  "enqueueRunAlert runId runKey kind payload = modify (\<lambda>db. db\<lparr>rd_alerts := rd_alerts db @ [\<lparr>al_run_id = runId,
     al_run_key = runKey, al_kind = kind, al_payload = payload, al_dispatched_at = None, al_dispatch_attempts = 0,
     al_last_error = None\<rparr>]\<rparr>)"

section \<open>Enumeration cycles\<close>

definition sameCycleSource :: "enumeration_cycle \<Rightarrow> coverage_boundary \<Rightarrow> string \<Rightarrow> bool" where
  "sameCycleSource c b source =
    (ec_coherent c \<and> ec_source_identity c = source \<and> ec_anchor_block c = cb_blockNumber b \<and>
     ec_anchor_hash c = toLowerCase (cb_blockHash b) \<and> ec_chain_counter c = cb_chainTradeCounter b)"

definition readActiveEnumerationCycle :: "recon_db \<Rightarrow> enumeration_cycle option" where
  "readActiveEnumerationCycle db = find (\<lambda>c. \<not> ec_finished c) (rd_cycles db)"

definition hasEnumerationHistory :: "recon_db \<Rightarrow> bool" where
  "hasEnumerationHistory db = (rd_cycles db \<noteq> [])"

definition cycle_insert ::
  "string \<Rightarrow> coverage_boundary \<Rightarrow> string \<Rightarrow> string option \<Rightarrow> int \<Rightarrow> int \<Rightarrow> bool \<Rightarrow> enumeration_cycle option tx" where
  "cycle_insert uuid b source upperId chainCursor expectedCount coherent db =
    (let c = \<lparr>ec_id = uuid, ec_source_identity = source, ec_anchor_block = cb_blockNumber b,
         ec_anchor_hash = toLowerCase (cb_blockHash b), ec_chain_counter = cb_chainTradeCounter b,
         ec_expected_count = expectedCount, ec_start_cursor = chainCursor, ec_chain_cursor = chainCursor, ec_upper_id = upperId,
         ec_after_id = None, ec_walked = 0, ec_generation = 0, ec_exhausted = False, ec_coherent = coherent, ec_finished = False\<rparr> in
     if ec_anchor_block c < 0 \<or> ec_chain_counter c < 0 \<or> expectedCount < 0 \<or> chainCursor < 0 \<or> (coherent \<and> chainCursor \<noteq> 0)
     then (Inl (Sql_exception ''reconcile_enumeration_cycles_check''), db)
     else if readActiveEnumerationCycle db \<noteq> None then (Inr None, db)
     else if uuid \<in> ec_id ` set (rd_cycles db) then (Inl (Unique_violation ''reconcile_enumeration_cycles_pkey''), db)
     else (Inr (Some c), db\<lparr>rd_cycles := rd_cycles db @ [c]\<rparr>))"

definition previousIdentityCounts :: "string \<Rightarrow> string list \<Rightarrow> recon_db \<Rightarrow> string \<Rightarrow> nat" where
  "previousIdentityCounts cycleId ids db tradeId =
    (if tradeId \<in> set ids then length (filter (\<lambda>x. em_cycle_id x = cycleId \<and> em_trade_id x = tradeId) (rd_members db)) else 0)"

definition completed_in_cycle :: "recon_db \<Rightarrow> string \<Rightarrow> run_row list" where
  "completed_in_cycle db cycleId = filter (\<lambda>r. rr_coverage_cycle_id r = Some cycleId \<and> rr_status r = RUN_COMPLETED) (rd_runs db)"

definition priorCycleHasHoldingFindings :: "string \<Rightarrow> recon_db \<Rightarrow> bool" where
  "priorCycleHasHoldingFindings cycleId db =
    list_ex (\<lambda>d. list_ex (\<lambda>r. rr_run_key r = dr_run_key d) (completed_in_cycle db cycleId) \<and> holdsCursor (dr_mismatch_code d))
      (rd_drifts db)"

fun insert_members :: "string \<Rightarrow> (string \<times> string) list \<Rightarrow> unit tx" where
  "insert_members cycleId [] db = (Inr (), db)"
| "insert_members cycleId ((i, t) # rest) db =
    (case find (\<lambda>c. ec_id c = cycleId) (rd_cycles db) of
       None \<Rightarrow> (Inl (Sql_exception ''reconcile_enumeration_cycle_is_retained''), db)
     | Some c \<Rightarrow>
         if ec_finished c then (Inl (Sql_exception ''reconcile_enumeration_cycle_is_retained''), db)
         else if list_ex (\<lambda>x. em_cycle_id x = cycleId \<and> em_physical_id x = i) (rd_members db)
         then (Inl (Unique_violation ''reconcile_enumeration_members_pkey''), db)
         else insert_members cycleId rest
           (db\<lparr>rd_members := rd_members db @ [\<lparr>em_cycle_id = cycleId, em_physical_id = i, em_trade_id = t\<rparr>]\<rparr>))"

definition publishEnumerationPage :: "enumeration_cycle \<Rightarrow> identity_page \<Rightarrow> bool \<Rightarrow> bool \<Rightarrow> int \<Rightarrow> int \<Rightarrow> unit tx" where
  "publishEnumerationPage c page coherent finished nextChainCursor runId =
    bind (update_cycles (\<lambda>x. ec_id x = ec_id c \<and> ec_generation x = ec_generation c \<and> \<not> ec_finished x)
      (\<lambda>x. x\<lparr>ec_after_id := ip_nextId page, ec_exhausted := ip_exhausted page,
        ec_walked := ec_walked x + int (length (ip_records page)), ec_coherent := (ec_coherent x \<and> coherent),
        ec_chain_cursor := nextChainCursor, ec_generation := ec_generation x + 1\<rparr>)) (\<lambda>hits.
    if length hits \<noteq> 1 then throw (Recon_error ''Enumeration cycle advanced by another worker'')
    else bind (update_runs (\<lambda>r. rr_id r = runId) (\<lambda>r. r\<lparr>rr_coverage_cycle_id := Some (ec_id c)\<rparr>)) (\<lambda>_.
      bind (insert_members (ec_id c) (ip_records page)) (\<lambda>_.
      if finished then bind (update_cycles (\<lambda>x. ec_id x = ec_id c)
          (\<lambda>x. x\<lparr>ec_finished := True, ec_generation := ec_generation x + 1\<rparr>)) (\<lambda>_. ret ())
      else ret ())))"

definition cycle_scope :: "recon_db \<Rightarrow> string \<Rightarrow> string list" where
  "cycle_scope db cycleId =
    remdups (map sc_trade_id (filter (\<lambda>s. list_ex (\<lambda>r. rr_run_key r = sc_run_key s) (completed_in_cycle db cycleId)) (rd_scope db)))"

text \<open>\<open>DISTINCT ON\<close> the trade, code and field, the latest run first.\<close>

definition cycle_drifts :: "recon_db \<Rightarrow> string \<Rightarrow> finding list" where
  "cycle_drifts db cycleId =
    (let joined = [(d, rr_id r). d \<leftarrow> rd_drifts db, r \<leftarrow> completed_in_cycle db cycleId, rr_run_key r = dr_run_key d];
         key = (\<lambda>(d, i). (dr_trade_id d, dr_mismatch_code d, dr_compared_field d));
         newest = (\<lambda>k. fst (hd (sort_key (\<lambda>(d, i). - i) (filter (\<lambda>x. key x = k) joined))))
     in map (\<lambda>k. let d = newest k in \<lparr>fd_tradeId = dr_trade_id d, fd_severity = dr_severity d, fd_mismatchCode = dr_mismatch_code d,
          fd_comparedField = dr_compared_field d, fd_onchainValue = dr_onchain_value d, fd_indexedValue = dr_indexed_value d,
          fd_details = dr_details d\<rparr>) (remdups (map key joined)))"

text \<open>\<open>ON CONFLICT DO NOTHING\<close>.\<close>

definition insert_drift :: "int \<Rightarrow> string \<Rightarrow> finding \<Rightarrow> unit tx" where
  "insert_drift runId runKey f =
    bind (gets (\<lambda>db. list_ex (same_drift runKey (fd_tradeId f) (fd_mismatchCode f) (fd_comparedField f)) (rd_drifts db)
      \<and> protect_reconcile_published_child db runId runKey = None))
    (\<lambda>there. if there then ret () else upsertDrift runId runKey f)"

definition count_severity :: "string \<Rightarrow> drift_severity \<Rightarrow> recon_db \<Rightarrow> int" where
  "count_severity runKey v db = int (length (filter (\<lambda>d. dr_run_key d = runKey \<and> dr_severity d = v) (rd_drifts db)))"

definition aggregateCycleEvidence :: "string \<Rightarrow> int \<Rightarrow> string \<Rightarrow> run_stats \<Rightarrow> run_stats tx" where
  "aggregateCycleEvidence cycleId runId runKey stats =
    bind (gets (\<lambda>db. cycle_scope db cycleId)) (\<lambda>ids.
    bind (each (upsertRunTradeScope runId runKey) ids) (\<lambda>_.
    bind (gets (\<lambda>db. cycle_drifts db cycleId)) (\<lambda>fs.
    bind (each (insert_drift runId runKey) fs) (\<lambda>_.
    gets (\<lambda>db. stats\<lparr>ru_totalTrades := int (length (filter (\<lambda>s. sc_run_key s = runKey) (rd_scope db))),
      ru_driftCount := int (length (filter (\<lambda>d. dr_run_key d = runKey) (rd_drifts db))),
      ru_severityCounts := \<lparr>sv_critical = count_severity runKey CRITICAL db, sv_high = count_severity runKey HIGH db,
        sv_medium = count_severity runKey MEDIUM db, sv_low = count_severity runKey LOW db\<rparr>\<rparr>)))))"

end
