(* ===== verification/Recon_Governance.thy ===== *)
theory Recon_Governance
  imports Recon_Store
begin

text \<open>
  The controls of a reconciliation run: the governed unpause that authorises a release
  (\<open>reconciliation/src/core/governedApproval.ts\<close>, the \<open>release\<close> command of \<open>containment-cli.ts\<close>), the
  publication of a run's findings with the containments they open (\<open>runControls.ts\<close>), and the
  operations other workers and operators may run in between, one database transaction each.
  \<open>bytes32\<close> and \<open>keccak\<close> are the two encodings of an incident reference by \<open>ethers\<close>.
\<close>

section \<open>Governed approval\<close>

definition PAUSE_SCOPE_TRADE :: int where
  "PAUSE_SCOPE_TRADE = 2"

definition normalizeTxHash :: "string \<Rightarrow> recon_error + string" where
  "normalizeTxHash raw =
    (let normalized = toLowerCase (trim raw) in
     if lower_hex_text 64 normalized then Inr normalized
     else Inl (Governed_approval (''--approval-tx must be a 32-byte transaction hash, received \"'' @ raw @ ''\"'')))"

record encodings =
  en_bytes32 :: "string \<Rightarrow> string"
  en_keccak :: "string \<Rightarrow> string"

definition incidentRefCandidates :: "encodings \<Rightarrow> string \<Rightarrow> string list" where
  "incidentRefCandidates en ref = [toLowerCase (en_bytes32 en ref), toLowerCase (en_keccak en ref)]"

definition matchesIncidentReference :: "encodings \<Rightarrow> string \<Rightarrow> string \<Rightarrow> bool" where
  "matchesIncidentReference en onchainRef ref = (toLowerCase onchainRef \<in> set (incidentRefCandidates en ref))"

record unpause_log =
  ul_address :: string
  ul_tradeId :: string
  ul_logIndex :: int

record approval_log =
  ap_address :: string
  ap_approver :: string
  ap_approvalCount :: int
  ap_requiredApprovals :: int
  ap_logIndex :: int

record unpause_proposal =
  pp_scope :: int
  pp_tradeId :: string
  pp_incidentRef :: string
  pp_approvalCount :: int
  pp_executed :: bool

record unpause_facts =
  uf_txHash :: string
  uf_chainId :: int
  uf_escrowAddress :: string
  uf_receiptStatus :: "int option"
  uf_blockNumber :: int
  uf_blockHash :: string
  uf_blockTimestamp :: int
  uf_finalityBlockNumber :: int
  uf_unpausedLogs :: "unpause_log list"
  uf_approvalLogs :: "approval_log list"
  uf_proposal :: unpause_proposal

definition sameAddress :: "string \<Rightarrow> string \<Rightarrow> bool" where
  "sameAddress l r = (toLowerCase l = toLowerCase r)"

definition evaluateGovernedUnpause ::
  "encodings \<Rightarrow> unpause_facts \<Rightarrow> string \<Rightarrow> string \<Rightarrow> timestamp \<Rightarrow> recon_error + unpause_evidence" where
  "evaluateGovernedUnpause en x tradeId incidentReference openedAt =
    (let refuse = (\<lambda>m. Inl (Governed_approval m)); tx = ''Transaction '' @ uf_txHash x; p = uf_proposal x;
         approvals = filter (\<lambda>l. sameAddress (ap_address l) (uf_escrowAddress x)) (uf_approvalLogs x);
         executedAt = uf_blockTimestamp x * 1000 in
     if uf_receiptStatus x = None
     then refuse (''No transaction receipt found for '' @ uf_txHash x @ ''; the approval must be a mined transaction'')
     else if uf_receiptStatus x \<noteq> Some 1 then refuse (tx @ '' reverted; a failed transaction approves nothing'')
     else if uf_blockNumber x > uf_finalityBlockNumber x
     then refuse (tx @ '' is in block '' @ int_text (uf_blockNumber x) @ '', past the finality boundary '' @
       int_text (uf_finalityBlockNumber x) @ ''; wait for it to finalize before releasing'')
     else case find (\<lambda>l. sameAddress (ul_address l) (uf_escrowAddress x) \<and> ul_tradeId l = tradeId) (uf_unpausedLogs x) of
       None \<Rightarrow> refuse (tx @ '' emits no TradeUnpaused for trade '' @ tradeId @ '' from escrow '' @ uf_escrowAddress x @
         ''; it is not the governed recovery for this containment'')
     | Some unpaused \<Rightarrow>
         if pp_scope p \<noteq> PAUSE_SCOPE_TRADE
         then refuse (''The proposal executed by '' @ uf_txHash x @ '' has scope '' @ int_text (pp_scope p) @
           '', not a per-trade unpause; a global or claims recovery does not release a contained trade'')
         else if pp_tradeId p \<noteq> tradeId
         then refuse (''The proposal executed by '' @ uf_txHash x @ '' unpauses trade '' @ pp_tradeId p @ '', not '' @ tradeId)
         else if \<not> pp_executed p
         then refuse (''The proposal read at block '' @ int_text (uf_blockNumber x) @ '' is not marked executed; '' @ uf_txHash x @
           '' did not carry an unpause to quorum'')
         else if \<not> matchesIncidentReference en (pp_incidentRef p) incidentReference
         then refuse (''The proposal executed by '' @ uf_txHash x @ '' carries incident reference '' @ pp_incidentRef p @
           '', which is not '' @ incidentReference @ ''; approvals are not transferable between incidents'')
         else if approvals = []
         then refuse (tx @ '' records no UnpauseApproved; the quorum it executed under cannot be established'')
         else (let fin = last approvals in
           if ap_requiredApprovals fin < 1
           then refuse (tx @ '' executed against a required-approval count of '' @ int_text (ap_requiredApprovals fin) @
             ''; refusing to treat that as a quorum'')
           else if ap_approvalCount fin < ap_requiredApprovals fin
           then refuse (tx @ '' reached '' @ int_text (ap_approvalCount fin) @ '' of '' @ int_text (ap_requiredApprovals fin) @
             '' required approvals'')
           else if executedAt \<le> openedAt
           then refuse (tx @ '' executed at '' @ toISOString executedAt @ '', at or before incident '' @ incidentReference @
             '' was opened at '' @ toISOString openedAt @ ''; an earlier approval cannot release a later containment'')
           else Inr \<lparr>gu_txHash = uf_txHash x, gu_chainId = uf_chainId x, gu_contractAddress = uf_escrowAddress x,
             gu_tradeId = tradeId, gu_blockNumber = uf_blockNumber x, gu_blockHash = uf_blockHash x,
             gu_logIndex = ul_logIndex unpaused, gu_incidentRef = pp_incidentRef p, gu_approvers = map ap_approver approvals,
             gu_approvalCount = ap_approvalCount fin, gu_requiredApprovals = ap_requiredApprovals fin,
             gu_executedAt = executedAt\<rparr>))"

text \<open>The checks of the \<open>release\<close> command on the row it read.\<close>

definition release_refused :: "string \<Rightarrow> containment_row option \<Rightarrow> string option" where
  "release_refused tradeId current =
    (case current of
       None \<Rightarrow> Some (''No containment recorded for trade '' @ tradeId)
     | Some r \<Rightarrow>
         if tc_state r \<noteq> RECONCILED_PENDING_APPROVAL
         then Some (''Trade '' @ tradeId @ '' is '' @ containment_state_text (tc_state r) @ ''; only a trade that has reconciled clean '' @
           ''(RECONCILED_PENDING_APPROVAL) can be released. Run a fresh reconciliation first.'')
         else if tc_pause_observed_at r = None
         then Some (''Trade '' @ tradeId @ '' has never been observed paused on chain, so there is no containment for a '' @
           ''governed unpause to lift. Confirm the scoped pause was applied and let a reconciliation run record it before releasing.'')
         else None)"

section \<open>Publishing a run\<close>

definition finding_json :: "finding \<Rightarrow> json" where
  "finding_json f = JObj [(''tradeId'', JStr (fd_tradeId f)), (''severity'', JStr (drift_severity_text (fd_severity f))),
     (''mismatchCode'', JStr (drift_code_text (fd_mismatchCode f))), (''comparedField'', JStr (fd_comparedField f)),
     (''onchainValue'', opt_text (fd_onchainValue f)), (''indexedValue'', opt_text (fd_indexedValue f)),
     (''details'', JObj (fd_details f))]"

fun tally :: "drift_severity \<Rightarrow> severity_counts \<Rightarrow> severity_counts" where
  "tally CRITICAL c = c\<lparr>sv_critical := sv_critical c + 1\<rparr>"
| "tally HIGH c = c\<lparr>sv_high := sv_high c + 1\<rparr>"
| "tally MEDIUM c = c\<lparr>sv_medium := sv_medium c + 1\<rparr>"
| "tally LOW c = c\<lparr>sv_low := sv_low c + 1\<rparr>"

definition publishFinding :: "int \<Rightarrow> string \<Rightarrow> finding \<Rightarrow> run_stats \<Rightarrow> run_stats tx" where
  "publishFinding runId runKey f stats =
    bind (upsertDrift runId runKey f) (\<lambda>_.
    bind (if fd_severity f = CRITICAL then enqueueRunAlert runId runKey CRITICAL_DRIFT
        (JObj [(''runKey'', JStr runKey), (''finding'', finding_json f)]) else ret ()) (\<lambda>_.
    ret (stats\<lparr>ru_driftCount := ru_driftCount stats + 1,
      ru_severityCounts := tally (fd_severity f) (ru_severityCounts stats)\<rparr>)))"

fun publish_findings :: "int \<Rightarrow> string \<Rightarrow> finding list \<Rightarrow> run_stats \<Rightarrow> run_stats tx" where
  "publish_findings runId runKey [] stats = ret stats"
| "publish_findings runId runKey (f # fs) stats = bind (publishFinding runId runKey f stats) (publish_findings runId runKey fs)"

text \<open>\<open>ref\<close> is the reference generated for this discrepancy.\<close>

definition contain_trade :: "timestamp \<Rightarrow> int \<Rightarrow> string \<Rightarrow> coverage_boundary \<Rightarrow> string \<times> discrepancy \<Rightarrow> unit tx" where
  "contain_trade now runId runKey b rd =
    (case rd of (ref, d) \<Rightarrow>
      bind (openContainment now (dy_tradeId d) ref runKey (map drift_code_text (dy_codes d))
        (buildContainmentEvidence runKey (cb_blockNumber b) (cb_blockHash b) d)) (\<lambda>(row, opened).
      enqueueRunAlert runId runKey TRADE_CONTAINED
        (JObj [(''runKey'', JStr runKey), (''tradeId'', JStr (tc_trade_id row)),
          (''incidentReference'', JStr (tc_incident_reference row)), (''state'', JStr (containment_state_text (tc_state row))),
          (''qualifyingCodes'', JArr (map (JStr \<circ> drift_code_text) (dy_codes d))), (''openedRunKey'', JStr (tc_opened_run_key row)),
          (''openedAt'', JStr (toISOString (tc_opened_at row))), (''observationCount'', jint (int (tc_observation_count row)))])))"

definition settle_trade ::
  "timestamp \<Rightarrow> int \<Rightarrow> string \<Rightarrow> string list \<Rightarrow> string list \<Rightarrow> (string, pause_observation) jsmap \<Rightarrow> containment_row \<Rightarrow> unit tx" where
  "settle_trade now runId runKey divergingNow clean pauses c =
    bind (if tc_trade_id c \<notin> set divergingNow \<and> tc_trade_id c \<in> set clean
      then bind (recordCleanReconciliation now (tc_trade_id c) runKey) (\<lambda>_. ret ()) else ret ()) (\<lambda>_.
    case map_get pauses (tc_trade_id c) of
      None \<Rightarrow> ret ()
    | Some p \<Rightarrow>
        bind (recordPauseObservation now p) (\<lambda>_.
        if po_paused p then ret ()
        else enqueueRunAlert runId runKey TRADE_PAUSE_UNCONFIRMED
          (JObj [(''runKey'', JStr runKey), (''tradeId'', JStr (tc_trade_id c)),
            (''incidentReference'', JStr (tc_incident_reference c)), (''observedAtBlock'', jint (po_blockNumber p)),
            (''readError'', opt_text (po_readError p))])))"

definition applyContainment ::
  "timestamp \<Rightarrow> (nat \<Rightarrow> string) \<Rightarrow> int \<Rightarrow> string \<Rightarrow> coverage_boundary \<Rightarrow> discrepancy list \<Rightarrow> string list \<Rightarrow>
   (string, pause_observation) jsmap \<Rightarrow> string list tx" where
  "applyContainment now refs runId runKey b qualified clean pauses =
    (let divergingNow = first_occurrences (map dy_tradeId qualified) in
     bind (each (contain_trade now runId runKey b) (zip (map refs [0..<length qualified]) qualified)) (\<lambda>_.
     bind (gets listBlockingContainments) (\<lambda>blocking.
     bind (each (settle_trade now runId runKey divergingNow clean pauses) blocking) (\<lambda>_. ret divergingNow))))"

record run_outcome =
  oo_runId :: int
  oo_runKey :: string
  oo_boundary :: coverage_boundary
  oo_window :: coverage_window
  oo_sla :: coverage_sla
  oo_scopedTradeIds :: "string list"
  oo_findings :: "finding list"
  oo_qualified :: "discrepancy list"
  oo_cleanTradeIds :: "string list"
  oo_pauseObservations :: "(string, pause_observation) jsmap"

definition publishRunOutcome :: "timestamp \<Rightarrow> (nat \<Rightarrow> string) \<Rightarrow> run_outcome \<Rightarrow> run_stats \<Rightarrow> run_stats tx" where
  "publishRunOutcome now refs x stats =
    bind (each (upsertRunTradeScope (oo_runId x) (oo_runKey x)) (oo_scopedTradeIds x)) (\<lambda>_.
    bind (publish_findings (oo_runId x) (oo_runKey x) (oo_findings x) stats) (\<lambda>stats.
    bind (applyContainment now refs (oo_runId x) (oo_runKey x) (oo_boundary x) (oo_qualified x) (oo_cleanTradeIds x)
      (oo_pauseObservations x)) (\<lambda>contained.
    bind (case sl_reason (oo_sla x) of
        Some reason \<Rightarrow> if sl_breached (oo_sla x) \<and> reason \<noteq> [] then enqueueRunAlert (oo_runId x) (oo_runKey x) COVERAGE_BACKLOG
          (JObj [(''runKey'', JStr (oo_runKey x)), (''reason'', JStr reason),
            (''uncoveredTail'', JStr (int_text (cw_uncoveredTail (oo_window x)))),
            (''chainTradeCounter'', JStr (int_text (cb_chainTradeCounter (oo_boundary x)))),
            (''boundaryBlock'', jint (cb_blockNumber (oo_boundary x)))]) else ret ()
      | None \<Rightarrow> ret ()) (\<lambda>_.
    ret (stats\<lparr>ru_containedTradeIds := Some contained\<rparr>)))))"

text \<open>Everything a conclusive run publishes: the page of its enumeration cycle, its outcome, the cycle's evidence.\<close>

record run_publication = run_outcome +
  oo_cycle :: enumeration_cycle
  oo_page :: identity_page
  oo_coherent :: bool
  oo_finished :: bool
  oo_nextChainCursor :: int

definition whole_cycle_coverage :: "coverage_window \<Rightarrow> bool \<Rightarrow> run_stats \<Rightarrow> run_stats" where
  "whole_cycle_coverage w coherent stats =
    (case ru_coverage stats of
       Some g \<Rightarrow> if coherent then stats\<lparr>ru_coverage := Some (g\<lparr>rg_window := w\<lparr>cw_fromTradeId := 0\<rparr>, rg_fromBlock := 0\<rparr>)\<rparr> else stats
     | None \<Rightarrow> stats)"

definition publish_run :: "timestamp \<Rightarrow> (nat \<Rightarrow> string) \<Rightarrow> run_publication \<Rightarrow> run_stats \<Rightarrow> run_stats tx" where
  "publish_run now refs x stats =
    bind (publishEnumerationPage (oo_cycle x) (oo_page x) (oo_coherent x) (oo_finished x) (oo_nextChainCursor x) (oo_runId x)) (\<lambda>_.
    bind (publishRunOutcome now refs (run_outcome.truncate x) stats) (\<lambda>stats.
    if oo_finished x then
      bind (aggregateCycleEvidence (ec_id (oo_cycle x)) (oo_runId x) (oo_runKey x) stats) (\<lambda>stats.
      ret (whole_cycle_coverage (oo_window x) (oo_coherent x) stats))
    else ret stats))"

section \<open>Operations of the service\<close>

datatype recon_op =
  Claim_fresh timestamp string reconcile_mode string int
| Claim_lapsed timestamp string string int
| Lease_history timestamp int string lease_event "string option" nat "string option" json
| Heartbeat timestamp lease_identity int
| Release_lease lease_identity
| Sweep timestamp int
| Fail_run timestamp lease_identity string
| Start_cycle string coverage_boundary string "string option" int int bool
| Conclude int string timestamp "nat \<Rightarrow> string" run_stats lease_identity run_publication cursor_move
| Skip_run int string timestamp run_stats lease_identity "timestamp option"
| Release_trade timestamp string unpause_facts

text \<open>
  A run concludes and skips under the key of its own lease, with the statuses the service records,
  and its containments come from its own findings.
\<close>

definition own_stats :: "lease_identity \<Rightarrow> run_status \<Rightarrow> run_stats \<Rightarrow> run_stats" where
  "own_stats l status stats = stats\<lparr>ru_runKey := ls_runKey l, ru_status := status\<rparr>"

definition own_publication :: "lease_identity \<Rightarrow> run_publication \<Rightarrow> run_publication" where
  "own_publication l x = x\<lparr>oo_runKey := ls_runKey l, oo_qualified := qualifyDiscrepancies (oo_findings x)\<rparr>"

text \<open>The release of a trade against the row as it stands.\<close>

definition release_trade :: "encodings \<Rightarrow> timestamp \<Rightarrow> string \<Rightarrow> unpause_facts \<Rightarrow> containment_row option tx" where
  "release_trade en now tradeId facts =
    bind (gets (getContainment tradeId)) (\<lambda>current.
    case release_refused tradeId current of
      Some m \<Rightarrow> throw (Recon_error m)
    | None \<Rightarrow>
        bind (lift (evaluateGovernedUnpause en facts tradeId (tc_incident_reference (the current)) (tc_opened_at (the current))))
          (releaseContainment now tradeId))"

fun recon_step :: "encodings \<Rightarrow> recon_op \<Rightarrow> unit tx" where
  "recon_step en (Claim_fresh now k mode owner ttl) = bind (claim_insert now k mode owner ttl) (\<lambda>_. ret ())"
| "recon_step en (Claim_lapsed now k owner ttl) = bind (claim_takeover now k owner ttl) (\<lambda>_. ret ())"
| "recon_step en (Lease_history now i k e owner epoch prev detail) = appendLeaseEvent now i k e owner epoch prev detail"
| "recon_step en (Heartbeat now l ttl) = bind (heartbeatLease now l ttl) (\<lambda>_. ret ())"
| "recon_step en (Release_lease l) = bind (releaseLease l) (\<lambda>_. ret ())"
| "recon_step en (Sweep now ttl) = bind (mark_abandoned now ttl) (\<lambda>_. ret ())"
| "recon_step en (Fail_run now l msg) = bind (failRun now l msg) (\<lambda>_. ret ())"
| "recon_step en (Start_cycle uuid b source upper cur expected coherent) =
     bind (cycle_insert uuid b source upper cur expected coherent) (\<lambda>_. ret ())"
| "recon_step en (Conclude chainId escrow now refs stats l x cursor) =
     bind (finalizeRun chainId escrow now (own_stats l RUN_COMPLETED stats) l (publish_run now refs (own_publication l x)) cursor) (\<lambda>_. ret ())"
| "recon_step en (Skip_run chainId escrow now stats l tail) =
     bind (finalizeRun chainId escrow now (own_stats l RUN_SKIPPED stats) l ret (Hold_cursor tail)) (\<lambda>_. ret ())"
| "recon_step en (Release_trade now t facts) = bind (release_trade en now t facts) (\<lambda>_. ret ())"

definition recon_run :: "encodings \<Rightarrow> recon_op list \<Rightarrow> recon_db \<Rightarrow> recon_db" where
  "recon_run en ops db = fold (\<lambda>op db. snd (transaction (recon_step en op) db)) ops db"

end
