(* ===== verification/Recon_Service.thy ===== *)
theory Recon_Service
  imports Recon_Governance
begin

text \<open>
  One run of the reconciliation service (\<open>reconciliation/src/core/reconciler.ts\<close>, \<open>enumeration.ts\<close>,
  \<open>runOutcome.ts\<close>, \<open>runHelpers.ts\<close>, the rest of \<open>runControls.ts\<close> and the client of the chain) and the
  \<open>release\<close> command. Answers of the chain and of the indexer are functions of a tick that every call
  advances. Before each statement other workers and operators may have run any operations
  (\<open>rv_others\<close>), and a statement may fail before or after its commit (\<open>rv_fault\<close>). Heartbeats of the
  run's own timer are among \<open>rv_others\<close>; what the last one reported is read where the run asks.
  Trades are read one after another, where the source reads several at a time. Log lines, metrics and
  the delivery of alerts are left out.
\<close>

section \<open>Environment\<close>

record recon_config =
  cf_batchSize :: int
  cf_maxTradesPerRun :: int
  cf_coverageMaxAgeMs :: int
  cf_indexerEnumerationLimit :: nat
  cf_indexerEnumerationPageSize :: nat
  cf_leaseTtlMs :: int
  cf_daemonIntervalMs :: int
  cf_chainId :: int
  cf_escrowAddress :: string
  cf_sourceIdentity :: string

record recon_env =
  rv_clock :: "nat \<Rightarrow> timestamp"
  rv_others :: "nat \<Rightarrow> recon_op list"
  rv_fault :: "nat \<Rightarrow> (string \<times> bool) option"
  rv_owner :: "nat \<Rightarrow> string"
  rv_uuid :: "nat \<Rightarrow> string"
  rv_random :: "nat \<Rightarrow> nat \<Rightarrow> string"
  rv_beatLost :: "nat \<Rightarrow> bool"
  rv_processedBlock :: "nat \<Rightarrow> string + int option"
  rv_finalityBlock :: "nat \<Rightarrow> string + int \<times> string \<times> string"
  rv_blockHash :: "nat \<Rightarrow> int \<Rightarrow> string + string"
  rv_tradeCounter :: "nat \<Rightarrow> int \<Rightarrow> string + int"
  rv_trade :: "nat \<Rightarrow> string \<Rightarrow> int \<Rightarrow> string + trade"
  rv_tradesByIds :: "nat \<Rightarrow> string list \<Rightarrow> string + indexed_trade list"
  rv_tradeCount :: "nat \<Rightarrow> string + int"
  rv_upperId :: "nat \<Rightarrow> string + string option"
  rv_idRows :: "nat \<Rightarrow> string \<Rightarrow> string \<Rightarrow> nat \<Rightarrow> string + (string \<times> string) list"
  rv_tradePaused :: "nat \<Rightarrow> string \<Rightarrow> int \<Rightarrow> string + bool"
  rv_unpauseFacts :: "nat \<Rightarrow> string \<Rightarrow> recon_error + unpause_facts"
  rv_getAddress :: "string \<Rightarrow> string option"
  rv_encodings :: encodings

record recon_state =
  rn_db :: recon_db
  rn_tick :: nat

type_synonym 'a job = "(recon_state, recon_error, 'a) prog"

definition ask :: "(nat \<Rightarrow> recon_error + 'a) \<Rightarrow> 'a job" where
  "ask f s = (f (rn_tick s), s\<lparr>rn_tick := Suc (rn_tick s)\<rparr>)"

fun as_error :: "string + 'a \<Rightarrow> recon_error + 'a" where
  "as_error (Inl m) = Inl (Recon_error m)"
| "as_error (Inr x) = Inr x"

definition now_of :: "recon_env \<Rightarrow> timestamp job" where
  "now_of ev = ask (\<lambda>n. Inr (rv_clock ev n))"

text \<open>A statement or transaction of this worker, after those of the others.\<close>

definition query :: "recon_env \<Rightarrow> (timestamp \<Rightarrow> 'a tx) \<Rightarrow> 'a job" where
  "query ev q s =
    (let n = rn_tick s; db = recon_run (rv_encodings ev) (rv_others ev n) (rn_db s); s' = s\<lparr>rn_tick := Suc n, rn_db := db\<rparr> in
     case rv_fault ev n of
       Some (m, False) \<Rightarrow> (Inl (Recon_error m), s')
     | Some (m, True) \<Rightarrow> (Inl (Recon_error m), s'\<lparr>rn_db := snd (transaction (q (rv_clock ev n)) db)\<rparr>)
     | None \<Rightarrow> (case transaction (q (rv_clock ev n)) db of (r, db') \<Rightarrow> (r, s'\<lparr>rn_db := db'\<rparr>)))"

definition read_db :: "recon_env \<Rightarrow> (recon_db \<Rightarrow> 'a) \<Rightarrow> 'a job" where
  "read_db ev f = query ev (\<lambda>_. gets f)"

fun error_text :: "recon_error \<Rightarrow> string" where
  "error_text (Recon_error m) = m"
| "error_text (Sql_exception m) = m"
| "error_text (Unique_violation m) = ''duplicate key value violates unique constraint \"'' @ m @ ''\"''"
| "error_text (Lease_lost l) = ''Reconciliation lease lost for run '' @ ls_runKey l @ '' (owner '' @ ls_owner l @ '', epoch '' @
    show_nat (ls_epoch l) @ '')''"
| "error_text (Replayed_approval h) = ''Governed unpause '' @ h @
    '' has already released a containment; a release needs its own approval transaction''"
| "error_text (Governed_approval m) = m"

section \<open>Claiming a run\<close>

fun mode_text :: "reconcile_mode \<Rightarrow> string" where
  "mode_text ONCE = ''ONCE''"
| "mode_text DAEMON = ''DAEMON''"

datatype claim = Claimed run_row lease_identity "string option" | Refused bool run_row

definition claimRun :: "recon_env \<Rightarrow> recon_config \<Rightarrow> string \<Rightarrow> reconcile_mode \<Rightarrow> string \<Rightarrow> claim job" where
  "claimRun ev cfg runKey mode owner =
    bind (query ev (\<lambda>now. claim_insert now runKey mode owner (cf_leaseTtlMs cfg))) (\<lambda>inserted.
    case inserted of
      Some r \<Rightarrow>
        bind (query ev (\<lambda>now. appendLeaseEvent now (rr_id r) runKey ACQUIRED (Some owner) (rr_lease_epoch r) None
          (JObj [(''mode'', JStr (mode_text mode)), (''leaseTtlMs'', jint (cf_leaseTtlMs cfg))]))) (\<lambda>_.
        ret (Claimed r \<lparr>ls_runKey = runKey, ls_owner = owner, ls_epoch = rr_lease_epoch r\<rparr> None))
    | None \<Rightarrow>
        bind (query ev (\<lambda>now. claim_takeover now runKey owner (cf_leaseTtlMs cfg))) (\<lambda>taken.
        case taken of
          r # _ \<Rightarrow>
            bind (query ev (\<lambda>now. appendLeaseEvent now (rr_id r) runKey RECLAIMED (Some owner) (rr_lease_epoch r)
              (rr_abandoned_owner r) (JObj [(''mode'', JStr (mode_text mode)), (''leaseTtlMs'', jint (cf_leaseTtlMs cfg)),
                (''takeoverCount'', jint (int (rr_takeover_count r)))]))) (\<lambda>_.
            ret (Claimed r \<lparr>ls_runKey = runKey, ls_owner = owner, ls_epoch = rr_lease_epoch r\<rparr> (rr_abandoned_owner r)))
        | [] \<Rightarrow>
            bind (query ev (\<lambda>_. select_run runKey)) (\<lambda>existing.
            case existing of
              Some r \<Rightarrow> ret (Refused (rr_status r = RUN_COMPLETED) r)
            | None \<Rightarrow> throw (Recon_error ''TypeError: row is undefined''))))"

fun each_abandoned :: "recon_env \<Rightarrow> recon_config \<Rightarrow> run_row list \<Rightarrow> unit job" where
  "each_abandoned ev cfg [] = ret ()"
| "each_abandoned ev cfg (r # rs) =
    bind (query ev (\<lambda>now. appendLeaseEvent now (rr_id r) (rr_run_key r) ABANDONED None (rr_lease_epoch r) (rr_abandoned_owner r)
        (JObj [(''leaseTtlMs'', jint (cf_leaseTtlMs cfg)),
          (''lastHeartbeatAt'', opt_text (map_option toISOString (rr_lease_heartbeat_at r))),
          (''startedAt'', JStr (toISOString (rr_started_at r)))])))
      (\<lambda>_. each_abandoned ev cfg rs)"

definition markAbandonedRuns :: "recon_env \<Rightarrow> recon_config \<Rightarrow> unit job" where
  "markAbandonedRuns ev cfg = bind (query ev (\<lambda>now. mark_abandoned now (cf_leaseTtlMs cfg))) (each_abandoned ev cfg)"

text \<open>A sweep that cannot run does not stop reconciliation.\<close>

definition sweepAbandonedRuns :: "recon_env \<Rightarrow> recon_config \<Rightarrow> unit job" where
  "sweepAbandonedRuns ev cfg = catch (markAbandonedRuns ev cfg) (\<lambda>_. ret ())"

definition generateRunKey :: "recon_env \<Rightarrow> recon_config \<Rightarrow> reconcile_mode \<Rightarrow> string job" where
  "generateRunKey ev cfg mode =
    bind (now_of ev) (\<lambda>t. ret (if mode = DAEMON then ''daemon-'' @ int_text (t div cf_daemonIntervalMs cfg)
      else ''once-'' @ toISOString t))"

definition DEFAULT_SEVERITY_COUNTS :: severity_counts where
  "DEFAULT_SEVERITY_COUNTS = \<lparr>sv_critical = 0, sv_high = 0, sv_medium = 0, sv_low = 0\<rparr>"

definition skippedStats :: "string \<Rightarrow> reconcile_mode \<Rightarrow> run_row \<Rightarrow> string \<Rightarrow> run_stats" where
  "skippedStats runKey mode r reason =
    \<lparr>ru_runKey = runKey, ru_mode = mode, ru_totalTrades = rr_total_trades r, ru_driftCount = rr_drift_count r,
     ru_severityCounts = \<lparr>sv_critical = rr_critical_count r, sv_high = rr_high_count r, sv_medium = rr_medium_count r,
       sv_low = rr_low_count r\<rparr>, ru_status = RUN_SKIPPED, ru_skippedReason = Some reason, ru_containedTradeIds = None,
     ru_coverage = None\<rparr>"

definition fresh_stats :: "string \<Rightarrow> reconcile_mode \<Rightarrow> run_stats" where
  "fresh_stats runKey mode =
    \<lparr>ru_runKey = runKey, ru_mode = mode, ru_totalTrades = 0, ru_driftCount = 0, ru_severityCounts = DEFAULT_SEVERITY_COUNTS,
     ru_status = RUN_COMPLETED, ru_skippedReason = None, ru_containedTradeIds = None, ru_coverage = None\<rparr>"

definition inconclusive :: "run_stats \<Rightarrow> string \<Rightarrow> run_stats" where
  "inconclusive stats reason = stats\<lparr>ru_status := RUN_SKIPPED, ru_totalTrades := 0, ru_driftCount := 0,
     ru_severityCounts := DEFAULT_SEVERITY_COUNTS, ru_skippedReason := Some reason\<rparr>"

definition finalizeInconclusiveRun ::
  "recon_env \<Rightarrow> recon_config \<Rightarrow> run_stats \<Rightarrow> lease_identity \<Rightarrow> string \<Rightarrow> timestamp option \<Rightarrow> run_stats job" where
  "finalizeInconclusiveRun ev cfg stats l reason tail =
    query ev (\<lambda>now. finalizeRun (cf_chainId cfg) (cf_escrowAddress cfg) now (inconclusive stats reason) l ret (Hold_cursor tail))"

section \<open>The boundary and the enumeration\<close>

definition resolveBoundary :: "recon_env \<Rightarrow> int \<Rightarrow> coverage_boundary job" where
  "resolveBoundary ev indexerProcessedBlock =
    bind (ask (\<lambda>n. as_error (rv_finalityBlock ev n))) (\<lambda>(number, hash, tag).
    case anchorBoundaryBlock number indexerProcessedBlock of (block, ahead) \<Rightarrow>
    bind (if block = number then ret hash else ask (\<lambda>n. as_error (rv_blockHash ev n block))) (\<lambda>anchorHash.
    bind (ask (\<lambda>n. as_error (rv_tradeCounter ev n block))) (\<lambda>counter.
    ret \<lparr>cb_blockNumber = block, cb_blockHash = anchorHash, cb_tag = tag, cb_chainTradeCounter = counter,
      cb_indexerProcessedBlock = block, cb_finalityBlockNumber = number, cb_indexerAhead = ahead\<rparr>)))"

definition fetchTradesByIds :: "recon_env \<Rightarrow> string list \<Rightarrow> indexed_trade list job" where
  "fetchTradesByIds ev ids = (if ids = [] then ret [] else ask (\<lambda>n. as_error (rv_tradesByIds ev n ids)))"

definition fetchTradeCount :: "recon_env \<Rightarrow> int job" where
  "fetchTradeCount ev = bind (ask (\<lambda>n. as_error (rv_tradeCount ev n))) (\<lambda>count.
     if \<not> isSafeInteger count \<or> count < 0 then throw (Recon_error ''Indexer trade count unavailable'') else ret count)"

text \<open>A page of the physical keyset: the rows must ascend within the bounds.\<close>

fun ascending :: "string \<Rightarrow> string \<Rightarrow> (string \<times> string) list \<Rightarrow> bool" where
  "ascending previous throughId [] = True"
| "ascending previous throughId ((i, t) # rest) =
    (i \<noteq> [] \<and> length i \<le> 1024 \<and> previous < i \<and> i \<le> throughId \<and> t \<noteq> [] \<and> length t \<le> 255 \<and> ascending i throughId rest)"

definition fetchTradeIdsPage :: "recon_env \<Rightarrow> string option \<Rightarrow> string option \<Rightarrow> nat \<Rightarrow> identity_page job" where
  "fetchTradeIdsPage ev afterId throughId limit =
    (if limit < 1 \<or> limit > 100000 then throw (Recon_error ''Invalid indexer keyset limit'')
     else case throughId of
       None \<Rightarrow> ret \<lparr>ip_records = [], ip_nextId = afterId, ip_exhausted = True\<rparr>
     | Some through \<Rightarrow>
         let from = (case afterId of None \<Rightarrow> [] | Some a \<Rightarrow> a) in
         bind (ask (\<lambda>n. as_error (rv_idRows ev n from through (limit + 1)))) (\<lambda>rows.
         if length rows > limit + 1 \<or> \<not> ascending from through rows then throw (Recon_error ''Invalid indexer keyset page'')
         else let records = take limit rows in
           ret \<lparr>ip_records = records, ip_nextId = (if records = [] then afterId else Some (fst (last records))),
             ip_exhausted = (length rows \<le> limit)\<rparr>))"

definition createEnumerationCycle ::
  "recon_env \<Rightarrow> recon_config \<Rightarrow> coverage_boundary \<Rightarrow> string option \<Rightarrow> int \<Rightarrow> int \<Rightarrow> bool \<Rightarrow> enumeration_cycle job" where
  "createEnumerationCycle ev cfg b upperId chainCursor expectedCount coherent =
    bind (ask (\<lambda>n. Inr (rv_uuid ev n))) (\<lambda>uuid.
    bind (query ev (\<lambda>_. cycle_insert uuid b (cf_sourceIdentity cfg) upperId chainCursor expectedCount coherent)) (\<lambda>inserted.
    bind (case inserted of Some c \<Rightarrow> ret (Some c) | None \<Rightarrow> read_db ev readActiveEnumerationCycle) (\<lambda>cycle.
    case cycle of Some c \<Rightarrow> ret c | None \<Rightarrow> throw (Recon_error ''Enumeration cycle unavailable''))))"

definition prepareEnumeration ::
  "recon_env \<Rightarrow> recon_config \<Rightarrow> coverage_boundary \<Rightarrow> int \<Rightarrow> (enumeration_cycle \<times> int \<times> bool) job" where
  "prepareEnumeration ev cfg b previousCursor =
    bind (read_db ev readActiveEnumerationCycle) (\<lambda>active.
    bind (case active of Some c \<Rightarrow> ret c | None \<Rightarrow>
        bind (read_db ev hasEnumerationHistory) (\<lambda>history.
        let chainCursor = (if history then 0 else previousCursor) in
        bind (ask (\<lambda>n. as_error (rv_upperId ev n))) (\<lambda>upperId.
        bind (fetchTradeCount ev) (\<lambda>expected.
        createEnumerationCycle ev cfg b upperId chainCursor expected (chainCursor = 0))))) (\<lambda>c.
    ret (c, ec_chain_cursor c, sameCycleSource c b (cf_sourceIdentity cfg))))"

text \<open>
  The page loop. A page that does not exhaust the source brings at least one record, so \<open>fuel\<close> of one
  page more than the records allowed is enough (\<open>enumerate_pages_done\<close>).
\<close>

fun enumerate_pages :: "recon_env \<Rightarrow> recon_config \<Rightarrow> string option \<Rightarrow> nat \<Rightarrow> identity_page \<Rightarrow> identity_page job" where
  "enumerate_pages ev cfg throughId 0 page = ret page"
| "enumerate_pages ev cfg throughId (Suc fuel) page =
    (if ip_exhausted page \<or> length (ip_records page) \<ge> cf_indexerEnumerationLimit cfg then ret page
     else bind (fetchTradeIdsPage ev (ip_nextId page) throughId
         (min (cf_indexerEnumerationPageSize cfg) (cf_indexerEnumerationLimit cfg - length (ip_records page)))) (\<lambda>more.
       enumerate_pages ev cfg throughId fuel \<lparr>ip_records = ip_records page @ ip_records more, ip_nextId = ip_nextId more,
         ip_exhausted = ip_exhausted more\<rparr>))"

definition duplicate_finding :: "string \<Rightarrow> nat \<Rightarrow> string \<Rightarrow> finding" where
  "duplicate_finding cycleId count tradeId =
    \<lparr>fd_tradeId = tradeId, fd_severity = CRITICAL, fd_mismatchCode = INDEXER_DUPLICATE_TRADE,
     fd_comparedField = ''tradePresence'', fd_onchainValue = None, fd_indexedValue = Some (show_nat count),
     fd_details = [(''reason'', JStr ''duplicate indexer trade identity across independent pages''), (''cycleId'', JStr cycleId)]\<rparr>"

text \<open>The ids counted more than once with the earlier pages of the cycle, in the order of their second sighting.\<close>

fun repeated_ids :: "(string \<Rightarrow> nat) \<Rightarrow> string list \<Rightarrow> string list" where
  "repeated_ids counts [] = []"
| "repeated_ids counts (i # rest) =
    (if counts i + 1 > 1 then [i] else []) @ repeated_ids (counts(i := counts i + 1)) rest"

definition enumerateIndexer ::
  "recon_env \<Rightarrow> recon_config \<Rightarrow> enumeration_cycle \<Rightarrow> (identity_page \<times> string list \<times> bool \<times> finding list) job" where
  "enumerateIndexer ev cfg c =
    bind (enumerate_pages ev cfg (ec_upper_id c) (Suc (cf_indexerEnumerationLimit cfg))
      \<lparr>ip_records = [], ip_nextId = ec_after_id c, ip_exhausted = ec_exhausted c\<rparr>) (\<lambda>page.
    let ids = map snd (ip_records page) in
    bind (read_db ev (previousIdentityCounts (ec_id c) ids)) (\<lambda>counts.
    ret (page, ids, \<not> ip_exhausted page,
      map (\<lambda>i. duplicate_finding (ec_id c) (counts i + count_list ids i) i) (first_occurrences (repeated_ids counts ids)))))"

definition verifyCycleBoundary :: "recon_env \<Rightarrow> coverage_boundary \<Rightarrow> unit job" where
  "verifyCycleBoundary ev b =
    bind (resolveBoundary ev (cb_indexerProcessedBlock b)) (\<lambda>current.
    if cb_blockNumber current \<noteq> cb_blockNumber b \<or> toLowerCase (cb_blockHash current) \<noteq> toLowerCase (cb_blockHash b) \<or>
       cb_chainTradeCounter current \<noteq> cb_chainTradeCounter b
    then throw (Recon_error ''Reconciliation chain anchor changed before publication'') else ret ())"

section \<open>Comparing the window\<close>

text \<open>What a run has gathered and not yet published.\<close>

record pending =
  pn_total :: int
  pn_findings :: "finding list"
  pn_scope :: "string list"
  pn_compared :: "string list"

definition coverage_hold :: "pending \<Rightarrow> nat" where
  "coverage_hold p = length (filter (\<lambda>f. holdsCursor (fd_mismatchCode f)) (pn_findings p))"

definition note_finding :: "finding \<Rightarrow> pending \<Rightarrow> pending" where
  "note_finding f p = p\<lparr>pn_total := pn_total p + 1, pn_findings := pn_findings p @ [f], pn_scope := pn_scope p @ [fd_tradeId f]\<rparr>"

fun compare_pairs :: "(string \<Rightarrow> string option) \<Rightarrow> coverage_pair list \<Rightarrow> pending \<Rightarrow> string + pending" where
  "compare_pairs ga [] p = Inr p"
| "compare_pairs ga (x # xs) p =
    rbind (classifyDrifts ga \<lparr>ci_indexedTrade = pr_indexed x, ci_onchainTrade = pr_onchain x, ci_onchainReadError = pr_readError x\<rparr>) (\<lambda>fs.
    compare_pairs ga xs (p\<lparr>pn_total := pn_total p + 1, pn_scope := pn_scope p @ [ix_tradeId (pr_indexed x)],
      pn_compared := pn_compared p @ (if \<not> truthy (pr_readError x) \<and> pr_onchain x \<noteq> None then [ix_tradeId (pr_indexed x)] else []),
      pn_findings := pn_findings p @ fs\<rparr>))"

definition outside_window_finding :: "coverage_boundary \<Rightarrow> indexed_trade \<Rightarrow> finding" where
  "outside_window_finding b ix =
    \<lparr>fd_tradeId = ix_tradeId ix, fd_severity = CRITICAL, fd_mismatchCode = ONCHAIN_TRADE_MISSING, fd_comparedField = ''tradePresence'',
     fd_onchainValue = None, fd_indexedValue = Some (ix_tradeId ix),
     fd_details = [(''reason'', JStr ''indexer returned a trade outside the chain-derived id window''),
       (''boundaryBlock'', jint (cb_blockNumber b))]\<rparr>"

definition note_comparison :: "(string \<Rightarrow> string option) \<Rightarrow> coverage_boundary \<Rightarrow> coverage_comparison \<Rightarrow> pending \<Rightarrow> string + pending" where
  "note_comparison ga b c p =
    rbind (compare_pairs ga (cc_paired c) (fold note_finding (cc_missingFromIndexer c) p)) (\<lambda>p.
    Inr (fold (\<lambda>ix. note_finding (outside_window_finding b ix)) (cc_indexerOnly c) p))"

definition read_trade :: "recon_env \<Rightarrow> int \<Rightarrow> string \<Rightarrow> chain_trade_record job" where
  "read_trade ev block i =
    catch (bind (ask (\<lambda>n. as_error (rv_trade ev n i block))) (\<lambda>t. ret \<lparr>cr_tradeId = i, cr_trade = Some t, cr_readError = None\<rparr>))
      (\<lambda>e. ret \<lparr>cr_tradeId = i, cr_trade = None, cr_readError = Some (error_text e)\<rparr>)"

fun map_job :: "('a \<Rightarrow> 'b job) \<Rightarrow> 'a list \<Rightarrow> 'b list job" where
  "map_job f [] = ret []"
| "map_job f (x # xs) = bind (f x) (\<lambda>y. bind (map_job f xs) (\<lambda>ys. ret (y # ys)))"

definition assertHeld :: "recon_env \<Rightarrow> lease_identity \<Rightarrow> unit job" where
  "assertHeld ev l = bind (ask (\<lambda>n. Inr (rv_beatLost ev n))) (\<lambda>lost. if lost then throw (Lease_lost l) else ret ())"

fun compare_batches :: "recon_env \<Rightarrow> lease_identity \<Rightarrow> coverage_boundary \<Rightarrow> string list list \<Rightarrow> pending \<Rightarrow> pending job" where
  "compare_batches ev l b [] p = ret p"
| "compare_batches ev l b (ids # rest) p =
    bind (assertHeld ev l) (\<lambda>_.
    bind (map_job (read_trade ev (cb_blockNumber b)) ids) (\<lambda>rs.
    bind (fetchTradesByIds ev ids) (\<lambda>ixs.
    bind (lift (as_error (note_comparison (rv_getAddress ev) b (compareCoverage b rs ixs) p))) (compare_batches ev l b rest))))"

definition note_enumeration :: "coverage_boundary \<Rightarrow> string list \<Rightarrow> finding list \<Rightarrow> pending \<Rightarrow> pending" where
  "note_enumeration b ids duplicates p =
    fold (\<lambda>f p. p\<lparr>pn_total := pn_total p + (if fd_mismatchCode f \<noteq> INDEXER_DUPLICATE_TRADE then 1 else 0),
        pn_scope := pn_scope p @ [fd_tradeId f], pn_findings := pn_findings p @ [f]\<rparr>)
      (detectIndexerOnlyTradeIds ids b @ duplicates) p"

definition note_surplus :: "finding option \<Rightarrow> pending \<Rightarrow> pending" where
  "note_surplus surplus p = (case surplus of None \<Rightarrow> p | Some f \<Rightarrow> p\<lparr>pn_findings := pn_findings p @ [f]\<rparr>)"

section \<open>Containment decisions\<close>

definition observe_pause :: "recon_env \<Rightarrow> int \<Rightarrow> string \<Rightarrow> (string \<times> pause_observation) job" where
  "observe_pause ev block i =
    catch (bind (ask (\<lambda>n. as_error (rv_tradePaused ev n i block))) (\<lambda>paused.
        ret (i, \<lparr>po_tradeId = i, po_paused = paused, po_blockNumber = block, po_readError = None\<rparr>)))
      (\<lambda>e. ret (i, \<lparr>po_tradeId = i, po_paused = False, po_blockNumber = block, po_readError = Some (error_text e)\<rparr>))"

definition observeTradePauses :: "recon_env \<Rightarrow> string list \<Rightarrow> int \<Rightarrow> (string, pause_observation) jsmap job" where
  "observeTradePauses ev ids block = map_job (observe_pause ev block) (first_occurrences ids)"

definition resolveContainmentDecisions ::
  "recon_env \<Rightarrow> finding list \<Rightarrow> string list \<Rightarrow> int \<Rightarrow>
   (discrepancy list \<times> string list \<times> (string, pause_observation) jsmap) job" where
  "resolveContainmentDecisions ev fs compared block =
    (let qualified = qualifyDiscrepancies fs in
     bind (read_db ev listBlockingContainments) (\<lambda>inherited.
     bind (observeTradePauses ev (map dy_tradeId qualified @ map tc_trade_id inherited) block) (\<lambda>pauses.
     ret (qualified, cleanlyReconciledTradeIds compared fs, pauses))))"

section \<open>A run\<close>

text \<open>
  The source returns the promise of \<open>finalizeInconclusiveRun\<close> from inside its \<open>try\<close> block without
  awaiting it, so that call is outside the \<open>catch\<close> and races with the \<open>finally\<close> block. The release of
  the lease in that block changes nothing while the run is \<open>RUNNING\<close>, so it is placed first.
\<close>

datatype body_result = Concluded run_stats | Inconclusive string "timestamp option"

definition discarded_stats :: "run_stats \<Rightarrow> run_stats" where
  "discarded_stats stats = stats\<lparr>ru_status := RUN_SKIPPED, ru_totalTrades := 0, ru_driftCount := 0,
     ru_severityCounts := DEFAULT_SEVERITY_COUNTS, ru_skippedReason := Some ''lease lost to a successor''\<rparr>"

definition or_discarded :: "run_stats \<Rightarrow> run_stats job \<Rightarrow> run_stats job" where
  "or_discarded stats m = catch m (\<lambda>e. case e of Lease_lost _ \<Rightarrow> ret (discarded_stats stats) | _ \<Rightarrow> throw e)"

text \<open>What the run concludes from its comparisons.\<close>

definition run_verdict ::
  "recon_config \<Rightarrow> cursor_row \<Rightarrow> coverage_boundary \<Rightarrow> enumeration_cycle \<Rightarrow> int \<Rightarrow> bool \<Rightarrow> coverage_window \<Rightarrow> identity_page \<Rightarrow>
   int option \<Rightarrow> bool \<Rightarrow> timestamp \<Rightarrow> pending \<Rightarrow> run_coverage \<times> bool \<times> bool \<times> bool \<times> timestamp option" where
  "run_verdict cfg cur b c chainCursor sourceCoherent w page count priorHold now p =
    (let truncated = \<not> ip_exhausted page;
         tail = (if cw_uncoveredTail w = 0 then None else case cu_tail_first_seen_at cur of Some t \<Rightarrow> Some t | None \<Rightarrow> Some now);
         sla = evaluateCoverageSla (cw_uncoveredTail w) (cu_tail_first_seen_at cur) now (cf_coverageMaxAgeMs cfg);
         cursorHeld = fst (evaluateCursorHold (coverage_hold p) truncated);
         walked = ec_walked c + int (length (ip_records page));
         coherent = (sourceCoherent \<and> count = Some (ec_expected_count c));
         finished = (ip_exhausted page \<and> ((cw_complete w \<and> \<not> cursorHeld) \<or> \<not> coherent));
         complete = (coherent \<and> \<not> priorHold \<and> count = Some walked \<and>
           isCoverageComplete (cw_complete w \<and> \<not> cursorHeld) truncated)
     in (\<lparr>rg_boundary = b, rg_window = w, rg_fromBlock = cu_boundary_block_number cur, rg_indexerTradeCount = count, rg_sla = sla,
          rg_cursorAdvanced = (\<not> cursorHeld), rg_nextCursor = planNextCursor w cursorHeld chainCursor,
          rg_sweepReset = (\<not> cursorHeld \<and> cw_complete w), rg_indexerEnumerationTruncated = truncated,
          rg_indexerEnumerationWalked = walked, rg_enumerationCycleId = ec_id c, rg_indexerSourceCoherent = coherent,
          rg_indexerEnumerationExpected = ec_expected_count c, rg_complete = complete,
          rg_indexerProcessedBlock = cb_indexerProcessedBlock b\<rparr>, cursorHeld, coherent, finished, tail))"

definition conclude_run ::
  "recon_env \<Rightarrow> recon_config \<Rightarrow> run_row \<Rightarrow> lease_identity \<Rightarrow> reconcile_mode \<Rightarrow> cursor_row \<Rightarrow> coverage_boundary \<Rightarrow>
   enumeration_cycle \<Rightarrow> int \<Rightarrow> bool \<Rightarrow> coverage_window \<Rightarrow> identity_page \<Rightarrow> int option \<Rightarrow> pending \<Rightarrow> run_stats job" where
  "conclude_run ev cfg row l mode cur b c chainCursor sourceCoherent w page count p =
    bind (verifyCycleBoundary ev b) (\<lambda>_.
    bind (now_of ev) (\<lambda>now.
    bind (read_db ev (priorCycleHasHoldingFindings (ec_id c))) (\<lambda>priorHold.
    case run_verdict cfg cur b c chainCursor sourceCoherent w page count priorHold now p of
      (coverage, cursorHeld, coherent, finished, tail) \<Rightarrow>
    let stats = (fresh_stats (ls_runKey l) mode)\<lparr>ru_totalTrades := pn_total p, ru_coverage := Some coverage\<rparr> in
    bind (resolveContainmentDecisions ev (pn_findings p) (pn_compared p) (cb_blockNumber b)) (\<lambda>(qualified, clean, pauses).
    bind (ask (\<lambda>n. Inr (\<lambda>i. generateIncidentReference (rv_random ev n i) (rv_clock ev n)))) (\<lambda>refs.
    or_discarded stats (query ev (\<lambda>now. finalizeRun (cf_chainId cfg) (cf_escrowAddress cfg) now stats l
      (publish_run now refs \<lparr>oo_runId = rr_id row, oo_runKey = ls_runKey l, oo_boundary = b, oo_window = w,
         oo_sla = rg_sla coverage, oo_scopedTradeIds = pn_scope p, oo_findings = pn_findings p, oo_qualified = qualified,
         oo_cleanTradeIds = clean, oo_pauseObservations = pauses, oo_cycle = c, oo_page = page, oo_coherent = coherent,
         oo_finished = finished, oo_nextChainCursor = (if cursorHeld then chainCursor else cw_nextCursor w)\<rparr>)
      (if cursorHeld then Hold_cursor tail
       else Advance (rg_nextCursor coverage) (cb_blockNumber b) (cb_blockHash b) tail))))))))"

definition run_body :: "recon_env \<Rightarrow> recon_config \<Rightarrow> run_row \<Rightarrow> lease_identity \<Rightarrow> reconcile_mode \<Rightarrow> body_result job" where
  "run_body ev cfg row l mode =
    bind (query ev (\<lambda>_. readCoverageCursor)) (\<lambda>cur.
    bind (ask (\<lambda>n. as_error (rv_processedBlock ev n))) (\<lambda>processed.
    case evaluateIndexerAnchor processed of Inl reason \<Rightarrow> ret (Inconclusive reason (cu_tail_first_seen_at cur)) | Inr anchorBlock \<Rightarrow>
    bind (resolveBoundary ev anchorBlock) (\<lambda>b.
    bind (prepareEnumeration ev cfg b (cu_last_trade_id cur)) (\<lambda>(c, chainCursor, coherent).
    bind (lift (as_error (planCoverageWindow chainCursor (cb_chainTradeCounter b) (cf_maxTradesPerRun cfg)))) (\<lambda>w.
    bind (lift (as_error (batchTradeIds (tradeIdsInWindow w) (cf_batchSize cfg)))) (\<lambda>bs.
    bind (compare_batches ev l b bs \<lparr>pn_total = 0, pn_findings = [], pn_scope = [], pn_compared = []\<rparr>) (\<lambda>p.
    bind (enumerateIndexer ev cfg c) (\<lambda>(page, ids, truncated, duplicates).
    bind (catch (bind (fetchTradeCount ev) (\<lambda>n. ret (Some n))) (\<lambda>_. ret None)) (\<lambda>count.
    bind (ask (\<lambda>n. as_error (rv_processedBlock ev n))) (\<lambda>endBlock.
    case evaluateIndexerSnapshot (Some (cb_indexerProcessedBlock b)) endBlock of
      Some reason \<Rightarrow> ret (Inconclusive reason (cu_tail_first_seen_at cur))
    | None \<Rightarrow> bind (conclude_run ev cfg row l mode cur b c chainCursor coherent w page count
        (note_surplus (checkIndexerSurplus count b) (note_enumeration b ids duplicates p))) (\<lambda>stats.
        ret (Concluded stats))))))))))))"

definition release_lease :: "recon_env \<Rightarrow> lease_identity \<Rightarrow> unit job" where
  "release_lease ev l =
    bind (ask (\<lambda>n. Inr (rv_beatLost ev n))) (\<lambda>lost.
    if lost then ret () else catch (bind (query ev (\<lambda>_. releaseLease l)) (\<lambda>_. ret ())) (\<lambda>_. ret ()))"

text \<open>The \<open>catch\<close> and \<open>finally\<close> blocks of a claimed run.\<close>

definition run_claimed :: "recon_env \<Rightarrow> recon_config \<Rightarrow> run_row \<Rightarrow> lease_identity \<Rightarrow> reconcile_mode \<Rightarrow> run_stats job" where
  "run_claimed ev cfg row l mode =
    bind (catch (run_body ev cfg row l mode) (\<lambda>e.
        case e of Lease_lost _ \<Rightarrow> ret (Concluded (discarded_stats (fresh_stats (ls_runKey l) mode)))
        | _ \<Rightarrow> bind (catch (query ev (\<lambda>now. failRun now l (error_text e))) (\<lambda>e'. bind (release_lease ev l) (\<lambda>_. throw e')))
            (\<lambda>_. bind (release_lease ev l) (\<lambda>_. throw e)))) (\<lambda>r.
    bind (release_lease ev l) (\<lambda>_.
    case r of Concluded stats \<Rightarrow> ret stats
    | Inconclusive reason tail \<Rightarrow> finalizeInconclusiveRun ev cfg (fresh_stats (ls_runKey l) mode) l reason tail))"

definition reconcileOnce :: "recon_env \<Rightarrow> recon_config \<Rightarrow> reconcile_mode \<Rightarrow> string option \<Rightarrow> run_stats job" where
  "reconcileOnce ev cfg mode runKeyOverride =
    bind (if truthy runKeyOverride then ret (the runKeyOverride) else generateRunKey ev cfg mode) (\<lambda>runKey.
    bind (sweepAbandonedRuns ev cfg) (\<lambda>_.
    bind (ask (\<lambda>n. Inr (rv_owner ev n))) (\<lambda>owner.
    bind (claimRun ev cfg runKey mode owner) (\<lambda>c.
    case c of
      Refused finished r \<Rightarrow> ret (skippedStats runKey mode r
        (if finished then ''run_key already completed'' else ''run_key lease held by another worker''))
    | Claimed row l takeoverFrom \<Rightarrow> run_claimed ev cfg row l mode))))"

section \<open>The release command\<close>

definition release :: "recon_env \<Rightarrow> string \<Rightarrow> string \<Rightarrow> containment_row job" where
  "release ev tradeId approvalTxHash =
    bind (read_db ev (getContainment tradeId)) (\<lambda>current.
    case release_refused tradeId current of
      Some m \<Rightarrow> throw (Recon_error m)
    | None \<Rightarrow>
        bind (ask (\<lambda>n. rv_unpauseFacts ev n approvalTxHash)) (\<lambda>facts.
        bind (lift (evaluateGovernedUnpause (rv_encodings ev) facts tradeId (tc_incident_reference (the current))
          (tc_opened_at (the current)))) (\<lambda>e.
        bind (query ev (\<lambda>now. releaseContainment now tradeId e)) (\<lambda>released.
        case released of Some r \<Rightarrow> ret r
        | None \<Rightarrow> throw (Recon_error (''Trade '' @ tradeId @
            '' changed state while its release was being verified; re-run \"show\" and start again.''))))))"

end
