(* ===== verification/Recon_Ledger.thy ===== *)
theory Recon_Ledger
  imports Recon_Service
begin

text \<open>
  What every operation of the reconciliation service keeps of the containments and of the ledger of
  spent approvals: a row keeps its trade, its incident and the time it was opened, the ledger only
  grows, and a trade stops being blocked only with a new entry in the ledger, for a transaction that
  passed \<open>evaluateGovernedUnpause\<close> against that row. \<open>ledger_step\<close> is the order every operation
  obeys; \<open>contain_step\<close> is the part of it that comparisons may make.
\<close>

section \<open>Guarded updates\<close>

lemma update_rows_all2:
  assumes "update_rows g p f rs = Inr (rows, hits)"
  shows "list_all2 (\<lambda>r r'. if p r then g r (f r) = Inr r' else r' = r) rs rows \<and> set hits \<subseteq> set rows \<and>
    (\<forall>r \<in> set rs. p r \<longrightarrow> (\<exists>r' \<in> set hits. g r (f r) = Inr r')) \<and> (\<forall>r' \<in> set hits. \<exists>r \<in> set rs. p r \<and> g r (f r) = Inr r')"
  using assms
proof (induction rs arbitrary: rows hits)
  case (Cons r rs)
  then obtain r' rows' hits' where s: "(if p r then g r (f r) else Inr r) = Inr r'" "update_rows g p f rs = Inr (rows', hits')"
    "rows = r' # rows'" "hits = (if p r then [r'] else []) @ hits'"
    by (auto elim!: rbind_InrE)
  from Cons.IH [OF s(2)] s(1) show ?case unfolding s(3,4) by (auto split: if_splits)
qed simp

lemma update_rows_none: "(\<And>r. r \<in> set rs \<Longrightarrow> \<not> p r) \<Longrightarrow> update_rows g p f rs = Inr (rs, [])"
  by (induction rs) auto

lemma all2_map_same:
  assumes "list_all2 Q xs ys" and "\<And>x y. x \<in> set xs \<Longrightarrow> Q x y \<Longrightarrow> h y = h x"
  shows "map h ys = map h xs"
  using assms by (induction rule: list_all2_induct) auto

lemma all2_in1: "list_all2 Q xs ys \<Longrightarrow> x \<in> set xs \<Longrightarrow> \<exists>y \<in> set ys. Q x y"
  by (induction rule: list_all2_induct) auto

lemma all2_in2: "list_all2 Q xs ys \<Longrightarrow> y \<in> set ys \<Longrightarrow> \<exists>x \<in> set xs. Q x y"
  by (induction rule: list_all2_induct) auto

lemma obeysD: "obeys R m \<Longrightarrow> R s (snd (m s))"
  by (simp add: obeys_def)

section \<open>The order\<close>

definition blocked :: "string \<Rightarrow> recon_db \<Rightarrow> bool" where
  "blocked t db = (\<exists>r \<in> set (rd_containments db). tc_trade_id r = t \<and> tc_state r \<noteq> RELEASED)"

definition incident_of :: "containment_row \<Rightarrow> string \<times> string \<times> string \<times> timestamp" where
  "incident_of r = (tc_trade_id r, tc_incident_reference r, tc_opened_run_key r, tc_opened_at r)"

definition rows_kept :: "recon_db \<Rightarrow> recon_db \<Rightarrow> bool" where
  "rows_kept db db' = (incident_of ` set (rd_containments db) \<subseteq> incident_of ` set (rd_containments db'))"

definition accounted :: "spent_approval list \<Rightarrow> containment_row \<Rightarrow> bool" where
  "accounted spent r = (tc_pause_observed_at r \<noteq> None \<and> (\<exists>e. tc_approval r = Some e \<and>
     (\<exists>u \<in> set spent. su_tx_hash u = gu_txHash e \<and> su_trade_id u = tc_trade_id r)))"

definition ledger_ok :: "recon_db \<Rightarrow> bool" where
  "ledger_ok db = (distinct (map tc_trade_id (rd_containments db)) \<and> distinct (map tc_incident_reference (rd_containments db)) \<and>
     distinct (map su_tx_hash (rd_spent db)) \<and>
     (\<forall>r \<in> set (rd_containments db). tc_state r = RELEASED \<longrightarrow> accounted (rd_spent db) r))"

text \<open>A spent approval is a transaction that passed the checks against a row of the table.\<close>

definition governed :: "encodings \<Rightarrow> recon_db \<Rightarrow> spent_approval \<Rightarrow> bool" where
  "governed en db u = (\<exists>facts e key at. (su_trade_id u, su_incident_reference u, key, at) \<in> incident_of ` set (rd_containments db) \<and>
     evaluateGovernedUnpause en facts (su_trade_id u) (su_incident_reference u) at = Inr e \<and> gu_txHash e = su_tx_hash u)"

definition ledger_step :: "encodings \<Rightarrow> recon_db \<Rightarrow> recon_db \<Rightarrow> bool" where
  "ledger_step en db db' = (ledger_ok db \<longrightarrow> ledger_ok db' \<and> rows_kept db db' \<and>
     (\<exists>new. rd_spent db' = rd_spent db @ new \<and> (\<forall>u \<in> set new. governed en db' u) \<and>
       (\<forall>t. blocked t db \<longrightarrow> blocked t db' \<or> t \<in> su_trade_id ` set new)))"

definition contain_step :: "recon_db \<Rightarrow> recon_db \<Rightarrow> bool" where
  "contain_step db db' = (ledger_ok db \<longrightarrow> ledger_ok db' \<and> rows_kept db db' \<and> rd_spent db' = rd_spent db \<and>
     (\<forall>t. blocked t db \<longrightarrow> blocked t db'))"

definition same_ledger :: "recon_db \<Rightarrow> recon_db \<Rightarrow> bool" where
  "same_ledger db db' = (rd_containments db' = rd_containments db \<and> rd_spent db' = rd_spent db)"

lemma accounted_more: "accounted spent r \<Longrightarrow> accounted (spent @ new) r"
  unfolding accounted_def by auto

lemma governed_kept: "governed en db u \<Longrightarrow> rows_kept db db' \<Longrightarrow> governed en db' u"
  unfolding governed_def rows_kept_def by blast

lemma rows_kept_trans: "rows_kept s t \<Longrightarrow> rows_kept t u \<Longrightarrow> rows_kept s u"
  unfolding rows_kept_def by (rule subset_trans)

interpretation contain: state_order contain_step
proof
  fix s show "contain_step s s" by (simp add: contain_step_def rows_kept_def)
next
  fix s t u assume st: "contain_step s t" and tu: "contain_step t u"
  show "contain_step s u" unfolding contain_step_def
  proof
    assume "ledger_ok s"
    note s = mp [OF st [unfolded contain_step_def] this]
    note t = mp [OF tu [unfolded contain_step_def] conjunct1 [OF s]]
    have "rows_kept s u" using s t by (blast intro: rows_kept_trans)
    then show "ledger_ok u \<and> rows_kept s u \<and> rd_spent u = rd_spent s \<and> (\<forall>i. blocked i s \<longrightarrow> blocked i u)"
      using s t by simp
  qed
qed

interpretation untouched: state_order same_ledger
  by unfold_locales (auto simp: same_ledger_def)

interpretation ledger: state_order "ledger_step en" for en
proof
  fix s show "ledger_step en s s" by (simp add: ledger_step_def rows_kept_def)
next
  fix s t u assume st: "ledger_step en s t" and tu: "ledger_step en t u"
  show "ledger_step en s u" unfolding ledger_step_def
  proof
    assume "ledger_ok s"
    with st obtain new where n: "ledger_ok t" "rows_kept s t" "rd_spent t = rd_spent s @ new" "\<forall>x \<in> set new. governed en t x"
      "\<forall>i. blocked i s \<longrightarrow> blocked i t \<or> i \<in> su_trade_id ` set new" by (auto simp: ledger_step_def)
    with tu obtain new' where m: "ledger_ok u" "rows_kept t u" "rd_spent u = rd_spent t @ new'" "\<forall>x \<in> set new'. governed en u x"
      "\<forall>i. blocked i t \<longrightarrow> blocked i u \<or> i \<in> su_trade_id ` set new'" by (auto simp: ledger_step_def)
    have "rows_kept s u" by (rule rows_kept_trans [OF n(2) m(2)])
    moreover have "\<forall>x \<in> set (new @ new'). governed en u x" using n(4) m(4) governed_kept [OF _ m(2)] by auto
    moreover have "\<forall>i. blocked i s \<longrightarrow> blocked i u \<or> i \<in> su_trade_id ` set (new @ new')" using n(5) m(5) by auto
    ultimately show "ledger_ok u \<and> rows_kept s u \<and> (\<exists>n. rd_spent u = rd_spent s @ n \<and> (\<forall>x \<in> set n. governed en u x) \<and>
        (\<forall>i. blocked i s \<longrightarrow> blocked i u \<or> i \<in> su_trade_id ` set n))"
      using m(1,3) n(3) by (intro conjI exI [of _ "new @ new'"]) simp_all
  qed
qed

lemma contain_is_ledger: "contain_step db db' \<Longrightarrow> ledger_step en db db'"
  by (auto simp: contain_step_def ledger_step_def intro: exI [of _ "[]"])

lemma same_is_contain: "same_ledger db db' \<Longrightarrow> contain_step db db'"
  by (simp add: same_ledger_def contain_step_def ledger_ok_def rows_kept_def blocked_def)

lemma incident_ids:
  assumes "map incident_of xs = map incident_of ys"
  shows "map tc_trade_id xs = map tc_trade_id ys" "map tc_incident_reference xs = map tc_incident_reference ys"
proof -
  have "map tc_trade_id zs = map fst (map incident_of zs)"
    "map tc_incident_reference zs = map (fst \<circ> snd) (map incident_of zs)" for zs
    by (simp_all add: incident_of_def)
  then show "map tc_trade_id xs = map tc_trade_id ys" "map tc_incident_reference xs = map tc_incident_reference ys"
    using arg_cong [OF assms, of "map fst"] arg_cong [OF assms, of "map (fst \<circ> snd)"] by metis+
qed

section \<open>Operations that do not touch the containments\<close>

named_theorems untouched_ops \<open>programs that leave the containments and the ledger alone\<close>

lemma untouched_updates [untouched_ops]:
  "obeys same_ledger (update_runs p f)" "obeys same_ledger (update_cycles q g)"
  by (auto simp: obeys_def update_runs_def update_cycles_def same_ledger_def split: sum.splits prod.splits)

lemma untouched_members [untouched_ops]: "obeys same_ledger (insert_members i xs)"
proof -
  have "same_ledger db (snd (insert_members i xs db))" for db
    by (induction i xs db rule: insert_members.induct) (auto simp: same_ledger_def split: option.splits)
  then show ?thesis by (simp add: obeys_def)
qed

lemma untouched_writes [untouched_ops]:
  "obeys same_ledger (appendLeaseEvent now i k e w' n v d)" "obeys same_ledger (claim_insert now k mode w ttl)"
  "obeys same_ledger (advanceCoverageCursor a b c td)" "obeys same_ledger (recordCoverageTailSighting td)"
  "obeys same_ledger (upsertDrift i k fnd)" "obeys same_ledger (upsertRunTradeScope i k t)"
  "obeys same_ledger (enqueueRunAlert i k kind payload)" "obeys same_ledger (cycle_insert uuid bd src up cur ex coh)"
  by (auto simp: obeys_def appendLeaseEvent_def claim_insert_def advanceCoverageCursor_def recordCoverageTailSighting_def
      upsertDrift_def upsertRunTradeScope_def enqueueRunAlert_def cycle_insert_def modify_def Let_def same_ledger_def
      split: option.splits)

lemma untouched_each [untouched_ops]:
  assumes "\<And>x. obeys same_ledger (f x)"
  shows "obeys same_ledger (each f xs)"
  by (rule untouched.obeys_each [OF assms])

lemma untouched_cursor [untouched_ops]: "obeys same_ledger (move_cursor c)"
  by (cases c) (simp_all add: untouched_ops)

lemma untouched_runs [untouched_ops]:
  "obeys same_ledger (claim_takeover now k w ttl)" "obeys same_ledger (heartbeatLease now l ttl)"
  "obeys same_ledger (releaseLease l)" "obeys same_ledger (mark_abandoned now ttl)" "obeys same_ledger (failRun now l msg)"
  "obeys same_ledger (assertLeaseHeld now l)" "obeys same_ledger (completeRun chain escrow now stats)"
  unfolding claim_takeover_def heartbeatLease_def releaseLease_def mark_abandoned_def failRun_def assertLeaseHeld_def
    completeRun_def Let_def
  by (intro untouched_ops untouched.obeys_bind untouched.obeys_ret untouched.obeys_gets untouched.obeys_throw obeys_split)+

lemma untouched_publication [untouched_ops]:
  "obeys same_ledger (publishEnumerationPage c page coh fin cur i)" "obeys same_ledger (aggregateCycleEvidence cyc i k stats)"
  "obeys same_ledger (publish_findings i k fs stats)"
proof -
  show "obeys same_ledger (publishEnumerationPage c page coh fin cur i)" unfolding publishEnumerationPage_def
    by (intro untouched_ops untouched.obeys_bind untouched.obeys_ret untouched.obeys_throw obeys_split)
  show "obeys same_ledger (aggregateCycleEvidence cyc i k stats)" unfolding aggregateCycleEvidence_def insert_drift_def
    by (intro untouched_ops untouched.obeys_bind untouched.obeys_ret untouched.obeys_gets obeys_split)
  show "obeys same_ledger (publish_findings i k fs stats)"
  proof (induction fs arbitrary: stats)
    case Nil
    then show ?case by (simp add: untouched.obeys_ret)
  next
    case (Cons f fs)
    then show ?case unfolding publish_findings.simps publishFinding_def
      by (intro untouched_ops untouched.obeys_bind untouched.obeys_ret obeys_split)
  qed
qed

section \<open>Comparisons only contain\<close>

lemma update_containments_all2:
  assumes "update_containments p f db = (Inr hits, db')"
  obtains rows where "db' = db\<lparr>rd_containments := rows\<rparr>"
    and "list_all2 (\<lambda>r r'. r' = (if p r then f r else r)) (rd_containments db) rows"
    and "set hits = f ` {r \<in> set (rd_containments db). p r}"
proof -
  from assms obtain rows where u: "update_rows containment_guard p f (rd_containments db) = Inr (rows, hits)"
    and db': "db' = db\<lparr>rd_containments := rows\<rparr>"
    by (auto simp: update_containments_def split: sum.splits prod.splits)
  note a = update_rows_all2 [OF u]
  have g: "containment_guard r x = Inr r' \<Longrightarrow> r' = x" for r x r' by (simp add: containment_guard_def split: if_splits)
  have "list_all2 (\<lambda>r r'. r' = (if p r then f r else r)) (rd_containments db) rows"
    by (rule list.rel_mono_strong [OF conjunct1 [OF a]]) (auto dest: g split: if_splits)
  moreover have "set hits = f ` {r \<in> set (rd_containments db). p r}" using a g by (fastforce simp: image_iff)
  ultimately show ?thesis using that db' by blast
qed

lemma contain_update:
  assumes "\<And>r. incident_of (f r) = incident_of r" and "\<And>r. p r \<Longrightarrow> tc_state (f r) \<noteq> RELEASED"
  shows "obeys contain_step (update_containments p f)"
  unfolding obeys_def
proof
  fix db
  obtain r db' where run: "update_containments p f db = (r, db')" by fastforce
  show "contain_step db (snd (update_containments p f db))"
  proof (cases r)
    case (Inl e)
    then show ?thesis using run by (auto simp: update_containments_def contain_step_def rows_kept_def split: sum.splits prod.splits)
  next
    case (Inr hits)
    from update_containments_all2 [OF run [unfolded Inr]] obtain rows where db': "db' = db\<lparr>rd_containments := rows\<rparr>"
      and all: "list_all2 (\<lambda>r r'. r' = (if p r then f r else r)) (rd_containments db) rows" by blast
    have same: "map incident_of rows = map incident_of (rd_containments db)"
      by (rule all2_map_same [OF all]) (simp add: assms(1))
    note ids = incident_ids [OF same]
    have "r' \<in> set (rd_containments db)" if "r' \<in> set rows" "tc_state r' = RELEASED" for r'
      using all2_in2 [OF all that(1)] assms(2) that(2) by (auto split: if_splits)
    then have "ledger_ok db'" if "ledger_ok db" using that ids unfolding db' ledger_ok_def by simp
    moreover have "rows_kept db db'" using arg_cong [OF same, of set] by (simp add: rows_kept_def db')
    moreover have "blocked t db'" if "blocked t db" for t
    proof -
      from that obtain r where r: "r \<in> set (rd_containments db)" "tc_trade_id r = t" "tc_state r \<noteq> RELEASED" by (auto simp: blocked_def)
      from all2_in1 [OF all r(1)] have "(if p r then f r else r) \<in> set rows" by auto
      moreover have "tc_trade_id (f r) = tc_trade_id r" using assms(1) [of r] by (simp add: incident_of_def)
      ultimately show ?thesis using r assms(2) [of r] unfolding blocked_def db' by (auto split: if_splits)
    qed
    ultimately show ?thesis using run by (simp add: contain_step_def db')
  qed
qed

lemma contain_insert:
  assumes "tc_trade_id r \<notin> tc_trade_id ` set (rd_containments db)"
    and "tc_incident_reference r \<notin> tc_incident_reference ` set (rd_containments db)" and "tc_state r = CONTAINED"
  shows "contain_step db (db\<lparr>rd_containments := rd_containments db @ [r]\<rparr>)"
proof -
  have "ledger_ok (db\<lparr>rd_containments := rd_containments db @ [r]\<rparr>)" if "ledger_ok db"
    using that assms by (simp add: ledger_ok_def)
  then show ?thesis by (auto simp: contain_step_def rows_kept_def blocked_def)
qed

lemma contain_open: "obeys contain_step (openContainment now t ref k codes shown)"
  unfolding obeys_def
proof
  fix db
  show "contain_step db (snd (openContainment now t ref k codes shown db))"
  proof (cases "find (\<lambda>r. tc_trade_id r = t) (rd_containments db)")
    case None
    then have new: "t \<notin> tc_trade_id ` set (rd_containments db)" by (auto simp: find_None_iff)
    then show ?thesis unfolding openContainment_def None Let_def
      by (simp add: contain.order_refl contain_insert)
  next
    case (Some r)
    show ?thesis unfolding openContainment_def Some option.case
      by (rule obeysD, intro contain.obeys_bind contain_update contain.obeys_ret) (simp_all add: incident_of_def)
  qed
qed

lemma contain_weaken: "obeys same_ledger m \<Longrightarrow> obeys contain_step m"
  by (rule obeys_weaken [OF _ same_is_contain])

lemmas contain_ops = untouched_ops [THEN contain_weaken]

lemma contain_clean: "obeys contain_step (recordCleanReconciliation now t k)"
  unfolding recordCleanReconciliation_def
  by (intro contain.obeys_bind contain_update contain.obeys_ret) (simp_all add: incident_of_def)

lemma contain_pause: "obeys contain_step (recordPauseObservation now p)"
  unfolding recordPauseObservation_def
  by (intro contain.obeys_bind contain_update contain.obeys_ret) (simp_all add: incident_of_def)

lemma contain_trade_step: "obeys contain_step (contain_trade now i k b rd)"
  unfolding contain_trade_def
  by (intro obeys_pair contain.obeys_bind contain_open contain_ops)

lemma settle_trade_step: "obeys contain_step (settle_trade now i k dv clean pauses c)"
  unfolding settle_trade_def
  by (intro contain.obeys_bind contain_clean contain_pause obeys_split contain.obeys_ret obeys_option contain_ops)

lemma applyContainment_step: "obeys contain_step (applyContainment now refs i k b qs clean pauses)"
  unfolding applyContainment_def Let_def
  by (intro contain.obeys_bind contain.obeys_each contain_trade_step settle_trade_step contain.obeys_gets contain.obeys_ret)

lemma publishRunOutcome_step: "obeys contain_step (publishRunOutcome now refs x stats)"
  unfolding publishRunOutcome_def
  by (intro contain.obeys_bind applyContainment_step contain.obeys_ret obeys_option obeys_split contain.obeys_each contain_ops)

lemma publish_run_step: "obeys contain_step (publish_run now refs x stats)"
  unfolding publish_run_def
  by (intro contain.obeys_bind publishRunOutcome_step contain.obeys_ret obeys_split contain_ops)

lemma finalizeRun_step:
  assumes "\<And>stats. obeys contain_step (publish stats)"
  shows "obeys contain_step (finalizeRun chain escrow now stats l publish cursor)"
  unfolding finalizeRun_def
  by (intro contain.obeys_transaction contain.obeys_bind assms contain.obeys_ret contain_ops)

section \<open>Releases are governed\<close>

lemma find_unique:
  assumes "distinct (map h rs)" and "r \<in> set rs" and "P r" and "\<And>q. q \<in> set rs \<Longrightarrow> P q \<Longrightarrow> h q = h r"
  shows "find P rs = Some r"
proof -
  obtain q where q: "find P rs = Some q" using assms(2,3) by (cases "find P rs") (auto simp: find_None_iff)
  then have in_rs: "q \<in> set rs" and "P q" by (auto simp: find_Some_iff)
  then have "h q = h r" by (rule assms(4))
  moreover have "inj_on h (set rs)" using assms(1) by (simp add: distinct_map)
  ultimately have "q = r" using in_rs assms(2) by (simp add: inj_on_eq_iff)
  with q show ?thesis by simp
qed

lemma same_trade_same_row:
  assumes "ledger_ok db" and "r \<in> set (rd_containments db)" and "q \<in> set (rd_containments db)" and "tc_trade_id q = tc_trade_id r"
  shows "q = r"
  using assms inj_on_eq_iff [of tc_trade_id "set (rd_containments db)" q r] by (simp add: ledger_ok_def distinct_map)

lemma released_step:
  assumes ok: "ledger_ok db" and c: "c \<in> set (rd_containments db)" "releasable t c"
    and new: "gu_txHash e \<notin> su_tx_hash ` set (rd_spent db)"
    and ev: "evaluateGovernedUnpause en facts t (tc_incident_reference c) (tc_opened_at c) = Inr e"
    and run: "releaseContainment now t e db = (Inr x, db')"
  shows "ledger_step en db db'"
proof -
  let ?u = "\<lparr>su_tx_hash = gu_txHash e, su_trade_id = tc_trade_id c, su_incident_reference = tc_incident_reference c,
    su_chain_id = gu_chainId e, su_block_number = gu_blockNumber e, su_log_index = gu_logIndex e\<rparr>"
  let ?f = "\<lambda>r. r\<lparr>tc_state := RELEASED, tc_approval := Some e, tc_released_at := Some now, tc_updated_at := now\<rparr>"
  have t: "tc_trade_id c = t" and pause: "tc_pause_observed_at c \<noteq> None" using c(2) by (auto simp: releasable_def)
  have dist: "distinct (map tc_trade_id (rd_containments db))" using ok by (simp add: ledger_ok_def)
  have f: "find (releasable t) (rd_containments db) = Some c"
    by (rule find_unique [of tc_trade_id, OF dist c(1), of "releasable t", OF c(2)]) (simp add: releasable_def t)
  obtain hits where "update_containments (\<lambda>r. tc_trade_id r = t) ?f (db\<lparr>rd_spent := rd_spent db @ [?u]\<rparr>) = (Inr hits, db')"
    using run new unfolding releaseContainment_def f by (auto elim!: bind_InrE simp: ret_def)
  from update_containments_all2 [OF this] obtain rows where
    db': "db' = db\<lparr>rd_spent := rd_spent db @ [?u], rd_containments := rows\<rparr>"
    and all: "list_all2 (\<lambda>r r'. r' = (if tc_trade_id r = t then ?f r else r)) (rd_containments db) rows" by auto
  have same: "map incident_of rows = map incident_of (rd_containments db)"
    by (rule all2_map_same [OF all]) (simp add: incident_of_def)
  note ids = incident_ids [OF same]
  have only: "q = c" if "q \<in> set (rd_containments db)" "tc_trade_id q = t" for q
    using same_trade_same_row [OF ok c(1) that(1)] that(2) t by simp
  have "accounted (rd_spent db @ [?u]) q"
    if "q \<in> set rows" "tc_state q = RELEASED" for q
  proof -
    from all2_in2 [OF all that(1)] obtain q0 where q0: "q0 \<in> set (rd_containments db)" "q = (if tc_trade_id q0 = t then ?f q0 else q0)" by blast
    show ?thesis
    proof (cases "tc_trade_id q0 = t")
      case True
      then show ?thesis using only [OF q0(1)] q0(2) pause t by (simp add: accounted_def)
    next
      case False
      then have "accounted (rd_spent db) q" using q0 ok that(2) by (simp add: ledger_ok_def)
      then show ?thesis by (rule accounted_more)
    qed
  qed
  then have "ledger_ok db'" using ok ids new unfolding ledger_ok_def db' by auto
  moreover have "rows_kept db db'" using arg_cong [OF same, of set] by (simp add: rows_kept_def db')
  moreover have "governed en db' ?u" unfolding governed_def
    using ev t c(1) arg_cong [OF same, of set] by (force simp: db' incident_of_def)
  moreover have "blocked i db' \<or> i = t" if "blocked i db" for i
    using that all2_in1 [OF all] unfolding blocked_def db' by fastforce
  ultimately show ?thesis unfolding ledger_step_def using t by (auto simp: db' intro!: exI [of _ "[?u]"])
qed

lemma releaseContainment_ledger:
  assumes row: "ledger_ok db \<Longrightarrow> (t, ref, key, at) \<in> incident_of ` set (rd_containments db)"
    and ev: "evaluateGovernedUnpause en facts t ref at = Inr e" and run: "releaseContainment now t e db = (Inr x, db')"
  shows "ledger_step en db db'"
proof (cases "find (releasable t) (rd_containments db)")
  case None
  then show ?thesis using run by (simp add: releaseContainment_def)
next
  case (Some c)
  then have c: "c \<in> set (rd_containments db)" "releasable t c" by (auto simp: find_Some_iff)
  have new: "gu_txHash e \<notin> su_tx_hash ` set (rd_spent db)"
    using run unfolding releaseContainment_def Some by (auto split: if_splits)
  show ?thesis
  proof (cases "ledger_ok db")
    case False
    then show ?thesis by (simp add: ledger_step_def)
  next
    case ok: True
    from row [OF ok] obtain c' where c': "c' \<in> set (rd_containments db)" "incident_of c' = (t, ref, key, at)" by force
    have "c' = c" using same_trade_same_row [OF ok c(1) c'(1)] c'(2) c(2) by (simp add: incident_of_def releasable_def)
    then have "ref = tc_incident_reference c" "at = tc_opened_at c" using c'(2) by (simp_all add: incident_of_def)
    with ev run show ?thesis by (intro released_step [OF ok c new]) simp_all
  qed
qed

lemma release_trade_step:
  assumes "release_trade en now t facts db = (Inr x, db')"
  shows "ledger_step en db db'"
proof -
  let ?c = "getContainment t db"
  from assms have ok: "release_refused t ?c = None" unfolding release_trade_def
    by (auto elim!: bind_InrE simp: gets_def throw_def split: option.splits)
  with assms obtain e where ev: "evaluateGovernedUnpause en facts t (tc_incident_reference (the ?c)) (tc_opened_at (the ?c)) = Inr e"
    and run: "releaseContainment now t e db = (Inr x, db')"
    unfolding release_trade_def by (auto elim!: bind_InrE simp: gets_def lift_def)
  from ok obtain c where c: "?c = Some c" by (auto simp: release_refused_def split: option.splits)
  then have "c \<in> set (rd_containments db)" "tc_trade_id c = t" by (auto simp: getContainment_def find_Some_iff)
  then have "(t, tc_incident_reference c, tc_opened_run_key c, tc_opened_at c) \<in> incident_of ` set (rd_containments db)"
    by (force simp: incident_of_def)
  then show ?thesis using releaseContainment_ledger [OF _ ev run] c by simp
qed

section \<open>Every operation\<close>

lemma contain_op:
  assumes "\<And>now t facts. op \<noteq> Release_trade now t facts"
  shows "obeys contain_step (recon_step en op)"
  using assms
  by (cases op) (auto intro!: contain.obeys_bind contain.obeys_ret contain_ops finalizeRun_step publish_run_step)

lemma recon_step_ledger: "ledger_step en db (snd (transaction (recon_step en op) db))"
proof (cases "recon_step en op db")
  case (Pair r db')
  show ?thesis
  proof (cases r)
    case (Inl e)
    then show ?thesis using Pair by (simp add: transaction_def)
  next
    case (Inr u)
    have "ledger_step en db db'"
    proof (cases "\<exists>now t facts. op = Release_trade now t facts")
      case True
      then obtain now t facts where op: "op = Release_trade now t facts" by blast
      obtain x where "release_trade en now t facts db = (Inr x, db')"
        using Pair unfolding op Inr recon_step.simps by (auto elim!: bind_InrE simp: ret_def)
      then show ?thesis by (rule release_trade_step)
    next
      case False
      then have "obeys contain_step (recon_step en op)" by (intro contain_op) blast
      then have "contain_step db (snd (recon_step en op db))" by (rule obeysD)
      then show ?thesis using Pair contain_is_ledger by simp
    qed
    then show ?thesis using Pair Inr by (simp add: transaction_def)
  qed
qed

lemma recon_run_simps [simp]:
  "recon_run en [] db = db" "recon_run en (op # ops) db = recon_run en ops (snd (transaction (recon_step en op) db))"
  "recon_run en (ops @ ops') db = recon_run en ops' (recon_run en ops db)"
  by (simp_all add: recon_run_def)

lemma recon_run_ledger: "ledger_step en db (recon_run en ops db)"
proof (induction ops arbitrary: db)
  case (Cons op ops)
  show ?case unfolding recon_run_simps by (rule ledger.order_trans [OF recon_step_ledger Cons.IH])
qed simp

end
