(* ===== verification/Spec2Isabelle.thy ===== *)
theory Spec2Isabelle
  imports Dispatcher_Runs Oracle_Auth Recon_Ledger
begin

text \<open>Cotsel settlement services.\<close>

end
